(* ===== verification/Prelude.thy ===== *)
theory Prelude
  imports Main "HOL-Library.Word" "HOL-Library.While_Combinator"
begin

unbundle bit_operations_syntax

section \<open>Shared vocabulary of the Legend of Stealth development\<close>

text \<open>
  This theory holds what every component uses: the machine integer types, the faults a C++
  execution can end in, the result types that carry them, a memory buffer with uninitialised
  cells, the byte representation of a 32-bit word on a host of either byte order, and the
  reachability and invariant rules of step relations.
\<close>

named_theorems res_simps \<open>evaluation of the result type\<close>
named_theorems wire_simps \<open>evaluation of the packet classes and their wire form\<close>

type_synonym u8 = "8 word"
type_synonym u16 = "16 word"
type_synonym u32 = "32 word"

subsection \<open>Faults and results\<close>

text \<open>
  How an execution can end other than by a normal return. \<open>Thrown\<close> is a C++ exception that the
  code raises itself, \<open>ProgramExit\<close> and \<open>ProgramAbort\<close> are calls of \<open>exit\<close> and \<open>abort\<close>; the others are
  undefined behaviour, at which the model stops.
\<close>

datatype cxx_error =
    OutOfBounds
  | Indeterminate
  | NullDeref
  | UseAfterFree
  | DoubleFree
  | MissingReturn
  | SignedOverflow
  | DivByZero
  | Thrown string
  | ProgramExit int
  | ProgramAbort

type_synonym 'a res = "cxx_error + 'a"

text \<open>Sequencing: the first fault ends the execution.\<close>

definition rbind :: "'a res \<Rightarrow> ('a \<Rightarrow> 'b res) \<Rightarrow> 'b res" where
  "rbind r f = (case r of Inl e \<Rightarrow> Inl e | Inr x \<Rightarrow> f x)"

lemma rbind_Inl [simp, res_simps]: "rbind (Inl e) f = Inl e"
  by (simp add: rbind_def)

lemma rbind_Inr [simp, res_simps]: "rbind (Inr x) f = f x"
  by (simp add: rbind_def)

lemma rbind_eq_Inr: "rbind r f = Inr y \<longleftrightarrow> (\<exists>x. r = Inr x \<and> f x = Inr y)"
  by (cases r) simp_all

lemma rbind_InrE [elim!]:
  assumes "rbind r f = Inr y"
  obtains x where "r = Inr x" and "f x = Inr y"
  using assms by (auto simp: rbind_eq_Inr)

lemma rbind_cong [fundef_cong]:
  "r = r' \<Longrightarrow> (\<And>x. r' = Inr x \<Longrightarrow> f x = g x) \<Longrightarrow> rbind r f = rbind r' g"
  by (cases r') simp_all

text \<open>A loop over the elements of a list, in order, up to the first fault.\<close>

primrec rfold :: "('a \<Rightarrow> 's \<Rightarrow> 's res) \<Rightarrow> 'a list \<Rightarrow> 's \<Rightarrow> 's res" where
  "rfold f [] s = Inr s"
| "rfold f (x # xs) s = rbind (f x s) (\<lambda>s. rfold f xs s)"

lemma rfold_append: "rfold f (xs @ ys) s = rbind (rfold f xs s) (\<lambda>s. rfold f ys s)"
proof (induction xs arbitrary: s)
  case (Cons x xs)
  then show ?case by (cases "f x s") simp_all
qed simp

lemma rfold_cong [fundef_cong]:
  "xs = ys \<Longrightarrow> s = t \<Longrightarrow> (\<And>x s. x \<in> set ys \<Longrightarrow> f x s = g x s) \<Longrightarrow> rfold f xs s = rfold g ys t"
proof (induction ys arbitrary: xs s t)
  case (Cons y ys)
  then show ?case by (cases "g y t") simp_all
qed simp

text \<open>A loop whose body cannot fault is a fold.\<close>

lemma rfold_Inr: "(\<And>x s. x \<in> set xs \<Longrightarrow> f x s = Inr (g x s)) \<Longrightarrow> rfold f xs s = Inr (fold g xs s)"
  by (induction xs arbitrary: s) simp_all

lemma rfold_invariant:
  assumes "rfold f xs s = Inr t" and "P s"
    and "\<And>x s s'. x \<in> set xs \<Longrightarrow> P s \<Longrightarrow> f x s = Inr s' \<Longrightarrow> P s'"
  shows "P t"
  using assms by (induction xs arbitrary: s) auto

text \<open>The \<open>for\<close> loop \<open>for (int i = 0; i < n; i++)\<close>.\<close>

definition upto_int :: "int \<Rightarrow> int list" where
  "upto_int n = map int [0..<nat n]"

lemma set_upto_int [simp]: "set (upto_int n) = {0..<n}"
proof -
  have "i \<in> int ` {0..<nat n}" if "0 \<le> i" "i < n" for i
    using that by (intro image_eqI [of _ _ "nat i"]) auto
  then show ?thesis by (auto simp: upto_int_def)
qed

lemma distinct_upto_int [simp]: "distinct (upto_int n)"
  by (simp add: upto_int_def distinct_map)

lemma length_upto_int [simp]: "length (upto_int n) = nat n"
  by (simp add: upto_int_def)

text \<open>
  A computation that may also not return: \<open>None\<close> is divergence, \<open>Some (Inl e)\<close> a fault and
  \<open>Some (Inr x)\<close> a normal return.
\<close>

type_synonym 'a run = "'a res option"

definition run_bind :: "'a run \<Rightarrow> ('a \<Rightarrow> 'b run) \<Rightarrow> 'b run" where
  "run_bind m f = Option.bind m (\<lambda>r. case r of Inl e \<Rightarrow> Some (Inl e) | Inr x \<Rightarrow> f x)"

lemma run_bind_simps [simp, res_simps]:
  "run_bind None f = None"
  "run_bind (Some (Inl e)) f = Some (Inl e)"
  "run_bind (Some (Inr x)) f = f x"
  by (simp_all add: run_bind_def)

lemma run_bind_eq_Inr:
  "run_bind m f = Some (Inr y) \<longleftrightarrow> (\<exists>x. m = Some (Inr x) \<and> f x = Some (Inr y))"
  by (cases m) (auto simp: run_bind_def split: sum.splits)

lemma run_bind_InrE [elim!]:
  assumes "run_bind m f = Some (Inr y)"
  obtains x where "m = Some (Inr x)" and "f x = Some (Inr y)"
  using assms by (auto simp: run_bind_eq_Inr)

lemma run_bind_mono [partial_function_mono]:
  assumes "mono_option B" and "\<And>y. mono_option (\<lambda>f. C y f)"
  shows "mono_option (\<lambda>f. run_bind (B f) (\<lambda>y. C y f))"
  unfolding run_bind_def
proof (rule bind_mono [OF assms(1)])
  fix y
  show "mono_option (\<lambda>f. case y of Inl e \<Rightarrow> Some (Inl e) | Inr x \<Rightarrow> C x f)"
    by (cases y) (simp_all add: assms(2) option.const_mono)
qed

subsection \<open>Buffers\<close>

text \<open>
  A heap buffer is the list of its cells. A cell is uninitialised until the code writes it;
  reading one yields an indeterminate value, and reading past the end is out of bounds.
\<close>

datatype cell = Uninit | Byte u8

definition load :: "cell list \<Rightarrow> nat \<Rightarrow> u8 res" where
  "load buf i =
     (if i < length buf
      then (case buf ! i of Uninit \<Rightarrow> Inl Indeterminate | Byte b \<Rightarrow> Inr b)
      else Inl OutOfBounds)"

lemma load_Byte [simp]:
  assumes "i < length bs"
  shows "load (map Byte bs @ rest) i = Inr (bs ! i)"
  using assms by (simp add: load_def nth_append)

lemma load_oob: "length buf \<le> i \<Longrightarrow> load buf i = Inl OutOfBounds"
  by (simp add: load_def)

subsection \<open>The bytes of a 32-bit word in memory\<close>

datatype byte_order = LittleEndian | BigEndian

text \<open>The byte of weight \<open>256 ^ k\<close>.\<close>

definition byte_of :: "u32 \<Rightarrow> nat \<Rightarrow> u8" where
  "byte_of w k = ucast (drop_bit (8 * k) w)"

text \<open>The word with the given bytes, least significant first.\<close>

definition dword_of :: "u8 \<Rightarrow> u8 \<Rightarrow> u8 \<Rightarrow> u8 \<Rightarrow> u32" where
  "dword_of b0 b1 b2 b3 =
     ucast b0 OR push_bit 8 (ucast b1) OR push_bit 16 (ucast b2) OR push_bit 24 (ucast b3)"

text \<open>How a word lies in memory, and the word four bytes of memory hold.\<close>

definition mem_of_dword :: "byte_order \<Rightarrow> u32 \<Rightarrow> u8 list" where
  "mem_of_dword bo w =
     (let bs = map (byte_of w) [0, 1, 2, 3]
      in case bo of LittleEndian \<Rightarrow> bs | BigEndian \<Rightarrow> rev bs)"

definition dword_at :: "byte_order \<Rightarrow> u8 \<Rightarrow> u8 \<Rightarrow> u8 \<Rightarrow> u8 \<Rightarrow> u32" where
  "dword_at bo a b c d =
     (case bo of LittleEndian \<Rightarrow> dword_of a b c d | BigEndian \<Rightarrow> dword_of d c b a)"

text \<open>The bytes of a word in network order, most significant first.\<close>

definition net_bytes :: "u32 \<Rightarrow> u8 list" where
  "net_bytes w = map (byte_of w) [3, 2, 1, 0]"

lemma bit_byte_of: "bit (byte_of w k) n \<longleftrightarrow> n < 8 \<and> bit w (8 * k + n)"
  by (auto simp: byte_of_def bit_simps)

lemma bit_dword_of:
  "bit (dword_of a b c d) n \<longleftrightarrow>
     (if n < 8 then bit a n else if n < 16 then bit b (n - 8)
      else if n < 24 then bit c (n - 16) else n < 32 \<and> bit d (n - 24))"
  by (auto simp: dword_of_def bit_simps dest: bit_imp_le_length)

lemma byte_of_dword_of [simp]:
  "byte_of (dword_of a b c d) 0 = a"
  "byte_of (dword_of a b c d) (Suc 0) = b"
  "byte_of (dword_of a b c d) 2 = c"
  "byte_of (dword_of a b c d) 3 = d"
  by (auto intro!: bit_word_eqI simp: bit_byte_of bit_dword_of)

lemma dword_of_byte_of [simp]:
  "dword_of (byte_of w 0) (byte_of w (Suc 0)) (byte_of w 2) (byte_of w 3) = w"
  by (rule bit_word_eqI) (auto simp: bit_byte_of bit_dword_of)

lemma dword_of_inject [simp]:
  "dword_of a b c d = dword_of a' b' c' d' \<longleftrightarrow> a = a' \<and> b = b' \<and> c = c' \<and> d = d'"
  by (metis byte_of_dword_of)

lemma length_mem_of_dword [simp]: "length (mem_of_dword bo w) = 4"
  by (cases bo) (simp_all add: mem_of_dword_def)

lemma length_net_bytes [simp]: "length (net_bytes w) = 4"
  by (simp add: net_bytes_def)

lemma net_bytes_inject [simp]: "net_bytes v = net_bytes w \<longleftrightarrow> v = w"
proof
  assume "net_bytes v = net_bytes w"
  then have "dword_of (byte_of v 0) (byte_of v (Suc 0)) (byte_of v 2) (byte_of v 3)
      = dword_of (byte_of w 0) (byte_of w (Suc 0)) (byte_of w 2) (byte_of w 3)"
    by (simp add: net_bytes_def)
  then show "v = w" by simp
qed simp

subsection \<open>Reachable states and invariants\<close>

inductive reach :: "('s \<Rightarrow> bool) \<Rightarrow> ('s \<Rightarrow> 's \<Rightarrow> bool) \<Rightarrow> 's \<Rightarrow> bool"
  for init step where
  reach_init: "init s \<Longrightarrow> reach init step s"
| reach_step: "reach init step s \<Longrightarrow> step s t \<Longrightarrow> reach init step t"

text \<open>
  The contract of a component whose safety rests on an inductive invariant: the start states
  have it and every step keeps it.
\<close>

locale inductive_invariant =
  fixes init :: "'s \<Rightarrow> bool"
    and step :: "'s \<Rightarrow> 's \<Rightarrow> bool"
    and inv :: "'s \<Rightarrow> bool"
  assumes inv_init: "init s \<Longrightarrow> inv s"
    and inv_step: "inv s \<Longrightarrow> step s t \<Longrightarrow> inv t"
begin

lemma inv_reach: "reach init step s \<Longrightarrow> inv s"
  by (induction rule: reach.induct) (auto intro: inv_init inv_step)

lemma inv_steps: "step\<^sup>*\<^sup>* s t \<Longrightarrow> inv s \<Longrightarrow> inv t"
  by (induction rule: rtranclp_induct) (auto intro: inv_step)

end

text \<open>
  The contract of a component that implements an abstract one: along the invariant, the
  abstraction of every step is a step of the abstract component. What holds of all the abstract
  states that are reached then holds of the component.
\<close>

locale simulation = inductive_invariant init step inv
  for init :: "'s \<Rightarrow> bool" and step :: "'s \<Rightarrow> 's \<Rightarrow> bool" and inv :: "'s \<Rightarrow> bool" +
  fixes ainit :: "'a \<Rightarrow> bool"
    and astep :: "'a \<Rightarrow> 'a \<Rightarrow> bool"
    and abs_of :: "'s \<Rightarrow> 'a"
  assumes abs_init: "init s \<Longrightarrow> ainit (abs_of s)"
    and abs_step: "inv s \<Longrightarrow> step s t \<Longrightarrow> astep (abs_of s) (abs_of t)"
begin

lemma abs_reach: "reach init step s \<Longrightarrow> reach ainit astep (abs_of s)"
proof (induction rule: reach.induct)
  case (reach_step s t)
  from reach_step.hyps(1) have "inv s" by (rule inv_reach)
  from abs_step [OF this reach_step.hyps(2)] reach_step.IH show ?case
    by (rule reach.reach_step [rotated])
qed (auto intro: reach.reach_init abs_init)

lemma abs_invariant:
  assumes "inductive_invariant ainit astep ainv" and "reach init step s"
  shows "ainv (abs_of s)"
  using inductive_invariant.inv_reach [OF assms(1) abs_reach [OF assms(2)]] .

end

end
