(* ===== verification/Protocol.thy ===== *)
theory Protocol
  imports Prelude
begin

section \<open>The wire protocol (shared/Protocol.h, shared/Protocol.cpp)\<close>

text \<open>
  Packet types, the packet objects with their table of fields, \<open>Serialize\<close> and
  \<open>Deserialize\<close>, and the packet factory. A packet's \<open>_fields\<close> vector holds pointers into
  the object itself, so the object is modelled as its memory: for every data member the bytes
  it occupies on the host. Everything that depends on the host's byte order takes it as an
  argument.
\<close>

subsection \<open>Enumerations\<close>

datatype TLProtocol = UDP | TCP

datatype Team = TEAM_SPY | TEAM_MERC

definition team_code :: "Team \<Rightarrow> u32" where
  "team_code t = (case t of TEAM_SPY \<Rightarrow> 0 | TEAM_MERC \<Rightarrow> 1)"

datatype ProtocolPhase = PROTO_NONE | PROTO_NEGOT | PROTO_LOBBY | PROTO_GAME

datatype PacketType =
    PACKET_UNDEFINED
  | PACKET_JOIN_REQUEST
  | PACKET_JOIN_RESPONSE
  | PACKET_PLAYER_DID_JOIN
  | PACKET_PLAYER_DID_LEAVE
  | PACKET_SERVER_SHUTDOWN

text \<open>The enumerators' values, counted from 0 in declaration order.\<close>

definition packet_code :: "PacketType \<Rightarrow> u32" where
  "packet_code t = (case t of
       PACKET_UNDEFINED \<Rightarrow> 0 | PACKET_JOIN_REQUEST \<Rightarrow> 1 | PACKET_JOIN_RESPONSE \<Rightarrow> 2
     | PACKET_PLAYER_DID_JOIN \<Rightarrow> 3 | PACKET_PLAYER_DID_LEAVE \<Rightarrow> 4
     | PACKET_SERVER_SHUTDOWN \<Rightarrow> 5)"

lemma packet_code_inject [simp]: "packet_code s = packet_code t \<longleftrightarrow> s = t"
  by (cases s; cases t) (simp_all add: packet_code_def)

text \<open>The enumerators compare by their values, as in C++.\<close>

instantiation PacketType :: linorder
begin

definition less_eq_PacketType :: "PacketType \<Rightarrow> PacketType \<Rightarrow> bool" where
  "less_eq_PacketType s t \<longleftrightarrow> packet_code s \<le> packet_code t"

definition less_PacketType :: "PacketType \<Rightarrow> PacketType \<Rightarrow> bool" where
  "less_PacketType s t \<longleftrightarrow> packet_code s < packet_code t"

instance
  by standard (auto simp: less_eq_PacketType_def less_PacketType_def dest: order.antisym)

end

text \<open>
  \<open>PacketTypeStr\<close> has no \<open>default\<close>: for a value that is no enumerator control flows off the
  end of the function.
\<close>

definition PacketTypeStr :: "u32 \<Rightarrow> string res" where
  "PacketTypeStr v =
     (if v = packet_code PACKET_UNDEFINED then Inr ''PACKET_UNDEFINED''
      else if v = packet_code PACKET_JOIN_REQUEST then Inr ''PACKET_JOIN_REQUEST''
      else if v = packet_code PACKET_JOIN_RESPONSE then Inr ''PACKET_JOIN_RESPONSE''
      else if v = packet_code PACKET_PLAYER_DID_JOIN then Inr ''PACKET_PLAYER_DID_JOIN''
      else if v = packet_code PACKET_PLAYER_DID_LEAVE then Inr ''PACKET_PLAYER_DID_LEAVE''
      else if v = packet_code PACKET_SERVER_SHUTDOWN then Inr ''PACKET_SERVER_SHUTDOWN''
      else Inl MissingReturn)"

subsection \<open>Network byte order\<close>

definition bswap32 :: "u32 \<Rightarrow> u32" where
  "bswap32 w = dword_of (byte_of w 3) (byte_of w 2) (byte_of w 1) (byte_of w 0)"

definition htonl :: "byte_order \<Rightarrow> u32 \<Rightarrow> u32" where
  "htonl bo w = (case bo of LittleEndian \<Rightarrow> bswap32 w | BigEndian \<Rightarrow> w)"

definition ntohl :: "byte_order \<Rightarrow> u32 \<Rightarrow> u32" where
  "ntohl bo w = (case bo of LittleEndian \<Rightarrow> bswap32 w | BigEndian \<Rightarrow> w)"

text \<open>The \<open>unsigned\<close> that a pointer into a buffer, at offset \<open>off\<close>, is dereferenced to.\<close>

definition load_dword :: "byte_order \<Rightarrow> cell list \<Rightarrow> nat \<Rightarrow> u32 res" where
  "load_dword bo buf off =
     rbind (load buf off) (\<lambda>a.
     rbind (load buf (off + 1)) (\<lambda>b.
     rbind (load buf (off + 2)) (\<lambda>c.
     rbind (load buf (off + 3)) (\<lambda>d. Inr (dword_at bo a b c d)))))"

text \<open>
  \<open>ReadUInt\<close>, \<open>ReadInt\<close> and \<open>ReadFloat\<close> dereference \<open>buf\<close> as an \<open>unsigned\<close>, convert it to host
  order and copy its bits into the result; the \<open>int\<close> and the \<open>float\<close> are given by their bits.
\<close>

definition ReadUInt :: "byte_order \<Rightarrow> cell list \<Rightarrow> nat \<Rightarrow> u32 res" where
  "ReadUInt bo buf off = rbind (load_dword bo buf off) (\<lambda>no. Inr (ntohl bo no))"

definition ReadInt :: "byte_order \<Rightarrow> cell list \<Rightarrow> nat \<Rightarrow> u32 res" where
  "ReadInt bo buf off =
     rbind (load_dword bo buf off) (\<lambda>no. let ho = ntohl bo no; i = ho in Inr i)"

definition ReadFloat :: "byte_order \<Rightarrow> cell list \<Rightarrow> nat \<Rightarrow> u32 res" where
  "ReadFloat bo buf off =
     rbind (load_dword bo buf off) (\<lambda>no. let ho = ntohl bo no; f = ho in Inr f)"

text \<open>\<open>NetworkDword\<close> copies four bytes from a pointer; \<open>mem\<close> is the memory it points to.\<close>

definition NetworkDword :: "byte_order \<Rightarrow> u8 list \<Rightarrow> u32 res" where
  "NetworkDword bo mem =
     (case mem of a # b # c # d # _ \<Rightarrow> Inr (htonl bo (dword_at bo a b c d))
      | _ \<Rightarrow> Inl OutOfBounds)"

subsection \<open>Packet objects\<close>

datatype FieldType = UINT32 | INT32 | FLOAT32 | BYTE

text \<open>The data members a field can point to.\<close>

datatype member = M_type | M_port | M_response | M_playerID | M_team

record Packet =
  p_mem :: "member \<Rightarrow> u8 list"
  p_fields :: "(FieldType \<times> member) list"
  p_udpPacket :: "nat option"

definition AddField :: "FieldType \<Rightarrow> member \<Rightarrow> Packet \<Rightarrow> Packet" where
  "AddField ft ptr p = p\<lparr>p_fields := p_fields p @ [(ft, ptr)]\<rparr>"

text \<open>
  The value of an \<open>unsigned\<close> (or enum) member, and the assignment to it. An object that was
  cast to a class whose member it does not have is read out of its bounds.
\<close>

definition get_dword :: "byte_order \<Rightarrow> member \<Rightarrow> Packet \<Rightarrow> u32 res" where
  "get_dword bo m p =
     (case p_mem p m of a # b # c # d # _ \<Rightarrow> Inr (dword_at bo a b c d) | _ \<Rightarrow> Inl OutOfBounds)"

definition set_dword :: "byte_order \<Rightarrow> member \<Rightarrow> u32 \<Rightarrow> Packet \<Rightarrow> Packet" where
  "set_dword bo m v p = p\<lparr>p_mem := (p_mem p)(m := mem_of_dword bo v)\<rparr>"

text \<open>The same for the one \<open>bool\<close> member; any byte but 0 reads as true.\<close>

definition get_bool :: "member \<Rightarrow> Packet \<Rightarrow> bool res" where
  "get_bool m p = (case p_mem p m of b # _ \<Rightarrow> Inr (b \<noteq> 0) | [] \<Rightarrow> Inl OutOfBounds)"

definition set_bool :: "member \<Rightarrow> bool \<Rightarrow> Packet \<Rightarrow> Packet" where
  "set_bool m v p = p\<lparr>p_mem := (p_mem p)(m := [if v then 1 else 0])\<rparr>"

text \<open>The constructor of the base class: \<open>_type\<close> is registered as a \<open>BYTE\<close> field.\<close>

definition new_Packet :: "byte_order \<Rightarrow> PacketType \<Rightarrow> Packet" where
  "new_Packet bo type =
     AddField BYTE M_type
       \<lparr>p_mem = (\<lambda>_. [])(M_type := mem_of_dword bo (packet_code type)),
        p_fields = [], p_udpPacket = None\<rparr>"

definition GetPacketType :: "byte_order \<Rightarrow> Packet \<Rightarrow> u32 res" where
  "GetPacketType bo p = get_dword bo M_type p"

definition SetUdpPacket :: "nat option \<Rightarrow> Packet \<Rightarrow> Packet" where
  "SetUdpPacket u p = p\<lparr>p_udpPacket := u\<rparr>"

definition JoinRequestPacket :: "byte_order \<Rightarrow> Packet" where
  "JoinRequestPacket bo =
     AddField UINT32 M_port (set_dword bo M_port 0 (new_Packet bo PACKET_JOIN_REQUEST))"

definition JoinResponsePacket :: "byte_order \<Rightarrow> Packet" where
  "JoinResponsePacket bo =
     (AddField UINT32 M_team \<circ> AddField UINT32 M_playerID \<circ> AddField BYTE M_response)
       ((set_dword bo M_playerID 0 \<circ> set_dword bo M_team 0 \<circ> set_bool M_response False)
         (new_Packet bo PACKET_JOIN_RESPONSE))"

definition PlayerDidJoinPacket :: "byte_order \<Rightarrow> Packet" where
  "PlayerDidJoinPacket bo =
     (AddField UINT32 M_team \<circ> AddField UINT32 M_playerID)
       ((set_dword bo M_team 0 \<circ> set_dword bo M_playerID 0)
         (new_Packet bo PACKET_PLAYER_DID_JOIN))"

definition PlayerDidLeavePacket :: "byte_order \<Rightarrow> Packet" where
  "PlayerDidLeavePacket bo =
     AddField UINT32 M_playerID
       (set_dword bo M_playerID 0 (new_Packet bo PACKET_PLAYER_DID_LEAVE))"

definition ServerShutdownPacket :: "byte_order \<Rightarrow> Packet" where
  "ServerShutdownPacket bo = new_Packet bo PACKET_SERVER_SHUTDOWN"

subsection \<open>Serialize and Deserialize\<close>

text \<open>The bytes one field adds to the buffer.\<close>

definition serialize_field :: "byte_order \<Rightarrow> Packet \<Rightarrow> FieldType \<times> member \<Rightarrow> u8 list res" where
  "serialize_field bo p field =
     (case fst field of
        BYTE \<Rightarrow> (case p_mem p (snd field) of b # _ \<Rightarrow> Inr [b] | [] \<Rightarrow> Inl OutOfBounds)
      | _ \<Rightarrow> rbind (NetworkDword bo (p_mem p (snd field))) (\<lambda>netdw. Inr (mem_of_dword bo netdw)))"

fun serialize_fields :: "byte_order \<Rightarrow> Packet \<Rightarrow> (FieldType \<times> member) list \<Rightarrow> u8 list res" where
  "serialize_fields bo p [] = Inr []"
| "serialize_fields bo p (f # fs) =
     rbind (serialize_field bo p f) (\<lambda>bs.
     rbind (serialize_fields bo p fs) (\<lambda>rest. Inr (bs @ rest)))"

definition Serialize :: "byte_order \<Rightarrow> Packet \<Rightarrow> u8 list res" where
  "Serialize bo p = serialize_fields bo p (p_fields p)"

text \<open>
  One field of \<open>Deserialize\<close>: the new contents of the member it points to, and the bytes it
  read. A store through the pointer overwrites the first four bytes (or the first byte) of the
  member. The length of the received data is not consulted.
\<close>

definition store_dword :: "byte_order \<Rightarrow> u32 \<Rightarrow> u8 list \<Rightarrow> u8 list res" where
  "store_dword bo v mem =
     (if length mem < 4 then Inl OutOfBounds else Inr (mem_of_dword bo v @ drop 4 mem))"

definition deserialize_field ::
    "byte_order \<Rightarrow> cell list \<Rightarrow> nat \<Rightarrow> FieldType \<Rightarrow> u8 list \<Rightarrow> (u8 list \<times> nat) res" where
  "deserialize_field bo buf read ft mem =
     (case ft of
        UINT32 \<Rightarrow> rbind (ReadUInt bo buf read) (\<lambda>v.
                  rbind (store_dword bo v mem) (\<lambda>m. Inr (m, read + 4)))
      | INT32 \<Rightarrow> rbind (ReadInt bo buf read) (\<lambda>v.
                 rbind (store_dword bo v mem) (\<lambda>m. Inr (m, read + 4)))
      | FLOAT32 \<Rightarrow> rbind (ReadFloat bo buf read) (\<lambda>v.
                   rbind (store_dword bo v mem) (\<lambda>m. Inr (m, read + 4)))
      | BYTE \<Rightarrow> rbind (load buf read) (\<lambda>b.
                (case mem of [] \<Rightarrow> Inl OutOfBounds | _ # rest \<Rightarrow> Inr (b # rest, read + 1))))"

fun deserialize_fields ::
    "byte_order \<Rightarrow> cell list \<Rightarrow> (FieldType \<times> member) list \<Rightarrow> nat \<Rightarrow> Packet \<Rightarrow> (Packet \<times> nat) res"
  where
  "deserialize_fields bo buf [] read p = Inr (p, read)"
| "deserialize_fields bo buf ((ft, ptr) # fs) read p =
     rbind (deserialize_field bo buf read ft (p_mem p ptr)) (\<lambda>(m, read').
       deserialize_fields bo buf fs read' (p\<lparr>p_mem := (p_mem p)(ptr := m)\<rparr>))"

text \<open>
  \<open>buf\<close> is the memory from the pointer on, to the end of its allocation; \<open>buflen\<close> is the
  parameter of that name, which the code never reads. The result is the packet and the number
  of bytes read.
\<close>

definition Deserialize :: "byte_order \<Rightarrow> cell list \<Rightarrow> int \<Rightarrow> Packet \<Rightarrow> (Packet \<times> nat) res" where
  "Deserialize bo buf buflen p = deserialize_fields bo buf (p_fields p) 0 p"

subsection \<open>PacketFactory\<close>

text \<open>\<open>_map\<close>: from type byte to the function that creates the packet object.\<close>

type_synonym factory = "u8 \<rightharpoonup> Packet"

definition PacketFactory :: "byte_order \<Rightarrow> factory" where
  "PacketFactory bo =
     [ucast (packet_code PACKET_JOIN_REQUEST) \<mapsto> JoinRequestPacket bo,
      ucast (packet_code PACKET_JOIN_RESPONSE) \<mapsto> JoinResponsePacket bo,
      ucast (packet_code PACKET_PLAYER_DID_JOIN) \<mapsto> PlayerDidJoinPacket bo]"

text \<open>
  \<open>ReadPacket\<close>: the packet (\<open>None\<close> for \<open>NULL\<close>) and the value of the reference parameter
  \<open>packetlen\<close> on return. The function never assigns it, so it is returned as it came; what
  \<open>Deserialize\<close> reports is dropped.
\<close>

definition ReadPacket ::
    "byte_order \<Rightarrow> factory \<Rightarrow> cell list \<Rightarrow> int \<Rightarrow> int \<Rightarrow> (Packet option \<times> int) res" where
  "ReadPacket bo fmap buffer bufferlen packetlen =
     rbind (load buffer 0) (\<lambda>type.
       (case fmap type of
          None \<Rightarrow> Inr (None, packetlen)
        | Some packet \<Rightarrow>
            rbind (Deserialize bo buffer bufferlen packet) (\<lambda>(packet', read).
              Inr (Some packet', packetlen))))"

end
