(* ===== verification/Wire.thy ===== *)
theory Wire
  imports Protocol
begin

section \<open>The wire format: specification and round trips\<close>

text \<open>
  An abstract specification of the protocol: messages, their bytes (a type byte, then each
  field most significant byte first), and the packet object that holds a message. The model of
  \<open>Serialize\<close>, \<open>Deserialize\<close> and \<open>ReadPacket\<close> is shown to implement it on a little-endian
  host; on a big-endian host the type byte is 0. The locale \<open>codec\<close> states what the users of
  the format rely on: messages can be told apart in a byte stream.
\<close>

subsection \<open>Messages\<close>

datatype message =
    JoinRequest (jr_port: u32)
  | JoinResponse (js_response: bool) (js_playerID: u32) (js_team: u32)
  | PlayerDidJoin (dj_playerID: u32) (dj_team: u32)
  | PlayerDidLeave (dl_playerID: u32)
  | ServerShutdown

fun message_type :: "message \<Rightarrow> PacketType" where
  "message_type (JoinRequest _) = PACKET_JOIN_REQUEST"
| "message_type (JoinResponse _ _ _) = PACKET_JOIN_RESPONSE"
| "message_type (PlayerDidJoin _ _) = PACKET_PLAYER_DID_JOIN"
| "message_type (PlayerDidLeave _) = PACKET_PLAYER_DID_LEAVE"
| "message_type ServerShutdown = PACKET_SERVER_SHUTDOWN"

fun payload :: "message \<Rightarrow> u8 list" where
  "payload (JoinRequest port) = net_bytes port"
| "payload (JoinResponse r pid team) = (if r then 1 else 0) # net_bytes pid @ net_bytes team"
| "payload (PlayerDidJoin pid team) = net_bytes pid @ net_bytes team"
| "payload (PlayerDidLeave pid) = net_bytes pid"
| "payload ServerShutdown = []"

definition encode :: "message \<Rightarrow> u8 list" where
  "encode m = ucast (packet_code (message_type m)) # payload m"

text \<open>A fresh object of the message's class, and the object with the message's values.\<close>

fun fresh_packet :: "byte_order \<Rightarrow> PacketType \<Rightarrow> Packet" where
  "fresh_packet bo PACKET_UNDEFINED = new_Packet bo PACKET_UNDEFINED"
| "fresh_packet bo PACKET_JOIN_REQUEST = JoinRequestPacket bo"
| "fresh_packet bo PACKET_JOIN_RESPONSE = JoinResponsePacket bo"
| "fresh_packet bo PACKET_PLAYER_DID_JOIN = PlayerDidJoinPacket bo"
| "fresh_packet bo PACKET_PLAYER_DID_LEAVE = PlayerDidLeavePacket bo"
| "fresh_packet bo PACKET_SERVER_SHUTDOWN = ServerShutdownPacket bo"

fun packet_of :: "byte_order \<Rightarrow> message \<Rightarrow> Packet" where
  "packet_of bo (JoinRequest port) = set_dword bo M_port port (JoinRequestPacket bo)"
| "packet_of bo (JoinResponse r pid team) =
     (set_dword bo M_team team \<circ> set_dword bo M_playerID pid \<circ> set_bool M_response r)
       (JoinResponsePacket bo)"
| "packet_of bo (PlayerDidJoin pid team) =
     (set_dword bo M_team team \<circ> set_dword bo M_playerID pid) (PlayerDidJoinPacket bo)"
| "packet_of bo (PlayerDidLeave pid) = set_dword bo M_playerID pid (PlayerDidLeavePacket bo)"
| "packet_of bo ServerShutdown = ServerShutdownPacket bo"

text \<open>Reading a message back out of a packet object, by its type.\<close>

definition message_of :: "byte_order \<Rightarrow> Packet \<Rightarrow> message res" where
  "message_of bo p =
     rbind (GetPacketType bo p) (\<lambda>t.
       if t = packet_code PACKET_JOIN_REQUEST then
         rbind (get_dword bo M_port p) (\<lambda>port. Inr (JoinRequest port))
       else if t = packet_code PACKET_JOIN_RESPONSE then
         rbind (get_bool M_response p) (\<lambda>r. rbind (get_dword bo M_playerID p) (\<lambda>pid.
         rbind (get_dword bo M_team p) (\<lambda>team. Inr (JoinResponse r pid team))))
       else if t = packet_code PACKET_PLAYER_DID_JOIN then
         rbind (get_dword bo M_playerID p) (\<lambda>pid.
         rbind (get_dword bo M_team p) (\<lambda>team. Inr (PlayerDidJoin pid team)))
       else if t = packet_code PACKET_PLAYER_DID_LEAVE then
         rbind (get_dword bo M_playerID p) (\<lambda>pid. Inr (PlayerDidLeave pid))
       else if t = packet_code PACKET_SERVER_SHUTDOWN then Inr ServerShutdown
       else Inl MissingReturn)"

lemmas packet_class_defs =
  new_Packet_def JoinRequestPacket_def JoinResponsePacket_def PlayerDidJoinPacket_def
  PlayerDidLeavePacket_def ServerShutdownPacket_def AddField_def set_dword_def set_bool_def

subsection \<open>Evaluating the 32-bit accessors\<close>

lemma dword_at_mem [simp]:
  "mem_of_dword bo w = [a, b, c, d] \<Longrightarrow> dword_at bo a b c d = w"
  by (cases bo) (auto simp: mem_of_dword_def dword_at_def)

lemma mem_of_dword_cases:
  obtains a b c d where "mem_of_dword bo w = [a, b, c, d]" and "dword_at bo a b c d = w"
proof -
  obtain a b c d where "mem_of_dword bo w = [a, b, c, d]"
    by (cases bo) (simp_all add: mem_of_dword_def)
  with that show ?thesis by simp
qed

lemma mem_of_htonl: "mem_of_dword bo (htonl bo w) = net_bytes w"
  by (cases bo) (simp_all add: mem_of_dword_def htonl_def bswap32_def net_bytes_def)

lemma NetworkDword_mem [wire_simps]:
  "NetworkDword bo (mem_of_dword bo w @ rest) = Inr (htonl bo w)"
  by (rule mem_of_dword_cases [of bo w]) (simp add: NetworkDword_def)

lemma NetworkDword_mem' [wire_simps]: "NetworkDword bo (mem_of_dword bo w) = Inr (htonl bo w)"
  using NetworkDword_mem [of bo w "[]"] by simp

lemma ntohl_htonl [simp]: "ntohl bo (htonl bo w) = w"
  by (cases bo) (simp_all add: ntohl_def htonl_def bswap32_def)

lemma ntohl_dword_at: "ntohl bo (dword_at bo (byte_of w 3) (byte_of w 2) (byte_of w (Suc 0)) (byte_of w 0)) = w"
  by (cases bo) (simp_all add: ntohl_def dword_at_def bswap32_def)

lemma get_dword_mem [wire_simps]: "p_mem p m = mem_of_dword bo w \<Longrightarrow> get_dword bo m p = Inr w"
  by (rule mem_of_dword_cases [of bo w]) (simp add: get_dword_def)

lemma hd_mem_LE: "mem_of_dword LittleEndian w = byte_of w 0 # map (byte_of w) [1, 2, 3]"
  by (simp add: mem_of_dword_def)

lemma byte_of_code [wire_simps]: "byte_of (packet_code t) 0 = ucast (packet_code t)"
  by (simp add: byte_of_def)

lemma hd_mem_code:
  "\<exists>rest. mem_of_dword bo (packet_code t) =
     (case bo of LittleEndian \<Rightarrow> ucast (packet_code t) | BigEndian \<Rightarrow> 0) # rest"
  by (cases bo; cases t) (simp_all add: mem_of_dword_def byte_of_def packet_code_def)

lemma load_at: "buf = pre @ Byte b # post \<Longrightarrow> load buf (length pre) = Inr b"
  by (simp add: load_def)

lemma load_dword_net:
  assumes "buf = pre @ map Byte (net_bytes w) @ rest" and "off = length pre"
  shows "rbind (load_dword bo buf off) (\<lambda>no. Inr (ntohl bo no)) = Inr w"
  by (simp add: assms load_dword_def load_def nth_append net_bytes_def ntohl_dword_at)

subsection \<open>Field by field\<close>

lemma serialize_dword [wire_simps]:
  "ft \<noteq> BYTE \<Longrightarrow> p_mem p m = mem_of_dword bo w \<Longrightarrow>
     serialize_field bo p (ft, m) = Inr (net_bytes w)"
  by (cases ft) (simp_all add: serialize_field_def NetworkDword_mem' mem_of_htonl)

lemma serialize_byte [wire_simps]:
  "p_mem p m = b # rest \<Longrightarrow> serialize_field bo p (BYTE, m) = Inr [b]"
  by (simp add: serialize_field_def)

lemma deserialize_uint [wire_simps]:
  "buf = pre @ map Byte (net_bytes w) @ rest \<Longrightarrow> off = length pre \<Longrightarrow>
     deserialize_field bo buf off UINT32 (mem_of_dword bo v) = Inr (mem_of_dword bo w, off + 4)"
  by (simp add: deserialize_field_def ReadUInt_def load_dword_net store_dword_def)

lemma deserialize_byte [wire_simps]:
  "buf = pre @ Byte b # rest \<Longrightarrow> off = length pre \<Longrightarrow>
     deserialize_field bo buf off BYTE (c # mem) = Inr (b # mem, off + 1)"
  by (simp add: deserialize_field_def load_at)

text \<open>The byte the host sends for a packet type: the first byte of the enum in memory.\<close>

definition type_byte :: "byte_order \<Rightarrow> PacketType \<Rightarrow> u8" where
  "type_byte bo t = (case bo of LittleEndian \<Rightarrow> ucast (packet_code t) | BigEndian \<Rightarrow> 0)"

lemma serialize_type [wire_simps]:
  assumes "p_mem p M_type = mem_of_dword bo (packet_code t)"
  shows "serialize_field bo p (BYTE, M_type) = Inr [type_byte bo t]"
  using hd_mem_code [of bo t] assms by (auto simp: type_byte_def wire_simps)

lemma Serialize_packet_of:
  "Serialize bo (packet_of bo m) = Inr (type_byte bo (message_type m) # payload m)"
  by (cases m) (simp_all add: Serialize_def packet_class_defs wire_simps)

lemma Serialize_encode [wire_simps]:
  "Serialize LittleEndian (packet_of LittleEndian m) = Inr (encode m)"
  by (simp add: Serialize_packet_of encode_def type_byte_def)

text \<open>The four places a 32-bit field can stand in a packet.\<close>

lemma deserialize_uint_at [wire_simps]:
  "deserialize_field bo (x # map Byte (net_bytes w) @ rest) (Suc 0) UINT32 (mem_of_dword bo v)
     = Inr (mem_of_dword bo w, 5)"
  "deserialize_field bo (x # y # map Byte (net_bytes w) @ rest) 2 UINT32 (mem_of_dword bo v)
     = Inr (mem_of_dword bo w, 6)"
  "deserialize_field bo (x # map Byte (net_bytes u) @ map Byte (net_bytes w) @ rest) 5 UINT32
     (mem_of_dword bo v) = Inr (mem_of_dword bo w, 9)"
  "deserialize_field bo (x # y # map Byte (net_bytes u) @ map Byte (net_bytes w) @ rest) 6 UINT32
     (mem_of_dword bo v) = Inr (mem_of_dword bo w, 10)"
  by (simp_all add: deserialize_uint [where pre = "[x]"] deserialize_uint [where pre = "[x, y]"]
        deserialize_uint [where pre = "x # map Byte (net_bytes u)" and w = w]
        deserialize_uint [where pre = "x # y # map Byte (net_bytes u)" and w = w])

lemma deserialize_type_at [wire_simps]:
  "deserialize_field LittleEndian (Byte (ucast (packet_code t)) # rest) 0 BYTE
     (mem_of_dword LittleEndian (packet_code t)) = Inr (mem_of_dword LittleEndian (packet_code t), Suc 0)"
  by (simp add: hd_mem_LE deserialize_byte [where pre = "[]"] byte_of_code)

lemma deserialize_bool_at [wire_simps]:
  "deserialize_field bo (x # Byte b # rest) (Suc 0) BYTE (c # mem) = Inr (b # mem, 2)"
  by (simp add: deserialize_byte [where pre = "[x]"] numeral_2_eq_2)

lemma Deserialize_encode [wire_simps]:
  "Deserialize LittleEndian (map Byte (encode m) @ rest) n
       (fresh_packet LittleEndian (message_type m)) =
     Inr (packet_of LittleEndian m, length (encode m))"
  by (cases m) (simp_all add: Deserialize_def packet_class_defs wire_simps encode_def fun_upd_twist)

subsection \<open>What ReadPacket does with received bytes\<close>

text \<open>
  The sizes of the packet classes that the factory knows. Leave and shutdown packets are not
  among them.
\<close>

definition registered_size :: "u8 \<Rightarrow> nat option" where
  "registered_size t = [1 \<mapsto> 5, 2 \<mapsto> 10, 3 \<mapsto> 9] t"

lemma PacketFactory_eq [wire_simps]:
  "PacketFactory bo t =
     (if t = 3 then Some (PlayerDidJoinPacket bo) else if t = 2 then Some (JoinResponsePacket bo)
      else if t = 1 then Some (JoinRequestPacket bo) else None)"
  by (simp add: PacketFactory_def packet_code_def)

lemma registered_size_eq [wire_simps]:
  "registered_size t =
     (if t = 3 then Some 9 else if t = 2 then Some 10 else if t = 1 then Some 5 else None)"
  by (simp add: registered_size_def)

lemma PacketFactory_None_iff: "PacketFactory bo t = None \<longleftrightarrow> registered_size t = None"
  by (simp add: wire_simps)

lemma ReadPacket_unregistered:
  "registered_size t = None \<Longrightarrow>
     ReadPacket bo (PacketFactory bo) (Byte t # rest) n pl = Inr (None, pl)"
  by (simp add: ReadPacket_def load_def PacketFactory_None_iff [THEN iffD2])

lemma net_bytes_dword_of [wire_simps]: "net_bytes (dword_of d c b a) = [a, b, c, d]"
  by (simp add: net_bytes_def)

lemma four_bytes:
  assumes "4 \<le> length bs"
  obtains w rest where "bs = net_bytes w @ rest"
proof -
  obtain a b c d rest where "bs = a # b # c # d # rest"
    using assms by (auto simp: numeral_eq_Suc Suc_le_length_iff)
  then have "bs = net_bytes (dword_of d c b a) @ rest" by (simp add: wire_simps)
  then show thesis by (rule that)
qed

lemma ucast_packet_code [wire_simps]:
  "ucast (packet_code PACKET_JOIN_REQUEST) = (1 :: u8)"
  "ucast (packet_code PACKET_JOIN_RESPONSE) = (2 :: u8)"
  "ucast (packet_code PACKET_PLAYER_DID_JOIN) = (3 :: u8)"
  "ucast (packet_code PACKET_PLAYER_DID_LEAVE) = (4 :: u8)"
  "ucast (packet_code PACKET_SERVER_SHUTDOWN) = (5 :: u8)"
  by (simp_all add: packet_code_def)

definition registered :: "message \<Rightarrow> bool" where
  "registered m \<longleftrightarrow> registered_size (ucast (packet_code (message_type m))) \<noteq> None"

lemma registered_simps [simp]:
  "registered (JoinRequest port)" "registered (JoinResponse r i t)" "registered (PlayerDidJoin i t)"
  "\<not> registered (PlayerDidLeave i)" "\<not> registered ServerShutdown"
  by (simp_all add: registered_def wire_simps)

lemma ReadPacket_encode:
  assumes "registered m"
  shows "ReadPacket LittleEndian (PacketFactory LittleEndian) (map Byte (encode m) @ rest) n pl
     = Inr (Some (packet_of LittleEndian m), pl)"
proof -
  have "load (map Byte (encode m) @ rest) 0 = Inr (ucast (packet_code (message_type m)))"
    by (simp add: encode_def load_def)
  moreover have "PacketFactory LittleEndian (ucast (packet_code (message_type m)))
      = Some (fresh_packet LittleEndian (message_type m))"
    using assms by (cases m) (simp_all add: wire_simps)
  ultimately show ?thesis
    by (simp add: ReadPacket_def Deserialize_encode)
qed

text \<open>
  Received bytes that begin with a registered type: if the packet is complete it is read, and it
  serializes to exactly the bytes it was read from; if it is not, the fields are read past the
  end of the data.
\<close>

lemma registered_cases:
  assumes "registered_size t = Some k"
  obtains "t = 1" "k = 5" | "t = 2" "k = 10" | "t = 3" "k = 9"
  using assms by (auto simp: wire_simps split: if_splits)

lemma ReadPacket_complete:
  assumes size: "registered_size t = Some k" and len: "k \<le> length (t # bs)"
  shows "\<exists>p. ReadPacket LittleEndian (PacketFactory LittleEndian) (map Byte (t # bs)) n pl
       = Inr (Some p, pl) \<and> Serialize LittleEndian p = Inr (take k (t # bs))"
proof -
  have enc: ?thesis if "registered m" "t # bs = encode m @ rest" "k = length (encode m)" for m rest
    using ReadPacket_encode [OF that(1), of "map Byte rest" n pl] that
    by (auto simp: Serialize_encode)
  from size show ?thesis
  proof (cases rule: registered_cases)
    case 1
    with len obtain w rest where "bs = net_bytes w @ rest"
      by (auto intro: four_bytes [of bs])
    with 1 show ?thesis
      by (intro enc [of "JoinRequest w" rest]) (simp_all add: encode_def wire_simps)
  next
    case 2
    with len obtain b bs' where bs: "bs = b # bs'" and "8 \<le> length bs'"
      by (cases bs) auto
    then obtain v r where v: "bs' = net_bytes v @ r" and "4 \<le> length r"
      by (auto intro: four_bytes [of bs'])
    then obtain w rest where w: "r = net_bytes w @ rest"
      by (auto intro: four_bytes [of r])
    have m: "p_mem (JoinResponsePacket LittleEndian) M_response = [0]"
      by (simp add: packet_class_defs)
    show ?thesis
      by (simp add: 2 bs v w ReadPacket_def load_def wire_simps Deserialize_def Serialize_def
            packet_class_defs type_byte_def
            deserialize_type_at [of PACKET_JOIN_RESPONSE, simplified wire_simps])
  next
    case 3
    with len have "8 \<le> length bs" by simp
    then obtain v r where v: "bs = net_bytes v @ r" and "4 \<le> length r"
      by (auto intro: four_bytes [of bs])
    then obtain w rest where "r = net_bytes w @ rest"
      by (auto intro: four_bytes [of r])
    with 3 v show ?thesis
      by (intro enc [of "PlayerDidJoin v w" rest]) (simp_all add: encode_def wire_simps)
  qed
qed

lemma load_map_Byte: "load (map Byte bs) i = (if i < length bs then Inr (bs ! i) else Inl OutOfBounds)"
  by (simp add: load_def)

lemma load_dword_map_Byte:
  "load_dword bo (map Byte bs) off =
     (if off + 4 \<le> length bs
      then Inr (dword_at bo (bs ! off) (bs ! (off + 1)) (bs ! (off + 2)) (bs ! (off + 3)))
      else Inl OutOfBounds)"
  by (simp add: load_dword_def load_map_Byte)

lemma deserialize_uint_map_Byte:
  assumes "4 \<le> length mem"
  shows "deserialize_field bo (map Byte bs) off UINT32 mem =
     (if off + 4 \<le> length bs
      then Inr (mem_of_dword bo (ntohl bo (dword_at bo (bs ! off) (bs ! (off + 1))
                  (bs ! (off + 2)) (bs ! (off + 3)))) @ drop 4 mem, off + 4)
      else Inl OutOfBounds)"
  using assms by (simp add: deserialize_field_def ReadUInt_def load_dword_map_Byte store_dword_def)

lemma deserialize_byte_map_Byte:
  "deserialize_field bo (map Byte bs) off BYTE (c # mem) =
     (if off < length bs then Inr (bs ! off # mem, off + 1) else Inl OutOfBounds)"
  by (simp add: deserialize_field_def load_map_Byte)

lemma mem_of_dword_LE [wire_simps]:
  "mem_of_dword LittleEndian w = [byte_of w 0, byte_of w 1, byte_of w 2, byte_of w 3]"
  by (simp add: mem_of_dword_def)

lemma ReadPacket_truncated:
  assumes "registered_size t = Some k" and "length (t # bs) < k"
  shows "ReadPacket LittleEndian (PacketFactory LittleEndian) (map Byte (t # bs)) n pl
     = Inl OutOfBounds"
proof -
  let ?buf = "map Byte (t # bs)"
  have "Deserialize LittleEndian ?buf n p = Inl OutOfBounds"
    if "PacketFactory LittleEndian t = Some p" for p
    using assms that
    by (auto simp: wire_simps Deserialize_def packet_class_defs deserialize_uint_map_Byte
          deserialize_byte_map_Byte split: if_splits simp del: list.map)
  moreover have "PacketFactory LittleEndian t \<noteq> None"
    using assms by (simp add: PacketFactory_None_iff)
  ultimately show ?thesis
    by (auto simp: ReadPacket_def load_map_Byte simp del: list.map)
qed

subsection \<open>Messages in a byte stream\<close>

text \<open>
  What the users of the format rely on: no message is empty, and the reader finds the message at
  the start of whatever follows it, together with its length.
\<close>

locale codec =
  fixes enc :: "'m \<Rightarrow> 'b list"
    and dec :: "'b list \<Rightarrow> ('m \<times> nat) option"
    and ok :: "'m \<Rightarrow> bool"
  assumes enc_nonempty: "ok m \<Longrightarrow> enc m \<noteq> []"
    and dec_enc: "ok m \<Longrightarrow> dec (enc m @ rest) = Some (m, length (enc m))"
begin

lemma enc_append_inject:
  assumes "ok m" and "ok m'" and "enc m @ r = enc m' @ r'"
  shows "m = m' \<and> r = r'"
proof -
  from assms have "Some (m, length (enc m)) = Some (m', length (enc m'))"
    by (metis dec_enc)
  with assms(3) show ?thesis by simp
qed

lemma stream_inject:
  assumes "list_all ok ms" and "list_all ok ms'"
    and "concat (map enc ms) = concat (map enc ms')"
  shows "ms = ms'"
  using assms
proof (induction ms arbitrary: ms')
  case Nil
  then show ?case by (cases ms') (auto dest: enc_nonempty)
next
  case (Cons m ms)
  then obtain n ns where "ms' = n # ns" and "ok n"
    by (cases ms') (auto dest: enc_nonempty)
  with Cons.prems have "m = n \<and> concat (map enc ms) = concat (map enc ns)"
    by (intro enc_append_inject) simp_all
  with Cons \<open>ms' = n # ns\<close> show ?case by simp
qed

end

text \<open>Reading one message with the code's \<open>Deserialize\<close>, given the known packet classes.\<close>

definition parse_message :: "factory \<Rightarrow> u8 list \<Rightarrow> (message \<times> nat) option" where
  "parse_message classes bs =
     (case bs of [] \<Rightarrow> None
      | t # _ \<Rightarrow> (case classes t of None \<Rightarrow> None
         | Some p \<Rightarrow>
             (case rbind (Deserialize LittleEndian (map Byte bs) (int (length bs)) p) (\<lambda>(p', k).
                     rbind (message_of LittleEndian p') (\<lambda>m. Inr (m, k))) of
                Inl _ \<Rightarrow> None | Inr r \<Rightarrow> Some r)))"

text \<open>All packet classes of the protocol, with those the factory leaves out.\<close>

definition all_classes :: factory where
  "all_classes = (PacketFactory LittleEndian)
     (4 \<mapsto> PlayerDidLeavePacket LittleEndian, 5 \<mapsto> ServerShutdownPacket LittleEndian)"

lemma message_of_packet_of [wire_simps]: "message_of bo (packet_of bo m) = Inr m"
  by (cases m)
    (simp_all add: message_of_def GetPacketType_def packet_class_defs get_dword_mem get_bool_def)

lemma parse_message_encode:
  assumes "classes (ucast (packet_code (message_type m)))
      = Some (fresh_packet LittleEndian (message_type m))"
  shows "parse_message classes (encode m @ rest) = Some (m, length (encode m))"
proof -
  obtain t bs where enc: "encode m = t # bs" and "t = ucast (packet_code (message_type m))"
    by (simp add: encode_def)
  with assms have "classes t = Some (fresh_packet LittleEndian (message_type m))" by simp
  moreover have "Deserialize LittleEndian (map Byte (encode m @ rest)) (int (length (encode m @ rest)))
      (fresh_packet LittleEndian (message_type m)) = Inr (packet_of LittleEndian m, length (encode m))"
    using Deserialize_encode [of m "map Byte rest"] by simp
  ultimately show ?thesis
    by (simp add: parse_message_def enc message_of_packet_of)
qed

lemma encode_nonempty [simp]: "encode m \<noteq> []"
  by (simp add: encode_def)

interpretation factory_codec: codec encode "parse_message (PacketFactory LittleEndian)" registered
proof unfold_locales
  fix m :: message and rest :: "u8 list"
  show "encode m \<noteq> []" by simp
  show "parse_message (PacketFactory LittleEndian) (encode m @ rest) = Some (m, length (encode m))"
    if "registered m"
    using that by (intro parse_message_encode) (cases m; simp add: wire_simps)
qed

interpretation full_codec: codec encode "parse_message all_classes" "\<lambda>_. True"
proof unfold_locales
  fix m :: message and rest :: "u8 list"
  show "encode m \<noteq> []" by simp
  show "parse_message all_classes (encode m @ rest) = Some (m, length (encode m))"
    by (intro parse_message_encode) (cases m; simp add: all_classes_def wire_simps)
qed

declare packet_of.simps [simp del]

text \<open>The packets the code builds on its stack, as messages.\<close>

lemma built_packets [simp]:
  "set_dword bo M_port port (JoinRequestPacket bo) = packet_of bo (JoinRequest port)"
  "set_dword bo M_team t (set_dword bo M_playerID i (set_bool M_response r (JoinResponsePacket bo)))
     = packet_of bo (JoinResponse r i t)"
  "set_dword bo M_team t (set_dword bo M_playerID i (PlayerDidJoinPacket bo))
     = packet_of bo (PlayerDidJoin i t)"
  "set_dword bo M_playerID i (PlayerDidLeavePacket bo) = packet_of bo (PlayerDidLeave i)"
  "ServerShutdownPacket bo = packet_of bo ServerShutdown"
  by (simp_all add: packet_of.simps)

lemma reject_packet:
  "set_bool M_response r (JoinResponsePacket bo) = packet_of bo (JoinResponse r 0 0)"
  by (simp add: packet_of.simps packet_class_defs fun_eq_iff)

end
