(* ===== verification/WireTheorems.thy ===== *)
theory WireTheorems
  imports Wire
begin

section \<open>Properties of the wire format\<close>

text \<open>The properties of the packet classes and of \<open>PacketFactory\<close>, each with a concrete instance.\<close>

text \<open>
  C3 A packet of a registered class survives the wire: what \<open>Serialize\<close> writes, followed by
  anything, \<open>ReadPacket\<close> reads back as the same packet, whose members are the message's. The
  \<open>packetlen\<close> that the caller passed by reference is left as it was.
\<close>

theorem wire_roundtrip:
  assumes "registered m"
  shows "\<exists>bs. Serialize LittleEndian (packet_of LittleEndian m) = Inr bs \<and>
     ReadPacket LittleEndian (PacketFactory LittleEndian) (map Byte bs @ rest) n pl
       = Inr (Some (packet_of LittleEndian m), pl) \<and>
     message_of LittleEndian (packet_of LittleEndian m) = Inr m"
  using assms by (simp add: Serialize_encode ReadPacket_encode message_of_packet_of)

theorem wire_roundtrip_witness:
  "ReadPacket LittleEndian (PacketFactory LittleEndian)
     (map Byte [2, 1, 0, 0, 0, 7, 0, 0, 0, 1] @ [Byte 3]) 11 0
   = Inr (Some (packet_of LittleEndian (JoinResponse True 7 1)), 0)"
  using wire_roundtrip [of "JoinResponse True 7 1" "[Byte 3]" 11 0]
  by (simp add: Serialize_encode encode_def wire_simps byte_of_def net_bytes_def)

text \<open>
  C18 What \<open>ReadPacket\<close> does with received bytes that begin with a registered type, whatever they
  are and whatever buffer length it is told: if the packet is complete it is read, and serializes
  to exactly the bytes it was read from; if it is not, the fields are read past the end of the
  buffer.
\<close>

theorem ReadPacket_total:
  assumes "registered_size t = Some k"
  shows "if k \<le> length (t # bs)
     then \<exists>p. ReadPacket LittleEndian (PacketFactory LittleEndian) (map Byte (t # bs)) n pl
            = Inr (Some p, pl) \<and> Serialize LittleEndian p = Inr (take k (t # bs))
     else ReadPacket LittleEndian (PacketFactory LittleEndian) (map Byte (t # bs)) n pl
            = Inl OutOfBounds"
  using ReadPacket_complete [OF assms, of bs n pl] ReadPacket_truncated [OF assms, of bs n pl]
  by (cases "k \<le> length (t # bs)") simp_all

theorem ReadPacket_total_witness:
  "ReadPacket LittleEndian (PacketFactory LittleEndian) (map Byte [1, 0, 0]) 3 0 = Inl OutOfBounds"
  using ReadPacket_total [of 1 5 "[0, 0]" 3 0] by (simp add: wire_simps)

text \<open>
  The leave and the shutdown packets that the server sends are not known to the factory: to
  \<open>ReadPacket\<close> they are no packet at all, on a host of either byte order.
\<close>

theorem unregistered_classes:
  "ReadPacket LittleEndian (PacketFactory LittleEndian) (map Byte (encode (PlayerDidLeave i)) @ rest) n pl
     = Inr (None, pl)
   \<and> ReadPacket LittleEndian (PacketFactory LittleEndian) (map Byte (encode ServerShutdown) @ rest) n pl
     = Inr (None, pl)"
  by (simp add: encode_def ReadPacket_unregistered wire_simps)

text \<open>
  The format as such is unambiguous: two sequences of messages with the same bytes are the
  same sequence, so a reader that knew every class and the lengths could always find the
  boundaries.
\<close>

theorem stream_unambiguous:
  assumes "concat (map encode ms) = concat (map encode ms')"
  shows "ms = ms'"
  using assms by (intro full_codec.stream_inject) (simp_all add: list_all_iff)

theorem stream_unambiguous_witness:
  "{ms. concat (map encode ms) = [5, 1, 0, 0, 0, 9]} = {[ServerShutdown, JoinRequest 9]}"
proof -
  have eq: "concat (map encode [ServerShutdown, JoinRequest 9]) = [5, 1, 0, 0, 0, 9]"
    by (simp add: encode_def wire_simps net_bytes_def byte_of_def)
  show ?thesis
    using stream_unambiguous [of _ "[ServerShutdown, JoinRequest 9]"] unfolding eq
    by (auto simp del: list.map concat.simps simp: eq)
qed

text \<open>
  Byte order: the 32-bit fields are sent in network order by a host of either order, but the
  type is not. It is a \<open>BYTE\<close> field over a four-byte enum, so that a big-endian host sends 0
  as the type of every packet, and no host reads such a packet.
\<close>

theorem big_endian_type_byte:
  "\<exists>tail. Serialize LittleEndian (packet_of LittleEndian m)
        = Inr (ucast (packet_code (message_type m)) # tail)
     \<and> Serialize BigEndian (packet_of BigEndian m) = Inr (0 # tail)
     \<and> ReadPacket bo (PacketFactory bo) (map Byte (0 # tail)) n pl = Inr (None, pl)"
  by (simp add: Serialize_packet_of type_byte_def ReadPacket_unregistered wire_simps)

end
