(* ===== verification/Net.thy ===== *)
theory Net
  imports Prelude
begin

section \<open>The network library as a parameter\<close>

text \<open>
  SDL_net is not part of the repository. The code's calls to it are the fields of a record that
  every definition using the network takes as an argument, over an arbitrary type \<open>'w\<close> of
  worlds (what the peers send, what the clock shows, which packets the library holds). Handles
  are numbers; a null handle is \<open>None\<close>. Passing a null handle to the library is outside its
  contract, and the model stops there with \<open>NullDeref\<close>. The comments give what the SDL_net
  documentation says of the result; no definition builds it in.
\<close>

definition TCP_SERVER_PORT :: u32 where "TCP_SERVER_PORT = 43720"

record IPaddress =
  ip_host :: u32
  ip_port :: u16

datatype net_socket = TcpSock nat | UdpSock nat

record 'w SDLNet =
  \<comment> \<open>\<open>SDLNet_ResolveHost\<close>: the address, \<open>None\<close> for a return of -1\<close>
  net_ResolveHost :: "'w \<Rightarrow> string \<Rightarrow> u16 \<Rightarrow> IPaddress option \<times> 'w"
  \<comment> \<open>\<open>SDLNet_AllocSocketSet(1)\<close>: the set, or null\<close>
  net_AllocSocketSet :: "'w \<Rightarrow> nat option \<times> 'w"
  \<comment> \<open>\<open>SDLNet_FreeSocketSet\<close>\<close>
  net_FreeSocketSet :: "'w \<Rightarrow> nat \<Rightarrow> 'w"
  \<comment> \<open>\<open>SDLNet_TCP_AddSocket\<close>, \<open>SDLNet_UDP_AddSocket\<close>: -1 on error\<close>
  net_AddSocket :: "'w \<Rightarrow> nat \<Rightarrow> net_socket \<Rightarrow> int \<times> 'w"
  \<comment> \<open>\<open>SDLNet_CheckSockets(set, 0)\<close>: the number of sockets with activity, -1 on error\<close>
  net_CheckSockets :: "'w \<Rightarrow> nat \<Rightarrow> int \<times> 'w"
  \<comment> \<open>\<open>SDLNet_SocketReady\<close>, as of the last check\<close>
  net_SocketReady :: "'w \<Rightarrow> net_socket \<Rightarrow> bool"
  \<comment> \<open>\<open>SDLNet_TCP_Open\<close> on an address: the socket, or null\<close>
  net_TCP_Open :: "'w \<Rightarrow> IPaddress \<Rightarrow> nat option \<times> 'w"
  \<comment> \<open>\<open>SDLNet_TCP_Accept\<close>: a connection that waits, or null\<close>
  net_TCP_Accept :: "'w \<Rightarrow> nat \<Rightarrow> nat option \<times> 'w"
  \<comment> \<open>\<open>SDLNet_TCP_GetPeerAddress\<close>: the remote address, or null\<close>
  net_TCP_GetPeerAddress :: "'w \<Rightarrow> nat \<Rightarrow> IPaddress option"
  \<comment> \<open>\<open>SDLNet_TCP_Send\<close>: the number of bytes sent; less than the length is an error\<close>
  net_TCP_Send :: "'w \<Rightarrow> nat \<Rightarrow> u8 list \<Rightarrow> int \<times> 'w"
  \<comment> \<open>\<open>SDLNet_TCP_Recv(sock, data, maxlen)\<close>: the bytes received, at most \<open>maxlen\<close>; \<open>Some []\<close> is
     a return of 0 and \<open>None\<close> a return of -1\<close>
  net_TCP_Recv :: "'w \<Rightarrow> nat \<Rightarrow> nat \<Rightarrow> u8 list option \<times> 'w"
  \<comment> \<open>\<open>SDLNet_UDP_Open\<close> on a port (0: any): the socket, or null\<close>
  net_UDP_Open :: "'w \<Rightarrow> u16 \<Rightarrow> nat option \<times> 'w"
  \<comment> \<open>\<open>SDLNet_UDP_GetPeerAddress(sock, -1)\<close>: the local address, or null\<close>
  net_UDP_GetPeerAddress :: "'w \<Rightarrow> nat \<Rightarrow> IPaddress option"
  \<comment> \<open>\<open>SDLNet_UDP_Bind(sock, 0, address)\<close>: the channel, -1 on error\<close>
  net_UDP_Bind :: "'w \<Rightarrow> nat \<Rightarrow> IPaddress \<Rightarrow> int \<times> 'w"
  \<comment> \<open>\<open>SDLNet_UDP_Send(sock, 0, packet)\<close> with the packet's address and data: 0 on error\<close>
  net_UDP_Send :: "'w \<Rightarrow> nat \<Rightarrow> IPaddress \<Rightarrow> u8 list \<Rightarrow> int \<times> 'w"
  \<comment> \<open>\<open>SDLNet_AllocPacket(1024)\<close>: the packet\<close>
  net_AllocPacket :: "'w \<Rightarrow> nat \<times> 'w"
  \<comment> \<open>\<open>SDLNet_FreePacket\<close>\<close>
  net_FreePacket :: "'w \<Rightarrow> nat \<Rightarrow> 'w"
  \<comment> \<open>\<open>SDLNet_UDP_Recv\<close> into a packet: 1, 0 or -1, and the data in the packet\<close>
  net_UDP_Recv :: "'w \<Rightarrow> nat \<Rightarrow> nat \<Rightarrow> (int \<times> u8 list) \<times> 'w"
  \<comment> \<open>what the listener thread has appended to the new connections since the last look\<close>
  net_Arrivals :: "'w \<Rightarrow> nat list \<times> 'w"
  \<comment> \<open>\<open>time(0)\<close>, and \<open>usleep\<close> with its number of microseconds\<close>
  net_time :: "'w \<Rightarrow> int \<times> 'w"
  net_usleep :: "'w \<Rightarrow> nat \<Rightarrow> 'w"
  \<comment> \<open>\<open>SDLNet_ResolveHost\<close> with a null host, any local address: \<open>None\<close> for a return of -1\<close>
  net_ResolveAny :: "'w \<Rightarrow> u16 \<Rightarrow> IPaddress option \<times> 'w"
  \<comment> \<open>\<open>SDLNet_GetError\<close>\<close>
  net_GetError :: "'w \<Rightarrow> string"

text \<open>
  The documented bounds of the receive functions: \<open>SDLNet_TCP_Recv\<close> delivers at most the number
  of bytes it was asked for.
\<close>

definition recv_bounded :: "'w SDLNet \<Rightarrow> bool" where
  "recv_bounded N \<longleftrightarrow>
     (\<forall>w sock n. case fst (net_TCP_Recv N w sock n) of None \<Rightarrow> True | Some bs \<Rightarrow> length bs \<le> n)"

lemma recv_boundedD:
  "recv_bounded N \<Longrightarrow> net_TCP_Recv N w sock n = (Some bs, w') \<Longrightarrow> length bs \<le> n"
  unfolding recv_bounded_def by (metis fst_conv option.simps(5))

end
