(* ===== verification/Socket.thy ===== *)
theory Socket
  imports Wire Net
begin

section \<open>Sockets (shared/Socket.h, shared/Socket.cpp)\<close>

text \<open>
  The \<open>Socket\<close> class over the network library: its constructors, activity check, receive path
  (\<open>GetData\<close>, the packet loop of \<open>GetPacket\<close>) and send path. The host is the little-endian
  platform the game targets. Buffers are lists of cells, so writes past an allocation and
  reads past the received data are faults of the model. Log output is left out.
\<close>

abbreviation HOST :: byte_order where "HOST \<equiv> LittleEndian"

record Socket =
  s_set :: "nat option"
  s_protocol :: TLProtocol
  s_pqueue :: "Packet list"
  s_udpListenPort :: u32
  s_hostname :: string
  s_tcp :: "nat option"
  s_udp :: "nat option"
  s_ip :: IPaddress
  s_tcpDisconnect :: bool

subsection \<open>Simple accessors\<close>

text \<open>\<open>stringstream << unsigned\<close>.\<close>

fun show_nat :: "nat \<Rightarrow> string" where
  "show_nat n =
     (if n < 10 then [char_of (48 + n)] else show_nat (n div 10) @ [char_of (48 + n mod 10)])"

declare show_nat.simps [simp del]

definition GetOctalIP :: "u32 \<Rightarrow> string" where
  "GetOctalIP ip =
     show_nat (unat (drop_bit 24 ip AND 0xFF)) @ ''.'' @
     show_nat (unat (drop_bit 16 ip AND 0xFF)) @ ''.'' @
     show_nat (unat (drop_bit 8 ip AND 0xFF)) @ ''.'' @
     show_nat (unat (ip AND 0xFF))"

definition GetRemoteHostname :: "Socket \<Rightarrow> string" where
  "GetRemoteHostname s = (if s_protocol s = UDP then '''' else s_hostname s)"

definition GetListenPortUDP :: "Socket \<Rightarrow> u32" where
  "GetListenPortUDP s = s_udpListenPort s"

definition GetTransportLayerProtocol :: "Socket \<Rightarrow> TLProtocol" where
  "GetTransportLayerProtocol s = s_protocol s"

definition GetIPaddress :: "Socket \<Rightarrow> IPaddress" where
  "GetIPaddress s = s_ip s"

definition IsConnectionOpen :: "Socket \<Rightarrow> bool" where
  "IsConnectionOpen s = (if s_tcpDisconnect s then False else s_tcp s \<noteq> None)"

subsection \<open>Construction\<close>

definition CreateSocketSet :: "'w SDLNet \<Rightarrow> Socket \<Rightarrow> 'w \<Rightarrow> (Socket \<times> 'w) res" where
  "CreateSocketSet N s w =
     (case s_set s of
        Some _ \<Rightarrow> Inr (s, w)
      | None \<Rightarrow>
          (case net_AllocSocketSet N w of
             (None, w') \<Rightarrow> Inl (Thrown ''Failed to allocate socket set'')
           | (Some st, w') \<Rightarrow> Inr (s\<lparr>s_set := Some st\<rparr>, w')))"

definition ConnectTCP :: "'w SDLNet \<Rightarrow> Socket \<Rightarrow> 'w \<Rightarrow> (Socket \<times> 'w) res" where
  "ConnectTCP N s w =
     (case net_TCP_Open N w (s_ip s) of
        (None, w') \<Rightarrow> Inl (Thrown (''Failed to connect to host '' @ s_hostname s))
      | (Some t, w') \<Rightarrow> Inr (s\<lparr>s_tcp := Some t\<rparr>, w'))"

text \<open>
  A failed bind is only logged; the null socket is then passed to \<open>SDLNet_UDP_GetPeerAddress\<close>.
  The port is passed as 16 bits and read back in the library's (network) byte order.
\<close>

definition CreateUDP :: "'w SDLNet \<Rightarrow> Socket \<Rightarrow> 'w \<Rightarrow> (Socket \<times> 'w) res" where
  "CreateUDP N s w =
     (case net_UDP_Open N w (ucast (s_udpListenPort s)) of
        (None, w') \<Rightarrow> Inl NullDeref
      | (Some u, w') \<Rightarrow>
          (case net_UDP_GetPeerAddress N w' u of
             None \<Rightarrow> Inl NullDeref
           | Some sockip \<Rightarrow>
               Inr (s\<lparr>s_udp := Some u, s_udpListenPort := ucast (ip_port sockip)\<rparr>, w')))"

text \<open>\<open>SDLNet_TCP_AddSocket(_set, _tcp)\<close> and its UDP counterpart, with the message thrown on -1.\<close>

definition AddToSet ::
    "'w SDLNet \<Rightarrow> Socket \<Rightarrow> net_socket \<Rightarrow> string \<Rightarrow> 'w \<Rightarrow> (Socket \<times> 'w) res" where
  "AddToSet N s sock msg w =
     (case s_set s of
        None \<Rightarrow> Inl NullDeref
      | Some st \<Rightarrow>
          (case net_AddSocket N w st sock of
             (r, w') \<Rightarrow> if r = -1 then Inl (Thrown msg) else Inr (s, w')))"

definition Init_TCP :: "'w SDLNet \<Rightarrow> Socket \<Rightarrow> 'w \<Rightarrow> (Socket \<times> 'w) res" where
  "Init_TCP N s w =
     rbind (ConnectTCP N s w) (\<lambda>(s, w).
     (case s_tcp s of None \<Rightarrow> Inl NullDeref
      | Some t \<Rightarrow> AddToSet N s (TcpSock t) ''Failed to add TCP socket to set'' w))"

definition Init_UDP :: "'w SDLNet \<Rightarrow> Socket \<Rightarrow> 'w \<Rightarrow> (Socket \<times> 'w) res" where
  "Init_UDP N s w =
     rbind (CreateUDP N s w) (\<lambda>(s, w).
     (case s_udp s of None \<Rightarrow> Inl NullDeref
      | Some u \<Rightarrow>
          rbind (AddToSet N s (UdpSock u) ''Failed to add UDP socket to set'' w) (\<lambda>(s, w).
          (case net_UDP_Bind N w u (s_ip s) of
             (chan, w') \<Rightarrow>
               if chan = -1 then Inl (Thrown (''Failed to bind address '' @ s_hostname s))
               else Inr (s, w')))))"

definition Init :: "'w SDLNet \<Rightarrow> Socket \<Rightarrow> 'w \<Rightarrow> (Socket \<times> 'w) res" where
  "Init N s w =
     rbind (CreateSocketSet N s w) (\<lambda>(s, w).
     (case s_protocol s of TCP \<Rightarrow> Init_TCP N s w | UDP \<Rightarrow> Init_UDP N s w))"

text \<open>The members as every constructor's initialiser list leaves them.\<close>

definition blank_Socket :: "TLProtocol \<Rightarrow> string \<Rightarrow> u32 \<Rightarrow> IPaddress \<Rightarrow> Socket" where
  "blank_Socket protocol hostname udpListenPort ip =
     \<lparr>s_set = None, s_protocol = protocol, s_pqueue = [], s_udpListenPort = udpListenPort,
      s_hostname = hostname, s_tcp = None, s_udp = None, s_ip = ip, s_tcpDisconnect = False\<rparr>"

definition Socket_by_name ::
    "'w SDLNet \<Rightarrow> TLProtocol \<Rightarrow> string \<Rightarrow> u32 \<Rightarrow> u32 \<Rightarrow> 'w \<Rightarrow> (Socket \<times> 'w) res" where
  "Socket_by_name N protocol hostname port udpListenPort w =
     (case net_ResolveHost N w hostname (ucast port) of
        (None, w') \<Rightarrow> Inl (Thrown (''Failed to resolve host '' @ hostname))
      | (Some ip, w') \<Rightarrow> Init N (blank_Socket protocol hostname udpListenPort ip) w')"

definition Socket_by_address ::
    "'w SDLNet \<Rightarrow> TLProtocol \<Rightarrow> IPaddress \<Rightarrow> u32 \<Rightarrow> 'w \<Rightarrow> (Socket \<times> 'w) res" where
  "Socket_by_address N protocol ipaddr udpListenPort w =
     Init N (blank_Socket protocol (GetOctalIP (ip_host ipaddr)) udpListenPort ipaddr) w"

definition Socket_accepted :: "'w SDLNet \<Rightarrow> nat \<Rightarrow> 'w \<Rightarrow> (Socket \<times> 'w) res" where
  "Socket_accepted N tcpsocket w =
     (case net_TCP_GetPeerAddress N w tcpsocket of
        None \<Rightarrow> Inl NullDeref
      | Some ip \<Rightarrow>
          rbind (CreateSocketSet N
                   ((blank_Socket TCP (GetOctalIP (ip_host ip)) 0 ip)\<lparr>s_tcp := Some tcpsocket\<rparr>) w)
            (\<lambda>(s, w). AddToSet N s (TcpSock tcpsocket) ''Failed to add TCP socket to set'' w))"

text \<open>\<open>SocketTCP\<close>, by host name and by address.\<close>

definition SocketTCP :: "'w SDLNet \<Rightarrow> string \<Rightarrow> u32 \<Rightarrow> 'w \<Rightarrow> (Socket \<times> 'w) res" where
  "SocketTCP N host port w = Socket_by_name N TCP host port 0 w"

definition SocketTCP_by_address :: "'w SDLNet \<Rightarrow> IPaddress \<Rightarrow> 'w \<Rightarrow> (Socket \<times> 'w) res" where
  "SocketTCP_by_address N addr w = Socket_by_address N TCP addr 0 w"

text \<open>The destructor frees the socket set only; the TCP or UDP socket stays open.\<close>

definition delete_Socket :: "'w SDLNet \<Rightarrow> Socket \<Rightarrow> 'w \<Rightarrow> 'w" where
  "delete_Socket N s w = (case s_set s of None \<Rightarrow> w | Some st \<Rightarrow> net_FreeSocketSet N w st)"

subsection \<open>Receiving\<close>

definition HasActivity :: "'w SDLNet \<Rightarrow> Socket \<Rightarrow> 'w \<Rightarrow> (bool \<times> 'w) res" where
  "HasActivity N s w =
     (if s_pqueue s \<noteq> [] then Inr (True, w)
      else (case s_set s of None \<Rightarrow> Inl NullDeref
        | Some st \<Rightarrow>
            (case net_CheckSockets N w st of
               (numready, w') \<Rightarrow>
                 if numready \<noteq> 0 then
                   (case (if s_protocol s = UDP then map_option UdpSock (s_udp s)
                          else map_option TcpSock (s_tcp s)) of
                      None \<Rightarrow> Inr (False, w')
                    | Some sock \<Rightarrow> Inr (net_SocketReady N w' sock, w'))
                 else Inr (False, w'))))"

text \<open>A write of received bytes into a buffer, and \<open>realloc\<close> to a larger one.\<close>

definition store_bytes :: "cell list \<Rightarrow> nat \<Rightarrow> u8 list \<Rightarrow> cell list res" where
  "store_bytes buf off bs =
     (if off + length bs \<le> length buf
      then Inr (take off buf @ map Byte bs @ drop (off + length bs) buf)
      else Inl OutOfBounds)"

definition grow :: "cell list \<Rightarrow> nat \<Rightarrow> cell list" where
  "grow buf n = buf @ replicate (n - length buf) Uninit"

text \<open>\<open>SDLNet_TCP_Recv(_tcp, buf + off, maxlen)\<close>: the value returned, with the buffer it filled.\<close>

definition tcp_recv ::
    "'w SDLNet \<Rightarrow> nat \<Rightarrow> cell list \<Rightarrow> nat \<Rightarrow> nat \<Rightarrow> 'w \<Rightarrow> ((int \<times> cell list) \<times> 'w) res" where
  "tcp_recv N tcp buf off maxlen w =
     (case net_TCP_Recv N w tcp maxlen of
        (None, w') \<Rightarrow> Inr ((-1, buf), w')
      | (Some bs, w') \<Rightarrow>
          rbind (store_bytes buf off bs) (\<lambda>buf'. Inr ((int (length bs), buf'), w')))"

text \<open>The loop of the TCP branch of \<open>GetData\<close>.\<close>

partial_function (option) recv_loop ::
    "'w SDLNet \<Rightarrow> nat \<Rightarrow> nat \<Rightarrow> int \<Rightarrow> int \<Rightarrow> cell list \<Rightarrow> 'w \<Rightarrow> ((cell list \<times> int) \<times> 'w) run" where
  "recv_loop N tcp maxlen totread num buf w =
     (if num = int maxlen then
        let totread = totread + num; maxlen = maxlen * 2; buf = grow buf maxlen
        in run_bind (Some (tcp_recv N tcp buf (nat totread) maxlen w))
             (\<lambda>((num, buf), w). recv_loop N tcp maxlen totread num buf w)
      else Some (Inr ((buf, totread), w)))"

text \<open>
  \<open>GetData\<close>: the buffer (\<open>None\<close> for \<open>NULL\<close>), the length and the UDP packet it came in.
\<close>

definition GetData ::
    "'w SDLNet \<Rightarrow> Socket \<Rightarrow> 'w \<Rightarrow> ((cell list option \<times> int \<times> nat option) \<times> 'w) run" where
  "GetData N s w =
     (case s_protocol s of
        UDP \<Rightarrow>
          (case s_udp s of None \<Rightarrow> Some (Inl NullDeref)
           | Some u \<Rightarrow>
               (let (packet, w) = net_AllocPacket N w;
                    ((num, data), w) = net_UDP_Recv N w u packet
                in if num = 1
                   then Some (Inr ((Some (map Byte data), int (length data), Some packet), w))
                   else Some (Inr ((None, 0, Some packet), w))))
      | TCP \<Rightarrow>
          (case s_tcp s of None \<Rightarrow> Some (Inl NullDeref)
           | Some t \<Rightarrow>
               run_bind (Some (tcp_recv N t (replicate 128 Uninit) 0 128 w)) (\<lambda>((num, buf), w).
               run_bind (recv_loop N t 128 num num buf w) (\<lambda>((buf, totread), w).
                 Some (Inr ((Some buf, totread, None), w))))))"

text \<open>
  The packet loop of \<open>GetPacket\<close>. The state is what the loop changes: \<open>len\<close>, \<open>read\<close>, the
  queue and \<open>numRecv\<close>. On data that is no packet the UDP packet is freed and the loop is left.
\<close>

partial_function (option) parse_loop ::
    "'w SDLNet \<Rightarrow> cell list \<Rightarrow> nat option \<Rightarrow> int \<Rightarrow> int \<Rightarrow> Packet list \<Rightarrow> nat \<Rightarrow> 'w
       \<Rightarrow> ((Packet list \<times> nat) \<times> 'w) run" where
  "parse_loop N buf udpPacket len read pqueue numRecv w =
     (if len > 0 then
        run_bind (Some (ReadPacket HOST (PacketFactory HOST) (drop (nat read) buf) len 0))
          (\<lambda>(packet, plen).
             case packet of
               Some p \<Rightarrow>
                 parse_loop N buf udpPacket (len - plen) (read + plen)
                   (pqueue @ [SetUdpPacket udpPacket p]) (numRecv + 1) w
             | None \<Rightarrow>
                 Some (Inr ((pqueue, numRecv),
                   case udpPacket of None \<Rightarrow> w | Some u \<Rightarrow> net_FreePacket N w u)))
      else Some (Inr ((pqueue, numRecv), w)))"

text \<open>The names logged for the \<open>n\<close> packets at the end of the queue, last first.\<close>

fun log_received :: "Packet list \<Rightarrow> nat \<Rightarrow> string list res" where
  "log_received ps 0 = Inr []"
| "log_received ps (Suc n) =
     (if ps = [] then Inl OutOfBounds
      else rbind (GetPacketType HOST (last ps)) (\<lambda>t.
           rbind (PacketTypeStr t) (\<lambda>str.
           rbind (log_received (butlast ps) n) (\<lambda>rest. Inr (str # rest)))))"

text \<open>\<open>GetPacket\<close> on a queue that is not empty.\<close>

definition pop_packet :: "Socket \<Rightarrow> Packet option \<times> Socket" where
  "pop_packet s =
     (case s_pqueue s of [] \<Rightarrow> (None, s) | p # ps \<Rightarrow> (Some p, s\<lparr>s_pqueue := ps\<rparr>))"

definition GetPacket ::
    "'w SDLNet \<Rightarrow> Socket \<Rightarrow> 'w \<Rightarrow> ((Packet option \<times> Socket) \<times> 'w) run" where
  "GetPacket N s w =
     (if s_pqueue s \<noteq> [] then Some (Inr (pop_packet s, w))
      else run_bind (Some (HasActivity N s w)) (\<lambda>(active, w).
        if \<not> active then Some (Inr ((None, s), w))
        else run_bind (GetData N s w) (\<lambda>((buf, len, udpPacket), w).
          case buf of
            None \<Rightarrow> Some (Inr ((None, s\<lparr>s_tcpDisconnect := (s_protocol s = TCP)\<rparr>), w))
          | Some data \<Rightarrow>
              if len = 0 then
                Some (Inr ((None, s\<lparr>s_tcpDisconnect := (s_protocol s = TCP)\<rparr>), w))
              else run_bind (parse_loop N data udpPacket len 0 (s_pqueue s) 0 w)
                (\<lambda>((pqueue, numRecv), w).
                run_bind (Some (log_received pqueue numRecv)) (\<lambda>_.
                  Some (Inr (pop_packet (s\<lparr>s_pqueue := pqueue\<rparr>), w)))))))"

subsection \<open>Sending\<close>

text \<open>
  \<open>SendPacket(buf, len)\<close>: only a result of 0 counts as a failure. The function also deletes
  \<open>buf\<close>, which its callers account for.
\<close>

definition SendPacket_bytes :: "'w SDLNet \<Rightarrow> Socket \<Rightarrow> u8 list \<Rightarrow> 'w \<Rightarrow> (bool \<times> 'w) res" where
  "SendPacket_bytes N s buf w =
     rbind (case s_protocol s of
              TCP \<Rightarrow> (case s_tcp s of None \<Rightarrow> Inl NullDeref | Some t \<Rightarrow> Inr (net_TCP_Send N w t buf))
            | UDP \<Rightarrow> (case s_udp s of None \<Rightarrow> Inl NullDeref
                      | Some u \<Rightarrow> Inr (net_UDP_Send N w u (s_ip s) buf)))
       (\<lambda>(sent, w). if sent = 0 then Inr (False, w) else Inr (True, w))"

definition SendPacket :: "'w SDLNet \<Rightarrow> Socket \<Rightarrow> Packet \<Rightarrow> 'w \<Rightarrow> (bool \<times> 'w) res" where
  "SendPacket N s packet w =
     rbind (Serialize HOST packet) (\<lambda>buf. SendPacket_bytes N s buf w)"

end
