(* ===== verification/SocketProps.thy ===== *)
theory SocketProps
  imports Socket
begin

section \<open>Receiving and sending: what the socket layer does\<close>

text \<open>
  The packet loop of \<open>GetPacket\<close>, the buffer handling of \<open>GetData\<close>, the connection state and
  the send path.
\<close>

subsection \<open>The packet loop\<close>

text \<open>\<open>ReadPacket\<close> never assigns \<open>packetlen\<close>, and never looks at the length it is given.\<close>

lemma ReadPacket_packetlen:
  assumes "ReadPacket bo F buf n pl = Inr (r, pl')"
  shows "pl' = pl"
  using assms by (auto simp: ReadPacket_def split: option.splits)

lemma ReadPacket_bufferlen: "ReadPacket bo F buf n pl = ReadPacket bo F buf 0 pl"
  unfolding ReadPacket_def Deserialize_def by (rule refl)

lemma parse_loop_stuck_aux:
  assumes ret: "parse_loop N buf u len read pq n w = Some r"
  shows "0 < len \<longrightarrow>
     ReadPacket HOST (PacketFactory HOST) (drop (nat read) buf) 0 0 \<noteq> Inr (Some p, 0)"
proof (rule parse_loop.raw_induct
    [where P = "\<lambda>N buf u len read pq n w r. 0 < len \<longrightarrow>
       ReadPacket HOST (PacketFactory HOST) (drop (nat read) buf) 0 0 \<noteq> Inr (Some p, 0)", OF _ ret])
  fix f :: "'a SDLNet \<Rightarrow> cell list \<Rightarrow> nat option \<Rightarrow> int \<Rightarrow> int \<Rightarrow> Packet list \<Rightarrow> nat \<Rightarrow> 'a
      \<Rightarrow> ((Packet list \<times> nat) \<times> 'a) run"
    and N :: "'a SDLNet" and buf u len read pq n w r
  assume IH: "\<And>N buf u len read pq n w r. f N buf u len read pq n w = Some r \<Longrightarrow>
      0 < len \<longrightarrow>
      ReadPacket HOST (PacketFactory HOST) (drop (nat read) buf) 0 0 \<noteq> Inr (Some p, 0)"
    and eq: "(if 0 < len then
        run_bind (Some (ReadPacket HOST (PacketFactory HOST) (drop (nat read) buf) len 0))
          (\<lambda>(packet, plen). case packet of
             None \<Rightarrow> Some (Inr ((pq, n), case u of None \<Rightarrow> w | Some u \<Rightarrow> net_FreePacket N w u))
           | Some p \<Rightarrow> f N buf u (len - plen) (read + plen) (pq @ [SetUdpPacket u p]) (n + 1) w)
      else Some (Inr ((pq, n), w))) = Some r"
  show "0 < len \<longrightarrow>
      ReadPacket HOST (PacketFactory HOST) (drop (nat read) buf) 0 0 \<noteq> Inr (Some p, 0)"
    using eq IH by (auto simp: ReadPacket_bufferlen [of _ _ _ len])
qed

lemma parse_loop_stuck:
  assumes "ReadPacket HOST (PacketFactory HOST) (drop (nat read) buf) len 0 = Inr (Some p, plen)"
    and "0 < len"
  shows "parse_loop N buf u len read pq n w = None"
proof -
  from assms have "ReadPacket HOST (PacketFactory HOST) (drop (nat read) buf) 0 0 = Inr (Some p, 0)"
    using ReadPacket_packetlen ReadPacket_bufferlen by metis
  with assms(2) show ?thesis
    using parse_loop_stuck_aux [of N buf u len read pq n w _ p] by (cases "parse_loop N buf u len read pq n w") auto
qed

text \<open>All the loop can do with data: fault, give up, or run for ever.\<close>

lemma parse_loop_cases:
  assumes "0 < len"
  shows "parse_loop N buf u len read pq n w =
     (case ReadPacket HOST (PacketFactory HOST) (drop (nat read) buf) len 0 of
        Inl e \<Rightarrow> Some (Inl e)
      | Inr (Some _, _) \<Rightarrow> None
      | Inr (None, _) \<Rightarrow> Some (Inr ((pq, n), case u of None \<Rightarrow> w | Some u \<Rightarrow> net_FreePacket N w u)))"
proof (cases "ReadPacket HOST (PacketFactory HOST) (drop (nat read) buf) len 0")
  case (Inl e)
  with assms show ?thesis by (simp add: parse_loop.simps)
next
  case (Inr r)
  obtain p plen where r: "r = (p, plen)" by (cases r)
  show ?thesis
  proof (cases p)
    case None
    with assms Inr r show ?thesis by (simp add: parse_loop.simps)
  next
    case (Some q)
    with assms Inr r parse_loop_stuck [of read buf len q plen N u pq n w] show ?thesis by simp
  qed
qed

lemma parse_loop_queue:
  assumes "parse_loop N buf u len read pq n w = Some (Inr ((pq', n'), w'))"
  shows "pq' = pq \<and> n' = n"
proof (cases "0 < len")
  case True
  with assms show ?thesis
    by (auto simp: parse_loop_cases split: sum.splits option.splits)
next
  case False
  with assms show ?thesis by (simp add: parse_loop.simps)
qed

subsection \<open>The receive buffer of \<open>GetData\<close>\<close>

lemma store_bytes_front [simp]:
  "length bs \<le> n \<Longrightarrow>
     store_bytes (replicate n Uninit) 0 bs = Inr (map Byte bs @ replicate (n - length bs) Uninit)"
  by (simp add: store_bytes_def)

lemma store_bytes_past_end [simp]:
  "store_bytes buf (length buf) bs = (if bs = [] then Inr buf else Inl OutOfBounds)"
  by (simp add: store_bytes_def)

lemma recv_loop_done [simp]:
  "num \<noteq> int maxlen \<Longrightarrow> recv_loop N t maxlen tot num buf w = Some (Inr ((buf, tot), w))"
  by (simp add: recv_loop.simps)

text \<open>
  After a first read that filled the 128 bytes, the write position is 256, the size of the grown
  buffer: any byte that arrives now is written past its end.
\<close>

lemma recv_loop_second:
  assumes "length buf = 128"
  shows "recv_loop N t 128 128 128 buf w =
     (case net_TCP_Recv N w t 256 of
        (Some (_ # _), w') \<Rightarrow> Some (Inl OutOfBounds)
      | (_, w') \<Rightarrow> Some (Inr ((buf @ replicate 128 Uninit, 256), w')))"
proof -
  have grown: "length (grow buf 256) = 256" and eq: "grow buf 256 = buf @ replicate 128 Uninit"
    using assms by (simp_all add: grow_def)
  have "store_bytes (grow buf 256) 256 bs = (if bs = [] then Inr (grow buf 256) else Inl OutOfBounds)"
    for bs
    using store_bytes_past_end [of "grow buf 256" bs] grown by simp
  then show ?thesis
    by (subst recv_loop.simps)
      (auto simp: tcp_recv_def Let_def eq split: option.splits prod.splits list.splits)
qed

lemma GetData_TCP:
  assumes tcp: "s_protocol s = TCP" "s_tcp s = Some t" and N: "recv_bounded N"
  shows "GetData N s w =
     (case net_TCP_Recv N w t 128 of
        (None, w1) \<Rightarrow> Some (Inr ((Some (replicate 128 Uninit), -1, None), w1))
      | (Some bs, w1) \<Rightarrow>
          if length bs < 128
          then Some (Inr ((Some (map Byte bs @ replicate (128 - length bs) Uninit),
                           int (length bs), None), w1))
          else (case net_TCP_Recv N w1 t 256 of
                  (Some (_ # _), w2) \<Rightarrow> Some (Inl OutOfBounds)
                | (_, w2) \<Rightarrow> Some (Inr ((Some (map Byte bs @ replicate 128 Uninit), 256, None), w2))))"
proof (cases "net_TCP_Recv N w t 128")
  case (Pair r w1)
  show ?thesis
  proof (cases r)
    case None
    with Pair tcp show ?thesis by (simp add: GetData_def tcp_recv_def)
  next
    case (Some bs)
    with N Pair have le: "length bs \<le> 128" by (auto dest: recv_boundedD)
    show ?thesis
    proof (cases "length bs < 128")
      case True
      with Pair Some tcp show ?thesis by (simp add: GetData_def tcp_recv_def)
    next
      case False
      with le have len: "length bs = 128" by simp
      with Pair Some tcp show ?thesis
        by (simp add: GetData_def tcp_recv_def recv_loop_second
              split: option.splits prod.splits list.splits)
    qed
  qed
qed

lemma GetData_UDP:
  assumes "s_protocol s = UDP" "s_udp s = Some u"
    and "net_AllocPacket N w = (k, w1)" "net_UDP_Recv N w1 u k = ((num, data), w2)"
  shows "GetData N s w =
     (if num = 1 then Some (Inr ((Some (map Byte data), int (length data), Some k), w2))
      else Some (Inr ((None, 0, Some k), w2)))"
  using assms by (simp add: GetData_def)

subsection \<open>Incomplete packets in the TCP buffer\<close>

lemma load_partial:
  "load (map Byte bs @ replicate j Uninit) i =
     (if i < length bs then Inr (bs ! i)
      else if i < length bs + j then Inl Indeterminate else Inl OutOfBounds)"
  by (simp add: load_def nth_append)

lemma deserialize_uint_partial:
  assumes "4 \<le> length mem" and "off + 4 \<le> length bs + j"
  shows "deserialize_field bo (map Byte bs @ replicate j Uninit) off UINT32 mem =
     (if off + 4 \<le> length bs
      then Inr (mem_of_dword bo (ntohl bo (dword_at bo (bs ! off) (bs ! (off + 1))
                  (bs ! (off + 2)) (bs ! (off + 3)))) @ drop 4 mem, off + 4)
      else Inl Indeterminate)"
  using assms
  by (simp add: deserialize_field_def ReadUInt_def load_dword_def load_partial store_dword_def)

lemma deserialize_byte_partial:
  assumes "off + 1 \<le> length bs + j"
  shows "deserialize_field bo (map Byte bs @ replicate j Uninit) off BYTE (c # mem) =
     (if off < length bs then Inr (bs ! off # mem, off + 1) else Inl Indeterminate)"
  using assms by (simp add: deserialize_field_def load_partial)

lemma ReadPacket_partial:
  assumes "registered_size t = Some k" and "length (t # bs) < k" and "k \<le> length (t # bs) + j"
  shows "ReadPacket HOST (PacketFactory HOST) (map Byte (t # bs) @ replicate j Uninit) n pl
     = Inl Indeterminate"
proof -
  let ?buf = "map Byte (t # bs) @ replicate j Uninit"
  have "Deserialize HOST ?buf n p = Inl Indeterminate"
    if "PacketFactory HOST t = Some p" for p
    using assms that
    by (auto simp: wire_simps Deserialize_def packet_class_defs deserialize_uint_partial
          deserialize_byte_partial split: if_splits simp del: list.map)
  moreover have "PacketFactory HOST t \<noteq> None"
    using assms by (simp add: PacketFactory_None_iff)
  moreover have "load ?buf 0 = Inr t" by (simp add: load_def)
  ultimately show ?thesis
    by (auto simp: ReadPacket_def simp del: list.map)
qed

subsection \<open>\<open>GetPacket\<close>\<close>

lemma GetPacket_queued:
  "s_pqueue s = p # ps \<Longrightarrow> GetPacket N s w = Some (Inr ((Some p, s\<lparr>s_pqueue := ps\<rparr>), w))"
  by (simp add: GetPacket_def pop_packet_def)

lemma GetPacket_idle:
  "s_pqueue s = [] \<Longrightarrow> HasActivity N s w = Inr (False, w1) \<Longrightarrow>
     GetPacket N s w = Some (Inr ((None, s), w1))"
  by (simp add: GetPacket_def)

text \<open>\<open>GetPacket\<close> once the network has handed over some data.\<close>

lemma GetPacket_data:
  assumes "s_pqueue s = []" and "HasActivity N s w = Inr (True, w1)"
    and "GetData N s w1 = Some (Inr ((Some buf, len, u), w2))" and "0 < len"
  shows "GetPacket N s w =
     (case ReadPacket HOST (PacketFactory HOST) buf len 0 of
        Inl e \<Rightarrow> Some (Inl e)
      | Inr (Some _, _) \<Rightarrow> None
      | Inr (None, _) \<Rightarrow>
          Some (Inr ((None, s), case u of None \<Rightarrow> w2 | Some u \<Rightarrow> net_FreePacket N w2 u)))"
proof -
  have s: "s\<lparr>s_pqueue := []\<rparr> = s" using assms(1) by simp
  show ?thesis
    using assms s
    by (auto simp: GetPacket_def parse_loop_cases pop_packet_def split: sum.splits option.splits)
qed

lemma GetPacket_nothing:
  assumes "s_pqueue s = []" and "HasActivity N s w = Inr (True, w1)"
    and "GetData N s w1 = Some (Inr ((buf, len, u), w2))" and "buf = None \<or> len = 0"
  shows "GetPacket N s w = Some (Inr ((None, s\<lparr>s_tcpDisconnect := (s_protocol s = TCP)\<rparr>), w2))"
  using assms by (auto simp: GetPacket_def split: option.splits)

lemma GetPacket_negative:
  assumes "s_pqueue s = []" and "HasActivity N s w = Inr (True, w1)"
    and "GetData N s w1 = Some (Inr ((Some buf, len, u), w2))" and "len < 0"
  shows "GetPacket N s w = Some (Inr ((None, s), w2))"
proof -
  have s: "s\<lparr>s_pqueue := []\<rparr> = s" using assms(1) by simp
  show ?thesis
    using assms s by (simp add: GetPacket_def parse_loop.simps pop_packet_def)
qed

text \<open>Whenever \<open>GetPacket\<close> returns from an empty queue, it returns no packet and queues none.\<close>

lemma GetPacket_returns_nothing:
  assumes "s_pqueue s = []" and "GetPacket N s w = Some (Inr ((r, s'), w'))"
  shows "r = None \<and> s_pqueue s' = [] \<and> (s' = s \<or> s' = s\<lparr>s_tcpDisconnect := (s_protocol s = TCP)\<rparr>)"
proof (cases "HasActivity N s w")
  case (Inl e)
  with assms show ?thesis by (simp add: GetPacket_def)
next
  case (Inr a)
  obtain act w1 where a: "a = (act, w1)" by (cases a)
  show ?thesis
  proof (cases act)
    case False
    with assms Inr a show ?thesis by (simp add: GetPacket_idle)
  next
    case True
    with Inr a have act: "HasActivity N s w = Inr (True, w1)" by simp
    with assms obtain buf len u w2 where data: "GetData N s w1 = Some (Inr ((buf, len, u), w2))"
      by (auto simp: GetPacket_def)
    consider (nothing) "buf = None \<or> len = 0" | (neg) d where "buf = Some d" "len < 0"
      | (pos) d where "buf = Some d" "0 < len"
      by (cases buf) fastforce+
    then show ?thesis
    proof cases
      case nothing
      with assms act data show ?thesis by (auto simp: GetPacket_nothing)
    next
      case neg
      with assms act data show ?thesis by (auto simp: GetPacket_negative)
    next
      case pos
      with assms act data show ?thesis
        by (auto simp: GetPacket_data split: sum.splits option.splits)
    qed
  qed
qed

lemma GetPacket_hangs:
  assumes "s_pqueue s = []" and "HasActivity N s w = Inr (True, w1)"
    and "GetData N s w1 = Some (Inr ((Some (map Byte (encode m) @ rest), len, u), w2))"
    and "0 < len" and "registered m"
  shows "GetPacket N s w = None"
  using assms by (simp add: GetPacket_data ReadPacket_encode)

subsection \<open>Constructed sockets\<close>

lemma CreateSocketSet_Inr:
  assumes "CreateSocketSet N s w = Inr (s', w')"
  shows "\<exists>st. s' = s\<lparr>s_set := Some st\<rparr>"
proof (cases "s_set s")
  case None
  with assms show ?thesis by (auto simp: CreateSocketSet_def split: option.splits prod.splits)
next
  case (Some st)
  with assms have "s' = s" by (simp add: CreateSocketSet_def)
  with Some have "s' = s\<lparr>s_set := Some st\<rparr>" by simp
  then show ?thesis by blast
qed

lemma AddToSet_Inr: "AddToSet N s sock msg w = Inr (s', w') \<Longrightarrow> s' = s"
  by (auto simp: AddToSet_def split: option.splits prod.splits if_splits)

lemma Init_TCP_Inr:
  assumes "Init_TCP N s w = Inr (s', w')"
  shows "\<exists>t. s' = s\<lparr>s_tcp := Some t\<rparr>"
  using assms
  by (auto simp: Init_TCP_def ConnectTCP_def dest: AddToSet_Inr
      split: option.splits prod.splits)

lemma Init_UDP_Inr:
  assumes "Init_UDP N s w = Inr (s', w')"
  shows "\<exists>u port. s' = s\<lparr>s_udp := Some u, s_udpListenPort := port\<rparr>"
  using assms
  by (fastforce simp: Init_UDP_def CreateUDP_def dest: AddToSet_Inr
      split: option.splits prod.splits if_splits)

text \<open>What every constructor gives: an empty queue, no disconnect, a socket of its protocol.\<close>

definition fresh :: "Socket \<Rightarrow> bool" where
  "fresh s \<longleftrightarrow> s_pqueue s = [] \<and> \<not> s_tcpDisconnect s \<and> s_set s \<noteq> None \<and>
     (case s_protocol s of TCP \<Rightarrow> s_tcp s \<noteq> None \<and> s_udp s = None
      | UDP \<Rightarrow> s_udp s \<noteq> None \<and> s_tcp s = None)"

lemma Init_fresh:
  assumes "Init N (blank_Socket proto h port ip) w = Inr (s', w')"
  shows "fresh s' \<and> s_protocol s' = proto \<and> s_ip s' = ip"
proof -
  from assms obtain s1 w1 where s1: "CreateSocketSet N (blank_Socket proto h port ip) w = Inr (s1, w1)"
    and rest: "(case s_protocol s1 of TCP \<Rightarrow> Init_TCP N s1 w1 | UDP \<Rightarrow> Init_UDP N s1 w1) = Inr (s', w')"
    by (auto simp: Init_def)
  from CreateSocketSet_Inr [OF s1] obtain st where
    "s1 = (blank_Socket proto h port ip)\<lparr>s_set := Some st\<rparr>" ..
  then show ?thesis
    using rest by (cases proto)
      (auto simp: blank_Socket_def fresh_def dest!: Init_TCP_Inr Init_UDP_Inr)
qed

inductive socket_created :: "'w SDLNet \<Rightarrow> Socket \<Rightarrow> bool" for N where
  by_name: "Socket_by_name N proto h port uport w = Inr (s, w') \<Longrightarrow> socket_created N s"
| by_address: "Socket_by_address N proto ip uport w = Inr (s, w') \<Longrightarrow> socket_created N s"
| accepted: "Socket_accepted N t w = Inr (s, w') \<Longrightarrow> socket_created N s"

lemma Socket_accepted_fresh:
  assumes "Socket_accepted N t w = Inr (s, w')"
  shows "fresh s \<and> s_protocol s = TCP \<and> s_tcp s = Some t"
  using assms
  by (auto simp: Socket_accepted_def blank_Socket_def fresh_def
      dest!: CreateSocketSet_Inr AddToSet_Inr split: option.splits)

lemma socket_created_fresh: "socket_created N s \<Longrightarrow> fresh s"
  by (induction rule: socket_created.induct)
    (auto simp: Socket_by_name_def Socket_by_address_def dest: Init_fresh Socket_accepted_fresh
      split: option.splits prod.splits)

text \<open>A socket in use: \<open>GetPacket\<close> is the only operation that changes it.\<close>

inductive socket_used :: "'w SDLNet \<Rightarrow> Socket \<Rightarrow> Socket \<Rightarrow> bool" for N where
  got: "GetPacket N s w = Some (Inr ((r, s'), w')) \<Longrightarrow> socket_used N s s'"

inductive_cases socket_usedE [elim!]: "socket_used N s s'"

interpretation socket_queue: inductive_invariant "socket_created N" "socket_used N"
  "\<lambda>s. s_pqueue s = []" for N
  by unfold_locales (auto dest: socket_created_fresh GetPacket_returns_nothing simp: fresh_def)

subsection \<open>Sending\<close>

lemma SendPacket_packet_of [wire_simps]:
  "SendPacket N s (packet_of HOST m) w = SendPacket_bytes N s (encode m) w"
  by (simp add: SendPacket_def wire_simps)

lemma SendPacket_bytes_TCP:
  assumes "s_protocol s = TCP" "s_tcp s = Some t"
  shows "SendPacket_bytes N s buf w =
     (case net_TCP_Send N w t buf of (sent, w') \<Rightarrow> Inr (sent \<noteq> 0, w'))"
  using assms by (auto simp: SendPacket_bytes_def split: prod.splits)

lemma SendPacket_bytes_UDP:
  assumes "s_protocol s = UDP" "s_udp s = Some u"
  shows "SendPacket_bytes N s buf w =
     (case net_UDP_Send N w u (s_ip s) buf of (sent, w') \<Rightarrow> Inr (sent \<noteq> 0, w'))"
  using assms by (auto simp: SendPacket_bytes_def split: prod.splits)

end
