(* ===== verification/ClientConnector.thy ===== *)
theory ClientConnector
  imports SocketProps
begin

section \<open>The client's side of the handshake (client/Client.h, client/Client.cpp)\<close>

text \<open>
  \<open>ServerConnector\<close>: two owned sockets (\<open>None\<close> for a null pointer), the flags, the number and
  team the server assigned. A constructor of a socket that throws leaves \<open>ConnectToServer\<close> by
  the exception. Reading a member of a deleted packet is a fault.
\<close>


record ServerConnector =
  cn_host :: string
  cn_tcpPort :: u32
  cn_udpPort :: u32
  cn_tcpSocket :: "Socket option"
  cn_udpSocket :: "Socket option"
  cn_tcpGet :: bool
  cn_udpGet :: bool
  cn_isConnected :: bool
  cn_playerID :: u32
  cn_team :: Team

definition new_ServerConnector :: "string \<Rightarrow> u32 \<Rightarrow> u32 \<Rightarrow> ServerConnector" where
  "new_ServerConnector host tcpPort udpPort =
     \<lparr>cn_host = host, cn_tcpPort = tcpPort, cn_udpPort = udpPort,
      cn_tcpSocket = None, cn_udpSocket = None, cn_tcpGet = False, cn_udpGet = False,
      cn_isConnected = False, cn_playerID = 0, cn_team = TEAM_MERC\<rparr>"

definition delete_socket_ptr :: "'w SDLNet \<Rightarrow> Socket option \<Rightarrow> 'w \<Rightarrow> 'w" where
  "delete_socket_ptr N sock w = (case sock of None \<Rightarrow> w | Some s \<Rightarrow> delete_Socket N s w)"

definition delete_ServerConnector :: "'w SDLNet \<Rightarrow> ServerConnector \<Rightarrow> 'w \<Rightarrow> 'w" where
  "delete_ServerConnector N cn w =
     (let w = (if \<not> cn_tcpGet cn then delete_socket_ptr N (cn_tcpSocket cn) w else w)
      in if \<not> cn_udpGet cn then delete_socket_ptr N (cn_udpSocket cn) w else w)"

definition CleanUpSockets :: "'w SDLNet \<Rightarrow> ServerConnector \<Rightarrow> 'w \<Rightarrow> ServerConnector \<times> 'w" where
  "CleanUpSockets N cn w =
     (let w = delete_socket_ptr N (cn_tcpSocket cn) w;
          w = delete_socket_ptr N (cn_udpSocket cn) w
      in (cn\<lparr>cn_tcpSocket := None, cn_udpSocket := None\<rparr>, w))"

subsection \<open>Connecting\<close>

text \<open>
  The inner loop of the wait: packets are read for as long as there is activity. The result is
  \<open>Some False\<close> when the server rejected the client and \<open>None\<close> when the loop ended; when it was
  accepted, the response is read after it has been deleted.
\<close>

partial_function (option) response_loop ::
    "'w SDLNet \<Rightarrow> ServerConnector \<Rightarrow> 'w \<Rightarrow> ((bool option \<times> ServerConnector) \<times> 'w) run" where
  "response_loop N cn w =
     (case cn_tcpSocket cn of
        None \<Rightarrow> Some (Inl NullDeref)
      | Some tcp \<Rightarrow>
          run_bind (Some (HasActivity N tcp w)) (\<lambda>(active, w).
          if \<not> active then Some (Inr ((None, cn), w))
          else
            run_bind (GetPacket N tcp w) (\<lambda>((packet, tcp), w).
            let cn = cn\<lparr>cn_tcpSocket := Some tcp\<rparr>
            in case packet of
                 None \<Rightarrow> Some (Inl NullDeref)
               | Some pkt \<Rightarrow>
                   run_bind (Some (GetPacketType HOST pkt)) (\<lambda>t.
                   if t = packet_code PACKET_JOIN_RESPONSE then
                     run_bind (Some (get_bool M_response pkt)) (\<lambda>response.
                     if \<not> response then
                       (case CleanUpSockets N cn w of (cn, w) \<Rightarrow> Some (Inr ((Some False, cn), w)))
                     else Some (Inl UseAfterFree))
                   else run_bind (Some (PacketTypeStr t)) (\<lambda>_. response_loop N cn w)))))"

text \<open>The wait: for less than ten seconds by the clock, sleeping 10 ms between the looks.\<close>

partial_function (option) wait_loop ::
    "'w SDLNet \<Rightarrow> int \<Rightarrow> ServerConnector \<Rightarrow> 'w \<Rightarrow> ((bool \<times> ServerConnector) \<times> 'w) run" where
  "wait_loop N start cn w =
     (case net_time N w of (now, w) \<Rightarrow>
        if now - start < 10 then
          run_bind (response_loop N cn w) (\<lambda>((res, cn), w).
            case res of
              Some r \<Rightarrow> Some (Inr ((r, cn), w))
            | None \<Rightarrow> wait_loop N start cn (net_usleep N w (10 * 1000)))
        else
          (case CleanUpSockets N cn w of (cn, w) \<Rightarrow> Some (Inr ((False, cn), w))))"

definition ConnectToServer ::
    "'w SDLNet \<Rightarrow> ServerConnector \<Rightarrow> 'w \<Rightarrow> ((bool \<times> ServerConnector) \<times> 'w) run" where
  "ConnectToServer N cn w =
     (if cn_isConnected cn then Some (Inr ((True, cn), w))
      else
        run_bind (Some (Socket_by_name N UDP (cn_host cn) (cn_udpPort cn) 0 w)) (\<lambda>(udp, w).
        run_bind (Some (SocketTCP N (cn_host cn) (cn_tcpPort cn) w)) (\<lambda>(tcp, w).
        let cn = cn\<lparr>cn_udpSocket := Some udp, cn_tcpSocket := Some tcp\<rparr>
        in if \<not> IsConnectionOpen tcp then
             (case CleanUpSockets N cn w of (cn, w) \<Rightarrow> Some (Inr ((False, cn), w)))
           else
             let pkt = set_dword HOST M_port (GetListenPortUDP udp) (JoinRequestPacket HOST)
             in run_bind (Some (SendPacket N tcp pkt w)) (\<lambda>(sent, w).
                if \<not> sent then
                  (case CleanUpSockets N cn w of (cn, w) \<Rightarrow> Some (Inr ((False, cn), w)))
                else
                  (case net_time N w of (start, w) \<Rightarrow> wait_loop N start cn w)))))"

subsection \<open>The getters\<close>

definition AssertIsConnected :: "string \<Rightarrow> ServerConnector \<Rightarrow> unit res" where
  "AssertIsConnected ctxt cn =
     (if \<not> cn_isConnected cn then Inl (Thrown (ctxt @ '': ServerConnector is not connected''))
      else Inr ())"

definition IsConnectedToServer :: "ServerConnector \<Rightarrow> bool" where
  "IsConnectedToServer cn = cn_isConnected cn"

text \<open>\<open>fn\<close> stands for the compiler's \<open>__PRETTY_FUNCTION__\<close>.\<close>

definition GetTCPSocket :: "string \<Rightarrow> ServerConnector \<Rightarrow> Socket option res" where
  "GetTCPSocket fn cn = rbind (AssertIsConnected fn cn) (\<lambda>_. Inr (cn_tcpSocket cn))"

definition GetUDPSocket :: "string \<Rightarrow> ServerConnector \<Rightarrow> Socket option res" where
  "GetUDPSocket fn cn = rbind (AssertIsConnected fn cn) (\<lambda>_. Inr (cn_udpSocket cn))"

definition Connector_GetPlayerID :: "string \<Rightarrow> ServerConnector \<Rightarrow> u32 res" where
  "Connector_GetPlayerID fn cn = rbind (AssertIsConnected fn cn) (\<lambda>_. Inr (cn_playerID cn))"

definition Connector_GetTeam :: "string \<Rightarrow> ServerConnector \<Rightarrow> Team res" where
  "Connector_GetTeam fn cn = rbind (AssertIsConnected fn cn) (\<lambda>_. Inr (cn_team cn))"

subsection \<open>The handshake\<close>

lemma CleanUpSockets_fst:
  "CleanUpSockets N cn w = (cn', w') \<Longrightarrow> cn' = cn\<lparr>cn_tcpSocket := None, cn_udpSocket := None\<rparr>"
  by (simp add: CleanUpSockets_def Let_def)

lemma CleanUpSockets_case:
  "(case CleanUpSockets N cn w of (cn, w) \<Rightarrow> Some (Inr ((False, cn), w)))
    = Some (Inr ((False, cn\<lparr>cn_tcpSocket := None, cn_udpSocket := None\<rparr>), snd (CleanUpSockets N cn w)))"
  by (simp add: CleanUpSockets_def Let_def)

text \<open>A look at a fresh socket ends well only when there is nothing to read.\<close>

lemma response_loop_fresh:
  assumes "cn_tcpSocket cn = Some tcp" and "s_pqueue tcp = []"
    and "response_loop N cn w = Some (Inr ((res, cn'), w'))"
  shows "res = None \<and> cn' = cn \<and> HasActivity N tcp w = Inr (False, w')"
proof -
  from assms(1,3) obtain active w1 where a: "HasActivity N tcp w = Inr (active, w1)"
    by (subst (asm) response_loop.simps) auto
  show ?thesis
  proof (cases active)
    case False
    with a assms show ?thesis by (subst (asm) response_loop.simps) simp
  next
    case True
    from True a assms(1,3) obtain p tcp2 w2 where got: "GetPacket N tcp w1 = Some (Inr ((p, tcp2), w2))"
      by (subst (asm) response_loop.simps) auto
    with GetPacket_returns_nothing [OF assms(2) got] True a assms(1,3) show ?thesis
      by (subst (asm) response_loop.simps) simp
  qed
qed

lemma wait_loop_fresh:
  assumes "wait_loop N start cn w = Some r"
  shows "cn_tcpSocket cn = Some tcp \<and> s_pqueue tcp = [] \<longrightarrow>
     (case r of Inl _ \<Rightarrow> True
      | Inr ((ok, cn'), _) \<Rightarrow> \<not> ok \<and> cn' = cn\<lparr>cn_tcpSocket := None, cn_udpSocket := None\<rparr>)"
proof (rule wait_loop.raw_induct [where P = "\<lambda>N start cn w r.
    cn_tcpSocket cn = Some tcp \<and> s_pqueue tcp = [] \<longrightarrow>
     (case r of Inl _ \<Rightarrow> True
      | Inr ((ok, cn'), _) \<Rightarrow> \<not> ok \<and> cn' = cn\<lparr>cn_tcpSocket := None, cn_udpSocket := None\<rparr>)",
    OF _ assms])
  fix f :: "'a SDLNet \<Rightarrow> int \<Rightarrow> ServerConnector \<Rightarrow> 'a \<Rightarrow> ((bool \<times> ServerConnector) \<times> 'a) run"
    and N start cn w r
  assume IH: "\<And>N start cn w r. f N start cn w = Some r \<Longrightarrow>
      cn_tcpSocket cn = Some tcp \<and> s_pqueue tcp = [] \<longrightarrow>
     (case r of Inl _ \<Rightarrow> True
      | Inr ((ok, cn'), _) \<Rightarrow> \<not> ok \<and> cn' = cn\<lparr>cn_tcpSocket := None, cn_udpSocket := None\<rparr>)"
    and eq: "(case net_time N w of (now, w) \<Rightarrow>
        if now - start < 10 then
          run_bind (response_loop N cn w) (\<lambda>((res, cn), w).
            case res of
              Some r \<Rightarrow> Some (Inr ((r, cn), w))
            | None \<Rightarrow> f N start cn (net_usleep N w (10 * 1000)))
        else
          (case CleanUpSockets N cn w of (cn, w) \<Rightarrow> Some (Inr ((False, cn), w)))) = Some r"
  show "cn_tcpSocket cn = Some tcp \<and> s_pqueue tcp = [] \<longrightarrow>
     (case r of Inl _ \<Rightarrow> True
      | Inr ((ok, cn'), _) \<Rightarrow> \<not> ok \<and> cn' = cn\<lparr>cn_tcpSocket := None, cn_udpSocket := None\<rparr>)"
  proof (intro impI, elim conjE)
    assume tcp: "cn_tcpSocket cn = Some tcp" "s_pqueue tcp = []"
    obtain now w1 where t: "net_time N w = (now, w1)" by fastforce
    show "case r of Inl _ \<Rightarrow> True
      | Inr ((ok, cn'), _) \<Rightarrow> \<not> ok \<and> cn' = cn\<lparr>cn_tcpSocket := None, cn_udpSocket := None\<rparr>"
    proof (cases r)
      case (Inr x)
      obtain ok cn' w' where x: "x = ((ok, cn'), w')" by (metis surj_pair)
      show ?thesis
      proof (cases "now - start < 10")
        case False
        with eq t Inr x show ?thesis by (auto split: prod.splits dest: CleanUpSockets_fst)
      next
        case True
        with eq t Inr obtain res cn2 w2 where rl: "response_loop N cn w1 = Some (Inr ((res, cn2), w2))"
          and rest: "(case res of Some r \<Rightarrow> Some (Inr ((r, cn2), w2))
             | None \<Rightarrow> f N start cn2 (net_usleep N w2 (10 * 1000))) = Some (Inr x)" by auto
        from response_loop_fresh [OF tcp rl] rest IH [of N start cn2 _ "Inr x"] tcp Inr
        show ?thesis by simp
      qed
    qed simp
  qed
qed

text \<open>So a connector that is not connected does not become connected.\<close>

lemma SocketTCP_fresh: "SocketTCP N h port w = Inr (s, w') \<Longrightarrow> fresh s"
  by (auto simp: SocketTCP_def Socket_by_name_def split: option.splits prod.splits dest: Init_fresh)

lemma ConnectToServer_result:
  assumes "\<not> cn_isConnected cn" and "ConnectToServer N cn w = Some (Inr ((r, cn'), w'))"
  shows "\<not> r \<and> cn' = cn\<lparr>cn_tcpSocket := None, cn_udpSocket := None\<rparr>"
proof -
  from assms obtain udp w1 tcp w2 where tcp: "SocketTCP N (cn_host cn) (cn_tcpPort cn) w1 = Inr (tcp, w2)"
    and rest: "(let cn = cn\<lparr>cn_udpSocket := Some udp, cn_tcpSocket := Some tcp\<rparr>
        in if \<not> IsConnectionOpen tcp then
             (case CleanUpSockets N cn w2 of (cn, w) \<Rightarrow> Some (Inr ((False, cn), w)))
           else
             let pkt = set_dword HOST M_port (GetListenPortUDP udp) (JoinRequestPacket HOST)
             in run_bind (Some (SendPacket N tcp pkt w2)) (\<lambda>(sent, w).
                if \<not> sent then
                  (case CleanUpSockets N cn w of (cn, w) \<Rightarrow> Some (Inr ((False, cn), w)))
                else
                  (case net_time N w of (start, w) \<Rightarrow> wait_loop N start cn w)))
      = Some (Inr ((r, cn'), w'))"
    unfolding ConnectToServer_def by (auto simp del: built_packets)
  let ?cn = "cn\<lparr>cn_udpSocket := Some udp, cn_tcpSocket := Some tcp\<rparr>"
  have q: "s_pqueue tcp = []" using SocketTCP_fresh [OF tcp] by (simp add: fresh_def)
  have clean: "cn'' = cn\<lparr>cn_tcpSocket := None, cn_udpSocket := None\<rparr>"
    if "CleanUpSockets N ?cn v = (cn'', v')" for v cn'' v'
    using CleanUpSockets_fst [OF that] by simp
  show ?thesis
  proof (cases "IsConnectionOpen tcp")
    case False
    with rest clean show ?thesis by (auto simp: Let_def split: prod.splits)
  next
    case True
    with rest obtain sent w3 where sent: "(if \<not> sent then
          (case CleanUpSockets N ?cn w3 of (cn, w) \<Rightarrow> Some (Inr ((False, cn), w)))
        else (case net_time N w3 of (start, w) \<Rightarrow> wait_loop N start ?cn w)) = Some (Inr ((r, cn'), w'))"
      by (auto simp: Let_def)
    show ?thesis
    proof (cases sent)
      case False
      with sent clean show ?thesis by (auto split: prod.splits)
    next
      case True
      with sent obtain start w4 where "wait_loop N start ?cn w4 = Some (Inr ((r, cn'), w'))"
        by (auto split: prod.splits)
      from wait_loop_fresh [OF this, of tcp] q show ?thesis by simp
    qed
  qed
qed

subsection \<open>Time-out\<close>

text \<open>
  The wait for a server that stays silent: it ends with a refusal after the first sleep that takes
  the clock ten seconds past the start, and not before; if no sleep does, it does not end.
\<close>

primrec slept :: "'w SDLNet \<Rightarrow> nat \<Rightarrow> 'w \<Rightarrow> 'w" where
  "slept N 0 w = w"
| "slept N (Suc n) w = slept N n (net_usleep N w 10000)"

lemma response_loop_quiet:
  assumes "cn_tcpSocket cn = Some tcp" and "HasActivity N tcp w = Inr (False, w)"
  shows "response_loop N cn w = Some (Inr ((None, cn), w))"
  by (subst response_loop.simps) (simp add: assms)

lemma wait_loop_waits:
  assumes tcp: "cn_tcpSocket cn = Some tcp" and quiet: "\<And>w. HasActivity N tcp w = Inr (False, w)"
    and clock: "\<And>w. net_time N w = (clock w, w)"
    and early: "\<forall>i < n. clock (slept N i w) < start + 10" and late: "start + 10 \<le> clock (slept N n w)"
  shows "wait_loop N start cn w = Some (Inr ((False, cn\<lparr>cn_tcpSocket := None, cn_udpSocket := None\<rparr>),
      snd (CleanUpSockets N cn (slept N n w))))"
  using early late
proof (induction n arbitrary: w)
  case 0
  then show ?case by (subst wait_loop.simps) (simp add: clock CleanUpSockets_def Let_def)
next
  case (Suc n)
  have now: "clock w < start + 10" using Suc.prems(1) by (auto dest: spec [of _ 0])
  have "clock (slept N i (net_usleep N w 10000)) < start + 10" if "i < n" for i
    using Suc.prems(1) that by (auto dest: spec [of _ "Suc i"])
  with Suc.IH [of "net_usleep N w 10000"] Suc.prems(2) now show ?case
    by (subst wait_loop.simps) (simp add: clock response_loop_quiet [OF tcp quiet])
qed

lemma wait_loop_stuck:
  assumes tcp: "cn_tcpSocket cn = Some tcp" and quiet: "\<And>w. HasActivity N tcp w = Inr (False, w)"
    and clock: "\<And>w. net_time N w = (clock w, w)"
    and early: "\<forall>i. clock (slept N i w) < start + 10"
  shows "wait_loop N start cn w = None"
proof (cases "wait_loop N start cn w")
  case (Some r)
  have "N = N \<and> cn = cn \<and> (\<forall>i. clock (slept N i w) < start + 10) \<longrightarrow> False"
  proof (rule wait_loop.raw_induct [where P = "\<lambda>N' start cn' w r.
      N' = N \<and> cn' = cn \<and> (\<forall>i. clock (slept N i w) < start + 10) \<longrightarrow> False", OF _ Some])
    fix f :: "'a SDLNet \<Rightarrow> int \<Rightarrow> ServerConnector \<Rightarrow> 'a \<Rightarrow> ((bool \<times> ServerConnector) \<times> 'a) run"
      and N' start cn' w r
    assume IH: "\<And>N' start cn' w r. f N' start cn' w = Some r \<Longrightarrow>
        N' = N \<and> cn' = cn \<and> (\<forall>i. clock (slept N i w) < start + 10) \<longrightarrow> False"
      and eq: "(case net_time N' w of (now, w) \<Rightarrow>
        if now - start < 10 then
          run_bind (response_loop N' cn' w) (\<lambda>((res, cn), w).
            case res of
              Some r \<Rightarrow> Some (Inr ((r, cn), w))
            | None \<Rightarrow> f N' start cn (net_usleep N' w (10 * 1000)))
        else
          (case CleanUpSockets N' cn' w of (cn, w) \<Rightarrow> Some (Inr ((False, cn), w)))) = Some r"
    show "N' = N \<and> cn' = cn \<and> (\<forall>i. clock (slept N i w) < start + 10) \<longrightarrow> False"
    proof (intro impI, elim conjE)
      assume same: "N' = N" "cn' = cn" and e: "\<forall>i. clock (slept N i w) < start + 10"
      have "clock w < start + 10" using e by (auto dest: spec [of _ 0])
      then have "f N start cn (net_usleep N w 10000) = Some r"
        using eq by (simp add: same clock response_loop_quiet [OF tcp quiet])
      from IH [OF this] e show False by (auto dest: spec [of _ "Suc i" for i])
    qed
  qed
  with early show ?thesis by blast
qed

lemma wait_loop_times_out:
  assumes tcp: "cn_tcpSocket cn = Some tcp" and quiet: "\<And>w. HasActivity N tcp w = Inr (False, w)"
    and clock: "\<And>w. net_time N w = (clock w, w)"
    and late: "start + 10 \<le> clock (slept N n w)"
  shows "\<exists>w'. wait_loop N start cn w
    = Some (Inr ((False, cn\<lparr>cn_tcpSocket := None, cn_udpSocket := None\<rparr>), w'))"
proof -
  let ?late = "\<lambda>n. start + 10 \<le> clock (slept N n w)"
  have "?late (LEAST n. ?late n)" using late by (rule LeastI)
  moreover have "\<forall>i < (LEAST n. ?late n). clock (slept N i w) < start + 10"
    using not_less_Least [of _ ?late] by (simp add: not_le)
  ultimately show ?thesis using wait_loop_waits [OF tcp quiet clock] by blast
qed

text \<open>A join request is what the server gets to see.\<close>

lemma ConnectToServer_request:
  assumes "\<not> cn_isConnected cn" and "Socket_by_name N UDP (cn_host cn) (cn_udpPort cn) 0 w = Inr (udp, w1)"
    and "SocketTCP N (cn_host cn) (cn_tcpPort cn) w1 = Inr (tcp, w2)"
  shows "ConnectToServer N cn w =
     run_bind (Some (SendPacket_bytes N tcp (encode (JoinRequest (s_udpListenPort udp))) w2)) (\<lambda>(sent, w).
       let cn = cn\<lparr>cn_udpSocket := Some udp, cn_tcpSocket := Some tcp\<rparr>
       in if \<not> sent then (case CleanUpSockets N cn w of (cn, w) \<Rightarrow> Some (Inr ((False, cn), w)))
          else (case net_time N w of (start, w) \<Rightarrow> wait_loop N start cn w))"
proof -
  have "fresh tcp" and "s_protocol tcp = TCP"
    using assms(3) by (auto simp: SocketTCP_def Socket_by_name_def split: option.splits prod.splits
        dest: Init_fresh)
  then have "IsConnectionOpen tcp" by (simp add: IsConnectionOpen_def fresh_def)
  then show ?thesis
    using assms by (simp add: ConnectToServer_def GetListenPortUDP_def SendPacket_packet_of Let_def)
qed

subsection \<open>What every use of a connector keeps\<close>

definition connector_start :: "ServerConnector \<Rightarrow> bool" where
  "connector_start cn \<longleftrightarrow> (\<exists>host tcpPort udpPort. cn = new_ServerConnector host tcpPort udpPort)"

inductive connector_step :: "'w SDLNet \<Rightarrow> ServerConnector \<Rightarrow> ServerConnector \<Rightarrow> bool" for N where
  connects: "ConnectToServer N cn w = Some (Inr ((r, cn'), w')) \<Longrightarrow> connector_step N cn cn'"

inductive_cases connector_stepE [elim!]: "connector_step N cn cn'"

definition connector_idle :: "ServerConnector \<Rightarrow> bool" where
  "connector_idle cn \<longleftrightarrow> \<not> cn_isConnected cn \<and> cn_tcpSocket cn = None \<and> cn_udpSocket cn = None
     \<and> \<not> cn_tcpGet cn \<and> \<not> cn_udpGet cn"

interpretation connector: inductive_invariant connector_start "connector_step N" connector_idle for N
proof unfold_locales
  show "connector_idle cn" if "connector_start cn" for cn
    using that by (auto simp: connector_start_def connector_idle_def new_ServerConnector_def)
  show "connector_idle cn'" if "connector_idle cn" "connector_step N cn cn'" for cn cn'
    using that ConnectToServer_result [of cn N] by (fastforce simp: connector_idle_def)
qed

text \<open>Whatever the getters handed out, the destructor deletes, because no getter sets its flag.\<close>

lemma delete_ServerConnector_deletes:
  "\<not> cn_tcpGet cn \<Longrightarrow> \<not> cn_udpGet cn \<Longrightarrow>
     delete_ServerConnector N cn w = snd (CleanUpSockets N cn w)"
  by (simp add: delete_ServerConnector_def CleanUpSockets_def)

end
