(* ===== verification/Listener.thy ===== *)
theory Listener
  imports SocketProps
begin

section \<open>The connection listener (server/ConnectionListener.h, server/ConnectionListener.cpp)\<close>

text \<open>
  A background thread accepts TCP connections and hands them to the server's thread through
  \<open>_newConnections\<close>, a vector guarded by a mutex. First the operations on the vector, then the
  two threads as an interleaving of their atomic actions.
\<close>

subsection \<open>A queue between a producer and a consumer\<close>

text \<open>
  What the server relies on: connections come out in the order they went in. \<open>take_many\<close> is a
  consumer that takes a number of elements.
\<close>

fun take_many :: "('q \<Rightarrow> 'a option \<times> 'q) \<Rightarrow> nat \<Rightarrow> 'q \<Rightarrow> 'a option list \<times> 'q" where
  "take_many deq 0 q = ([], q)"
| "take_many deq (Suc n) q =
     (let (x, q) = deq q; (xs, q) = take_many deq n q in (x # xs, q))"

locale fifo =
  fixes enq :: "'a \<Rightarrow> 'q \<Rightarrow> 'q"
    and deq :: "'q \<Rightarrow> 'a option \<times> 'q"
    and contents :: "'q \<Rightarrow> 'a list"
  assumes contents_enq: "contents (enq x q) = contents q @ [x]"
    and deq_empty: "contents q = [] \<Longrightarrow> deq q = (None, q)"
    and deq_front: "contents q = x # xs \<Longrightarrow> \<exists>q'. deq q = (Some x, q') \<and> contents q' = xs"
begin

lemma contents_enq_all: "contents (fold enq xs q) = contents q @ xs"
  by (induction xs arbitrary: q) (simp_all add: contents_enq)

lemma take_many_front:
  assumes "contents q = xs @ ys"
  shows "\<exists>q'. take_many deq (length xs) q = (map Some xs, q') \<and> contents q' = ys"
  using assms
proof (induction xs arbitrary: q)
  case (Cons x xs)
  then obtain q1 where "deq q = (Some x, q1)" and "contents q1 = xs @ ys"
    using deq_front [of q x "xs @ ys"] by auto
  with Cons.IH show ?case by fastforce
qed simp

lemma enq_then_take:
  assumes "contents q = []"
  shows "\<exists>q'. take_many deq (length xs) (fold enq xs q) = (map Some xs, q') \<and> contents q' = []"
  using assms by (intro take_many_front) (simp add: contents_enq_all)

end

subsection \<open>The operations of the listener\<close>

text \<open>A TCP socket pointer is \<open>None\<close> when null.\<close>

definition AddNewSocket :: "nat option \<Rightarrow> nat list \<Rightarrow> nat list" where
  "AddNewSocket sock newConnections =
     (case sock of None \<Rightarrow> newConnections | Some t \<Rightarrow> newConnections @ [t])"

definition HasNewConnection :: "nat list \<Rightarrow> bool" where
  "HasNewConnection newConnections = (let count = length newConnections in count > 0)"

text \<open>The critical section of \<open>GetNewSocket\<close>, and the whole function.\<close>

definition take_socket :: "nat list \<Rightarrow> nat option \<times> nat list" where
  "take_socket newConnections =
     (if length newConnections > 0 then (Some (newConnections ! 0), drop 1 newConnections)
      else (None, newConnections))"

definition GetNewSocket ::
    "'w SDLNet \<Rightarrow> nat list \<Rightarrow> 'w \<Rightarrow> ((Socket option \<times> nat list) \<times> 'w) res" where
  "GetNewSocket N newConnections w =
     (case take_socket newConnections of
        (None, q) \<Rightarrow> Inr ((None, q), w)
      | (Some t, q) \<Rightarrow> rbind (Socket_accepted N t w) (\<lambda>(s, w). Inr ((Some s, q), w)))"

interpretation connections: fifo "\<lambda>t. AddNewSocket (Some t)" take_socket "\<lambda>q. q"
proof unfold_locales
  fix t :: nat and q :: "nat list"
  show "AddNewSocket (Some t) q = q @ [t]" by (simp add: AddNewSocket_def)
next
  fix q :: "nat list" assume "q = []"
  then show "take_socket q = (None, q)" by (simp add: take_socket_def)
next
  fix q :: "nat list" and x xs assume "q = x # xs"
  then show "\<exists>q'. take_socket q = (Some x, q') \<and> q' = xs" by (simp add: take_socket_def)
qed

text \<open>
  The start of \<open>TcpLoop\<close>, before its loop: the listening socket. An exception here leaves the
  thread's function, so that the program is terminated; the interleavings below start after it.
\<close>

definition TcpLoop_open :: "'w SDLNet \<Rightarrow> 'w \<Rightarrow> (nat \<times> 'w) res" where
  "TcpLoop_open N w =
     (case net_ResolveAny N w (ucast TCP_SERVER_PORT) of
        (None, w) \<Rightarrow> Inl (Thrown (''SDLNet_ResolveHost() failed : '' @ net_GetError N w))
      | (Some ip, w) \<Rightarrow>
          (case net_TCP_Open N w ip of
             (None, w) \<Rightarrow> Inl (Thrown (''SDLNet_TCP_OPEN() failed: '' @ net_GetError N w))
           | (Some t, w) \<Rightarrow> Inr (t, w)))"

text \<open>The start ends in the loop or in an exception of its own, with the port of the server.\<close>

lemma TcpLoop_open_cases:
  "(\<exists>t w'. TcpLoop_open N w = Inr (t, w')) \<or> (\<exists>msg. TcpLoop_open N w = Inl (Thrown msg))"
  by (auto simp: TcpLoop_open_def split: prod.splits option.splits)

subsection \<open>The two threads\<close>

text \<open>
  The listener thread is at one of the points of \<open>TcpLoop\<close>: at the loop test, at the accept, in
  \<open>AddNewSocket\<close> before its lock, inside it before and after the \<open>push_back\<close>, asleep, or at its
  end. The server's thread is between calls, or at one of the points of \<open>HasNewConnection\<close> and
  \<open>GetNewSocket\<close>, or in the destructor, before and after the join.
\<close>

datatype thread = Listening | Serving

datatype listener_pc =
    L_test | L_accept | L_lock nat | L_push nat | L_unlock | L_sleep | L_end

datatype server_pc =
    S_idle
  | S_has_lock | S_has_size | S_has_unlock nat | S_has_return nat
  | S_get_lock | S_get_take | S_get_unlock "nat option" | S_get_return "nat option"
  | S_join | S_end

text \<open>\<open>ls_pushed\<close> and \<open>ls_taken\<close> record what went through the vector; no code reads them.\<close>

record Listener =
  ls_queue :: "nat list"
  ls_mutex :: "thread option"
  ls_abort :: bool
  ls_listener :: listener_pc
  ls_server :: server_pc
  ls_pushed :: "nat list"
  ls_taken :: "nat list"

definition ls_init :: "Listener \<Rightarrow> bool" where
  "ls_init l \<longleftrightarrow>
     l = \<lparr>ls_queue = [], ls_mutex = None, ls_abort = False, ls_listener = L_test,
          ls_server = S_idle, ls_pushed = [], ls_taken = []\<rparr>"

text \<open>The listener thread: \<open>TcpLoop\<close> with the \<open>AddNewSocket\<close> it calls back.\<close>

inductive tcp_loop_step :: "Listener \<Rightarrow> Listener \<Rightarrow> bool" where
  test_go: "ls_listener l = L_test \<Longrightarrow> \<not> ls_abort l \<Longrightarrow>
     tcp_loop_step l (l\<lparr>ls_listener := L_accept\<rparr>)"
| test_stop: "ls_listener l = L_test \<Longrightarrow> ls_abort l \<Longrightarrow>
     tcp_loop_step l (l\<lparr>ls_listener := L_end\<rparr>)"
| accept_none: "ls_listener l = L_accept \<Longrightarrow> tcp_loop_step l (l\<lparr>ls_listener := L_sleep\<rparr>)"
| accept_some: "ls_listener l = L_accept \<Longrightarrow> tcp_loop_step l (l\<lparr>ls_listener := L_lock t\<rparr>)"
| add_lock: "ls_listener l = L_lock t \<Longrightarrow> ls_mutex l = None \<Longrightarrow>
     tcp_loop_step l (l\<lparr>ls_listener := L_push t, ls_mutex := Some Listening\<rparr>)"
| add_push: "ls_listener l = L_push t \<Longrightarrow>
     tcp_loop_step l (l\<lparr>ls_listener := L_unlock, ls_queue := AddNewSocket (Some t) (ls_queue l),
                        ls_pushed := ls_pushed l @ [t]\<rparr>)"
| add_unlock: "ls_listener l = L_unlock \<Longrightarrow>
     tcp_loop_step l (l\<lparr>ls_listener := L_sleep, ls_mutex := None\<rparr>)"
| wake: "ls_listener l = L_sleep \<Longrightarrow> tcp_loop_step l (l\<lparr>ls_listener := L_test\<rparr>)"

text \<open>
  The server's thread, as \<open>HandleNewTCPConnections\<close> calls the listener: \<open>GetNewSocket\<close> only
  after \<open>HasNewConnection\<close> returned true. The destructor sets the abort flag and joins.
\<close>

inductive server_thread_step :: "Listener \<Rightarrow> Listener \<Rightarrow> bool" where
  has_call: "ls_server l = S_idle \<Longrightarrow> server_thread_step l (l\<lparr>ls_server := S_has_lock\<rparr>)"
| has_lock: "ls_server l = S_has_lock \<Longrightarrow> ls_mutex l = None \<Longrightarrow>
     server_thread_step l (l\<lparr>ls_server := S_has_size, ls_mutex := Some Serving\<rparr>)"
| has_size: "ls_server l = S_has_size \<Longrightarrow>
     server_thread_step l (l\<lparr>ls_server := S_has_unlock (length (ls_queue l))\<rparr>)"
| has_unlock: "ls_server l = S_has_unlock n \<Longrightarrow>
     server_thread_step l (l\<lparr>ls_server := S_has_return n, ls_mutex := None\<rparr>)"
| has_true: "ls_server l = S_has_return n \<Longrightarrow> n > 0 \<Longrightarrow>
     server_thread_step l (l\<lparr>ls_server := S_get_lock\<rparr>)"
| has_false: "ls_server l = S_has_return n \<Longrightarrow> \<not> n > 0 \<Longrightarrow>
     server_thread_step l (l\<lparr>ls_server := S_idle\<rparr>)"
| get_lock: "ls_server l = S_get_lock \<Longrightarrow> ls_mutex l = None \<Longrightarrow>
     server_thread_step l (l\<lparr>ls_server := S_get_take, ls_mutex := Some Serving\<rparr>)"
| get_take: "ls_server l = S_get_take \<Longrightarrow> take_socket (ls_queue l) = (r, q) \<Longrightarrow>
     server_thread_step l (l\<lparr>ls_server := S_get_unlock r, ls_queue := q,
       ls_taken := ls_taken l @ (case r of None \<Rightarrow> [] | Some t \<Rightarrow> [t])\<rparr>)"
| get_unlock: "ls_server l = S_get_unlock r \<Longrightarrow>
     server_thread_step l (l\<lparr>ls_server := S_get_return r, ls_mutex := None\<rparr>)"
| get_return: "ls_server l = S_get_return r \<Longrightarrow> server_thread_step l (l\<lparr>ls_server := S_has_lock\<rparr>)"
| destroy: "ls_server l = S_idle \<Longrightarrow>
     server_thread_step l (l\<lparr>ls_server := S_join, ls_abort := True\<rparr>)"
| join: "ls_server l = S_join \<Longrightarrow> ls_listener l = L_end \<Longrightarrow>
     server_thread_step l (l\<lparr>ls_server := S_end\<rparr>)"

inductive listener_step :: "Listener \<Rightarrow> Listener \<Rightarrow> bool" where
  listening: "tcp_loop_step l l' \<Longrightarrow> listener_step l l'"
| serving: "server_thread_step l l' \<Longrightarrow> listener_step l l'"

inductive_cases tcp_loop_stepE: "tcp_loop_step l l'"
inductive_cases server_thread_stepE: "server_thread_step l l'"
inductive_simps listener_step_iff: "listener_step l l'"

subsection \<open>The invariant\<close>

text \<open>The points at which a thread holds the mutex.\<close>

fun listener_inside :: "listener_pc \<Rightarrow> bool" where
  "listener_inside (L_push _) = True"
| "listener_inside L_unlock = True"
| "listener_inside _ = False"

fun server_inside :: "server_pc \<Rightarrow> bool" where
  "server_inside S_has_size = True"
| "server_inside (S_has_unlock _) = True"
| "server_inside S_get_take = True"
| "server_inside (S_get_unlock _) = True"
| "server_inside _ = False"

text \<open>What the server's thread knows of the vector at each point.\<close>

fun server_knows :: "server_pc \<Rightarrow> nat list \<Rightarrow> bool" where
  "server_knows (S_has_unlock n) q = (n \<le> length q)"
| "server_knows (S_has_return n) q = (n \<le> length q)"
| "server_knows S_get_lock q = (q \<noteq> [])"
| "server_knows S_get_take q = (q \<noteq> [])"
| "server_knows (S_get_unlock r) q = (r \<noteq> None)"
| "server_knows (S_get_return r) q = (r \<noteq> None)"
| "server_knows _ q = True"

definition listener_inv :: "Listener \<Rightarrow> bool" where
  "listener_inv l \<longleftrightarrow>
     (ls_mutex l = Some Listening \<longleftrightarrow> listener_inside (ls_listener l)) \<and>
     (ls_mutex l = Some Serving \<longleftrightarrow> server_inside (ls_server l)) \<and>
     ls_pushed l = ls_taken l @ ls_queue l \<and>
     server_knows (ls_server l) (ls_queue l) \<and>
     (ls_server l \<in> {S_join, S_end} \<longrightarrow> ls_abort l) \<and>
     (ls_listener l = L_end \<or> ls_server l = S_end \<longrightarrow> ls_abort l)"

lemma server_knows_append: "server_knows pc q \<Longrightarrow> server_knows pc (q @ [t])"
  by (cases pc) auto

lemma tcp_loop_step_inv: "tcp_loop_step l l' \<Longrightarrow> listener_inv l \<Longrightarrow> listener_inv l'"
  by (erule tcp_loop_stepE)
    (auto simp: listener_inv_def AddNewSocket_def server_knows_append)

lemma server_thread_step_inv: "server_thread_step l l' \<Longrightarrow> listener_inv l \<Longrightarrow> listener_inv l'"
  by (erule server_thread_stepE)
    (auto simp: listener_inv_def take_socket_def hd_conv_nth [symmetric] hd_Cons_tl drop_Suc split: if_splits)

interpretation listener: inductive_invariant ls_init listener_step listener_inv
proof unfold_locales
  show "listener_inv l" if "ls_init l" for l
    using that by (simp add: ls_init_def listener_inv_def)
  show "listener_inv l'" if "listener_inv l" "listener_step l l'" for l l'
    using that by (auto simp: listener_step_iff intro: tcp_loop_step_inv server_thread_step_inv)
qed

text \<open>Some thread can move, unless the destructor has joined the listener thread.\<close>

lemma server_thread_moves:
  assumes "ls_server l \<notin> {S_join, S_end}" and "ls_mutex l = None \<or> server_inside (ls_server l)"
  shows "\<exists>l'. server_thread_step l l'"
proof (cases "ls_server l")
  case (S_has_return n)
  then show ?thesis by (cases "n > 0") (auto intro: server_thread_step.intros)
next
  case S_get_take
  then show ?thesis by (cases "take_socket (ls_queue l)") (auto intro: server_thread_step.intros)
qed (use assms in \<open>auto intro: server_thread_step.intros\<close>)

lemma listener_thread_moves:
  assumes "ls_listener l \<noteq> L_end" and "ls_mutex l = None \<or> (\<forall>t. ls_listener l \<noteq> L_lock t)"
  shows "\<exists>l'. tcp_loop_step l l'"
  using assms by (cases "ls_listener l"; cases "ls_abort l") (auto intro: tcp_loop_step.intros)

lemma mutex_free_or_inside:
  assumes "listener_inv l"
  shows "ls_mutex l = None \<or> listener_inside (ls_listener l) \<or> server_inside (ls_server l)"
proof (cases "ls_mutex l")
  case (Some y)
  with assms show ?thesis by (cases y) (auto simp: listener_inv_def)
qed simp

lemma listener_progress:
  assumes inv: "listener_inv l" and "ls_server l \<noteq> S_end"
  shows "\<exists>l'. listener_step l l'"
proof (cases "ls_listener l = L_end")
  case False
  show ?thesis
  proof (cases "ls_mutex l = None \<or> (\<forall>t. ls_listener l \<noteq> L_lock t)")
    case True
    with False show ?thesis
      using listener_thread_moves [of l] by (auto simp: listener_step_iff)
  next
    case False
    with mutex_free_or_inside [OF inv] have "server_inside (ls_server l)" by auto
    then have "ls_server l \<notin> {S_join, S_end}" by auto
    with \<open>server_inside (ls_server l)\<close> show ?thesis
      using server_thread_moves [of l] by (auto simp: listener_step_iff)
  qed
next
  case True
  show ?thesis
  proof (cases "ls_server l = S_join")
    case False
    with True mutex_free_or_inside [OF inv] assms(2) show ?thesis
      using server_thread_moves [of l] by (auto simp: listener_step_iff)
  next
    case join: True
    with True show ?thesis by (auto simp: listener_step_iff intro: server_thread_step.join)
  qed
qed

text \<open>
  Once the destructor waits in its join, every further step brings the listener thread closer to
  its end: at most a round of the loop is left.
\<close>

fun listener_rank :: "listener_pc \<Rightarrow> nat" where
  "listener_rank L_accept = 6"
| "listener_rank (L_lock _) = 5"
| "listener_rank (L_push _) = 4"
| "listener_rank L_unlock = 3"
| "listener_rank L_sleep = 2"
| "listener_rank L_test = 1"
| "listener_rank L_end = 0"

lemma join_step:
  assumes "listener_step l l'" and "ls_server l = S_join" and "ls_abort l"
  shows "ls_server l' = S_end \<or>
     ls_server l' = S_join \<and> ls_abort l' \<and> listener_rank (ls_listener l') < listener_rank (ls_listener l)"
  using assms by (auto simp: listener_step_iff elim!: tcp_loop_stepE server_thread_stepE)

text \<open>A run of \<open>n\<close> steps.\<close>

inductive listener_run :: "nat \<Rightarrow> Listener \<Rightarrow> Listener \<Rightarrow> bool" where
  run_0: "listener_run 0 l l"
| run_Suc: "listener_run n l l' \<Longrightarrow> listener_step l' l'' \<Longrightarrow> listener_run (Suc n) l l''"

lemma listener_run_inv: "listener_run n l l' \<Longrightarrow> listener_inv l \<Longrightarrow> listener_inv l'"
  by (induction rule: listener_run.induct) (auto intro: listener.inv_step)

lemma S_end_stays:
  "listener_step l l' \<Longrightarrow> ls_server l = S_end \<Longrightarrow> ls_server l' = S_end"
  by (auto simp: listener_step_iff elim!: tcp_loop_stepE server_thread_stepE)

lemma join_run:
  assumes "listener_run n l l'" and "ls_server l = S_join" and "ls_abort l"
  shows "ls_server l' = S_end \<or> ls_server l' = S_join \<and> ls_abort l' \<and>
     n + listener_rank (ls_listener l') \<le> listener_rank (ls_listener l)"
  using assms
proof (induction rule: listener_run.induct)
  case (run_Suc n l l' l'')
  then show ?case using join_step [OF run_Suc(2)] S_end_stays [OF run_Suc(2)] by auto
qed simp

lemma listener_rank_bound: "listener_rank pc \<le> 6"
  by (cases pc) auto

end
