(* ===== verification/ScriptNet.thy ===== *)
theory ScriptNet
  imports Net
begin

section \<open>A scripted network\<close>

text \<open>
  An instance of the network library for concrete runs: what arrives is a script of receive
  results, everything opened succeeds with number 0, what is sent is recorded, and every sleep
  advances the clock by a second.
\<close>

record Script =
  sc_incoming :: "u8 list option list"
  sc_arrivals :: "nat list"
  sc_sent :: "u8 list list"
  sc_clock :: int

definition script :: "u8 list option list \<Rightarrow> nat list \<Rightarrow> Script" where
  "script incoming arrivals =
     \<lparr>sc_incoming = incoming, sc_arrivals = arrivals, sc_sent = [], sc_clock = 0\<rparr>"

definition script_recv :: "nat \<Rightarrow> Script \<Rightarrow> u8 list option \<times> Script" where
  "script_recv n w =
     (case sc_incoming w of
        [] \<Rightarrow> (Some [], w)
      | r # rs \<Rightarrow> (map_option (take n) r, w\<lparr>sc_incoming := rs\<rparr>))"

definition localhost :: IPaddress where
  "localhost = \<lparr>ip_host = 0x0100007F, ip_port = 43720\<rparr>"

definition scripted :: "Script SDLNet" where
  "scripted =
     \<lparr>net_ResolveHost = (\<lambda>w _ port. (Some (localhost\<lparr>ip_port := port\<rparr>), w)),
      net_AllocSocketSet = (\<lambda>w. (Some 0, w)),
      net_FreeSocketSet = (\<lambda>w _. w),
      net_AddSocket = (\<lambda>w _ _. (1, w)),
      net_CheckSockets = (\<lambda>w _. (if sc_incoming w = [] then 0 else 1, w)),
      net_SocketReady = (\<lambda>w _. True),
      net_TCP_Open = (\<lambda>w _. (Some 0, w)),
      net_TCP_Accept = (\<lambda>w _. (None, w)),
      net_TCP_GetPeerAddress = (\<lambda>w _. Some localhost),
      net_TCP_Send = (\<lambda>w _ bs. (int (length bs), w\<lparr>sc_sent := sc_sent w @ [bs]\<rparr>)),
      net_TCP_Recv = (\<lambda>w _ n. script_recv n w),
      net_UDP_Open = (\<lambda>w _. (Some 0, w)),
      net_UDP_GetPeerAddress = (\<lambda>w _. Some localhost),
      net_UDP_Bind = (\<lambda>w _ _. (0, w)),
      net_UDP_Send = (\<lambda>w _ _ bs. (1, w\<lparr>sc_sent := sc_sent w @ [bs]\<rparr>)),
      net_AllocPacket = (\<lambda>w. (0, w)),
      net_FreePacket = (\<lambda>w _. w),
      net_UDP_Recv = (\<lambda>w _ _. (case script_recv 1024 w of
         (None, w) \<Rightarrow> ((-1, []), w) | (Some bs, w) \<Rightarrow> ((if bs = [] then 0 else 1, bs), w))),
      net_Arrivals = (\<lambda>w. (sc_arrivals w, w\<lparr>sc_arrivals := []\<rparr>)),
      net_time = (\<lambda>w. (sc_clock w, w)),
      net_usleep = (\<lambda>w _. w\<lparr>sc_clock := sc_clock w + 1\<rparr>),
      net_ResolveAny = (\<lambda>w port. (Some (localhost\<lparr>ip_port := port\<rparr>), w)),
      net_GetError = (\<lambda>w. [])\<rparr>"

lemma scripted_simps [simp]:
  "net_ResolveHost scripted w h port = (Some (localhost\<lparr>ip_port := port\<rparr>), w)"
  "net_AllocSocketSet scripted w = (Some 0, w)"
  "net_FreeSocketSet scripted w st = w"
  "net_AddSocket scripted w st sock = (1, w)"
  "net_CheckSockets scripted w st = (if sc_incoming w = [] then 0 else 1, w)"
  "net_SocketReady scripted w sock = True"
  "net_TCP_Open scripted w ip = (Some 0, w)"
  "net_TCP_GetPeerAddress scripted w t = Some localhost"
  "net_TCP_Send scripted w t bs = (int (length bs), w\<lparr>sc_sent := sc_sent w @ [bs]\<rparr>)"
  "net_TCP_Recv scripted w t n = script_recv n w"
  "net_UDP_Open scripted w p = (Some 0, w)"
  "net_UDP_GetPeerAddress scripted w u = Some localhost"
  "net_UDP_Bind scripted w u ip = (0, w)"
  "net_UDP_Send scripted w u ip bs = (1, w\<lparr>sc_sent := sc_sent w @ [bs]\<rparr>)"
  "net_Arrivals scripted w = (sc_arrivals w, w\<lparr>sc_arrivals := []\<rparr>)"
  "net_time scripted w = (sc_clock w, w)"
  "net_usleep scripted w k = w\<lparr>sc_clock := sc_clock w + 1\<rparr>"
  by (simp_all add: scripted_def)

lemma script_recv_Cons [simp]:
  "script_recv n (script (r # rs) as) = (map_option (take n) r, script rs as)"
  by (simp add: script_recv_def script_def)

lemma script_recv_Nil [simp]: "script_recv n (script [] as) = (Some [], script [] as)"
  by (simp add: script_recv_def script_def)

lemma script_simps [simp]:
  "sc_incoming (script rs as) = rs" "sc_arrivals (script rs as) = as"
  "sc_sent (script rs as) = []" "sc_clock (script rs as) = 0"
  by (simp_all add: script_def)

lemma recv_bounded_scripted [simp]: "recv_bounded scripted"
  by (auto simp: recv_bounded_def script_recv_def split: list.split option.split)

end
