(* ===== verification/NetTheorems.thy ===== *)
theory NetTheorems
  imports ClientConnector Listener ScriptNet
begin

section \<open>Properties of sockets, of the listener thread and of the handshake\<close>

text \<open>
  The properties of \<open>Socket\<close>, of \<open>ConnectionListener\<close> with its two threads, and of
  \<open>ServerConnector\<close>. The concrete instances run on the scripted network.
\<close>

text \<open>An open TCP socket of the scripted network.\<close>

definition tcp0 :: Socket where
  "tcp0 = \<lparr>s_set = Some 0, s_protocol = TCP, s_pqueue = [], s_udpListenPort = 0,
           s_hostname = GetOctalIP (ip_host localhost), s_tcp = Some 0, s_udp = None,
           s_ip = localhost, s_tcpDisconnect = False\<rparr>"

lemma tcp0_accepted: "Socket_accepted scripted 0 w = Inr (tcp0, w)"
  by (simp add: Socket_accepted_def scripted_def CreateSocketSet_def AddToSet_def blank_Socket_def
      tcp0_def)

lemma tcp0_created: "socket_created scripted tcp0"
  by (rule socket_created.intros(3) [OF tcp0_accepted])

lemma tcp0_simps [simp]:
  "s_pqueue tcp0 = []" "s_protocol tcp0 = TCP" "s_tcp tcp0 = Some 0" "s_set tcp0 = Some 0"
  by (simp_all add: tcp0_def)

lemma tcp0_active: "sc_incoming w \<noteq> [] \<Longrightarrow> HasActivity scripted tcp0 w = Inr (True, w)"
  by (simp add: HasActivity_def scripted_def)

text \<open>
  C17 The receive buffer of \<open>GetData\<close> on a TCP socket, for a network that hands over no more than
  it is asked for. Less than 128 bytes are returned with their number. After exactly 128 the
  buffer is doubled but written at 256, its end: a second non-empty read is out of bounds, and
  when there is none, 256 is returned as the length of 128 received bytes. An error of the first
  read is returned as the length -1. In every case the loop ends.
\<close>

theorem GetData_buffer:
  assumes "s_protocol s = TCP" and "s_tcp s = Some t" and "recv_bounded N"
  shows "GetData N s w =
     (case net_TCP_Recv N w t 128 of
        (None, w1) \<Rightarrow> Some (Inr ((Some (replicate 128 Uninit), -1, None), w1))
      | (Some bs, w1) \<Rightarrow>
          if length bs < 128
          then Some (Inr ((Some (map Byte bs @ replicate (128 - length bs) Uninit),
                           int (length bs), None), w1))
          else (case net_TCP_Recv N w1 t 256 of
                  (Some (_ # _), w2) \<Rightarrow> Some (Inl OutOfBounds)
                | (_, w2) \<Rightarrow> Some (Inr ((Some (map Byte bs @ replicate 128 Uninit), 256, None), w2))))"
  by (rule GetData_TCP [OF assms])

theorem GetData_buffer_witness:
  "GetData scripted tcp0 (script [Some (replicate 128 1), Some [7]] []) = Some (Inl OutOfBounds)"
  using GetData_buffer [of tcp0 0 scripted "script [Some (replicate 128 1), Some [7]] []"]
  by simp

text \<open>
  C1 A complete packet of a registered class never gets out of \<open>GetPacket\<close>: \<open>ReadPacket\<close> leaves
  the length 0, so the packet loop reads the same packet again for ever, whatever follows it and
  whichever socket it came from.
\<close>

theorem GetPacket_diverges:
  assumes "s_pqueue s = []" and "HasActivity N s w = Inr (True, w1)"
    and "GetData N s w1 = Some (Inr ((Some (map Byte (encode m) @ rest), len, u), w2))"
    and "0 < len" and "registered m"
  shows "GetPacket N s w = None"
  using assms by (rule GetPacket_hangs)

theorem GetPacket_diverges_witness:
  "GetPacket scripted tcp0 (script [Some [1, 0, 0, 0, 9]] []) = None"
proof -
  have enc: "[1, 0, 0, 0, 9] = encode (JoinRequest 9)"
    by (simp add: encode_def wire_simps net_bytes_def byte_of_def)
  have data: "GetData scripted tcp0 (script [Some (encode (JoinRequest 9))] [])
      = Some (Inr ((Some (map Byte (encode (JoinRequest 9)) @ replicate 123 Uninit), 5, None), script [] []))"
    by (subst GetData_TCP [of _ 0])
      (simp_all add: enc [symmetric])
  show ?thesis
    unfolding enc
    by (rule GetPacket_diverges [OF _ tcp0_active data]) simp_all
qed

text \<open>
  C2 No packet is ever delivered: on every socket that a constructor returned, however often it
  has been used, a \<open>GetPacket\<close> that returns returns null.
\<close>

theorem GetPacket_never_delivers:
  assumes "reach (socket_created N) (socket_used N) s"
    and "GetPacket N s w = Some (Inr ((r, s'), w'))"
  shows "r = None"
  using socket_queue.inv_reach [OF assms(1)] GetPacket_returns_nothing [of s N w r s' w'] assms(2)
  by blast

theorem GetPacket_never_delivers_witness:
  "\<exists>r. GetPacket scripted tcp0 (script [Some [5]] []) = Some (Inr ((r, tcp0), script [] [])) \<and> r = None"
proof -
  have data: "GetData scripted tcp0 (script [Some [5]] [])
      = Some (Inr ((Some (map Byte [5] @ replicate 127 Uninit), 1, None), script [] []))"
    by (subst GetData_TCP [of _ 0]) simp_all
  have "GetPacket scripted tcp0 (script [Some [5]] []) = Some (Inr ((None, tcp0), script [] []))"
    by (subst GetPacket_data [OF _ tcp0_active data])
      (simp_all add: ReadPacket_unregistered wire_simps)
  moreover from GetPacket_never_delivers [OF reach_init [of "socket_created scripted"] this]
  have "(None :: Packet option) = None" using tcp0_created by blast
  ultimately show ?thesis by blast
qed

text \<open>
  \<open>SendPacket\<close> of a packet hands exactly the bytes of the message to the network, and reports
  a failure only for a result of 0: a TCP send that got rid of some of the bytes, or of none
  with a negative result, counts as success.
\<close>

theorem SendPacket_success:
  assumes "s_protocol s = TCP" and "s_tcp s = Some t"
  shows "SendPacket N s (packet_of HOST m) w =
     (case net_TCP_Send N w t (encode m) of (sent, w') \<Rightarrow> Inr (sent \<noteq> 0, w'))"
  using assms by (simp add: SendPacket_packet_of SendPacket_bytes_TCP)

theorem SendPacket_success_witness:
  "SendPacket (scripted\<lparr>net_TCP_Send := \<lambda>w _ _. (-1, w)\<rparr>) tcp0 (packet_of HOST ServerShutdown) (script [] [])
     = Inr (True, script [] [])"
  using SendPacket_success [of tcp0 0 "scripted\<lparr>net_TCP_Send := \<lambda>w _ _. (-1, w)\<rparr>" ServerShutdown]
  by simp

subsection \<open>The listener thread\<close>

text \<open>A run of the two threads to the point where a connection is being pushed.\<close>

definition pushing :: Listener where
  "pushing = \<lparr>ls_queue = [], ls_mutex = Some Listening, ls_abort = False, ls_listener = L_push 7,
              ls_server = S_has_lock, ls_pushed = [], ls_taken = []\<rparr>"

lemma pushing_reached: "reach ls_init listener_step pushing"
proof -
  let ?l = "\<lambda>pc m. \<lparr>ls_queue = [], ls_mutex = m, ls_abort = False, ls_listener = pc,
              ls_server = S_idle, ls_pushed = [], ls_taken = []\<rparr>"
  have s: "reach ls_init listener_step l'" if "reach ls_init listener_step l" "tcp_loop_step l l'" for l l'
    using that by (blast intro: reach_step listening)
  have "reach ls_init listener_step (?l L_test None)" by (rule reach_init) (simp add: ls_init_def)
  then have "reach ls_init listener_step (?l L_accept None)"
    by (rule s) (use test_go [of "?l L_test None"] in simp)
  then have "reach ls_init listener_step (?l (L_lock 7) None)"
    by (rule s) (use accept_some [of "?l L_accept None" 7] in simp)
  then have r: "reach ls_init listener_step (?l (L_push 7) (Some Listening))"
    by (rule s) (use add_lock [of "?l (L_lock 7) None" 7] in simp)
  have "server_thread_step (?l (L_push 7) (Some Listening)) pushing"
    using has_call [of "?l (L_push 7) (Some Listening)"] by (simp add: pushing_def)
  with r show ?thesis by (blast intro: reach_step serving)
qed

text \<open>
  C6 The two threads of the server, in every interleaving: they are never both inside the
  mutex; the connections accepted are those already handed to the server, in order, followed by
  those that wait; and when \<open>GetNewSocket\<close> is called after \<open>HasNewConnection\<close> returned true, it
  returns a connection and not null.
\<close>

theorem listener_safe:
  assumes "reach ls_init listener_step l"
  shows "\<not> (listener_inside (ls_listener l) \<and> server_inside (ls_server l))
     \<and> ls_pushed l = ls_taken l @ ls_queue l
     \<and> ls_server l \<noteq> S_get_return None"
  using listener.inv_reach [OF assms] by (auto simp: listener_inv_def)

theorem listener_safe_witness:
  "\<not> (listener_inside (ls_listener pushing) \<and> server_inside (ls_server pushing))
     \<and> ls_pushed pushing = ls_taken pushing @ ls_queue pushing"
  using listener_safe [OF pushing_reached] by simp

text \<open>
  C32 Neither thread is ever stuck before the destructor has finished: in every reachable state
  some thread can take a step. Once the destructor waits for the listener thread, it waits for
  six steps at most, in every interleaving.
\<close>

theorem destructor_joins:
  assumes "reach ls_init listener_step l"
  shows "(ls_server l = S_end \<or> (\<exists>l'. listener_step l l')) \<and>
     (ls_server l = S_join \<longrightarrow> (\<forall>n l'. listener_run n l l' \<and> 6 < n \<longrightarrow> ls_server l' = S_end))"
proof -
  have inv: "listener_inv l" by (rule listener.inv_reach [OF assms])
  have "ls_server l' = S_end" if "ls_server l = S_join" "listener_run n l l'" "6 < n" for n l'
  proof -
    from inv that(1) have "ls_abort l" by (auto simp: listener_inv_def)
    from join_run [OF that(2,1) this] that(3) listener_rank_bound [of "ls_listener l"]
    show ?thesis by auto
  qed
  with listener_progress [OF inv] show ?thesis by blast
qed

theorem destructor_joins_witness:
  "\<exists>l'. listener_step pushing l'"
  using destructor_joins [OF pushing_reached] by (simp add: pushing_def)

subsection \<open>The handshake\<close>

text \<open>The scripted network with nothing to read, and the sockets a connector opens on it.\<close>

definition silent :: "Script SDLNet" where
  "silent = scripted\<lparr>net_CheckSockets := \<lambda>w _. (0, w)\<rparr>"

definition udp1 :: Socket where
  "udp1 = \<lparr>s_set = Some 0, s_protocol = UDP, s_pqueue = [], s_udpListenPort = 43720,
           s_hostname = ''srv'', s_tcp = None, s_udp = Some 0, s_ip = localhost, s_tcpDisconnect = False\<rparr>"

definition tcp1 :: Socket where
  "tcp1 = \<lparr>s_set = Some 0, s_protocol = TCP, s_pqueue = [], s_udpListenPort = 0,
           s_hostname = ''srv'', s_tcp = Some 0, s_udp = None, s_ip = localhost, s_tcpDisconnect = False\<rparr>"

lemma silent_sockets:
  "Socket_by_name silent UDP ''srv'' 43720 0 w = Inr (udp1, w)"
  "SocketTCP silent ''srv'' 43720 w = Inr (tcp1, w)"
  "SendPacket_bytes silent tcp1 bs w = Inr (bs \<noteq> [], w\<lparr>sc_sent := sc_sent w @ [bs]\<rparr>)"
  "HasActivity silent tcp1 w = Inr (False, w)"
  "net_time silent w = (sc_clock w, w)"
  by (simp_all add: silent_def Socket_by_name_def SocketTCP_def Init_def Init_UDP_def Init_TCP_def
      CreateSocketSet_def CreateUDP_def ConnectTCP_def AddToSet_def blank_Socket_def udp1_def tcp1_def
      localhost_def SendPacket_bytes_def HasActivity_def)

lemma silent_clock: "sc_clock (slept silent n w) = sc_clock w + int n" "sc_sent (slept silent n w) = sc_sent w"
  by (induction n arbitrary: w) (simp_all add: silent_def)

text \<open>
  C19 A client never joins: a \<open>ConnectToServer\<close> of a connector that is not connected, if it
  returns, returns false, and leaves the connector as it was, without sockets. (A rejection is
  never seen either: the only normal way out is the time-out or a failed send.)
\<close>

theorem ConnectToServer_never_joins:
  assumes "\<not> cn_isConnected cn" and "ConnectToServer N cn w = Some (Inr ((r, cn'), w'))"
  shows "\<not> r \<and> cn' = cn\<lparr>cn_tcpSocket := None, cn_udpSocket := None\<rparr>"
  using assms by (rule ConnectToServer_result)

theorem ConnectToServer_never_joins_witness:
  "\<exists>r w'. ConnectToServer silent (new_ServerConnector ''srv'' 43720 43720) (script [] [])
      = Some (Inr ((r, new_ServerConnector ''srv'' 43720 43720), w')) \<and> \<not> r"
proof -
  let ?cn = "new_ServerConnector ''srv'' 43720 43720"
  let ?cn2 = "?cn\<lparr>cn_udpSocket := Some udp1, cn_tcpSocket := Some tcp1\<rparr>"
  have cn: "cn_host ?cn = ''srv''" "cn_udpPort ?cn = 43720" "cn_tcpPort ?cn = 43720"
    "\<not> cn_isConnected ?cn" "?cn2\<lparr>cn_tcpSocket := None, cn_udpSocket := None\<rparr> = ?cn"
    by (simp_all add: new_ServerConnector_def)
  have t: "\<exists>w'. wait_loop silent 0 ?cn2 w
      = Some (Inr ((False, ?cn2\<lparr>cn_tcpSocket := None, cn_udpSocket := None\<rparr>), w'))" if "sc_clock w = 0" for w
    using that by (intro wait_loop_times_out [where tcp = tcp1 and clock = sc_clock and n = 10])
      (simp_all add: silent_sockets silent_clock)
  have "ConnectToServer silent ?cn (script [] []) = wait_loop silent 0 ?cn2
      ((script [] [])\<lparr>sc_sent := [encode (JoinRequest (s_udpListenPort udp1))]\<rparr>)"
    using ConnectToServer_request [OF cn(4), of silent "script [] []" udp1 "script [] []" tcp1 "script [] []"]
    by (simp add: cn(1-3) silent_sockets)
  with t have "\<exists>w'. ConnectToServer silent ?cn (script [] []) = Some (Inr ((False, ?cn), w'))"
    by (simp only: cn(5)) simp
  then obtain r w' where run: "ConnectToServer silent ?cn (script [] []) = Some (Inr ((r, ?cn), w'))"
    by blast
  with ConnectToServer_never_joins [OF cn(4) run] show ?thesis by blast
qed

text \<open>
  C40 The wait for a silent server. If nothing ever arrives, \<open>ConnectToServer\<close> sends one join
  request with its UDP port; when that fails it returns false at once, and when it raises an error
  so does the function. Otherwise it sends nothing more and sleeps 10 ms at a time: it returns false
  after the first sleep with which ten seconds have passed by the clock since the request, and not
  before, with both sockets deleted; with a clock that never gets there it does not return.
\<close>

theorem ConnectToServer_times_out:
  assumes cn: "\<not> cn_isConnected cn"
    and udp: "Socket_by_name N UDP (cn_host cn) (cn_udpPort cn) 0 w = Inr (udp, w1)"
    and tcp: "SocketTCP N (cn_host cn) (cn_tcpPort cn) w1 = Inr (tcp, w2)"
    and quiet: "\<And>w. HasActivity N tcp w = Inr (False, w)"
    and clock: "\<And>w. net_time N w = (clock w, w)"
  shows "let cn2 = cn\<lparr>cn_udpSocket := Some udp, cn_tcpSocket := Some tcp\<rparr>;
      refused = (\<lambda>w. Some (Inr ((False, cn\<lparr>cn_tcpSocket := None, cn_udpSocket := None\<rparr>),
                                snd (CleanUpSockets N cn2 w))))
    in case SendPacket_bytes N tcp (encode (JoinRequest (s_udpListenPort udp))) w2 of
         Inl e \<Rightarrow> ConnectToServer N cn w = Some (Inl e)
       | Inr (False, w3) \<Rightarrow> ConnectToServer N cn w = refused w3
       | Inr (True, w3) \<Rightarrow>
           (\<forall>n. (\<forall>i < n. clock (slept N i w3) < clock w3 + 10) \<longrightarrow> clock w3 + 10 \<le> clock (slept N n w3) \<longrightarrow>
                ConnectToServer N cn w = refused (slept N n w3)) \<and>
           ((\<forall>i. clock (slept N i w3) < clock w3 + 10) \<longrightarrow> ConnectToServer N cn w = None)"
proof -
  let ?cn = "cn\<lparr>cn_udpSocket := Some udp, cn_tcpSocket := Some tcp\<rparr>"
  have t: "cn_tcpSocket ?cn = Some tcp" by simp
  note waits = wait_loop_waits [where N = N and cn = ?cn and tcp = tcp and clock = clock, OF t quiet clock]
    and stuck = wait_loop_stuck [where N = N and cn = ?cn and tcp = tcp and clock = clock, OF t quiet clock]
  show ?thesis
    using waits stuck
    by (auto simp: ConnectToServer_request [OF cn udp tcp] clock CleanUpSockets_case Let_def split: sum.split bool.split)
qed

theorem ConnectToServer_times_out_witness:
  "\<exists>w'. ConnectToServer silent (new_ServerConnector ''srv'' 43720 43720) (script [] [])
      = Some (Inr ((False, new_ServerConnector ''srv'' 43720 43720), w')) \<and>
     sc_clock w' = 10 \<and> sc_sent w' = [encode (JoinRequest (s_udpListenPort udp1))]"
proof -
  let ?cn = "new_ServerConnector ''srv'' 43720 43720"
  let ?w = "(script [] [])\<lparr>sc_sent := [encode (JoinRequest (s_udpListenPort udp1))]\<rparr>"
  let ?cn2 = "?cn\<lparr>cn_udpSocket := Some udp1, cn_tcpSocket := Some tcp1\<rparr>"
  have cn: "cn_host ?cn = ''srv''" "cn_udpPort ?cn = 43720" "cn_tcpPort ?cn = 43720"
    "\<not> cn_isConnected ?cn" "?cn\<lparr>cn_tcpSocket := None, cn_udpSocket := None\<rparr> = ?cn"
    by (simp_all add: new_ServerConnector_def)
  have s: "SendPacket_bytes silent tcp1 (encode (JoinRequest (s_udpListenPort udp1))) (script [] []) = Inr (True, ?w)"
    by (simp add: silent_sockets)
  have t: "ConnectToServer silent ?cn (script [] []) = Some (Inr ((False, ?cn), snd (CleanUpSockets silent ?cn2 (slept silent 10 ?w))))"
    using ConnectToServer_times_out [of ?cn silent "script [] []" udp1 "script [] []" tcp1 "script [] []" sc_clock]
    by (simp add: cn silent_sockets silent_clock s Let_def)
  have "sc_clock (snd (CleanUpSockets silent ?cn2 w)) = sc_clock w \<and> sc_sent (snd (CleanUpSockets silent ?cn2 w)) = sc_sent w" for w
    by (simp add: CleanUpSockets_def delete_socket_ptr_def delete_Socket_def silent_def scripted_def Let_def split: option.split)
  with t show ?thesis by (simp add: silent_clock)
qed

text \<open>
  Every use of a \<open>ServerConnector\<close>: it is never connected, its getters throw, and the
  destructor finds no socket to delete.
\<close>

theorem connector_never_connected:
  assumes "reach connector_start (connector_step N) cn"
  shows "\<not> IsConnectedToServer cn \<and> delete_ServerConnector N cn w = w
     \<and> GetTCPSocket fn cn = Inl (Thrown (fn @ '': ServerConnector is not connected''))
     \<and> Connector_GetPlayerID fn cn = Inl (Thrown (fn @ '': ServerConnector is not connected''))"
  using connector.inv_reach [OF assms]
  by (simp add: connector_idle_def IsConnectedToServer_def delete_ServerConnector_def
      delete_socket_ptr_def GetTCPSocket_def Connector_GetPlayerID_def AssertIsConnected_def Let_def)

theorem connector_never_connected_witness:
  "GetTCPSocket ''f'' (new_ServerConnector ''srv'' 43720 43720)
     = Inl (Thrown (''f'' @ '': ServerConnector is not connected''))"
proof -
  have "reach connector_start (connector_step silent) (new_ServerConnector ''srv'' 43720 43720)"
    by (rule reach_init) (auto simp: connector_start_def)
  from connector_never_connected [OF this, where fn = "''f''"] show ?thesis by blast
qed

end
