(* ===== verification/ServerClient.thy ===== *)
theory ServerClient
  imports SocketProps
begin

section \<open>The server's side of a client (server/Client.h, server/Client.cpp)\<close>

text \<open>
  \<open>server::Client\<close> owns a TCP and a UDP socket and one outgoing byte queue for each. The queues
  are \<open>vector<byte>\<close>s whose storage \<open>SendPacketQueue\<close> passes to \<open>Socket::SendPacket(buf, len)\<close>,
  which deletes it; the model records whether a vector still owns its storage.
\<close>

record PktQueue =
  q_bytes :: "u8 list"
  q_freed :: bool

definition empty_queue :: PktQueue where
  "empty_queue = \<lparr>q_bytes = [], q_freed = False\<rparr>"

text \<open>\<open>push_back\<close> of some bytes, and the destructor of the vector.\<close>

definition push_bytes :: "PktQueue \<Rightarrow> u8 list \<Rightarrow> PktQueue res" where
  "push_bytes q bs =
     (if bs = [] then Inr q
      else if q_freed q then Inl UseAfterFree
      else Inr (q\<lparr>q_bytes := q_bytes q @ bs\<rparr>))"

definition delete_queue :: "PktQueue \<Rightarrow> unit res" where
  "delete_queue q = (if q_freed q then Inl DoubleFree else Inr ())"

record Client =
  c_playerID :: u32
  c_team :: Team
  c_tcpSocket :: Socket
  c_udpSocket :: Socket
  c_udpPort :: u32
  c_tcpPktQueue :: PktQueue
  c_udpPktQueue :: PktQueue

text \<open>The constructor: the UDP address is the TCP peer's host with the low 16 bits of the port.\<close>

definition new_Client ::
    "'w SDLNet \<Rightarrow> u32 \<Rightarrow> Team \<Rightarrow> u32 \<Rightarrow> Socket \<Rightarrow> 'w \<Rightarrow> (Client \<times> 'w) res" where
  "new_Client N playerID team udpPort tcpSocket w =
     (let ipa = \<lparr>ip_host = ip_host (GetIPaddress tcpSocket), ip_port = ucast udpPort\<rparr>
      in rbind (Socket_by_address N UDP ipa 0 w) (\<lambda>(udpSocket, w).
         Inr (\<lparr>c_playerID = playerID, c_team = team, c_tcpSocket = tcpSocket,
               c_udpSocket = udpSocket, c_udpPort = udpPort,
               c_tcpPktQueue = empty_queue, c_udpPktQueue = empty_queue\<rparr>, w)))"

text \<open>The destructor: both sockets, then the members in reverse order.\<close>

definition delete_Client :: "'w SDLNet \<Rightarrow> Client \<Rightarrow> 'w \<Rightarrow> 'w res" where
  "delete_Client N c w =
     (let w = delete_Socket N (c_tcpSocket c) w; w = delete_Socket N (c_udpSocket c) w
      in rbind (delete_queue (c_udpPktQueue c)) (\<lambda>_.
         rbind (delete_queue (c_tcpPktQueue c)) (\<lambda>_. Inr w)))"

definition AddPacketToQueue :: "TLProtocol \<Rightarrow> Packet \<Rightarrow> Client \<Rightarrow> Client res" where
  "AddPacketToQueue proto packet c =
     rbind (Serialize HOST packet) (\<lambda>buf.
       if proto = UDP
       then rbind (push_bytes (c_udpPktQueue c) buf) (\<lambda>q. Inr (c\<lparr>c_udpPktQueue := q\<rparr>))
       else rbind (push_bytes (c_tcpPktQueue c) buf) (\<lambda>q. Inr (c\<lparr>c_tcpPktQueue := q\<rparr>)))"

text \<open>
  \<open>SendPacketQueue\<close>: nothing to do on an empty queue; otherwise the storage is sent (and deleted
  by the callee), then the vector is cleared.
\<close>

definition SendPacketQueue ::
    "'w SDLNet \<Rightarrow> TLProtocol \<Rightarrow> Client \<Rightarrow> 'w \<Rightarrow> (bool \<times> Client \<times> 'w) res" where
  "SendPacketQueue N proto c w =
     (let socket = (if proto = UDP then c_udpSocket c else c_tcpSocket c);
          queue = (if proto = UDP then c_udpPktQueue c else c_tcpPktQueue c)
      in if q_bytes queue = [] then Inr (True, c, w)
         else rbind (SendPacket_bytes N socket (q_bytes queue) w) (\<lambda>(result, w).
           let queue = \<lparr>q_bytes = [], q_freed = True\<rparr>
           in Inr (result,
                if proto = UDP then c\<lparr>c_udpPktQueue := queue\<rparr> else c\<lparr>c_tcpPktQueue := queue\<rparr>, w)))"

text \<open>\<open>Client::SendPacket\<close>: on failure the packet's type is named in the log.\<close>

definition Client_SendPacket :: "'w SDLNet \<Rightarrow> Packet \<Rightarrow> Client \<Rightarrow> 'w \<Rightarrow> (bool \<times> 'w) res" where
  "Client_SendPacket N packet c w =
     rbind (SendPacket N (c_tcpSocket c) packet w) (\<lambda>(result, w).
       if result then Inr (result, w)
       else rbind (GetPacketType HOST packet) (\<lambda>t.
            rbind (PacketTypeStr t) (\<lambda>_. Inr (result, w))))"

definition SendJoinResponsePacket :: "'w SDLNet \<Rightarrow> Client \<Rightarrow> 'w \<Rightarrow> (bool \<times> 'w) res" where
  "SendJoinResponsePacket N c w =
     (let pkt = (set_dword HOST M_team (team_code (c_team c))
                  \<circ> set_dword HOST M_playerID (c_playerID c)
                  \<circ> set_bool M_response True) (JoinResponsePacket HOST)
      in Client_SendPacket N pkt c w)"

definition IsConnected :: "Client \<Rightarrow> bool" where
  "IsConnected c = IsConnectionOpen (c_tcpSocket c)"

definition GetPlayerID :: "Client \<Rightarrow> u32" where "GetPlayerID c = c_playerID c"

definition GetTeam :: "Client \<Rightarrow> Team" where "GetTeam c = c_team c"

definition GetUdpPort :: "Client \<Rightarrow> u32" where "GetUdpPort c = c_udpPort c"

subsection \<open>The queues\<close>

lemma push_bytes_Inr:
  "push_bytes q bs = Inr q' \<longleftrightarrow>
     (if bs = [] then q' = q else \<not> q_freed q \<and> q' = q\<lparr>q_bytes := q_bytes q @ bs\<rparr>)"
  by (auto simp: push_bytes_def)

lemma AddPacketToQueue_packet_of [wire_simps]:
  "AddPacketToQueue TCP (packet_of HOST m) c =
     (if q_freed (c_tcpPktQueue c) then Inl UseAfterFree
      else Inr (c\<lparr>c_tcpPktQueue :=
             (c_tcpPktQueue c)\<lparr>q_bytes := q_bytes (c_tcpPktQueue c) @ encode m\<rparr>\<rparr>))"
  by (simp add: AddPacketToQueue_def wire_simps push_bytes_def)

lemma AddPacketToQueue_frame:
  assumes "AddPacketToQueue proto packet c = Inr c'"
  shows "c_playerID c' = c_playerID c \<and> c_team c' = c_team c \<and> c_tcpSocket c' = c_tcpSocket c
    \<and> c_udpSocket c' = c_udpSocket c \<and> c_udpPort c' = c_udpPort c"
  using assms by (auto simp: AddPacketToQueue_def split: if_splits)

lemma SendPacketQueue_frame:
  assumes "SendPacketQueue N proto c w = Inr (r, c', w')"
  shows "c_playerID c' = c_playerID c \<and> c_team c' = c_team c \<and> c_tcpSocket c' = c_tcpSocket c
    \<and> c_udpSocket c' = c_udpSocket c \<and> c_udpPort c' = c_udpPort c"
  using assms by (auto simp: SendPacketQueue_def Let_def split: if_splits)

text \<open>A queue that failed to be sent was not empty, so its storage is gone.\<close>

lemma SendPacketQueue_False:
  assumes "SendPacketQueue N proto c w = Inr (False, c', w')"
  shows "q_freed (if proto = UDP then c_udpPktQueue c' else c_tcpPktQueue c')"
  using assms by (auto simp: SendPacketQueue_def Let_def split: if_splits)

lemma delete_Client_Inr:
  "delete_Client N c w = Inr w' \<Longrightarrow> \<not> q_freed (c_tcpPktQueue c) \<and> \<not> q_freed (c_udpPktQueue c)"
  by (auto simp: delete_Client_def delete_queue_def Let_def split: if_splits)

lemma delete_Client_cases:
  "delete_Client N c w =
     (if q_freed (c_udpPktQueue c) \<or> q_freed (c_tcpPktQueue c) then Inl DoubleFree
      else Inr (delete_Socket N (c_udpSocket c) (delete_Socket N (c_tcpSocket c) w)))"
  by (simp add: delete_Client_def delete_queue_def Let_def)

lemma new_Client_Inr:
  assumes "new_Client N pid team port sock w = Inr (c, w')"
  shows "c_playerID c = pid \<and> c_team c = team \<and> c_tcpSocket c = sock \<and> c_udpPort c = port
    \<and> fresh (c_udpSocket c) \<and> s_protocol (c_udpSocket c) = UDP
    \<and> s_ip (c_udpSocket c) = \<lparr>ip_host = ip_host (s_ip sock), ip_port = ucast port\<rparr>
    \<and> c_tcpPktQueue c = empty_queue \<and> c_udpPktQueue c = empty_queue"
  using assms
  by (auto simp: new_Client_def GetIPaddress_def Socket_by_address_def dest!: Init_fresh)

lemma SendJoinResponse_encode:
  "SendJoinResponsePacket N c w =
     Client_SendPacket N (packet_of HOST (JoinResponse True (c_playerID c) (team_code (c_team c)))) c w"
  by (simp add: SendJoinResponsePacket_def)

lemma Client_SendPacket_packet_of:
  "Client_SendPacket N (packet_of HOST m) c w = SendPacket_bytes N (c_tcpSocket c) (encode m) w"
proof -
  have t: "GetPacketType HOST (packet_of HOST m) = Inr (packet_code (message_type m))"
    by (cases m) (simp_all add: packet_of.simps GetPacketType_def get_dword_mem packet_class_defs
          del: built_packets)
  have str: "\<exists>str. PacketTypeStr (packet_code (message_type m)) = Inr str"
    by (cases m) (simp_all add: PacketTypeStr_def)
  show ?thesis
    using t str by (cases "SendPacket_bytes N (c_tcpSocket c) (encode m) w")
      (auto simp: Client_SendPacket_def wire_simps)
qed

end
