(* ===== verification/Server.thy ===== *)
theory Server
  imports ServerClient Listener
begin

section \<open>The game server (server/Server.h, server/Server.cpp)\<close>

text \<open>
  The server's client list and its operations. \<open>_clients\<close> is a vector of pointers: the model
  keeps the pointers and a heap of client objects apart, so that a pointer to a deleted client
  is a fault where it is used. Addresses are handed out in order and not used twice. The
  function-static \<open>playerId\<close> of \<open>GetNextPlayerID\<close> is a field. Log output and the members of the
  listener thread are left out; the new connections are a field.
\<close>

definition MAX_PLAYERS :: nat where "MAX_PLAYERS = 4"

definition UDP_SERVER_PORT :: u32 where "UDP_SERVER_PORT = 43720"

record Server =
  sv_udpSocket :: Socket
  sv_protoPhase :: ProtocolPhase
  sv_clients :: "nat list"
  sv_heap :: "nat \<rightharpoonup> Client"
  sv_brk :: nat
  sv_playerId :: u32
  sv_newConnections :: "nat list"

definition new_Server :: "'w SDLNet \<Rightarrow> 'w \<Rightarrow> (Server \<times> 'w) res" where
  "new_Server N w =
     rbind (Socket_by_address N UDP \<lparr>ip_host = 0, ip_port = ucast UDP_SERVER_PORT\<rparr> UDP_SERVER_PORT w)
       (\<lambda>(udp, w).
        Inr (\<lparr>sv_udpSocket = udp, sv_protoPhase = PROTO_LOBBY, sv_clients = [],
              sv_heap = (\<lambda>_. None), sv_brk = 0, sv_playerId = 1, sv_newConnections = []\<rparr>, w))"

definition delete_Server :: "'w SDLNet \<Rightarrow> Server \<Rightarrow> 'w \<Rightarrow> 'w" where
  "delete_Server N sv w = delete_Socket N (sv_udpSocket sv) w"

text \<open>Following a client pointer, and storing through one.\<close>

definition deref :: "Server \<Rightarrow> nat \<Rightarrow> Client res" where
  "deref sv ptr = (case sv_heap sv ptr of None \<Rightarrow> Inl UseAfterFree | Some c \<Rightarrow> Inr c)"

definition assign :: "nat \<Rightarrow> Client \<Rightarrow> Server \<Rightarrow> Server" where
  "assign ptr c sv = sv\<lparr>sv_heap := (sv_heap sv)(ptr \<mapsto> c)\<rparr>"

definition enqueue :: "Server \<Rightarrow> nat \<Rightarrow> TLProtocol \<Rightarrow> Packet \<Rightarrow> Server res" where
  "enqueue sv ptr proto packet =
     rbind (deref sv ptr) (\<lambda>c.
     rbind (AddPacketToQueue proto packet c) (\<lambda>c'. Inr (assign ptr c' sv)))"

subsection \<open>Queries\<close>

definition IsServerFull :: "Server \<Rightarrow> bool" where
  "IsServerFull sv \<longleftrightarrow> length (sv_clients sv) \<ge> MAX_PLAYERS"

text \<open>\<open>TeamCounts\<close>: the loop over the clients with the two counters, mercs first.\<close>

fun team_counts :: "Server \<Rightarrow> nat list \<Rightarrow> int \<times> int \<Rightarrow> (int \<times> int) res" where
  "team_counts sv [] counts = Inr counts"
| "team_counts sv (ptr # ptrs) (m, s) =
     rbind (deref sv ptr) (\<lambda>c.
       team_counts sv ptrs
         (if GetTeam c = TEAM_SPY then (m, s + 1)
          else if GetTeam c = TEAM_MERC then (m + 1, s) else (m, s)))"

definition TeamCounts :: "Server \<Rightarrow> (int \<times> int) res" where
  "TeamCounts sv = team_counts sv (sv_clients sv) (0, 0)"

definition GetNextPlayerID :: "Server \<Rightarrow> u32 \<times> Server" where
  "GetNextPlayerID sv = (sv_playerId sv, sv\<lparr>sv_playerId := sv_playerId sv + 1\<rparr>)"

definition GetTeamForNextPlayer :: "Server \<Rightarrow> Team res" where
  "GetTeamForNextPlayer sv =
     rbind (TeamCounts sv) (\<lambda>(m, s). Inr (if m > s then TEAM_SPY else TEAM_MERC))"

subsection \<open>Kicking a client\<close>

text \<open>
  The loop over the clients: the kicked one's index is noted, every other one is sent the leave
  packet.
\<close>

fun kick_loop :: "nat \<Rightarrow> Packet \<Rightarrow> nat list \<Rightarrow> nat \<Rightarrow> int \<Rightarrow> Server \<Rightarrow> (int \<times> Server) res" where
  "kick_loop client leavePkt [] i kickIndex sv = Inr (kickIndex, sv)"
| "kick_loop client leavePkt (ptr # ptrs) i kickIndex sv =
     (if ptr = client then kick_loop client leavePkt ptrs (i + 1) (int i) sv
      else rbind (enqueue sv ptr TCP leavePkt) (\<lambda>sv.
           kick_loop client leavePkt ptrs (i + 1) kickIndex sv))"

definition erase :: "nat \<Rightarrow> 'a list \<Rightarrow> 'a list" where
  "erase k xs = take k xs @ drop (Suc k) xs"

definition KickClient ::
    "'w SDLNet \<Rightarrow> nat option \<Rightarrow> Server \<Rightarrow> 'w \<Rightarrow> (Server \<times> 'w) res" where
  "KickClient N client sv w =
     (case client of
        None \<Rightarrow> Inr (sv, w)
      | Some ptr \<Rightarrow>
          rbind (deref sv ptr) (\<lambda>c.
          let leavePkt = set_dword HOST M_playerID (GetPlayerID c) (PlayerDidLeavePacket HOST)
          in rbind (kick_loop ptr leavePkt (sv_clients sv) 0 (-1) sv) (\<lambda>(kickIndex, sv).
             rbind (deref sv ptr) (\<lambda>c.
             rbind (delete_Client N c w) (\<lambda>w.
               let sv = sv\<lparr>sv_heap := (sv_heap sv)(ptr := None)\<rparr>
               in Inr (if kickIndex \<ge> 0
                       then sv\<lparr>sv_clients := erase (nat kickIndex) (sv_clients sv)\<rparr> else sv, w))))))"

subsection \<open>What the kick loop keeps\<close>

text \<open>What a client is, apart from its queues.\<close>

definition identity :: "Client \<Rightarrow> u32 \<times> Team \<times> Socket \<times> Socket \<times> u32" where
  "identity c = (c_playerID c, c_team c, c_tcpSocket c, c_udpSocket c, c_udpPort c)"

text \<open>Two server states that differ in the contents of client queues at most.\<close>

definition same_roster :: "Server \<Rightarrow> Server \<Rightarrow> bool" where
  "same_roster sv sv' \<longleftrightarrow>
     sv' = sv\<lparr>sv_heap := sv_heap sv'\<rparr> \<and>
     (\<forall>ptr. map_option identity (sv_heap sv' ptr) = map_option identity (sv_heap sv ptr))"

lemma same_roster_refl [simp]: "same_roster sv sv"
  by (simp add: same_roster_def)

lemma same_roster_trans [trans]:
  "same_roster sv sv' \<Longrightarrow> same_roster sv' sv'' \<Longrightarrow> same_roster sv sv''"
  by (cases sv; cases sv'; cases sv'') (simp add: same_roster_def)

lemma same_roster_fields:
  assumes "same_roster sv sv'"
  shows "sv_clients sv' = sv_clients sv" "sv_protoPhase sv' = sv_protoPhase sv"
    "sv_brk sv' = sv_brk sv" "sv_playerId sv' = sv_playerId sv"
    "sv_newConnections sv' = sv_newConnections sv" "sv_udpSocket sv' = sv_udpSocket sv"
proof -
  from assms obtain h where "sv' = sv\<lparr>sv_heap := h\<rparr>" by (auto simp: same_roster_def)
  then show "sv_clients sv' = sv_clients sv" "sv_protoPhase sv' = sv_protoPhase sv"
    "sv_brk sv' = sv_brk sv" "sv_playerId sv' = sv_playerId sv"
    "sv_newConnections sv' = sv_newConnections sv" "sv_udpSocket sv' = sv_udpSocket sv"
    by simp_all
qed

lemma same_roster_identity:
  "same_roster sv sv' \<Longrightarrow> map_option identity (sv_heap sv' p) = map_option identity (sv_heap sv p)"
  by (simp add: same_roster_def)

lemma same_roster_assign:
  assumes "sv_heap sv ptr = Some c" and "identity c' = identity c"
  shows "same_roster sv (assign ptr c' sv)"
  using assms by (simp add: same_roster_def assign_def)

lemma enqueue_frame:
  assumes "enqueue sv ptr proto packet = Inr sv'"
  shows "same_roster sv sv'"
  using assms
  by (auto simp: enqueue_def deref_def identity_def split: option.splits
      intro!: same_roster_assign dest!: AddPacketToQueue_frame)

lemma kick_loop_frame:
  assumes "kick_loop client pkt ptrs i k sv = Inr (k', sv')"
  shows "same_roster sv sv'"
  using assms
proof (induction client pkt ptrs i k sv rule: kick_loop.induct)
  case (2 client pkt ptr ptrs i k sv)
  show ?case
  proof (cases "ptr = client")
    case True
    with 2 show ?thesis by simp
  next
    case False
    with "2.prems" obtain sv1 where sv1: "enqueue sv ptr TCP pkt = Inr sv1"
      and rest: "kick_loop client pkt ptrs (i + 1) k sv1 = Inr (k', sv')" by auto
    from sv1 have "same_roster sv sv1" by (rule enqueue_frame)
    also from "2.IH"(2) [OF False sv1 rest] have "same_roster sv1 sv'" .
    finally show ?thesis .
  qed
qed simp

lemma kick_loop_index:
  assumes "kick_loop client pkt ptrs i k sv = Inr (k', sv')"
  shows "k' = k \<and> client \<notin> set ptrs \<or>
     (\<exists>j < length ptrs. k' = int (i + j) \<and> ptrs ! j = client)"
  using assms
proof (induction client pkt ptrs i k sv rule: kick_loop.induct)
  case (1 client pkt i k sv)
  then show ?case by simp
next
  case (2 client pkt ptr ptrs i k sv)
  show ?case
  proof (cases "ptr = client")
    case True
    with 2 have "k' = int i \<and> client \<notin> set ptrs \<or>
        (\<exists>j < length ptrs. k' = int (i + 1 + j) \<and> ptrs ! j = client)" by simp
    then show ?thesis
    proof (elim disjE exE conjE)
      assume "k' = int i" and "client \<notin> set ptrs"
      with True show ?thesis by (intro disjI2 exI [of _ 0]) simp
    next
      fix j assume "j < length ptrs" "k' = int (i + 1 + j)" "ptrs ! j = client"
      then show ?thesis by (intro disjI2 exI [of _ "Suc j"]) simp
    qed
  next
    case False
    with 2 have "k' = k \<and> client \<notin> set ptrs \<or>
        (\<exists>j < length ptrs. k' = int (i + 1 + j) \<and> ptrs ! j = client)" by auto
    then show ?thesis
    proof (elim disjE exE conjE)
      assume "k' = k" and "client \<notin> set ptrs"
      with False show ?thesis by simp
    next
      fix j assume "j < length ptrs" "k' = int (i + 1 + j)" "ptrs ! j = client"
      then show ?thesis by (intro disjI2 exI [of _ "Suc j"]) simp
    qed
  qed
qed

lemma length_erase [simp]: "k < length xs \<Longrightarrow> length (erase k xs) = length xs - 1"
  by (simp add: erase_def)

lemma KickClient_length:
  assumes "KickClient N (Some ptr) sv w = Inr (sv', w')" and "ptr \<in> set (sv_clients sv)"
  shows "length (sv_clients sv') = length (sv_clients sv) - 1"
proof -
  from assms(1) obtain c k sv1 where loop: "kick_loop ptr
      (set_dword HOST M_playerID (GetPlayerID c) (PlayerDidLeavePacket HOST)) (sv_clients sv) 0 (-1) sv
      = Inr (k, sv1)" and sv': "sv_clients sv' =
        (if k \<ge> 0 then erase (nat k) (sv_clients sv1) else sv_clients sv1)"
    by (auto simp: KickClient_def Let_def split: if_splits)
  from kick_loop_index [OF loop] assms(2) obtain j where "j < length (sv_clients sv)" "k = int j"
    by auto
  moreover have "sv_clients sv1 = sv_clients sv" 
    using kick_loop_frame [OF loop] by (rule same_roster_fields)
  ultimately show ?thesis using sv' by simp
qed

subsection \<open>Broadcast and flush\<close>

text \<open>
  Both loops run an index over \<open>_clients\<close> while they may erase the client they are at; the
  index then stays (\<open>i--\<close> followed by \<open>i++\<close>).
\<close>

function broadcast_loop ::
    "'w SDLNet \<Rightarrow> TLProtocol \<Rightarrow> Packet \<Rightarrow> nat \<Rightarrow> Server \<Rightarrow> 'w \<Rightarrow> (Server \<times> 'w) res" where
  "broadcast_loop N proto packet i sv w =
     (if i < length (sv_clients sv) then
        let client = sv_clients sv ! i
        in rbind (deref sv client) (\<lambda>c.
           if IsConnected c
           then rbind (enqueue sv client proto packet) (\<lambda>sv.
                broadcast_loop N proto packet (i + 1) sv w)
           else rbind (KickClient N (Some client) sv w) (\<lambda>(sv, w).
                broadcast_loop N proto packet i sv w))
      else Inr (sv, w))"
  by pat_completeness auto
termination
  by (relation "measure (\<lambda>(N, proto, packet, i, sv, w). length (sv_clients sv) - i)")
    (auto dest!: enqueue_frame KickClient_length simp: same_roster_fields)

definition Broadcast ::
    "'w SDLNet \<Rightarrow> TLProtocol \<Rightarrow> Packet \<Rightarrow> Server \<Rightarrow> 'w \<Rightarrow> (Server \<times> 'w) res" where
  "Broadcast N proto packet sv w = broadcast_loop N proto packet 0 sv w"

text \<open>The body of the flush loop: the TCP queue, and only if that went well the UDP queue.\<close>

definition flush_client ::
    "'w SDLNet \<Rightarrow> nat \<Rightarrow> Server \<Rightarrow> 'w \<Rightarrow> (bool \<times> Server \<times> 'w) res" where
  "flush_client N client sv w =
     rbind (deref sv client) (\<lambda>c.
     rbind (SendPacketQueue N TCP c w) (\<lambda>(ok, c, w).
       let sv = assign client c sv
       in if \<not> ok then Inr (False, sv, w)
          else rbind (SendPacketQueue N UDP c w) (\<lambda>(ok, c, w).
               Inr (ok, assign client c sv, w))))"

lemma SendPacketQueue_identity:
  "SendPacketQueue N proto c w = Inr (r, c', w') \<Longrightarrow> identity c' = identity c"
  using SendPacketQueue_frame [of N proto c w r c' w'] by (simp add: identity_def)

lemma flush_client_frame:
  assumes "flush_client N client sv w = Inr (ok, sv', w')"
  shows "same_roster sv sv'"
proof -
  from assms obtain c ok1 c1 w1 where c: "sv_heap sv client = Some c"
    and tcp: "SendPacketQueue N TCP c w = Inr (ok1, c1, w1)"
    and rest: "(if \<not> ok1 then Inr (False, assign client c1 sv, w1)
        else rbind (SendPacketQueue N UDP c1 w1) (\<lambda>(ok, c, w).
             Inr (ok, assign client c (assign client c1 sv), w))) = Inr (ok, sv', w')"
    by (auto simp: flush_client_def deref_def Let_def split: option.splits)
  from c tcp have 1: "same_roster sv (assign client c1 sv)"
    by (intro same_roster_assign [OF c]) (auto dest: SendPacketQueue_identity)
  show ?thesis
  proof (cases ok1)
    case False
    with rest 1 show ?thesis by simp
  next
    case True
    with rest obtain c2 w2 where udp: "SendPacketQueue N UDP c1 w1 = Inr (ok, c2, w2)"
      and sv': "sv' = assign client c2 (assign client c1 sv)" by auto
    note 1
    also have "same_roster (assign client c1 sv) (assign client c2 (assign client c1 sv))"
      using udp by (intro same_roster_assign [of _ _ c1])
        (auto simp: assign_def dest: SendPacketQueue_identity)
    finally show ?thesis by (simp add: sv')
  qed
qed

function flush_loop ::
    "'w SDLNet \<Rightarrow> nat \<Rightarrow> Server \<Rightarrow> 'w \<Rightarrow> (Server \<times> 'w) res" where
  "flush_loop N i sv w =
     (if i < length (sv_clients sv) then
        let client = sv_clients sv ! i
        in rbind (deref sv client) (\<lambda>c.
           if \<not> IsConnected c
           then rbind (KickClient N (Some client) sv w) (\<lambda>(sv, w). flush_loop N i sv w)
           else rbind (flush_client N client sv w) (\<lambda>(ok, sv, w).
                if \<not> ok
                then rbind (KickClient N (Some client) sv w) (\<lambda>(sv, w). flush_loop N i sv w)
                else flush_loop N (i + 1) sv w))
      else Inr (sv, w))"
  by pat_completeness auto
termination
  by (relation "measure (\<lambda>(N, i, sv, w). length (sv_clients sv) - i)")
    (auto dest!: flush_client_frame KickClient_length simp: same_roster_fields)

definition FlushClientPacketQueues ::
    "'w SDLNet \<Rightarrow> Server \<Rightarrow> 'w \<Rightarrow> (Server \<times> 'w) res" where
  "FlushClientPacketQueues N sv w = flush_loop N 0 sv w"

declare broadcast_loop.simps [simp del] flush_loop.simps [simp del]

end
