(* ===== verification/ServerLoop.thy ===== *)
theory ServerLoop
  imports Server
begin

section \<open>Admission and the main loop of the server (server/Server.cpp, server/Main.cpp)\<close>

text \<open>
  \<open>AcceptNewClient\<close>, the handling of new connections and \<open>ServerLoop\<close>. They call
  \<open>Socket::GetPacket\<close> and wait for the network, so they may not return.
\<close>

definition JOIN_REJECTED :: Packet where
  "JOIN_REJECTED = set_bool M_response False (JoinResponsePacket HOST)"

text \<open>
  The part of \<open>AcceptNewClient\<close> after the join request has been read: the client object is
  created and put on the heap; if the response cannot be sent it is deleted again, otherwise
  the players already there are told, and then it is added to the list.
\<close>

definition admit ::
    "'w SDLNet \<Rightarrow> Socket \<Rightarrow> u32 \<Rightarrow> Server \<Rightarrow> 'w \<Rightarrow> (Server \<times> 'w) res" where
  "admit N clientTcpSocket udpPort sv w =
     (let (playerID, sv) = GetNextPlayerID sv
      in rbind (GetTeamForNextPlayer sv) (\<lambda>team.
         rbind (new_Client N playerID team udpPort clientTcpSocket w) (\<lambda>(c, w).
         let client = sv_brk sv;
             sv = (assign client c sv)\<lparr>sv_brk := sv_brk sv + 1\<rparr>
         in rbind (SendJoinResponsePacket N c w) (\<lambda>(ok, w).
            if \<not> ok
            then rbind (delete_Client N c w) (\<lambda>w.
                 Inr (sv\<lparr>sv_heap := (sv_heap sv)(client := None)\<rparr>, w))
            else let pkt = (set_dword HOST M_team (team_code (GetTeam c))
                             \<circ> set_dword HOST M_playerID (GetPlayerID c)) (PlayerDidJoinPacket HOST)
                 in rbind (Broadcast N TCP pkt sv w) (\<lambda>(sv, w).
                    Inr (sv\<lparr>sv_clients := sv_clients sv @ [client]\<rparr>, w))))))"

text \<open>
  \<open>AcceptNewClient\<close>. The type of an unexpected packet is named in the log. The port is read
  through a pointer cast to \<open>JoinRequestPacket\<close>.
\<close>

definition AcceptNewClient ::
    "'w SDLNet \<Rightarrow> Socket \<Rightarrow> Server \<Rightarrow> 'w \<Rightarrow> (Server \<times> 'w) run" where
  "AcceptNewClient N clientTcpSocket sv w =
     run_bind (Some (HasActivity N clientTcpSocket w)) (\<lambda>(active, w).
       if \<not> active then Some (Inr (sv, delete_Socket N clientTcpSocket w))
       else run_bind (GetPacket N clientTcpSocket w) (\<lambda>((packet, clientTcpSocket), w).
         case packet of
           None \<Rightarrow> Some (Inr (sv, delete_Socket N clientTcpSocket w))
         | Some p \<Rightarrow>
             run_bind (Some (GetPacketType HOST p)) (\<lambda>t.
               if t \<noteq> packet_code PACKET_JOIN_REQUEST then
                 run_bind (Some (PacketTypeStr t)) (\<lambda>_.
                   Some (Inr (sv, delete_Socket N clientTcpSocket w)))
               else
                 run_bind (Some (get_dword HOST M_port p)) (\<lambda>udpPort.
                   Some (admit N clientTcpSocket udpPort sv w)))))"

text \<open>
  \<open>HandleNewTCPConnections\<close>. Before every test the listener thread may have appended more
  connections. Closing a rejected client's socket object does not close the connection.
\<close>

partial_function (option) HandleNewTCPConnections ::
    "'w SDLNet \<Rightarrow> Server \<Rightarrow> 'w \<Rightarrow> (Server \<times> 'w) run" where
  "HandleNewTCPConnections N sv w =
     (let (arrived, w) = net_Arrivals N w;
          sv = sv\<lparr>sv_newConnections :=
                    fold (\<lambda>t. AddNewSocket (Some t)) arrived (sv_newConnections sv)\<rparr>
      in if HasNewConnection (sv_newConnections sv) then
           run_bind (Some (GetNewSocket N (sv_newConnections sv) w)) (\<lambda>((socket, conns), w).
             let sv = sv\<lparr>sv_newConnections := conns\<rparr>
             in case socket of
                  None \<Rightarrow> Some (Inl NullDeref)
                | Some s \<Rightarrow>
                    if sv_protoPhase sv = PROTO_LOBBY \<and> \<not> IsServerFull sv then
                      run_bind (AcceptNewClient N s sv w) (\<lambda>(sv, w). HandleNewTCPConnections N sv w)
                    else
                      run_bind (Some (SendPacket N s JOIN_REJECTED w)) (\<lambda>(_, w).
                        HandleNewTCPConnections N sv (delete_Socket N s w)))
         else Some (Inr (sv, w)))"

partial_function (option) ServerLoop ::
    "'w SDLNet \<Rightarrow> Server \<Rightarrow> 'w \<Rightarrow> (Server \<times> 'w) run" where
  "ServerLoop N sv w =
     (if sv_protoPhase sv = PROTO_NONE then
        Some (Broadcast N TCP (ServerShutdownPacket HOST) sv w)
      else
        run_bind (HandleNewTCPConnections N sv w) (\<lambda>(sv, w).
        run_bind (Some (FlushClientPacketQueues N sv w)) (\<lambda>(sv, w).
          ServerLoop N sv (net_usleep N w 40000))))"

text \<open>\<open>main\<close> of the server program, between the library's initialisation and its shutdown.\<close>

definition server_main :: "'w SDLNet \<Rightarrow> 'w \<Rightarrow> 'w run" where
  "server_main N w =
     run_bind (Some (new_Server N w)) (\<lambda>(sv, w).
     run_bind (ServerLoop N sv w) (\<lambda>(sv, w). Some (Inr (delete_Server N sv w))))"

end
