(* ===== verification/ServerProps.thy ===== *)
theory ServerProps
  imports ServerLoop
begin

section \<open>The server's roster: specification and invariants\<close>

text \<open>
  What the server's operations do to the client list, in terms of messages: \<open>tell\<close> appends a
  message to the outgoing queues of some clients. The well-formedness invariant of the roster,
  that every operation keeps it, and what becomes of the queues once they have been flushed.
\<close>

subsection \<open>Telling clients\<close>

definition append_msg :: "message \<Rightarrow> Client \<Rightarrow> Client" where
  "append_msg m c = c\<lparr>c_tcpPktQueue :=
     (c_tcpPktQueue c)\<lparr>q_bytes := q_bytes (c_tcpPktQueue c) @ encode m\<rparr>\<rparr>"

definition tell :: "nat set \<Rightarrow> message \<Rightarrow> Server \<Rightarrow> Server" where
  "tell ptrs m sv = sv\<lparr>sv_heap := (\<lambda>p. if p \<in> ptrs then map_option (append_msg m) (sv_heap sv p)
                                       else sv_heap sv p)\<rparr>"

text \<open>A pointer to a live client whose TCP queue still owns its storage.\<close>

definition can_queue :: "Server \<Rightarrow> nat \<Rightarrow> bool" where
  "can_queue sv p \<longleftrightarrow> (case sv_heap sv p of None \<Rightarrow> False | Some c \<Rightarrow> \<not> q_freed (c_tcpPktQueue c))"

lemma tell_simps [simp]:
  "sv_clients (tell ps m sv) = sv_clients sv" "sv_protoPhase (tell ps m sv) = sv_protoPhase sv"
  "sv_brk (tell ps m sv) = sv_brk sv" "sv_playerId (tell ps m sv) = sv_playerId sv"
  "sv_newConnections (tell ps m sv) = sv_newConnections sv"
  "sv_heap (tell ps m sv) p =
     (if p \<in> ps then map_option (append_msg m) (sv_heap sv p) else sv_heap sv p)"
  by (simp_all add: tell_def)

lemma tell_empty [simp]: "tell {} m sv = sv"
  by (simp add: tell_def)

lemma append_msg_simps [simp]:
  "q_freed (c_tcpPktQueue (append_msg m c)) = q_freed (c_tcpPktQueue c)"
  "q_bytes (c_tcpPktQueue (append_msg m c)) = q_bytes (c_tcpPktQueue c) @ encode m"
  "c_udpPktQueue (append_msg m c) = c_udpPktQueue c"
  "identity (append_msg m c) = identity c"
  "IsConnected (append_msg m c) = IsConnected c"
  "c_tcpSocket (append_msg m c) = c_tcpSocket c"
  by (simp_all add: append_msg_def identity_def IsConnected_def)

lemma can_queue_tell [simp]: "can_queue (tell ps m sv) p = can_queue sv p"
  by (simp add: can_queue_def split: option.split)

lemma same_roster_tell [simp]: "same_roster sv (tell ps m sv)"
  by (simp add: same_roster_def tell_def option.map_comp comp_def)

lemma tell_insert:
  "p \<notin> ps \<Longrightarrow> tell ps m (tell {p} m sv) = tell (insert p ps) m sv"
  by (cases sv) (auto simp: tell_def fun_eq_iff)

lemma enqueue_tell:
  assumes "can_queue sv p"
  shows "enqueue sv p TCP (packet_of HOST m) = Inr (tell {p} m sv)"
proof -
  from assms obtain c where c: "sv_heap sv p = Some c" and q: "\<not> q_freed (c_tcpPktQueue c)"
    by (auto simp: can_queue_def split: option.splits)
  then have "AddPacketToQueue TCP (packet_of HOST m) c = Inr (append_msg m c)"
    by (simp add: wire_simps append_msg_def)
  moreover have "assign p (append_msg m c) sv = tell {p} m sv"
    using c by (cases sv) (auto simp: assign_def tell_def fun_eq_iff)
  ultimately show ?thesis using c by (simp add: enqueue_def deref_def)
qed

lemma enqueue_fault:
  assumes "sv_heap sv p = Some c" and "q_freed (c_tcpPktQueue c)"
  shows "enqueue sv p TCP (packet_of HOST m) = Inl UseAfterFree"
  using assms by (simp add: enqueue_def deref_def wire_simps)

subsection \<open>The roster invariant\<close>

definition roster_ok :: "Server \<Rightarrow> bool" where
  "roster_ok sv \<longleftrightarrow>
     distinct (sv_clients sv) \<and> dom (sv_heap sv) = set (sv_clients sv) \<and>
     (\<forall>p \<in> set (sv_clients sv). p < sv_brk sv) \<and>
     (\<forall>p c. sv_heap sv p = Some c \<longrightarrow> IsConnected c)"

lemma roster_okD:
  assumes "roster_ok sv"
  shows "distinct (sv_clients sv)" "dom (sv_heap sv) = set (sv_clients sv)"
    "p \<in> set (sv_clients sv) \<Longrightarrow> p < sv_brk sv"
    "sv_heap sv p = Some c \<Longrightarrow> IsConnected c"
  using assms by (auto simp: roster_ok_def)

lemma roster_ok_deref:
  assumes "roster_ok sv" and "p \<in> set (sv_clients sv)"
  obtains c where "sv_heap sv p = Some c" and "IsConnected c"
proof -
  from assms have "p \<in> dom (sv_heap sv)" by (simp add: roster_okD)
  then obtain c where "sv_heap sv p = Some c" by blast
  with that roster_okD(4) [OF assms(1)] show thesis by blast
qed

lemma same_roster_ok:
  assumes "same_roster sv sv'" and "roster_ok sv"
  shows "roster_ok sv'"
proof -
  note same = same_roster_fields [OF assms(1)] same_roster_identity [OF assms(1)]
  have "sv_heap sv' p = None \<longleftrightarrow> sv_heap sv p = None" for p
    using same(7) [of p] by (cases "sv_heap sv p"; cases "sv_heap sv' p") simp_all
  then have dom: "dom (sv_heap sv') = dom (sv_heap sv)" unfolding dom_def by simp
  have "IsConnected c" if c: "sv_heap sv' p = Some c" for p c
  proof -
    from same(7) [of p] c obtain c0 where "sv_heap sv p = Some c0" and "identity c = identity c0"
      by (cases "sv_heap sv p") auto
    with assms(2) show ?thesis by (auto simp: roster_ok_def identity_def IsConnected_def)
  qed
  with assms(2) dom show ?thesis by (auto simp: roster_ok_def same(1-6))
qed

text \<open>
  The part of it that the loops over the clients need; it also holds while a new client is on
  the heap and not yet in the list.
\<close>

definition roster_live :: "Server \<Rightarrow> bool" where
  "roster_live sv \<longleftrightarrow>
     distinct (sv_clients sv) \<and>
     (\<forall>p \<in> set (sv_clients sv). \<exists>c. sv_heap sv p = Some c \<and> IsConnected c)"

lemma roster_ok_live: "roster_ok sv \<Longrightarrow> roster_live sv"
  by (auto simp: roster_live_def roster_okD(1) elim: roster_ok_deref)

lemma roster_live_deref:
  assumes "roster_live sv" and "p \<in> set (sv_clients sv)"
  obtains c where "sv_heap sv p = Some c" and "IsConnected c"
  using assms by (auto simp: roster_live_def)

lemma same_roster_live:
  assumes "same_roster sv sv'" and "roster_live sv"
  shows "roster_live sv'"
proof -
  note same = same_roster_fields [OF assms(1)] same_roster_identity [OF assms(1)]
  have "\<exists>c. sv_heap sv' p = Some c \<and> IsConnected c" if "p \<in> set (sv_clients sv)" for p
  proof -
    from assms(2) that obtain c0 where "sv_heap sv p = Some c0" "IsConnected c0"
      by (rule roster_live_deref)
    with same(7) [of p] show ?thesis
      by (cases "sv_heap sv' p") (auto simp: identity_def IsConnected_def)
  qed
  with assms(2) show ?thesis by (simp add: roster_live_def same(1))
qed

subsection \<open>The kick loop and the broadcast in terms of messages\<close>

lemma kick_loop_tell:
  assumes "distinct ptrs" and "\<And>p. p \<in> set ptrs \<Longrightarrow> p \<noteq> client \<Longrightarrow> can_queue sv p"
  shows "kick_loop client (packet_of HOST m) ptrs i k sv =
     Inr (if client \<in> set ptrs then int (i + length (takeWhile (\<lambda>p. p \<noteq> client) ptrs)) else k,
          tell (set ptrs - {client}) m sv)"
  using assms
proof (induction ptrs arbitrary: i k sv)
  case (Cons p ptrs)
  show ?case
  proof (cases "p = client")
    case True
    with Cons.prems have "client \<notin> set ptrs" by auto
    with True Cons show ?thesis by simp
  next
    case False
    with Cons.prems have "enqueue sv p TCP (packet_of HOST m) = Inr (tell {p} m sv)"
      by (intro enqueue_tell) simp
    moreover have "tell (set ptrs - {client}) m (tell {p} m sv) = tell (set (p # ptrs) - {client}) m sv"
      using False Cons.prems(1) by (subst tell_insert) (auto intro: arg_cong [where f = "\<lambda>s. tell s m sv"])
    ultimately show ?thesis using False Cons by simp
  qed
qed simp

lemma erase_takeWhile:
  assumes "x \<in> set xs"
  shows "erase (length (takeWhile (\<lambda>y. y \<noteq> x) xs)) xs = remove1 x xs"
  using assms by (induction xs) (auto simp: erase_def)

text \<open>A broadcast to connected clients tells those from the index on, and touches no network.\<close>

lemma broadcast_loop_tell:
  assumes "roster_live sv" and "\<And>p. p \<in> set (drop i (sv_clients sv)) \<Longrightarrow> can_queue sv p"
  shows "broadcast_loop N TCP (packet_of HOST m) i sv w
     = Inr (tell (set (drop i (sv_clients sv))) m sv, w)"
  using assms
proof (induction "length (sv_clients sv) - i" arbitrary: i sv)
  case 0
  then show ?case by (simp add: broadcast_loop.simps)
next
  case (Suc n)
  then have i: "i < length (sv_clients sv)" by simp
  let ?p = "sv_clients sv ! i" and ?rest = "set (drop (Suc i) (sv_clients sv))"
  have drop: "drop i (sv_clients sv) = ?p # drop (Suc i) (sv_clients sv)"
    using i by (simp add: Cons_nth_drop_Suc)
  from i have "?p \<in> set (sv_clients sv)" by simp
  with Suc.prems(1) obtain c where c: "sv_heap sv ?p = Some c" "IsConnected c"
    by (rule roster_live_deref)
  have "can_queue sv ?p" using Suc.prems(2) drop by simp
  then have enq: "enqueue sv ?p TCP (packet_of HOST m) = Inr (tell {?p} m sv)"
    by (rule enqueue_tell)
  have "distinct (drop i (sv_clients sv))" using Suc.prems(1) by (simp add: roster_live_def)
  then have "?p \<notin> ?rest" by (simp add: drop)
  then have tells: "tell ?rest m (tell {?p} m sv) = tell (set (drop i (sv_clients sv))) m sv"
    by (simp add: drop tell_insert)
  have "broadcast_loop N TCP (packet_of HOST m) (i + 1) (tell {?p} m sv) w
      = Inr (tell ?rest m (tell {?p} m sv), w)"
    using Suc.hyps(2) Suc.prems Suc.hyps(1) [of "tell {?p} m sv" "i + 1"]
    by (simp add: drop same_roster_live [OF same_roster_tell])
  with i c enq tells show ?case
    by (subst broadcast_loop.simps) (simp add: deref_def)
qed

end
