(* ===== verification/ServerOps.thy ===== *)
theory ServerOps
  imports ServerProps
begin

section \<open>The server's operations: functional behaviour and preservation\<close>

text \<open>
  \<open>KickClient\<close>, \<open>Broadcast\<close>, \<open>FlushClientPacketQueues\<close> and the admission of a client in terms
  of messages, and the preservation of the roster invariant by every operation that returns.
\<close>

subsection \<open>Kick\<close>

definition drop_client :: "nat \<Rightarrow> Server \<Rightarrow> Server" where
  "drop_client p sv =
     sv\<lparr>sv_clients := remove1 p (sv_clients sv), sv_heap := (sv_heap sv)(p := None)\<rparr>"

lemma KickClient_message:
  assumes ok: "roster_ok sv" and p: "p \<in> set (sv_clients sv)" "sv_heap sv p = Some c"
    and queues: "\<And>q. q \<in> set (sv_clients sv) \<Longrightarrow> q \<noteq> p \<Longrightarrow> can_queue sv q"
  shows "KickClient N (Some p) sv w =
     (if q_freed (c_tcpPktQueue c) \<or> q_freed (c_udpPktQueue c) then Inl DoubleFree
      else Inr (drop_client p (tell (set (sv_clients sv) - {p}) (PlayerDidLeave (c_playerID c)) sv),
                delete_Socket N (c_udpSocket c) (delete_Socket N (c_tcpSocket c) w)))"
proof -
  let ?sv = "tell (set (sv_clients sv) - {p}) (PlayerDidLeave (c_playerID c)) sv"
  let ?k = "length (takeWhile (\<lambda>q. q \<noteq> p) (sv_clients sv))"
  have "kick_loop p (packet_of HOST (PlayerDidLeave (c_playerID c))) (sv_clients sv) 0 (-1) sv
      = Inr (int ?k, ?sv)"
    using kick_loop_tell [of "sv_clients sv" p sv "PlayerDidLeave (c_playerID c)" 0 "-1"] ok p queues
    by (simp add: roster_okD)
  moreover have "erase ?k (sv_clients sv) = remove1 p (sv_clients sv)"
    using p(1) by (rule erase_takeWhile)
  ultimately show ?thesis
    using p by (simp add: KickClient_def deref_def GetPlayerID_def delete_Client_cases drop_client_def)
qed

lemma drop_client_ok:
  assumes "roster_ok sv"
  shows "roster_ok (drop_client p sv)"
proof -
  have "dom (sv_heap (drop_client p sv)) = set (sv_clients (drop_client p sv))"
    using assms by (simp add: drop_client_def roster_okD)
  with assms show ?thesis
    by (auto simp: roster_ok_def drop_client_def split: if_splits)
qed

text \<open>In general: whenever a kick of a listed client returns, the client is gone.\<close>

lemma KickClient_roster:
  assumes kick: "KickClient N (Some p) sv w = Inr (sv', w')" and ok: "roster_ok sv"
    and p: "p \<in> set (sv_clients sv)"
  shows "\<exists>sv1. same_roster sv sv1 \<and> sv' = drop_client p sv1"
proof -
  from kick obtain c k sv1 where loop: "kick_loop p
      (set_dword HOST M_playerID (GetPlayerID c) (PlayerDidLeavePacket HOST)) (sv_clients sv) 0 (-1) sv
      = Inr (k, sv1)" and sv': "sv' = (let s = sv1\<lparr>sv_heap := (sv_heap sv1)(p := None)\<rparr>
        in if k \<ge> 0 then s\<lparr>sv_clients := erase (nat k) (sv_clients s)\<rparr> else s)"
    by (auto simp: KickClient_def Let_def)
  from loop have same: "same_roster sv sv1" by (rule kick_loop_frame)
  from kick_loop_index [OF loop] p obtain j where j: "j < length (sv_clients sv)" "k = int j"
    "sv_clients sv ! j = p" by auto
  have "erase j (sv_clients sv) = remove1 p (sv_clients sv)"
  proof -
    have "sv_clients sv = take j (sv_clients sv) @ p # drop (Suc j) (sv_clients sv)"
      using id_take_nth_drop [OF j(1)] j(3) by simp
    moreover from this ok have "p \<notin> set (take j (sv_clients sv))"
      by (metis distinct_append disjoint_iff list.set_intros(1) roster_okD(1))
    ultimately show ?thesis unfolding erase_def by (metis remove1.simps(2) remove1_append)
  qed
  with sv' j same have "sv' = drop_client p sv1"
    by (simp add: drop_client_def Let_def same_roster_fields)
  with same show ?thesis by blast
qed

lemma KickClient_ok:
  assumes "KickClient N (Some p) sv w = Inr (sv', w')" "roster_ok sv" "p \<in> set (sv_clients sv)"
  shows "roster_ok sv'"
  using KickClient_roster [OF assms] assms(2) by (auto intro: drop_client_ok same_roster_ok)

text \<open>A client whose queue was flushed cannot be kicked without a fault.\<close>

lemma KickClient_freed:
  assumes c: "sv_heap sv p = Some c" and freed: "q_freed (c_tcpPktQueue c) \<or> q_freed (c_udpPktQueue c)"
  shows "KickClient N (Some p) sv w \<noteq> Inr r"
proof
  assume kick: "KickClient N (Some p) sv w = Inr r"
  let ?pkt = "packet_of HOST (PlayerDidLeave (c_playerID c))"
  have keeps: "\<lbrakk>kick_loop p pkt ptrs i k s = Inr (k', s')\<rbrakk> \<Longrightarrow> sv_heap s' p = sv_heap s p"
    for pkt ptrs i k s k' s'
  proof (induction p pkt ptrs i k s rule: kick_loop.induct)
    case (2 client pkt ptr ptrs i k s)
    then show ?case
      by (fastforce simp: enqueue_def deref_def assign_def split: if_splits option.splits)
  qed simp
  from kick c show False
  proof (auto simp: KickClient_def deref_def GetPlayerID_def Let_def)
    fix k sv1 c1 w1
    assume loop: "kick_loop p ?pkt (sv_clients sv) 0 (-1) sv = Inr (k, sv1)"
      and c1: "(case sv_heap sv1 p of None \<Rightarrow> Inl UseAfterFree | Some c \<Rightarrow> Inr c) = Inr c1"
      and del: "delete_Client N c1 w = Inr w1"
    from keeps [OF loop] c c1 have "c1 = c" by simp
    with del freed show False by (auto dest: delete_Client_Inr)
  qed
qed

subsection \<open>Broadcast\<close>

lemma Broadcast_message:
  assumes "roster_live sv" and "\<And>p. p \<in> set (sv_clients sv) \<Longrightarrow> can_queue sv p"
  shows "Broadcast N TCP (packet_of HOST m) sv w = Inr (tell (set (sv_clients sv)) m sv, w)"
  using broadcast_loop_tell [of sv 0 N m w] assms by (simp add: Broadcast_def)

text \<open>On a well-formed roster a broadcast that returns has kicked nobody.\<close>

lemma broadcast_loop_same_roster:
  assumes "broadcast_loop N proto pkt i sv w = Inr (sv', w')" and "roster_live sv"
  shows "same_roster sv sv' \<and> w' = w"
  using assms
proof (induction N proto pkt i sv w rule: broadcast_loop.induct)
  case (1 N proto pkt i sv w)
  show ?case
  proof (cases "i < length (sv_clients sv)")
    case False
    with "1.prems" show ?thesis by (simp add: broadcast_loop.simps)
  next
    case True
    let ?p = "sv_clients sv ! i"
    from True have "?p \<in> set (sv_clients sv)" by simp
    with "1.prems"(2) obtain c where c: "sv_heap sv ?p = Some c" "IsConnected c"
      by (rule roster_live_deref)
    then have d: "deref sv ?p = Inr c" by (simp add: deref_def)
    from "1.prems"(1) True c obtain sv1 where sv1: "enqueue sv ?p proto pkt = Inr sv1"
      and rest: "broadcast_loop N proto pkt (i + 1) sv1 w = Inr (sv', w')"
      by (subst (asm) broadcast_loop.simps) (auto simp: deref_def)
    from sv1 have same: "same_roster sv sv1" by (rule enqueue_frame)
    have "same_roster sv1 sv' \<and> w' = w"
      by (rule "1.IH"(1) [OF True refl d c(2) sv1 rest same_roster_live [OF same "1.prems"(2)]])
    with same show ?thesis by (auto intro: same_roster_trans)
  qed
qed

lemma Broadcast_same_roster:
  "Broadcast N proto pkt sv w = Inr (sv', w') \<Longrightarrow> roster_live sv \<Longrightarrow> same_roster sv sv' \<and> w' = w"
  unfolding Broadcast_def by (rule broadcast_loop_same_roster)

subsection \<open>Flush\<close>

text \<open>What a flush leaves of a queue, of a client, and of the clients it went through.\<close>

definition flushed_queue :: "PktQueue \<Rightarrow> PktQueue" where
  "flushed_queue q = (if q_bytes q = [] then q else \<lparr>q_bytes = [], q_freed = True\<rparr>)"

definition flushed_client :: "Client \<Rightarrow> Client" where
  "flushed_client c = c\<lparr>c_tcpPktQueue := flushed_queue (c_tcpPktQueue c),
                        c_udpPktQueue := flushed_queue (c_udpPktQueue c)\<rparr>"

definition flush_all :: "nat set \<Rightarrow> Server \<Rightarrow> Server" where
  "flush_all ps sv = sv\<lparr>sv_heap := (\<lambda>p. if p \<in> ps then map_option flushed_client (sv_heap sv p)
                                        else sv_heap sv p)\<rparr>"

lemma flush_all_insert:
  "p \<notin> ps \<Longrightarrow> flush_all ps (flush_all {p} sv) = flush_all (insert p ps) sv"
  by (cases sv) (auto simp: flush_all_def fun_eq_iff)

lemma identity_flushed [simp]: "identity (flushed_client c) = identity c"
  by (simp add: identity_def flushed_client_def)

lemma same_roster_flush_all: "same_roster sv (flush_all ps sv)"
  by (simp add: same_roster_def flush_all_def option.map_comp comp_def)

lemma SendPacketQueue_result:
  assumes "SendPacketQueue N proto c w = Inr (r, c', w')"
  shows "c' = (if proto = UDP then c\<lparr>c_udpPktQueue := flushed_queue (c_udpPktQueue c)\<rparr>
               else c\<lparr>c_tcpPktQueue := flushed_queue (c_tcpPktQueue c)\<rparr>)"
  using assms by (auto simp: SendPacketQueue_def Let_def flushed_queue_def split: if_splits)

lemma flush_client_True:
  assumes "flush_client N p sv w = Inr (True, sv', w')"
  shows "sv' = flush_all {p} sv"
proof -
  from assms obtain c c1 c2 w1 where c: "sv_heap sv p = Some c"
    and tcp: "SendPacketQueue N TCP c w = Inr (True, c1, w1)"
    and udp: "SendPacketQueue N UDP c1 w1 = Inr (True, c2, w')"
    and sv': "sv' = assign p c2 (assign p c1 sv)"
    by (auto simp: flush_client_def deref_def Let_def split: option.splits if_splits)
  from SendPacketQueue_result [OF tcp] SendPacketQueue_result [OF udp]
  have "c2 = flushed_client c" by (simp add: flushed_client_def)
  with c sv' show ?thesis
    by (cases sv) (auto simp: assign_def flush_all_def fun_eq_iff)
qed

lemma flush_client_False:
  assumes "flush_client N p sv w = Inr (False, sv', w')"
  shows "\<exists>c. sv_heap sv' p = Some c \<and> (q_freed (c_tcpPktQueue c) \<or> q_freed (c_udpPktQueue c))"
proof -
  from assms obtain c ok1 c1 w1 where
    tcp: "SendPacketQueue N TCP c w = Inr (ok1, c1, w1)"
    and rest: "(if \<not> ok1 then Inr (False, assign p c1 sv, w1)
        else rbind (SendPacketQueue N UDP c1 w1) (\<lambda>(ok, c, w).
             Inr (ok, assign p c (assign p c1 sv), w))) = Inr (False, sv', w')"
    by (auto simp: flush_client_def deref_def Let_def split: option.splits)
  show ?thesis
  proof (cases ok1)
    case False
    with rest SendPacketQueue_False [of N TCP c w c1 w1] tcp show ?thesis
      by (auto simp: assign_def)
  next
    case True
    with rest obtain c2 where "SendPacketQueue N UDP c1 w1 = Inr (False, c2, w')"
      and "sv' = assign p c2 (assign p c1 sv)" by auto
    with SendPacketQueue_False [of N UDP c1 w1 c2 w'] show ?thesis
      by (auto simp: assign_def)
  qed
qed

text \<open>
  A flush that returns on a well-formed roster has sent every queue and kicked nobody: the
  branch that kicks a client after a failed send always ends in a fault.
\<close>

lemma flush_loop_connected:
  assumes "i < length (sv_clients sv)" and "deref sv (sv_clients sv ! i) = Inr c" and "IsConnected c"
  shows "flush_loop N i sv w =
     rbind (flush_client N (sv_clients sv ! i) sv w) (\<lambda>(ok, sv1, w1).
       if \<not> ok
       then rbind (KickClient N (Some (sv_clients sv ! i)) sv1 w1) (\<lambda>(sv2, w2). flush_loop N i sv2 w2)
       else flush_loop N (i + 1) sv1 w1)"
  using assms by (subst flush_loop.simps) (simp add: Let_def)

lemma flush_loop_result:
  assumes "flush_loop N i sv w = Inr (sv', w')" and "roster_ok sv"
  shows "sv' = flush_all (set (drop i (sv_clients sv))) sv"
  using assms
proof (induction N i sv w rule: flush_loop.induct)
  case (1 N i sv w)
  show ?case
  proof (cases "i < length (sv_clients sv)")
    case False
    with "1.prems" show ?thesis by (simp add: flush_loop.simps flush_all_def)
  next
    case True
    let ?p = "sv_clients sv ! i" and ?rest = "set (drop (Suc i) (sv_clients sv))"
    have drop: "drop i (sv_clients sv) = ?p # drop (Suc i) (sv_clients sv)"
      using True by (simp add: Cons_nth_drop_Suc)
    have "distinct (drop i (sv_clients sv))" using "1.prems"(2) by (simp add: roster_okD)
    then have notin: "?p \<notin> ?rest" by (simp add: drop)
    from True have "?p \<in> set (sv_clients sv)" by simp
    with "1.prems"(2) obtain c where c: "sv_heap sv ?p = Some c" "IsConnected c"
      by (rule roster_ok_deref)
    then have d: "deref sv ?p = Inr c" by (simp add: deref_def)
    from "1.prems"(1) True c obtain ok sv1 w1 where f: "flush_client N ?p sv w = Inr (ok, sv1, w1)"
      and rest: "(if \<not> ok then rbind (KickClient N (Some ?p) sv1 w1) (\<lambda>(sv2, w2). flush_loop N i sv2 w2)
        else flush_loop N (i + 1) sv1 w1) = Inr (sv', w')"
      unfolding flush_loop_connected [OF True d c(2)] by auto
    have ok
    proof (rule ccontr)
      assume "\<not> ok"
      with f rest flush_client_False [of N ?p sv w sv1 w1] show False
        by (auto dest: KickClient_freed)
    qed
    with f rest have sv1: "sv1 = flush_all {?p} sv"
      and next_i: "flush_loop N (i + 1) sv1 w1 = Inr (sv', w')"
      by (auto dest: flush_client_True)
    have same: "same_roster sv sv1" unfolding sv1 by (rule same_roster_flush_all)
    have "sv' = flush_all (set (drop (i + 1) (sv_clients sv1))) sv1"
      using True d c f \<open>ok\<close> next_i same "1.prems"(2)
      by (intro "1.IH"(3) [OF True refl d _ f refl refl]) (auto intro: same_roster_ok)
    then show ?thesis
      using notin by (simp add: sv1 drop flush_all_insert same_roster_fields [OF same_roster_flush_all])
  qed
qed

lemma Flush_result:
  "FlushClientPacketQueues N sv w = Inr (sv', w') \<Longrightarrow> roster_ok sv \<Longrightarrow>
     sv' = flush_all (set (sv_clients sv)) sv"
  using flush_loop_result [of N 0 sv w sv' w'] by (simp add: FlushClientPacketQueues_def)

lemma Flush_ok:
  "FlushClientPacketQueues N sv w = Inr (sv', w') \<Longrightarrow> roster_ok sv \<Longrightarrow> roster_ok sv'"
  by (auto dest: Flush_result intro: same_roster_ok same_roster_flush_all)

end
