(* ===== verification/Admission.thy ===== *)
theory Admission
  imports ServerOps
begin

section \<open>Admitting clients\<close>

text \<open>
  Teams and player numbers, \<open>AcceptNewClient\<close> in terms of messages, the handling of new
  connections, and what is true of every state the server's calls lead to.
\<close>

subsection \<open>Teams\<close>

definition team_of :: "Server \<Rightarrow> nat \<Rightarrow> Team option" where
  "team_of sv p = map_option c_team (sv_heap sv p)"

definition mercs :: "Server \<Rightarrow> int" where
  "mercs sv = int (length (filter (\<lambda>p. team_of sv p = Some TEAM_MERC) (sv_clients sv)))"

definition spies :: "Server \<Rightarrow> int" where
  "spies sv = int (length (filter (\<lambda>p. team_of sv p = Some TEAM_SPY) (sv_clients sv)))"

lemma team_counts_filter:
  assumes "\<And>p. p \<in> set ps \<Longrightarrow> sv_heap sv p \<noteq> None"
  shows "team_counts sv ps (m, s) =
     Inr (m + int (length (filter (\<lambda>p. team_of sv p = Some TEAM_MERC) ps)),
          s + int (length (filter (\<lambda>p. team_of sv p = Some TEAM_SPY) ps)))"
  using assms
proof (induction ps arbitrary: m s)
  case (Cons p ps)
  then obtain c where c: "sv_heap sv p = Some c" by fastforce
  show ?case
    using Cons c by (cases "c_team c") (auto simp: deref_def GetTeam_def team_of_def)
qed simp

lemma TeamCounts_eq:
  assumes "roster_live sv"
  shows "TeamCounts sv = Inr (mercs sv, spies sv)"
proof -
  have "sv_heap sv p \<noteq> None" if "p \<in> set (sv_clients sv)" for p
    using assms that by (auto elim: roster_live_deref)
  then show ?thesis by (simp add: TeamCounts_def team_counts_filter mercs_def spies_def)
qed

lemma GetTeam_eq:
  "roster_live sv \<Longrightarrow>
     GetTeamForNextPlayer sv = Inr (if mercs sv > spies sv then TEAM_SPY else TEAM_MERC)"
  by (simp add: GetTeamForNextPlayer_def TeamCounts_eq)

lemma same_roster_team_of: "same_roster sv sv' \<Longrightarrow> team_of sv' p = team_of sv p"
proof -
  assume "same_roster sv sv'"
  then have "map_option identity (sv_heap sv' p) = map_option identity (sv_heap sv p)"
    by (rule same_roster_identity)
  then show ?thesis
    by (cases "sv_heap sv p"; cases "sv_heap sv' p") (auto simp: team_of_def identity_def)
qed

lemma same_roster_counts:
  assumes "same_roster sv sv'"
  shows "mercs sv' = mercs sv" "spies sv' = spies sv"
  using assms by (simp_all add: mercs_def spies_def same_roster_team_of same_roster_fields)

subsection \<open>A client on the heap and not yet in the list\<close>

definition with_client :: "Client \<Rightarrow> Server \<Rightarrow> Server" where
  "with_client c sv =
     sv\<lparr>sv_heap := (sv_heap sv)(sv_brk sv \<mapsto> c), sv_brk := sv_brk sv + 1,
        sv_playerId := sv_playerId sv + 1\<rparr>"

definition listed :: "nat \<Rightarrow> Server \<Rightarrow> Server" where
  "listed p sv = sv\<lparr>sv_clients := sv_clients sv @ [p]\<rparr>"

lemma with_client_simps [simp]:
  "sv_clients (with_client c sv) = sv_clients sv"
  "sv_heap (with_client c sv) = (sv_heap sv)(sv_brk sv \<mapsto> c)"
  "sv_brk (with_client c sv) = sv_brk sv + 1" "sv_playerId (with_client c sv) = sv_playerId sv + 1"
  "sv_protoPhase (with_client c sv) = sv_protoPhase sv"
  "sv_newConnections (with_client c sv) = sv_newConnections sv"
  by (simp_all add: with_client_def)

lemma brk_fresh: "roster_ok sv \<Longrightarrow> sv_brk sv \<notin> set (sv_clients sv)"
  by (auto dest: roster_okD(3))

lemma with_client_live:
  assumes "roster_ok sv"
  shows "roster_live (with_client c sv)"
  using assms brk_fresh [OF assms] by (auto simp: roster_live_def roster_okD(1) elim: roster_ok_deref)

lemma listed_ok:
  assumes ok: "roster_ok sv" and same: "same_roster (with_client c sv) sv'" and "IsConnected c"
  shows "roster_ok (listed (sv_brk sv) sv')"
proof -
  note f = same_roster_fields [OF same] and i = same_roster_identity [OF same]
  have dom: "dom (sv_heap sv') = insert (sv_brk sv) (set (sv_clients sv))"
  proof -
    have "sv_heap sv' p = None \<longleftrightarrow> sv_heap (with_client c sv) p = None" for p
      using i [of p] by (cases "sv_heap sv' p"; cases "sv_heap (with_client c sv) p") simp_all
    then have "dom (sv_heap sv') = dom (sv_heap (with_client c sv))" unfolding dom_def by simp
    then show ?thesis using ok by (simp add: roster_okD)
  qed
  moreover have "IsConnected d" if d: "sv_heap sv' p = Some d" for p d
  proof -
    from i [of p] d obtain d0 where "sv_heap (with_client c sv) p = Some d0" "identity d = identity d0"
      by (cases "sv_heap (with_client c sv) p") auto
    then show ?thesis using ok assms(3)
      by (auto simp: identity_def IsConnected_def roster_ok_def split: if_splits)
  qed
  moreover have "distinct (sv_clients sv @ [sv_brk sv])"
    using ok brk_fresh [OF ok] by (simp add: roster_okD)
  ultimately show ?thesis
    using ok by (auto simp: roster_ok_def listed_def f)
qed

subsection \<open>\<open>admit\<close>\<close>

lemma next_team:
  assumes "roster_ok sv"
  shows "GetTeamForNextPlayer (sv\<lparr>sv_playerId := k\<rparr>)
    = Inr (if mercs sv > spies sv then TEAM_SPY else TEAM_MERC)"
proof -
  have "roster_live (sv\<lparr>sv_playerId := k\<rparr>)"
    using roster_ok_live [OF assms] by (simp add: roster_live_def)
  moreover have "mercs (sv\<lparr>sv_playerId := k\<rparr>) = mercs sv" "spies (sv\<lparr>sv_playerId := k\<rparr>) = spies sv"
    by (simp_all add: mercs_def spies_def team_of_def)
  ultimately show ?thesis by (simp add: GetTeam_eq)
qed

lemma admit_eq:
  assumes ok: "roster_ok sv" and c: "new_Client N (sv_playerId sv) team port sock w = Inr (c, w1)"
    and team: "team = (if mercs sv > spies sv then TEAM_SPY else TEAM_MERC)"
  shows "admit N sock port sv w =
     rbind (SendPacket_bytes N sock (encode (JoinResponse True (sv_playerId sv) (team_code team))) w1)
       (\<lambda>(ok, w2).
         if \<not> ok
         then Inr ((with_client c sv)\<lparr>sv_heap := (sv_heap sv)(sv_brk sv := None)\<rparr>,
                   delete_Socket N (c_udpSocket c) (delete_Socket N sock w2))
         else rbind (Broadcast N TCP (packet_of HOST (PlayerDidJoin (sv_playerId sv) (team_code team)))
                       (with_client c sv) w2) (\<lambda>(sv', w3). Inr (listed (sv_brk sv) sv', w3)))"
proof -
  let ?sv = "sv\<lparr>sv_playerId := sv_playerId sv + 1\<rparr>"
  let ?id = "sv_playerId sv"
  have t: "GetTeamForNextPlayer ?sv = Inr team" by (simp add: next_team [OF ok] team)
  note cl = new_Client_Inr [OF c]
  have brk: "sv_brk ?sv = sv_brk sv" by simp
  have freed: "(sv_heap (with_client c sv))(sv_brk sv := None) = (sv_heap sv)(sv_brk sv := None)"
    by simp
  have assigned: "(assign (sv_brk sv) c ?sv)\<lparr>sv_brk := sv_brk sv + 1\<rparr> = with_client c sv"
    by (simp add: assign_def with_client_def)
  have resp: "SendJoinResponsePacket N c w1
      = SendPacket_bytes N sock (encode (JoinResponse True ?id (team_code team))) w1"
    using cl by (simp add: SendJoinResponse_encode Client_SendPacket_packet_of)
  have pkt: "(set_dword HOST M_team (team_code (GetTeam c))
      \<circ> set_dword HOST M_playerID (GetPlayerID c)) (PlayerDidJoinPacket HOST)
    = packet_of HOST (PlayerDidJoin ?id (team_code team))"
    using cl by (simp add: GetTeam_def GetPlayerID_def)
  have del: "delete_Client N c w2
      = Inr (delete_Socket N (c_udpSocket c) (delete_Socket N sock w2))" for w2
    using cl by (simp add: delete_Client_cases empty_queue_def)
  show ?thesis
    unfolding admit_def GetNextPlayerID_def Let_def prod.case t rbind_Inr c brk assigned resp pkt del
      freed listed_def
    by (rule refl)
qed

lemma admit_result:
  assumes ok: "roster_ok sv" and adm: "admit N sock port sv w = Inr (sv', w')"
    and sock: "IsConnectionOpen sock"
  obtains (refused) c where "sv' = (with_client c sv)\<lparr>sv_heap := (sv_heap sv)(sv_brk sv := None)\<rparr>"
  | (admitted) c s where "same_roster (with_client c sv) s" "sv' = listed (sv_brk sv) s"
      "IsConnected c" "c_playerID c = sv_playerId sv" "c_tcpSocket c = sock"
      "c_team c = (if mercs sv > spies sv then TEAM_SPY else TEAM_MERC)"
proof -
  define team where "team = (if mercs sv > spies sv then TEAM_SPY else TEAM_MERC)"
  from adm obtain c w1 where c: "new_Client N (sv_playerId sv) team port sock w = Inr (c, w1)"
    unfolding admit_def GetNextPlayerID_def Let_def prod.case next_team [OF ok] rbind_Inr
      team_def [symmetric]
    by (cases "new_Client N (sv_playerId sv) team port sock w") (simp_all add: split_paired_all)
  note cl = new_Client_Inr [OF c]
  have conn: "IsConnected c" using cl sock by (simp add: IsConnected_def)
  from adm [unfolded admit_eq [OF ok c team_def]] obtain sent w2 where
    rest: "(if \<not> sent then Inr ((with_client c sv)\<lparr>sv_heap := (sv_heap sv)(sv_brk sv := None)\<rparr>,
                   delete_Socket N (c_udpSocket c) (delete_Socket N sock w2))
       else rbind (Broadcast N TCP (packet_of HOST (PlayerDidJoin (sv_playerId sv) (team_code team)))
                       (with_client c sv) w2) (\<lambda>(sv', w3). Inr (listed (sv_brk sv) sv', w3)))
      = Inr (sv', w')"
    by auto
  show thesis
  proof (cases sent)
    case False
    with rest show thesis by (intro refused [of c]) simp
  next
    case True
    with rest obtain s w3 where bc: "Broadcast N TCP
        (packet_of HOST (PlayerDidJoin (sv_playerId sv) (team_code team))) (with_client c sv) w2 = Inr (s, w3)"
      and sv': "sv' = listed (sv_brk sv) s" by auto
    from Broadcast_same_roster [OF bc with_client_live [OF ok]] have "same_roster (with_client c sv) s" ..
    then show thesis using sv' conn cl by (intro admitted [of c s]) (simp_all add: team_def)
  qed
qed

lemma admit_ok:
  assumes "roster_ok sv" "admit N sock port sv w = Inr (sv', w')" "IsConnectionOpen sock"
  shows "roster_ok sv'"
  using assms
proof (cases rule: admit_result)
  case (refused c)
  have "(sv_heap sv)(sv_brk sv := None) = sv_heap sv"
    using roster_okD(2) [OF assms(1)] brk_fresh [OF assms(1)] by fastforce
  with refused assms(1) show ?thesis by (fastforce simp: roster_ok_def less_Suc_eq)
next
  case (admitted c s)
  with assms(1) show ?thesis by (auto intro: listed_ok)
qed

end
