(* ===== verification/Service.thy ===== *)
theory Service
  imports Admission
begin

section \<open>The server as a whole\<close>

text \<open>
  The operations of the server's thread as a step relation and its invariants: the roster is
  well formed, holds at most four clients, and no two of them share a number while the counter
  has not wrapped. Then the loops of the server itself: what comes of a connection, of the
  handling of the new connections, and of the main loop.
\<close>

subsection \<open>Teams and numbers of the admitted\<close>

lemma with_client_team_of:
  "team_of (with_client c sv) p = (if p = sv_brk sv then Some (c_team c) else team_of sv p)"
  by (simp add: team_of_def)

lemma listed_counts:
  assumes ok: "roster_ok sv" and same: "same_roster (with_client c sv) s"
  shows "mercs (listed (sv_brk sv) s) = mercs sv + (if c_team c = TEAM_MERC then 1 else 0)"
    "spies (listed (sv_brk sv) s) = spies sv + (if c_team c = TEAM_SPY then 1 else 0)"
proof -
  note f = same_roster_fields [OF same]
  have team: "team_of (listed q s) p = (if p = sv_brk sv then Some (c_team c) else team_of sv p)" for p q
    using same_roster_team_of [OF same, of p] by (simp add: listed_def team_of_def)
  have clients: "sv_clients (listed (sv_brk sv) s) = sv_clients sv @ [sv_brk sv]"
    by (simp add: listed_def f)
  have eq: "filter (\<lambda>p. team_of (listed q s) p = t) (sv_clients sv)
      = filter (\<lambda>p. team_of sv p = t) (sv_clients sv)" for t q
    using brk_fresh [OF ok] by (intro filter_cong) (auto simp: team)
  show "mercs (listed (sv_brk sv) s) = mercs sv + (if c_team c = TEAM_MERC then 1 else 0)"
    "spies (listed (sv_brk sv) s) = spies sv + (if c_team c = TEAM_SPY then 1 else 0)"
    unfolding mercs_def spies_def clients filter_append eq by (simp_all add: team)
qed

text \<open>Two listed clients do not share a number, and the counter is beyond all of them.\<close>

definition number_of :: "Server \<Rightarrow> nat \<Rightarrow> u32 option" where
  "number_of sv p = map_option c_playerID (sv_heap sv p)"

definition numbers_ok :: "Server \<Rightarrow> bool" where
  "numbers_ok sv \<longleftrightarrow>
     (\<forall>p \<in> set (sv_clients sv). \<forall>k. number_of sv p = Some k \<longrightarrow> 0 < k \<and> k < sv_playerId sv) \<and>
     inj_on (number_of sv) (set (sv_clients sv))"

lemma same_roster_number_of: "same_roster sv sv' \<Longrightarrow> number_of sv' p = number_of sv p"
  using same_roster_identity [of sv sv' p]
  by (cases "sv_heap sv p"; cases "sv_heap sv' p") (auto simp: number_of_def identity_def)

lemma same_roster_numbers: "same_roster sv sv' \<Longrightarrow> numbers_ok sv \<Longrightarrow> numbers_ok sv'"
  by (simp add: numbers_ok_def same_roster_number_of same_roster_fields inj_on_def)

lemma drop_client_numbers:
  "roster_ok sv \<Longrightarrow> numbers_ok sv \<Longrightarrow> numbers_ok (drop_client p sv)"
  by (auto simp: numbers_ok_def drop_client_def number_of_def roster_okD inj_on_def)

lemma listed_numbers:
  assumes ok: "roster_ok sv" and num: "numbers_ok sv" and same: "same_roster (with_client c sv) s"
    and id: "c_playerID c = sv_playerId sv" and pos: "0 < sv_playerId sv"
    and wrap: "sv_playerId sv < sv_playerId sv + 1"
  shows "numbers_ok (listed (sv_brk sv) s)"
proof -
  note f = same_roster_fields [OF same] and fresh = brk_fresh [OF ok]
  have n: "number_of (listed q s) p = (if p = sv_brk sv then Some (sv_playerId sv) else number_of sv p)" for p q
    using same_roster_number_of [OF same, of p] by (simp add: listed_def number_of_def id)
  have old: "k < sv_playerId sv \<and> 0 < k" if "p \<in> set (sv_clients sv)" "number_of sv p = Some k" for p k
    using num that by (auto simp: numbers_ok_def)
  have "inj_on (number_of (listed (sv_brk sv) s)) (insert (sv_brk sv) (set (sv_clients sv)))"
    using num fresh old by (auto simp: inj_on_def numbers_ok_def n split: if_splits) (metis order_less_irrefl)+
  moreover have "0 < k \<and> k < sv_playerId sv + 1"
    if "p \<in> insert (sv_brk sv) (set (sv_clients sv))" "number_of (listed (sv_brk sv) s) p = Some k" for p k
    using that old [of p k] pos wrap by (auto simp: n split: if_splits)
  ultimately show ?thesis
    by (simp add: numbers_ok_def) (simp add: listed_def f)
qed

subsection \<open>The operations as steps\<close>

text \<open>
  What the server's thread does to the roster between the reads from the network: it admits a
  client whose join request has been read, kicks a listed client, broadcasts, flushes.
\<close>

inductive server_step :: "'w SDLNet \<Rightarrow> Server \<Rightarrow> Server \<Rightarrow> bool" for N where
  admits: "sv_protoPhase sv = PROTO_LOBBY \<Longrightarrow> \<not> IsServerFull sv \<Longrightarrow> IsConnectionOpen sock \<Longrightarrow>
     admit N sock port sv w = Inr (sv', w') \<Longrightarrow> server_step N sv sv'"
| kicks: "p \<in> set (sv_clients sv) \<Longrightarrow> KickClient N (Some p) sv w = Inr (sv', w') \<Longrightarrow>
     server_step N sv sv'"
| broadcasts: "Broadcast N proto packet sv w = Inr (sv', w') \<Longrightarrow> server_step N sv sv'"
| flushes: "FlushClientPacketQueues N sv w = Inr (sv', w') \<Longrightarrow> server_step N sv sv'"
| arrives: "server_step N sv (sv\<lparr>sv_newConnections := conns\<rparr>)"

definition server_start :: "'w SDLNet \<Rightarrow> Server \<Rightarrow> bool" where
  "server_start N sv \<longleftrightarrow> (\<exists>w w'. new_Server N w = Inr (sv, w'))"

definition roster_inv :: "Server \<Rightarrow> bool" where
  "roster_inv sv \<longleftrightarrow> roster_ok sv \<and> length (sv_clients sv) \<le> MAX_PLAYERS"

lemma roster_ok_conns [simp]: "roster_ok (sv\<lparr>sv_newConnections := q\<rparr>) = roster_ok sv"
  by (simp add: roster_ok_def)

lemma server_step_cases:
  assumes "server_step N sv sv'" and ok: "roster_ok sv"
  obtains (refused) c where "\<not> IsServerFull sv"
      "sv' = (with_client c sv)\<lparr>sv_heap := (sv_heap sv)(sv_brk sv := None)\<rparr>"
  | (admitted) c s where "\<not> IsServerFull sv" "same_roster (with_client c sv) s"
      "sv' = listed (sv_brk sv) s" "c_playerID c = sv_playerId sv"
      "c_team c = (if mercs sv > spies sv then TEAM_SPY else TEAM_MERC)"
  | (kicked) p s where "p \<in> set (sv_clients sv)" "same_roster sv s" "sv' = drop_client p s"
  | (same) "same_roster sv sv'"
  | (conns) q where "sv' = sv\<lparr>sv_newConnections := q\<rparr>"
  using assms(1)
proof cases
  case (admits sock port w w')
  show thesis
    by (rule admit_result [OF ok admits(4,3)]) (use admits(2) refused admitted in blast)+
next
  case (kicks p w w')
  with KickClient_roster [OF kicks(2) ok kicks(1)] kicked show thesis by blast
next
  case (broadcasts proto packet w w')
  from Broadcast_same_roster [OF broadcasts roster_ok_live [OF ok]] same show thesis by blast
next
  case (flushes w w')
  then show thesis using Flush_result [OF _ ok] same_roster_flush_all same by metis
next
  case (arrives q)
  then show thesis by (rule conns)
qed

lemma server_step_ok:
  assumes "server_step N sv sv'" and ok: "roster_ok sv"
  shows "roster_ok sv'"
  using assms(1)
proof cases
  case (kicks p w w')
  with ok show ?thesis by (auto intro: KickClient_ok)
next
  case (broadcasts proto packet w w')
  from Broadcast_same_roster [OF broadcasts roster_ok_live [OF ok]] ok show ?thesis
    by (auto intro: same_roster_ok)
qed (use ok in \<open>auto intro: admit_ok Flush_ok\<close>)

lemma server_step_inv:
  assumes step: "server_step N sv sv'" and inv: "roster_inv sv"
  shows "roster_inv sv'"
proof -
  from inv have ok: "roster_ok sv" by (simp add: roster_inv_def)
  from step ok have "length (sv_clients sv') \<le> MAX_PLAYERS"
  proof (cases rule: server_step_cases)
    case (admitted c s)
    then show ?thesis using inv by (simp add: listed_def same_roster_fields IsServerFull_def)
  next
    case (kicked p s)
    then show ?thesis
      using inv by (auto simp: drop_client_def same_roster_fields length_remove1 roster_inv_def)
  qed (use inv in \<open>simp_all add: roster_inv_def same_roster_fields\<close>)
  with server_step_ok [OF step ok] show ?thesis by (simp add: roster_inv_def)
qed

lemma new_Server_Inr:
  "new_Server N w = Inr (sv, w') \<Longrightarrow>
     sv_clients sv = [] \<and> sv_heap sv = Map.empty \<and> sv_playerId sv = 1 \<and> sv_protoPhase sv = PROTO_LOBBY
     \<and> sv_newConnections sv = []"
  by (auto simp: new_Server_def)

interpretation roster: inductive_invariant "server_start N" "server_step N" roster_inv for N
proof unfold_locales
  show "roster_inv sv" if "server_start N sv" for sv
    using that by (auto simp: server_start_def roster_inv_def roster_ok_def dest!: new_Server_Inr)
qed (rule server_step_inv)

text \<open>The numbers, for as long as the counter does not wrap.\<close>

definition numbers_inv :: "Server \<Rightarrow> bool" where
  "numbers_inv sv \<longleftrightarrow> roster_ok sv \<and> 0 < sv_playerId sv \<and> numbers_ok sv"

text \<open>A step that draws no number beyond the last one.\<close>

definition numbered_step :: "'w SDLNet \<Rightarrow> Server \<Rightarrow> Server \<Rightarrow> bool" where
  "numbered_step N sv sv' \<longleftrightarrow> server_step N sv sv' \<and> sv_playerId sv < sv_playerId sv + 1"

lemma numbers_refused:
  assumes "roster_ok sv" "numbers_ok sv" and "sv_playerId sv < sv_playerId sv + 1"
  shows "numbers_ok ((with_client c sv)\<lparr>sv_heap := (sv_heap sv)(sv_brk sv := None)\<rparr>)"
    (is "numbers_ok ?sv")
proof -
  have "number_of ?sv p = number_of sv p" if "p \<in> set (sv_clients sv)" for p
    using that brk_fresh [OF assms(1)] by (auto simp: number_of_def)
  with assms show ?thesis by (fastforce simp: numbers_ok_def inj_on_def)
qed

lemma numbered_step_inv:
  assumes step: "numbered_step N sv sv'" and inv: "numbers_inv sv"
  shows "numbers_inv sv'"
proof -
  from inv have ok: "roster_ok sv" and num: "numbers_ok sv" and pos: "0 < sv_playerId sv"
    by (simp_all add: numbers_inv_def)
  from step have s: "server_step N sv sv'" and wrap: "sv_playerId sv < sv_playerId sv + 1"
    by (simp_all add: numbered_step_def)
  from s ok have "0 < sv_playerId sv' \<and> numbers_ok sv'"
  proof (cases rule: server_step_cases)
    case (refused c)
    then show ?thesis using numbers_refused [OF ok num wrap] wrap pos by auto
  next
    case (admitted c t)
    moreover have "sv_playerId (listed (sv_brk sv) t) = sv_playerId sv + 1"
      using admitted(2) by (simp add: listed_def same_roster_fields)
    ultimately show ?thesis using listed_numbers [OF ok num admitted(2,4) pos wrap] wrap pos by auto
  next
    case (kicked p t)
    then have "roster_ok t" "numbers_ok t"
      using ok num by (auto intro: same_roster_ok same_roster_numbers)
    then have "numbers_ok sv'" unfolding kicked(3) by (rule drop_client_numbers)
    moreover have "sv_playerId sv' = sv_playerId sv"
      using kicked by (simp add: drop_client_def same_roster_fields)
    ultimately show ?thesis using pos by simp
  next
    case same
    with num pos show ?thesis by (auto simp: same_roster_fields intro: same_roster_numbers)
  next
    case (conns q)
    with num pos show ?thesis by (simp add: numbers_ok_def number_of_def [abs_def])
  qed
  with server_step_ok [OF s ok] show ?thesis by (simp add: numbers_inv_def)
qed

interpretation numbers: inductive_invariant "server_start N" "numbered_step N" numbers_inv for N
proof unfold_locales
  show "numbers_inv sv" if "server_start N sv" for sv
    using that by (auto simp: server_start_def numbers_inv_def roster_ok_def numbers_ok_def
        dest!: new_Server_Inr)
qed (rule numbered_step_inv)

text \<open>An admitted client goes to the smaller team, mercs when they are equal.\<close>

lemma admit_balance:
  assumes ok: "roster_ok sv" and adm: "admit N sock port sv w = Inr (sv', w')"
    and sock: "IsConnectionOpen sock"
  shows "\<bar>mercs sv' - spies sv'\<bar> \<le> max 1 \<bar>mercs sv - spies sv\<bar>"
  using ok adm sock
proof (cases rule: admit_result)
  case (refused c)
  have "team_of sv' p = team_of sv p" if "p \<in> set (sv_clients sv)" for p
    using that brk_fresh [OF ok] by (auto simp: team_of_def refused)
  then have "mercs sv' = mercs sv" "spies sv' = spies sv"
    by (auto simp: mercs_def spies_def refused intro!: arg_cong [where f = length] filter_cong)
  then show ?thesis by simp
next
  case (admitted c s)
  with listed_counts [OF ok admitted(1)] show ?thesis by (auto split: if_splits)
qed

end
