(* ===== verification/Lobby.thy ===== *)
theory Lobby
  imports Service
begin

section \<open>The lobby: what the server promises\<close>

text \<open>
  The contract of the server's client list, without pointers, sockets and queues: the players in
  the order they joined, each with number and team, and the next number. A join appends a player
  of the smaller team, a failed response only uses up a number, a kick takes out one player. The
  operations of the server implement these three, and the steps of the server are steps of the
  lobby.
\<close>

subsection \<open>The abstract lobby\<close>

record Lobby =
  lb_players :: "(u32 \<times> Team) list"
  lb_next :: u32

definition new_lobby :: Lobby where
  "new_lobby = \<lparr>lb_players = [], lb_next = 1\<rparr>"

definition members :: "Team \<Rightarrow> Lobby \<Rightarrow> nat" where
  "members t l = length (filter (\<lambda>p. snd p = t) (lb_players l))"

definition smaller_team :: "Lobby \<Rightarrow> Team" where
  "smaller_team l = (if members TEAM_MERC l > members TEAM_SPY l then TEAM_SPY else TEAM_MERC)"

definition lobby_join :: "Lobby \<Rightarrow> Lobby" where
  "lobby_join l = \<lparr>lb_players = lb_players l @ [(lb_next l, smaller_team l)], lb_next = lb_next l + 1\<rparr>"

definition lobby_miss :: "Lobby \<Rightarrow> Lobby" where
  "lobby_miss l = l\<lparr>lb_next := lb_next l + 1\<rparr>"

definition lobby_leave :: "nat \<Rightarrow> Lobby \<Rightarrow> Lobby" where
  "lobby_leave k l = l\<lparr>lb_players := take k (lb_players l) @ drop (Suc k) (lb_players l)\<rparr>"

inductive lobby_step :: "Lobby \<Rightarrow> Lobby \<Rightarrow> bool" where
  joins: "length (lb_players l) < MAX_PLAYERS \<Longrightarrow> lobby_step l (lobby_join l)"
| misses: "length (lb_players l) < MAX_PLAYERS \<Longrightarrow> lobby_step l (lobby_miss l)"
| leaves: "k < length (lb_players l) \<Longrightarrow> lobby_step l (lobby_leave k l)"
| rests: "lobby_step l l"

subsection \<open>The lobby of a server\<close>

definition lobby_of :: "Server \<Rightarrow> Lobby" where
  "lobby_of sv = \<lparr>lb_players = map (\<lambda>p. (the (number_of sv p), the (team_of sv p))) (sv_clients sv),
                  lb_next = sv_playerId sv\<rparr>"

lemma lobby_of_simps [simp]:
  "lb_next (lobby_of sv) = sv_playerId sv"
  "length (lb_players (lobby_of sv)) = length (sv_clients sv)"
  by (simp_all add: lobby_of_def)

text \<open>The server's lobby depends on the list, the counter and what the listed clients are.\<close>

lemma lobby_of_cong:
  assumes "sv_clients sv' = sv_clients sv" and "sv_playerId sv' = sv_playerId sv"
    and "\<And>p. p \<in> set (sv_clients sv) \<Longrightarrow> number_of sv' p = number_of sv p \<and> team_of sv' p = team_of sv p"
  shows "lobby_of sv' = lobby_of sv"
  using assms by (simp add: lobby_of_def)

lemma same_roster_lobby: "same_roster sv sv' \<Longrightarrow> lobby_of sv' = lobby_of sv"
  by (rule lobby_of_cong)
    (simp_all add: same_roster_fields same_roster_number_of same_roster_team_of)

lemma conns_lobby: "lobby_of (sv\<lparr>sv_newConnections := q\<rparr>) = lobby_of sv"
  by (rule lobby_of_cong) (simp_all add: number_of_def team_of_def)

lemma members_lobby_of:
  assumes "roster_ok sv"
  shows "members t (lobby_of sv) = length (filter (\<lambda>p. team_of sv p = Some t) (sv_clients sv))"
proof -
  have "filter (\<lambda>p. the (team_of sv p) = t) (sv_clients sv)
      = filter (\<lambda>p. team_of sv p = Some t) (sv_clients sv)"
    by (rule filter_cong) (auto simp: team_of_def elim: roster_ok_deref [OF assms])
  then show ?thesis by (simp add: members_def lobby_of_def filter_map comp_def)
qed

lemma smaller_team_lobby_of:
  "roster_ok sv \<Longrightarrow> smaller_team (lobby_of sv) = (if mercs sv > spies sv then TEAM_SPY else TEAM_MERC)"
  by (simp add: smaller_team_def members_lobby_of mercs_def spies_def)

subsection \<open>The operations implement those of the lobby\<close>

lemma miss_lobby:
  assumes "roster_ok sv"
  shows "lobby_of ((with_client c sv)\<lparr>sv_heap := (sv_heap sv)(sv_brk sv := None)\<rparr>)
    = lobby_miss (lobby_of sv)"
  using brk_fresh [OF assms] by (auto simp: lobby_of_def lobby_miss_def number_of_def team_of_def)

lemma join_lobby:
  assumes ok: "roster_ok sv" and same: "same_roster (with_client c sv) s"
    and c: "c_playerID c = sv_playerId sv" "c_team c = smaller_team (lobby_of sv)"
  shows "lobby_of (listed (sv_brk sv) s) = lobby_join (lobby_of sv)"
proof -
  have "number_of (listed q s) p = (if p = sv_brk sv then Some (c_playerID c) else number_of sv p)"
    "team_of (listed q s) p = (if p = sv_brk sv then Some (c_team c) else team_of sv p)" for p q
    using same_roster_number_of [OF same, of p] same_roster_team_of [OF same, of p]
    by (simp_all add: listed_def number_of_def team_of_def)
  moreover have "sv_clients (listed (sv_brk sv) s) = sv_clients sv @ [sv_brk sv]"
    "sv_playerId (listed (sv_brk sv) s) = sv_playerId sv + 1"
    by (simp_all add: listed_def same_roster_fields [OF same])
  ultimately show ?thesis
    using brk_fresh [OF ok] c by (auto simp: lobby_of_def [of "listed q s" for q] lobby_join_def) (simp add: lobby_of_def)
qed

lemma leave_lobby:
  assumes ok: "roster_ok sv" and k: "k < length (sv_clients sv)"
  shows "lobby_of (drop_client (sv_clients sv ! k) sv) = lobby_leave k (lobby_of sv)"
proof -
  let ?p = "sv_clients sv ! k" and ?rest = "take k (sv_clients sv) @ drop (Suc k) (sv_clients sv)"
  have split: "sv_clients sv = take k (sv_clients sv) @ ?p # drop (Suc k) (sv_clients sv)"
    using k by (rule id_take_nth_drop)
  have "distinct (take k (sv_clients sv) @ ?p # drop (Suc k) (sv_clients sv))"
    using roster_okD(1) [OF ok] by (subst (asm) split)
  then have fresh: "?p \<notin> set ?rest" by auto
  then have rest: "remove1 ?p (sv_clients sv) = ?rest"
    by (subst split) (simp add: remove1_append)
  have "number_of (drop_client ?p sv) q = number_of sv q \<and> team_of (drop_client ?p sv) q = team_of sv q"
    if "q \<in> set ?rest" for q
    using that fresh by (auto simp: drop_client_def number_of_def team_of_def)
  then have "map (\<lambda>p. (the (number_of (drop_client ?p sv) p), the (team_of (drop_client ?p sv) p))) ?rest
      = map (\<lambda>p. (the (number_of sv p), the (team_of sv p))) ?rest" by simp
  moreover have "sv_clients (drop_client ?p sv) = ?rest" "sv_playerId (drop_client ?p sv) = sv_playerId sv"
    using rest by (simp_all add: drop_client_def)
  ultimately show ?thesis by (simp add: lobby_of_def lobby_leave_def take_map drop_map)
qed

lemma admit_lobby:
  assumes ok: "roster_ok sv" and adm: "admit N sock port sv w = Inr (sv', w')"
    and sock: "IsConnectionOpen sock"
  shows "lobby_of sv' \<in> {lobby_join (lobby_of sv), lobby_miss (lobby_of sv)}"
  using ok adm sock
proof (cases rule: admit_result)
  case (refused c)
  with ok show ?thesis by (simp add: miss_lobby)
next
  case (admitted c s)
  with ok show ?thesis by (simp add: join_lobby smaller_team_lobby_of)
qed

lemma KickClient_lobby:
  assumes ok: "roster_ok sv" and k: "k < length (sv_clients sv)"
    and kick: "KickClient N (Some (sv_clients sv ! k)) sv w = Inr (sv', w')"
  shows "lobby_of sv' = lobby_leave k (lobby_of sv)"
proof -
  from KickClient_roster [OF kick ok] k obtain s where same: "same_roster sv s"
    and sv': "sv' = drop_client (sv_clients sv ! k) s" by auto
  note f = same_roster_fields [OF same]
  from leave_lobby [OF same_roster_ok [OF same ok], of k] k show ?thesis
    by (simp add: sv' f same_roster_lobby [OF same])
qed

lemma Broadcast_lobby:
  "roster_ok sv \<Longrightarrow> Broadcast N proto pkt sv w = Inr (sv', w') \<Longrightarrow> lobby_of sv' = lobby_of sv"
  using Broadcast_same_roster [of N proto pkt sv w sv' w'] by (simp add: roster_ok_live same_roster_lobby)

lemma Flush_lobby:
  "roster_ok sv \<Longrightarrow> FlushClientPacketQueues N sv w = Inr (sv', w') \<Longrightarrow> lobby_of sv' = lobby_of sv"
  by (drule Flush_result) (simp_all add: same_roster_lobby [OF same_roster_flush_all])

subsection \<open>The simulation\<close>

lemma server_step_lobby:
  assumes step: "server_step N sv sv'" and ok: "roster_ok sv"
  shows "lobby_step (lobby_of sv) (lobby_of sv')"
  using step ok
proof (cases rule: server_step_cases)
  case (refused c)
  with ok misses [of "lobby_of sv"] show ?thesis by (simp add: miss_lobby IsServerFull_def)
next
  case (admitted c s)
  with ok joins [of "lobby_of sv"] show ?thesis
    by (simp add: join_lobby smaller_team_lobby_of IsServerFull_def)
next
  case (kicked p s)
  then obtain k where "k < length (sv_clients s)" "p = sv_clients s ! k"
    by (auto simp: in_set_conv_nth same_roster_fields)
  with kicked leave_lobby [OF same_roster_ok [OF kicked(2) ok], of k] leaves [of k "lobby_of s"]
  show ?thesis by (simp add: same_roster_lobby same_roster_fields)
qed (auto simp: same_roster_lobby conns_lobby intro: rests)

interpretation lobby: simulation "server_start N" "server_step N" roster_inv
    "\<lambda>l. l = new_lobby" lobby_step lobby_of for N
proof unfold_locales
  show "lobby_of sv = new_lobby" if "server_start N sv" for sv
    using that by (auto simp: server_start_def lobby_of_def new_lobby_def dest!: new_Server_Inr)
  show "lobby_step (lobby_of sv) (lobby_of sv')" if "roster_inv sv" "server_step N sv sv'" for sv sv'
    using that by (auto simp: roster_inv_def intro: server_step_lobby)
qed

text \<open>
  An invariant of the lobby carries over to the server: while the counter has not wrapped, the
  numbers of the players grow along the list, so that the list is in the order of joining.
\<close>

definition numbered_lobby_step :: "Lobby \<Rightarrow> Lobby \<Rightarrow> bool" where
  "numbered_lobby_step l l' \<longleftrightarrow> lobby_step l l' \<and> lb_next l < lb_next l + 1"

definition lobby_ordered :: "Lobby \<Rightarrow> bool" where
  "lobby_ordered l \<longleftrightarrow> 0 < lb_next l \<and> sorted_wrt (<) (map fst (lb_players l)) \<and>
     (\<forall>n \<in> fst ` set (lb_players l). 0 < n \<and> n < lb_next l)"

lemma lobby_leave_ordered:
  assumes "lobby_ordered l" and "k < length (lb_players l)"
  shows "lobby_ordered (lobby_leave k l)"
proof -
  let ?n = "map fst (lb_players l)"
  have "?n = take k ?n @ ?n ! k # drop (Suc k) ?n"
    using assms(2) by (intro id_take_nth_drop) simp
  moreover have "sorted_wrt (<) ?n" using assms(1) by (simp add: lobby_ordered_def)
  ultimately have "sorted_wrt (<) (take k ?n @ ?n ! k # drop (Suc k) ?n)" by simp
  then have "sorted_wrt (<) (take k ?n @ drop (Suc k) ?n)" by (simp add: sorted_wrt_append)
  moreover have "set (take k (lb_players l) @ drop (Suc k) (lb_players l)) \<subseteq> set (lb_players l)"
    by (auto dest: in_set_takeD in_set_dropD)
  ultimately show ?thesis
    using assms(1) by (auto simp: lobby_ordered_def lobby_leave_def take_map drop_map)
qed

lemma numbered_lobby_step_ordered:
  assumes "lobby_ordered l" and "numbered_lobby_step l l'"
  shows "lobby_ordered l'"
proof -
  from assms(2) have step: "lobby_step l l'" and wrap: "lb_next l < lb_next l + 1"
    by (simp_all add: numbered_lobby_step_def)
  from step show ?thesis
  proof cases
    case joins
    then show ?thesis using assms(1) wrap
      by (auto simp: lobby_ordered_def lobby_join_def sorted_wrt_append intro: order_less_trans)
  next
    case misses
    then show ?thesis using assms(1) wrap
      by (auto simp: lobby_ordered_def lobby_miss_def intro: order_less_trans)
  qed (use assms(1) in \<open>simp_all add: lobby_leave_ordered\<close>)
qed

lemma new_lobby_ordered: "lobby_ordered new_lobby"
  by (simp add: new_lobby_def lobby_ordered_def)

interpretation order: inductive_invariant "\<lambda>l. l = new_lobby" numbered_lobby_step lobby_ordered
  by unfold_locales (auto intro: new_lobby_ordered numbered_lobby_step_ordered)

interpretation numbered_lobby: simulation "server_start N" "numbered_step N" numbers_inv
    "\<lambda>l. l = new_lobby" numbered_lobby_step lobby_of for N
proof unfold_locales
  show "lobby_of sv = new_lobby" if "server_start N sv" for sv
    using that by (rule lobby.abs_init)
  show "numbered_lobby_step (lobby_of sv) (lobby_of sv')"
    if "numbers_inv sv" "numbered_step N sv sv'" for sv sv'
    using that by (auto simp: numbers_inv_def numbered_step_def numbered_lobby_step_def
        intro: server_step_lobby)
qed

lemma lobby_in_order:
  assumes "reach (server_start N) (numbered_step N) sv"
  shows "sorted_wrt (<) (map (\<lambda>p. the (number_of sv p)) (sv_clients sv))"
    and "p \<in> set (sv_clients sv) \<Longrightarrow> 0 < the (number_of sv p) \<and> the (number_of sv p) < sv_playerId sv"
proof -
  have "lobby_ordered (lobby_of sv)"
    using order.inductive_invariant_axioms assms by (rule numbered_lobby.abs_invariant)
  then show "sorted_wrt (<) (map (\<lambda>p. the (number_of sv p)) (sv_clients sv))"
    and "p \<in> set (sv_clients sv) \<Longrightarrow> 0 < the (number_of sv p) \<and> the (number_of sv p) < sv_playerId sv"
    by (auto simp: lobby_ordered_def lobby_of_def comp_def)
qed

end
