(* ===== verification/ServiceLoop.thy ===== *)
theory ServiceLoop
  imports Service
begin

section \<open>The loops of the server\<close>

text \<open>
  What \<open>AcceptNewClient\<close> does with a connection on every branch, what the handling of the new
  connections leaves of the server's state, and when the main loop returns.
\<close>

subsection \<open>\<open>AcceptNewClient\<close>\<close>

lemma AcceptNewClient_idle:
  assumes "HasActivity N s w = Inr (False, w1)"
  shows "AcceptNewClient N s sv w = Some (Inr (sv, delete_Socket N s w1))"
  using assms by (simp add: AcceptNewClient_def)

lemma AcceptNewClient_none:
  assumes "HasActivity N s w = Inr (True, w1)" and "GetPacket N s w1 = Some (Inr ((None, s'), w2))"
  shows "AcceptNewClient N s sv w = Some (Inr (sv, delete_Socket N s' w2))"
  using assms by (simp add: AcceptNewClient_def)

lemma GetPacketType_packet_of:
  "GetPacketType HOST (packet_of HOST m) = Inr (packet_code (message_type m))"
  by (cases m) (simp_all add: packet_of.simps GetPacketType_def get_dword_mem packet_class_defs
      del: built_packets)

lemma PacketTypeStr_message: "\<exists>str. PacketTypeStr (packet_code (message_type m)) = Inr str"
  by (cases m) (simp_all add: PacketTypeStr_def)

lemma get_port: "get_dword HOST M_port (packet_of HOST (JoinRequest port)) = Inr port"
  by (simp add: packet_of.simps get_dword_mem packet_class_defs del: built_packets)

text \<open>A socket whose queue holds a message: a join request is admitted, anything else dropped.\<close>

lemma AcceptNewClient_message:
  assumes "s_pqueue s = packet_of HOST m # ps"
  shows "AcceptNewClient N s sv w =
     (case m of
        JoinRequest port \<Rightarrow> Some (admit N (s\<lparr>s_pqueue := ps\<rparr>) port sv w)
      | _ \<Rightarrow> Some (Inr (sv, delete_Socket N (s\<lparr>s_pqueue := ps\<rparr>) w)))"
proof -
  have active: "HasActivity N s w = Inr (True, w)" using assms by (simp add: HasActivity_def)
  obtain str where "PacketTypeStr (packet_code (message_type m)) = Inr str"
    using PacketTypeStr_message by blast
  then show ?thesis
    using active GetPacket_queued [OF assms, of N w]
    by (cases m) (simp_all add: AcceptNewClient_def GetPacketType_packet_of get_port del: built_packets)
qed

text \<open>A connection that has just been accepted never becomes a client.\<close>

lemma AcceptNewClient_fresh:
  assumes "s_pqueue s = []" and "AcceptNewClient N s sv w = Some (Inr (sv', w'))"
  shows "sv' = sv"
proof -
  from assms(2) obtain active w1 where "HasActivity N s w = Inr (active, w1)"
    and rest: "(if \<not> active then Some (Inr (sv, delete_Socket N s w1))
       else run_bind (GetPacket N s w1) (\<lambda>((packet, clientTcpSocket), w).
         case packet of
           None \<Rightarrow> Some (Inr (sv, delete_Socket N clientTcpSocket w))
         | Some p \<Rightarrow>
             run_bind (Some (GetPacketType HOST p)) (\<lambda>t.
               if t \<noteq> packet_code PACKET_JOIN_REQUEST then
                 run_bind (Some (PacketTypeStr t)) (\<lambda>_.
                   Some (Inr (sv, delete_Socket N clientTcpSocket w)))
               else
                 run_bind (Some (get_dword HOST M_port p)) (\<lambda>udpPort.
                   Some (admit N clientTcpSocket udpPort sv w))))) = Some (Inr (sv', w'))"
    by (auto simp: AcceptNewClient_def)
  show ?thesis
  proof (cases active)
    case True
    with rest obtain p s2 w2 where got: "GetPacket N s w1 = Some (Inr ((p, s2), w2))" by auto
    with GetPacket_returns_nothing [OF assms(1) got] True rest show ?thesis by simp
  qed (use rest in simp)
qed

subsection \<open>New connections\<close>

definition same_clients :: "Server \<Rightarrow> Server \<Rightarrow> bool" where
  "same_clients sv sv' \<longleftrightarrow> (\<exists>q. sv' = sv\<lparr>sv_newConnections := q\<rparr>)"

lemma same_clients_refl [simp]: "same_clients sv sv" "same_clients sv (sv\<lparr>sv_newConnections := q\<rparr>)"
  by (auto simp: same_clients_def intro: exI [of _ "sv_newConnections sv"])

lemma same_clients_trans [trans]:
  "same_clients sv sv' \<Longrightarrow> same_clients sv' sv'' \<Longrightarrow> same_clients sv sv''"
  by (auto simp: same_clients_def)

lemma same_clients_simps:
  "same_clients sv sv' \<Longrightarrow> sv_protoPhase sv' = sv_protoPhase sv \<and> sv_clients sv' = sv_clients sv
     \<and> sv_heap sv' = sv_heap sv"
  by (auto simp: same_clients_def)

lemma GetNewSocket_fresh:
  "GetNewSocket N q w = Inr ((Some s, q'), w') \<Longrightarrow> s_pqueue s = []"
  by (auto simp: GetNewSocket_def fresh_def split: option.splits prod.splits
      dest!: Socket_accepted_fresh)

lemma HandleNewTCPConnections_same:
  assumes "HandleNewTCPConnections N sv w = Some r"
  shows "case r of Inl _ \<Rightarrow> True | Inr (sv', w') \<Rightarrow> same_clients sv sv' \<and> sv_newConnections sv' = []"
proof (rule HandleNewTCPConnections.raw_induct [where P = "\<lambda>N sv w r.
    case r of Inl _ \<Rightarrow> True | Inr (sv', w') \<Rightarrow> same_clients sv sv' \<and> sv_newConnections sv' = []",
    OF _ assms])
  fix f :: "'a SDLNet \<Rightarrow> Server \<Rightarrow> 'a \<Rightarrow> (Server \<times> 'a) run" and N sv w r
  assume IH: "\<And>N sv w r. f N sv w = Some r \<Longrightarrow>
      case r of Inl _ \<Rightarrow> True | Inr (sv', w') \<Rightarrow> same_clients sv sv' \<and> sv_newConnections sv' = []"
    and eq: "(let (arrived, w) = net_Arrivals N w;
          sv = sv\<lparr>sv_newConnections :=
                    fold (\<lambda>t. AddNewSocket (Some t)) arrived (sv_newConnections sv)\<rparr>
      in if HasNewConnection (sv_newConnections sv) then
           run_bind (Some (GetNewSocket N (sv_newConnections sv) w)) (\<lambda>((socket, conns), w).
             let sv = sv\<lparr>sv_newConnections := conns\<rparr>
             in case socket of
                  None \<Rightarrow> Some (Inl NullDeref)
                | Some s \<Rightarrow>
                    if sv_protoPhase sv = PROTO_LOBBY \<and> \<not> IsServerFull sv then
                      run_bind (AcceptNewClient N s sv w) (\<lambda>(sv, w). f N sv w)
                    else
                      run_bind (Some (SendPacket N s JOIN_REJECTED w)) (\<lambda>(_, w).
                        f N sv (delete_Socket N s w)))
         else Some (Inr (sv, w))) = Some r"
  show "case r of Inl _ \<Rightarrow> True | Inr (sv', w') \<Rightarrow> same_clients sv sv' \<and> sv_newConnections sv' = []"
  proof (cases r)
    case (Inr res)
    obtain sv' w' where res: "res = (sv', w')" by fastforce
    obtain arrived w1 where a: "net_Arrivals N w = (arrived, w1)" by fastforce
    let ?sv = "sv\<lparr>sv_newConnections := fold (\<lambda>t. AddNewSocket (Some t)) arrived (sv_newConnections sv)\<rparr>"
    show ?thesis
    proof (cases "HasNewConnection (sv_newConnections ?sv)")
      case False
      with eq a Inr res show ?thesis by (auto simp: HasNewConnection_def Let_def)
    next
      case True
      with eq a Inr res obtain s q w2 where
        get: "GetNewSocket N (sv_newConnections ?sv) w1 = Inr ((Some s, q), w2)"
        and rest: "(if sv_protoPhase sv = PROTO_LOBBY \<and> \<not> IsServerFull (sv\<lparr>sv_newConnections := q\<rparr>) then
             run_bind (AcceptNewClient N s (sv\<lparr>sv_newConnections := q\<rparr>) w2) (\<lambda>(sv, w). f N sv w)
           else run_bind (Some (SendPacket N s JOIN_REJECTED w2)) (\<lambda>(_, w).
             f N (sv\<lparr>sv_newConnections := q\<rparr>) (delete_Socket N s w))) = Some (Inr (sv', w'))"
        by (auto simp: Let_def split: option.splits)
      let ?sq = "sv\<lparr>sv_newConnections := q\<rparr>"
      have "\<exists>w. f N ?sq w = Some (Inr (sv', w'))"
      proof (cases "sv_protoPhase sv = PROTO_LOBBY \<and> \<not> IsServerFull ?sq")
        case True
        with rest obtain sv3 w3 where acc: "AcceptNewClient N s ?sq w2 = Some (Inr (sv3, w3))"
          and "f N sv3 w3 = Some (Inr (sv', w'))" by auto
        with AcceptNewClient_fresh [OF GetNewSocket_fresh [OF get] acc] show ?thesis by auto
      next
        case False
        with rest show ?thesis by auto
      qed
      then show ?thesis using IH [of N ?sq _ r] Inr res
        by (auto simp: same_clients_def)
    qed
  qed simp
qed

lemma HandleNewTCPConnections_Inr:
  "HandleNewTCPConnections N sv w = Some (Inr (sv', w')) \<Longrightarrow>
     same_clients sv sv' \<and> sv_newConnections sv' = []"
  by (drule HandleNewTCPConnections_same) simp

text \<open>One round of the loop when the server is full or no longer in the lobby: a rejection.\<close>

lemma HandleNewTCPConnections_rejects:
  assumes "net_Arrivals N w = (arrived, w1)" and "sv_newConnections sv @ arrived = t # q"
    and "Socket_accepted N t w1 = Inr (s, w2)"
    and "sv_protoPhase sv \<noteq> PROTO_LOBBY \<or> IsServerFull sv"
  shows "HandleNewTCPConnections N sv w =
     run_bind (Some (SendPacket_bytes N s (encode (JoinResponse False 0 0)) w2)) (\<lambda>(_, w3).
       HandleNewTCPConnections N (sv\<lparr>sv_newConnections := q\<rparr>) (delete_Socket N s w3))"
proof -
  have "fold (\<lambda>t. AddNewSocket (Some t)) arrived (sv_newConnections sv) = t # q"
    using connections.contents_enq_all [of arrived "sv_newConnections sv"] assms(2) by simp
  moreover have "IsServerFull (sv\<lparr>sv_newConnections := k\<rparr>) = IsServerFull sv" for k
    by (simp add: IsServerFull_def)
  moreover have "GetNewSocket N (t # q) w1 = Inr ((Some s, q), w2)"
    using assms(3) by (simp add: GetNewSocket_def take_socket_def)
  moreover have "SendPacket N s JOIN_REJECTED w2 = SendPacket_bytes N s (encode (JoinResponse False 0 0)) w2"
    unfolding JOIN_REJECTED_def reject_packet by (rule SendPacket_packet_of)
  ultimately show ?thesis
    using assms(1,4)
    by (subst HandleNewTCPConnections.simps) (auto simp: HasNewConnection_def Let_def)
qed

lemma HandleNewTCPConnections_none:
  assumes "net_Arrivals N w = ([], w1)" and "sv_newConnections sv = []"
  shows "HandleNewTCPConnections N sv w = Some (Inr (sv, w1))"
  using assms by (subst HandleNewTCPConnections.simps) (simp add: HasNewConnection_def)

subsection \<open>The main loop\<close>

lemma roster_ok_same_clients: "same_clients sv sv' \<Longrightarrow> roster_ok sv \<Longrightarrow> roster_ok sv'"
  by (auto simp: same_clients_def)

lemma ServerLoop_never_returns:
  assumes "ServerLoop N sv w = Some r"
  shows "roster_ok sv \<and> sv_protoPhase sv \<noteq> PROTO_NONE \<longrightarrow> (\<exists>e. r = Inl e)"
proof (rule ServerLoop.raw_induct [where P = "\<lambda>N sv w r.
    roster_ok sv \<and> sv_protoPhase sv \<noteq> PROTO_NONE \<longrightarrow> (\<exists>e. r = Inl e)", OF _ assms])
  fix f :: "'a SDLNet \<Rightarrow> Server \<Rightarrow> 'a \<Rightarrow> (Server \<times> 'a) run" and N sv w r
  assume IH: "\<And>N sv w r. f N sv w = Some r \<Longrightarrow>
      roster_ok sv \<and> sv_protoPhase sv \<noteq> PROTO_NONE \<longrightarrow> (\<exists>e. r = Inl e)"
    and eq: "(if sv_protoPhase sv = PROTO_NONE then
        Some (Broadcast N TCP (ServerShutdownPacket HOST) sv w)
      else
        run_bind (HandleNewTCPConnections N sv w) (\<lambda>(sv, w).
        run_bind (Some (FlushClientPacketQueues N sv w)) (\<lambda>(sv, w).
          f N sv (net_usleep N w 40000)))) = Some r"
  show "roster_ok sv \<and> sv_protoPhase sv \<noteq> PROTO_NONE \<longrightarrow> (\<exists>e. r = Inl e)"
  proof (intro impI, elim conjE)
    assume ok: "roster_ok sv" and phase: "sv_protoPhase sv \<noteq> PROTO_NONE"
    show "\<exists>e. r = Inl e"
    proof (cases r)
      case (Inr x)
      with eq phase obtain sv1 w1 sv2 w2 where
        h: "HandleNewTCPConnections N sv w = Some (Inr (sv1, w1))"
        and fl: "FlushClientPacketQueues N sv1 w1 = Inr (sv2, w2)"
        and rest: "f N sv2 (net_usleep N w2 40000) = Some (Inr x)" by auto
      from HandleNewTCPConnections_Inr [OF h] have same: "same_clients sv sv1" ..
      then have ok1: "roster_ok sv1" using ok by (rule roster_ok_same_clients)
      have "sv_protoPhase sv2 = sv_protoPhase sv1"
        unfolding Flush_result [OF fl ok1] by (rule same_roster_fields [OF same_roster_flush_all])
      with same phase have "sv_protoPhase sv2 \<noteq> PROTO_NONE" by (simp add: same_clients_simps)
      with IH [OF rest] Flush_ok [OF fl ok1] Inr show ?thesis by simp
    qed simp
  qed
qed

lemma ServerLoop_shutdown:
  assumes "sv_protoPhase sv = PROTO_NONE" and "roster_live sv"
    and "\<And>p. p \<in> set (sv_clients sv) \<Longrightarrow> can_queue sv p"
  shows "ServerLoop N sv w = Some (Inr (tell (set (sv_clients sv)) ServerShutdown sv, w))"
  using assms Broadcast_message [of sv N ServerShutdown w] by (subst ServerLoop.simps) simp

lemma new_Server_ok: "new_Server N w = Inr (sv, w') \<Longrightarrow> roster_ok sv"
  by (auto simp: roster_ok_def dest!: new_Server_Inr)

subsection \<open>After a flush\<close>

text \<open>A broadcast that reaches a client whose queue was flushed writes to freed storage.\<close>

lemma broadcast_loop_freed:
  assumes "roster_live sv" and "\<exists>p \<in> set (drop i (sv_clients sv)). \<not> can_queue sv p"
  shows "broadcast_loop N TCP (packet_of HOST m) i sv w = Inl UseAfterFree"
  using assms
proof (induction "length (sv_clients sv) - i" arbitrary: i sv)
  case (Suc n)
  then have i: "i < length (sv_clients sv)" by simp
  let ?p = "sv_clients sv ! i"
  have drop: "drop i (sv_clients sv) = ?p # drop (Suc i) (sv_clients sv)"
    using i by (simp add: Cons_nth_drop_Suc)
  from i have "?p \<in> set (sv_clients sv)" by simp
  with Suc.prems(1) obtain c where c: "sv_heap sv ?p = Some c" "IsConnected c"
    by (rule roster_live_deref)
  show ?case
  proof (cases "can_queue sv ?p")
    case True
    then have enq: "enqueue sv ?p TCP (packet_of HOST m) = Inr (tell {?p} m sv)"
      by (rule enqueue_tell)
    have "broadcast_loop N TCP (packet_of HOST m) (i + 1) (tell {?p} m sv) w = Inl UseAfterFree"
      using Suc.hyps(2) Suc.prems True Suc.hyps(1) [of "tell {?p} m sv" "i + 1"]
      by (simp add: drop same_roster_live [OF same_roster_tell])
    with i c enq show ?thesis by (subst broadcast_loop.simps) (simp add: deref_def)
  next
    case False
    with c have "q_freed (c_tcpPktQueue c)" by (simp add: can_queue_def)
    then have "enqueue sv ?p TCP (packet_of HOST m) = Inl UseAfterFree"
      using c by (intro enqueue_fault)
    with i c show ?thesis by (subst broadcast_loop.simps) (simp add: deref_def)
  qed
qed simp

lemma Flush_then_broadcast:
  assumes fl: "FlushClientPacketQueues N sv w = Inr (sv', w')" and ok: "roster_ok sv"
    and p: "p \<in> set (sv_clients sv)" "sv_heap sv p = Some c" "q_bytes (c_tcpPktQueue c) \<noteq> []"
  shows "Broadcast N TCP (packet_of HOST m) sv' w2 = Inl UseAfterFree"
proof -
  have sv': "sv' = flush_all (set (sv_clients sv)) sv" by (rule Flush_result [OF fl ok])
  with p have "\<not> can_queue sv' p"
    by (simp add: can_queue_def flush_all_def flushed_client_def flushed_queue_def)
  moreover have "sv_clients sv' = sv_clients sv"
    unfolding sv' by (rule same_roster_fields [OF same_roster_flush_all])
  ultimately show ?thesis
    using p(1) Flush_ok [OF fl ok] roster_ok_live
    unfolding Broadcast_def by (intro broadcast_loop_freed) auto
qed

end
