(* ===== verification/ServerTheorems.thy ===== *)
theory ServerTheorems
  imports ServiceLoop NetTheorems
begin

section \<open>Properties of the game server\<close>

text \<open>
  The properties of the server: what each operation does to the client list and to the outgoing
  queues, the invariants of every state it reaches, what becomes of the new connections, and the
  main loop. The concrete instances run on the scripted network, on a server with two clients.
\<close>

definition demo_client :: "u32 \<Rightarrow> Team \<Rightarrow> Client" where
  "demo_client k t = \<lparr>c_playerID = k, c_team = t, c_tcpSocket = tcp0, c_udpSocket = udp1,
     c_udpPort = 43720, c_tcpPktQueue = empty_queue, c_udpPktQueue = empty_queue\<rparr>"

definition demo_server :: Server where
  "demo_server = \<lparr>sv_udpSocket = udp1, sv_protoPhase = PROTO_LOBBY, sv_clients = [10, 11],
     sv_heap = [10 \<mapsto> demo_client 1 TEAM_MERC, 11 \<mapsto> demo_client 2 TEAM_SPY], sv_brk = 12,
     sv_playerId = 3, sv_newConnections = []\<rparr>"

lemma demo_client_simps [simp]:
  "c_playerID (demo_client k t) = k" "c_team (demo_client k t) = t"
  "c_tcpSocket (demo_client k t) = tcp0" "c_udpSocket (demo_client k t) = udp1"
  "c_tcpPktQueue (demo_client k t) = empty_queue" "c_udpPktQueue (demo_client k t) = empty_queue"
  "IsConnected (demo_client k t)" "q_freed empty_queue = False" "q_bytes empty_queue = []"
  by (simp_all add: demo_client_def IsConnected_def IsConnectionOpen_def tcp0_def empty_queue_def)

lemma demo_server_simps [simp]:
  "sv_clients demo_server = [10, 11]" "sv_protoPhase demo_server = PROTO_LOBBY"
  "sv_heap demo_server = [10 \<mapsto> demo_client 1 TEAM_MERC, 11 \<mapsto> demo_client 2 TEAM_SPY]"
  "sv_brk demo_server = 12" "sv_playerId demo_server = 3" "sv_newConnections demo_server = []"
  by (simp_all add: demo_server_def)

lemma demo_roster_ok: "roster_ok demo_server"
  by (auto simp: roster_ok_def split: if_splits)

lemma demo_can_queue: "p \<in> {10, 11} \<Longrightarrow> can_queue demo_server p"
  by (auto simp: can_queue_def)

lemma demo_delete: "delete_Socket scripted s w = w"
  by (simp add: delete_Socket_def split: option.split)

text \<open>
  C9 \<open>KickClient\<close> of a listed client: every other client's TCP queue gets a leave message with
  the kicked client's number, the kicked client is deleted with its two sockets, and exactly its
  pointer is erased from the list, the order of the others unchanged. Nothing is sent yet. If one
  of its own queues has ever been flushed, deleting it frees that queue's storage twice.
\<close>

theorem KickClient_spec:
  assumes "roster_ok sv" and "p \<in> set (sv_clients sv)" and "sv_heap sv p = Some c"
    and "\<And>q. q \<in> set (sv_clients sv) \<Longrightarrow> q \<noteq> p \<Longrightarrow> can_queue sv q"
  shows "KickClient N (Some p) sv w =
     (if q_freed (c_tcpPktQueue c) \<or> q_freed (c_udpPktQueue c) then Inl DoubleFree
      else Inr (drop_client p (tell (set (sv_clients sv) - {p}) (PlayerDidLeave (c_playerID c)) sv),
                delete_Socket N (c_udpSocket c) (delete_Socket N (c_tcpSocket c) w)))"
  using assms by (rule KickClient_message)

theorem KickClient_spec_witness:
  "KickClient scripted (Some 10) demo_server (script [] []) =
     Inr (demo_server\<lparr>sv_clients := [11],
            sv_heap := [11 \<mapsto> append_msg (PlayerDidLeave 1) (demo_client 2 TEAM_SPY)]\<rparr>, script [] [])"
proof -
  have "KickClient scripted (Some 10) demo_server (script [] []) =
     Inr (drop_client 10 (tell {11} (PlayerDidLeave 1) demo_server), script [] [])"
    using KickClient_spec [of demo_server 10 "demo_client 1 TEAM_MERC" scripted "script [] []"] demo_roster_ok
    by (simp add: demo_can_queue demo_delete)
  also have "drop_client 10 (tell {11} (PlayerDidLeave 1) demo_server) = demo_server\<lparr>sv_clients := [11],
      sv_heap := [11 \<mapsto> append_msg (PlayerDidLeave 1) (demo_client 2 TEAM_SPY)]\<rparr>"
    by (simp add: drop_client_def tell_def demo_server_def fun_eq_iff)
  finally show ?thesis .
qed

text \<open>
  \<open>Broadcast\<close> over TCP to a server whose clients are all connected and whose queues have not
  been flushed: every listed client's TCP queue gets exactly the message, at its end, nobody is
  kicked, and the network is not touched.
\<close>

theorem Broadcast_spec:
  assumes "roster_ok sv" and "\<And>p. p \<in> set (sv_clients sv) \<Longrightarrow> can_queue sv p"
  shows "Broadcast N TCP (packet_of HOST m) sv w = Inr (tell (set (sv_clients sv)) m sv, w)"
  using assms by (intro Broadcast_message roster_ok_live)

theorem Broadcast_spec_witness:
  "Broadcast scripted TCP (packet_of HOST (PlayerDidJoin 3 0)) demo_server (script [] [])
     = Inr (tell {10, 11} (PlayerDidJoin 3 0) demo_server, script [] [])"
  using Broadcast_spec [of demo_server scripted "PlayerDidJoin 3 0" "script [] []"] demo_roster_ok demo_can_queue
  by simp

text \<open>
  \<open>FlushClientPacketQueues\<close>, when it returns: every queue that held bytes is empty and its
  storage is gone, the others are untouched, and nobody was kicked. The branch that kicks a
  client whose send failed never gets to its end.
\<close>

theorem Flush_spec:
  assumes "roster_ok sv" and "FlushClientPacketQueues N sv w = Inr (sv', w')"
  shows "sv' = flush_all (set (sv_clients sv)) sv \<and> sv_clients sv' = sv_clients sv"
proof -
  have sv': "sv' = flush_all (set (sv_clients sv)) sv" by (rule Flush_result [OF assms(2,1)])
  then show ?thesis using same_roster_fields(1) [OF same_roster_flush_all] by simp
qed

definition told_server :: Server where
  "told_server = tell {10, 11} ServerShutdown demo_server"

lemma told_ok: "roster_ok told_server"
  unfolding told_server_def by (rule same_roster_ok [OF same_roster_tell demo_roster_ok])

lemma send_told: "SendPacket_bytes scripted tcp0 (encode m) w
    = Inr (True, w\<lparr>sc_sent := sc_sent w @ [encode m]\<rparr>)"
  by (simp add: SendPacket_bytes_def)

lemma flush_told_client:
  assumes "sv_heap sv p = Some (append_msg ServerShutdown (demo_client k t))"
  shows "flush_client scripted p sv w =
     Inr (True, flush_all {p} sv, w\<lparr>sc_sent := sc_sent w @ [encode ServerShutdown]\<rparr>)"
proof -
  have "\<exists>sv'. flush_client scripted p sv w =
      Inr (True, sv', w\<lparr>sc_sent := sc_sent w @ [encode ServerShutdown]\<rparr>)"
    using assms
    by (simp add: flush_client_def deref_def SendPacketQueue_def append_msg_def Let_def send_told)
  then obtain sv' where f: "flush_client scripted p sv w =
      Inr (True, sv', w\<lparr>sc_sent := sc_sent w @ [encode ServerShutdown]\<rparr>)" ..
  with flush_client_True [OF f] show ?thesis by simp
qed

lemma flush_told: "\<exists>sv' w'. FlushClientPacketQueues scripted told_server w = Inr (sv', w')"
proof -
  have c: "sv_heap told_server 10 = Some (append_msg ServerShutdown (demo_client 1 TEAM_MERC))"
    "sv_heap (flush_all {10} told_server) 11 = Some (append_msg ServerShutdown (demo_client 2 TEAM_SPY))"
    "sv_heap told_server 11 = Some (append_msg ServerShutdown (demo_client 2 TEAM_SPY))"
    "sv_clients told_server = [10, 11]"
    by (simp_all add: told_server_def flush_all_def)
  have "sv_clients (flush_all ps s) = sv_clients s" for ps s
    by (rule same_roster_fields [OF same_roster_flush_all])
  note l = c(4) this
  show ?thesis
    using l c
    by (simp add: FlushClientPacketQueues_def deref_def flush_loop.simps [of _ 2] flush_told_client
        flush_loop_connected [of 0 _ "append_msg ServerShutdown (demo_client 1 TEAM_MERC)"]
        flush_loop_connected [of "Suc 0" _ "append_msg ServerShutdown (demo_client 2 TEAM_SPY)"]
        numeral_2_eq_2 flush_loop.simps [of _ "Suc (Suc 0)"])
qed

theorem Flush_spec_witness:
  "\<exists>sv' w'. FlushClientPacketQueues scripted told_server (script [] []) = Inr (sv', w') \<and> sv_clients sv' = [10, 11]"
proof -
  obtain sv' w' where f: "FlushClientPacketQueues scripted told_server (script [] []) = Inr (sv', w')"
    using flush_told by blast
  from Flush_spec [OF told_ok f] have "sv_clients sv' = sv_clients told_server" by blast
  then have "sv_clients sv' = [10, 11]" by (simp add: told_server_def)
  with f show ?thesis by blast
qed

text \<open>
  C16 The first broadcast after a flush that sent something to a client's TCP queue writes to
  storage that \<open>SendPacket\<close> has deleted.
\<close>

theorem Broadcast_after_flush:
  assumes "roster_ok sv" and "FlushClientPacketQueues N sv w = Inr (sv', w')"
    and "p \<in> set (sv_clients sv)" and "sv_heap sv p = Some c" and "q_bytes (c_tcpPktQueue c) \<noteq> []"
  shows "Broadcast N TCP (packet_of HOST m) sv' w' = Inl UseAfterFree"
  by (rule Flush_then_broadcast [OF assms(2,1,3-5)])

theorem Broadcast_after_flush_witness:
  "\<exists>sv' w'. FlushClientPacketQueues scripted told_server (script [] []) = Inr (sv', w')
     \<and> Broadcast scripted TCP (packet_of HOST (PlayerDidJoin 3 0)) sv' w' = Inl UseAfterFree"
proof -
  obtain sv' w' where f: "FlushClientPacketQueues scripted told_server (script [] []) = Inr (sv', w')"
    using flush_told by blast
  moreover have "sv_heap told_server 10 = Some (append_msg ServerShutdown (demo_client 1 TEAM_MERC))"
    by (simp add: told_server_def)
  ultimately show ?thesis
    using Broadcast_after_flush [OF told_ok f, of 10] by (auto simp: told_server_def)
qed

subsection \<open>Invariants\<close>

text \<open>The states a start and one admission lead to.\<close>

definition udp_any :: "IPaddress \<Rightarrow> Socket" where
  "udp_any ip = (blank_Socket UDP (GetOctalIP (ip_host ip)) 43720 ip)\<lparr>s_set := Some 0, s_udp := Some 0\<rparr>"

lemma Socket_by_address_scripted:
  "Socket_by_address scripted UDP ip p w = Inr (udp_any ip, w)"
  by (simp add: Socket_by_address_def udp_any_def Init_def Init_UDP_def CreateSocketSet_def
      CreateUDP_def AddToSet_def blank_Socket_def localhost_def)

definition start_server :: Server where
  "start_server = \<lparr>sv_udpSocket = udp_any \<lparr>ip_host = 0, ip_port = 43720\<rparr>,
     sv_protoPhase = PROTO_LOBBY, sv_clients = [],
     sv_heap = (\<lambda>_. None), sv_brk = 0, sv_playerId = 1, sv_newConnections = []\<rparr>"

lemma new_Server_scripted: "new_Server scripted w = Inr (start_server, w)"
  by (simp add: new_Server_def start_server_def Socket_by_address_scripted UDP_SERVER_PORT_def)

lemma start_reached: "server_start scripted start_server"
  using new_Server_scripted unfolding server_start_def by blast

lemma start_ok: "roster_ok start_server"
  by (simp add: start_server_def roster_ok_def)

definition first_client :: Client where
  "first_client = \<lparr>c_playerID = 1, c_team = TEAM_MERC, c_tcpSocket = tcp0,
     c_udpSocket = udp_any localhost, c_udpPort = 43720,
     c_tcpPktQueue = empty_queue, c_udpPktQueue = empty_queue\<rparr>"

definition one_server :: Server where
  "one_server = listed 0 (with_client first_client start_server)"

lemma start_simps [simp]:
  "sv_playerId start_server = 1" "sv_clients start_server = []" "sv_brk start_server = 0"
  "sv_heap start_server = Map.empty" "sv_protoPhase start_server = PROTO_LOBBY"
  "mercs start_server = 0" "spies start_server = 0"
  by (simp_all add: start_server_def mercs_def spies_def)

lemma admit_scripted:
  "admit scripted tcp0 43720 start_server w
     = Inr (one_server, w\<lparr>sc_sent := sc_sent w @ [encode (JoinResponse True 1 (team_code TEAM_MERC))]\<rparr>)"
proof -
  have c: "new_Client scripted (sv_playerId start_server) TEAM_MERC 43720 tcp0 w = Inr (first_client, w)"
    by (simp add: new_Client_def Socket_by_address_scripted first_client_def GetIPaddress_def
        tcp0_def localhost_def)
  have l: "roster_live (with_client first_client start_server)"
    by (rule with_client_live [OF start_ok])
  have b: "Broadcast scripted TCP (packet_of HOST m) (with_client first_client start_server) w
      = Inr (with_client first_client start_server, w)" for m w
    using Broadcast_message [OF l, of scripted m w] by simp
  show ?thesis
    using admit_eq [OF start_ok c] b by (simp add: send_told one_server_def)
qed

lemma one_step: "server_step scripted start_server one_server"
proof (rule admits)
  show "\<not> IsServerFull start_server" by (simp add: IsServerFull_def MAX_PLAYERS_def)
  show "IsConnectionOpen tcp0" by (simp add: IsConnectionOpen_def tcp0_def)
qed (rule start_simps admit_scripted)+

text \<open>
  C4 The memory safety of the client list. In every state that admissions, kicks of listed
  clients, broadcasts and flushes lead to, in any order: the pointers in the list are distinct,
  exactly the listed clients are alive, all of them have an open connection, and there are at
  most \<open>MAX_PLAYERS\<close> of them.
\<close>

theorem roster_invariant:
  assumes "reach (server_start N) (server_step N) sv"
  shows "distinct (sv_clients sv) \<and> dom (sv_heap sv) = set (sv_clients sv)
     \<and> (\<forall>p c. sv_heap sv p = Some c \<longrightarrow> IsConnected c)
     \<and> length (sv_clients sv) \<le> MAX_PLAYERS"
  using roster.inv_reach [OF assms] by (simp add: roster_inv_def roster_ok_def)

theorem roster_invariant_witness:
  "dom (sv_heap one_server) = set (sv_clients one_server) \<and> sv_clients one_server = [0]"
proof -
  have "reach (server_start scripted) (server_step scripted) one_server"
    using one_step by (rule reach_step [rotated]) (rule reach_init, rule start_reached)
  from roster_invariant [OF this] have "dom (sv_heap one_server) = set (sv_clients one_server)" by blast
  then show ?thesis by (simp add: one_server_def listed_def)
qed

text \<open>
  Player numbers: while the 32-bit counter has not wrapped, no two listed clients have the
  same number, no number is 0, and all of them are below the next one to be handed out.
\<close>

theorem player_numbers_unique:
  assumes "reach (server_start N) (numbered_step N) sv"
  shows "inj_on (number_of sv) (set (sv_clients sv))
     \<and> (\<forall>p \<in> set (sv_clients sv). \<forall>k. number_of sv p = Some k \<longrightarrow> 0 < k \<and> k < sv_playerId sv)"
  using numbers.inv_reach [OF assms] by (simp add: numbers_inv_def numbers_ok_def)

theorem player_numbers_unique_witness:
  "inj_on (number_of one_server) (set (sv_clients one_server)) \<and> number_of one_server 0 = Some 1"
proof -
  have "numbered_step scripted start_server one_server"
    using one_step by (simp add: numbered_step_def)
  then have "reach (server_start scripted) (numbered_step scripted) one_server"
    by (rule reach_step [rotated]) (rule reach_init, rule start_reached)
  from player_numbers_unique [OF this]
  have "inj_on (number_of one_server) (set (sv_clients one_server))" by blast
  then show ?thesis
    by (simp add: one_server_def number_of_def listed_def first_client_def)
qed

text \<open>
  C20 Team balance: an admission puts the client on the smaller team (mercs when they are equal),
  so that it never makes the difference between the teams greater than one, nor greater than it
  was.
\<close>

theorem admission_balances_teams:
  assumes "roster_ok sv" and "admit N sock port sv w = Inr (sv', w')" and "IsConnectionOpen sock"
  shows "\<bar>mercs sv' - spies sv'\<bar> \<le> max 1 \<bar>mercs sv - spies sv\<bar>"
  using assms by (rule admit_balance)

theorem admission_balances_teams_witness:
  "\<bar>mercs one_server - spies one_server\<bar> \<le> 1"
  using admission_balances_teams [OF start_ok admit_scripted [of "script [] []"]]
  by (simp add: IsConnectionOpen_def tcp0_def)

subsection \<open>New connections\<close>

text \<open>
  \<open>AcceptNewClient\<close> by what the connection has sent: a join request admits the client with the
  UDP port it names; any other packet, of whatever class, drops the connection and leaves the
  server as it was.
\<close>

theorem AcceptNewClient_spec:
  assumes "s_pqueue s = packet_of HOST m # ps"
  shows "AcceptNewClient N s sv w =
     (case m of
        JoinRequest port \<Rightarrow> Some (admit N (s\<lparr>s_pqueue := ps\<rparr>) port sv w)
      | _ \<Rightarrow> Some (Inr (sv, delete_Socket N (s\<lparr>s_pqueue := ps\<rparr>) w)))"
  using assms by (rule AcceptNewClient_message)

theorem AcceptNewClient_spec_witness:
  "AcceptNewClient scripted (tcp0\<lparr>s_pqueue := [packet_of HOST (JoinRequest 43720)]\<rparr>) start_server (script [] [])
     = Some (Inr (one_server,
         (script [] [])\<lparr>sc_sent := [encode (JoinResponse True 1 (team_code TEAM_MERC))]\<rparr>))"
proof -
  have popped: "tcp0\<lparr>s_pqueue := []\<rparr> = tcp0" by (simp add: tcp0_def)
  show ?thesis
    using AcceptNewClient_spec [of "tcp0\<lparr>s_pqueue := [packet_of HOST (JoinRequest 43720)]\<rparr>"
        "JoinRequest 43720" "[]" scripted start_server "script [] []"]
    by (simp add: popped admit_scripted)
qed

text \<open>
  C5 No client ever joins: the handling of the new connections, if it returns, leaves the list of
  clients, their heap, the phase and the numbers as they were, and no connection waiting. This is
  so for every network, because no freshly accepted socket delivers a join request.
\<close>

theorem HandleNewTCPConnections_admits_nobody:
  assumes "HandleNewTCPConnections N sv w = Some (Inr (sv', w'))"
  shows "sv' = sv\<lparr>sv_newConnections := []\<rparr>"
  using HandleNewTCPConnections_Inr [OF assms] by (auto simp: same_clients_def)

theorem HandleNewTCPConnections_admits_nobody_witness:
  "\<exists>sv' w'. HandleNewTCPConnections scripted one_server (script [] [5]) = Some (Inr (sv', w'))
     \<and> sv' = one_server\<lparr>sv_newConnections := []\<rparr>"
proof -
  have one: "sv_newConnections one_server = []" "sv_protoPhase one_server = PROTO_LOBBY"
    "IsServerFull (one_server\<lparr>sv_newConnections := []\<rparr>) = False"
    by (simp_all add: one_server_def listed_def with_client_def start_server_def IsServerFull_def
        MAX_PLAYERS_def)
  have sock: "\<exists>s. Socket_accepted scripted 5 w = Inr (s, w) \<and> s_set s = Some 0 \<and> s_pqueue s = []" for w
    by (simp add: Socket_accepted_def CreateSocketSet_def AddToSet_def blank_Socket_def)
  obtain s where s: "Socket_accepted scripted 5 (script [] []) = Inr (s, script [] [])"
    "s_set s = Some 0" "s_pqueue s = []" using sock by blast
  have idle: "AcceptNewClient scripted s sv (script [] []) = Some (Inr (sv, script [] []))" for sv
    using AcceptNewClient_idle [of scripted s "script [] []" "script [] []"] s
    by (simp add: HasActivity_def demo_delete)
  have arr: "(script [] [5])\<lparr>sc_arrivals := []\<rparr> = script [] []" "(script [] [])\<lparr>sc_arrivals := []\<rparr> = script [] []"
    by (simp_all add: script_def)
  have none: "HandleNewTCPConnections scripted (sv\<lparr>sv_newConnections := []\<rparr>) (script [] [])
      = Some (Inr (sv\<lparr>sv_newConnections := []\<rparr>, script [] []))" for sv
    by (rule HandleNewTCPConnections_none) (simp_all add: arr)
  have run: "HandleNewTCPConnections scripted one_server (script [] [5])
      = Some (Inr (one_server\<lparr>sv_newConnections := []\<rparr>, script [] []))"
    by (subst HandleNewTCPConnections.simps)
      (simp add: one arr s idle none HasNewConnection_def GetNewSocket_def take_socket_def
        AddNewSocket_def Let_def)
  with HandleNewTCPConnections_admits_nobody [OF run] show ?thesis by blast
qed

text \<open>
  When the server is full, or no longer in the lobby, the next connection is sent a join
  response that refuses it, its socket object is deleted, and the loop goes on with the rest of
  the connections in the order of their arrival, the clients as they were.
\<close>

theorem HandleNewTCPConnections_refuses:
  assumes "net_Arrivals N w = (arrived, w1)" and "sv_newConnections sv @ arrived = t # q"
    and "Socket_accepted N t w1 = Inr (s, w2)"
    and "sv_protoPhase sv \<noteq> PROTO_LOBBY \<or> IsServerFull sv"
  shows "HandleNewTCPConnections N sv w =
     run_bind (Some (SendPacket_bytes N s (encode (JoinResponse False 0 0)) w2)) (\<lambda>(_, w3).
       HandleNewTCPConnections N (sv\<lparr>sv_newConnections := q\<rparr>) (delete_Socket N s w3))"
  using assms by (rule HandleNewTCPConnections_rejects)

theorem HandleNewTCPConnections_refuses_witness:
  "HandleNewTCPConnections scripted (one_server\<lparr>sv_protoPhase := PROTO_GAME\<rparr>) (script [] [0])
     = Some (Inr (one_server\<lparr>sv_protoPhase := PROTO_GAME\<rparr>,
         (script [] [])\<lparr>sc_sent := [encode (JoinResponse False 0 0)]\<rparr>))"
proof -
  let ?sv = "one_server\<lparr>sv_protoPhase := PROTO_GAME\<rparr>"
  have one: "sv_newConnections one_server = []" "?sv\<lparr>sv_newConnections := []\<rparr> = ?sv"
    by (simp_all add: one_server_def listed_def with_client_def start_server_def)
  have w: "(script [] [0])\<lparr>sc_arrivals := []\<rparr> = script [] []"
    "net_Arrivals scripted ((script [] [])\<lparr>sc_sent := m\<rparr>) = ([], (script [] [])\<lparr>sc_sent := m\<rparr>)" for m
    by (simp_all add: script_def)
  have "HandleNewTCPConnections scripted ?sv ((script [] [])\<lparr>sc_sent := m\<rparr>)
      = Some (Inr (?sv, (script [] [])\<lparr>sc_sent := m\<rparr>))" for m
    by (rule HandleNewTCPConnections_none [OF w(2)]) (simp add: one)
  then show ?thesis
    using HandleNewTCPConnections_refuses [of scripted "script [] [0]" "[0]" "script [] []" ?sv 0 "[]" tcp0
        "script [] []"]
    by (simp add: w one tcp0_accepted send_told demo_delete)
qed

subsection \<open>The main loop\<close>

text \<open>
  C31 The server program never ends normally: nothing sets the phase to \<open>PROTO_NONE\<close>, so that
  \<open>main\<close> either runs for ever or ends in an exception or a fault, on every network. In
  particular no shutdown packet is ever queued.
\<close>

theorem server_main_never_returns:
  "server_main N w \<noteq> Some (Inr w')"
proof
  assume "server_main N w = Some (Inr w')"
  then obtain sv w1 r where start: "new_Server N w = Inr (sv, w1)"
    and loop: "ServerLoop N sv w1 = Some (Inr r)"
    by (auto simp: server_main_def)
  from start have "roster_ok sv" "sv_protoPhase sv \<noteq> PROTO_NONE"
    using new_Server_ok [OF start] new_Server_Inr [OF start] by simp_all
  with ServerLoop_never_returns [OF loop] show False by simp
qed

text \<open>
  The shutdown itself: in \<open>PROTO_NONE\<close> the loop queues a shutdown message for every client and
  returns at once. The network is as it was: what was queued is never sent.
\<close>

theorem shutdown_not_sent:
  assumes "sv_protoPhase sv = PROTO_NONE" and "roster_ok sv"
    and "\<And>p. p \<in> set (sv_clients sv) \<Longrightarrow> can_queue sv p"
  shows "ServerLoop N sv w = Some (Inr (tell (set (sv_clients sv)) ServerShutdown sv, w))"
  using assms by (intro ServerLoop_shutdown roster_ok_live)

theorem shutdown_not_sent_witness:
  "ServerLoop scripted (demo_server\<lparr>sv_protoPhase := PROTO_NONE\<rparr>) (script [] [])
     = Some (Inr (tell {10, 11} ServerShutdown (demo_server\<lparr>sv_protoPhase := PROTO_NONE\<rparr>), script [] []))"
  using shutdown_not_sent [of "demo_server\<lparr>sv_protoPhase := PROTO_NONE\<rparr>" scripted "script [] []"]
    demo_roster_ok demo_can_queue
  by (simp add: roster_ok_def can_queue_def)

end
