(* ===== verification/LobbyTheorems.thy ===== *)
theory LobbyTheorems
  imports Lobby ServerTheorems
begin

section \<open>The server implements the lobby\<close>

text \<open>
  The refinement of the abstract lobby by the operations of the server, and what it gives for the
  order of the players. The instances are the servers of \<open>ServerTheorems\<close>.
\<close>

text \<open>
  C15 The server implements the lobby. On a well-formed roster an admission appends one player,
  with the next number and on the smaller team, or uses up the number and changes nothing else; a
  kick takes exactly the kicked player out of the list and leaves all others with their numbers
  and teams in place; a broadcast and a flush change no player. So every state the server reaches
  is, seen as a lobby, a state the abstract lobby reaches.
\<close>

theorem server_refines_lobby:
  assumes "roster_ok sv"
  shows "(\<forall>sock port w sv' w'. IsConnectionOpen sock \<longrightarrow> admit N sock port sv w = Inr (sv', w') \<longrightarrow>
            lobby_of sv' = lobby_join (lobby_of sv) \<or> lobby_of sv' = lobby_miss (lobby_of sv)) \<and>
     (\<forall>k w sv' w'. k < length (sv_clients sv) \<longrightarrow>
        KickClient N (Some (sv_clients sv ! k)) sv w = Inr (sv', w') \<longrightarrow>
            lobby_of sv' = lobby_leave k (lobby_of sv)) \<and>
     (\<forall>proto packet w sv' w'. Broadcast N proto packet sv w = Inr (sv', w') \<longrightarrow> lobby_of sv' = lobby_of sv) \<and>
     (\<forall>w sv' w'. FlushClientPacketQueues N sv w = Inr (sv', w') \<longrightarrow> lobby_of sv' = lobby_of sv) \<and>
     (\<forall>s. reach (server_start N) (server_step N) s \<longrightarrow>
        reach (\<lambda>l. l = new_lobby) lobby_step (lobby_of s))"
proof (intro conjI allI impI)
  show "lobby_of sv' = lobby_join (lobby_of sv) \<or> lobby_of sv' = lobby_miss (lobby_of sv)"
    if "IsConnectionOpen sock" "admit N sock port sv w = Inr (sv', w')" for sock port w sv' w'
    using admit_lobby [OF assms that(2,1)] by simp
qed (use assms in \<open>auto intro: KickClient_lobby Broadcast_lobby Flush_lobby lobby.abs_reach\<close>)

lemma demo_kicked:
  "KickClient scripted (Some 10) demo_server (script [] [])
     = Inr (drop_client 10 (tell {11} (PlayerDidLeave 1) demo_server), script [] [])"
  using KickClient_message [of demo_server 10 "demo_client 1 TEAM_MERC" scripted "script [] []"]
  by (simp add: demo_roster_ok demo_can_queue demo_delete)

theorem server_refines_lobby_witness:
  "lobby_of demo_server = \<lparr>lb_players = [(1, TEAM_MERC), (2, TEAM_SPY)], lb_next = 3\<rparr> \<and>
   (\<exists>sv'. KickClient scripted (Some 10) demo_server (script [] []) = Inr (sv', script [] []) \<and>
      lobby_of sv' = \<lparr>lb_players = [(2, TEAM_SPY)], lb_next = 3\<rparr>) \<and>
   lobby_of one_server = \<lparr>lb_players = [(1, TEAM_MERC)], lb_next = 2\<rparr>"
proof -
  let ?kicked = "drop_client 10 (tell {11} (PlayerDidLeave 1) demo_server)"
  have demo: "lobby_of demo_server = \<lparr>lb_players = [(1, TEAM_MERC), (2, TEAM_SPY)], lb_next = 3\<rparr>"
    by (simp add: lobby_of_def number_of_def team_of_def)
  have "lobby_of ?kicked = lobby_leave 0 (lobby_of demo_server)"
    using server_refines_lobby [OF demo_roster_ok, of scripted] demo_kicked by fastforce
  then have kicked: "lobby_of ?kicked = \<lparr>lb_players = [(2, TEAM_SPY)], lb_next = 3\<rparr>"
    by (simp add: demo lobby_leave_def)
  have "IsConnectionOpen tcp0" by (simp add: IsConnectionOpen_def tcp0_def)
  then have "lobby_of one_server = lobby_join (lobby_of start_server)
      \<or> lobby_of one_server = lobby_miss (lobby_of start_server)"
    using server_refines_lobby [OF start_ok, of scripted] admit_scripted [of "script [] []"] by blast
  moreover have "length (sv_clients one_server) = 1" by (simp add: one_server_def listed_def)
  ultimately have "lobby_of one_server = \<lparr>lb_players = [(1, TEAM_MERC)], lb_next = 2\<rparr>"
    by (auto simp: lobby_of_def lobby_join_def lobby_miss_def smaller_team_def members_def)
  with demo kicked demo_kicked show ?thesis by blast
qed

text \<open>
  C30 The client list is in the order of joining: while the 32-bit counter has not wrapped, the
  player numbers grow strictly along the list, whatever kicks came between, so that no two
  listed clients share one; none is 0, and all of them are below the next one to be handed out.
\<close>

theorem players_in_order:
  assumes "reach (server_start N) (numbered_step N) sv"
  shows "sorted_wrt (<) (map (\<lambda>p. the (number_of sv p)) (sv_clients sv))
     \<and> (\<forall>p \<in> set (sv_clients sv). 0 < the (number_of sv p) \<and> the (number_of sv p) < sv_playerId sv)"
  using lobby_in_order [OF assms] by blast

theorem players_in_order_witness:
  "sv_clients one_server = [0] \<and> number_of one_server 0 = Some 1 \<and> 0 < the (number_of one_server 0)
     \<and> the (number_of one_server 0) < sv_playerId one_server"
proof -
  have "numbered_step scripted start_server one_server"
    using one_step by (simp add: numbered_step_def)
  then have "reach (server_start scripted) (numbered_step scripted) one_server"
    by (rule reach_step [rotated]) (rule reach_init, rule start_reached)
  note order = players_in_order [OF this]
  have "sv_clients one_server = [0]" "number_of one_server 0 = Some 1"
    by (simp_all add: one_server_def number_of_def listed_def first_client_def)
  with order show ?thesis by simp
qed

end
