(* ===== verification/JoinSystem.thy ===== *)
theory JoinSystem
  imports ClientConnector ServiceLoop
begin

section \<open>The server and its clients together\<close>

text \<open>
  \<open>ServerLoop\<close> and \<open>ConnectToServer\<close> cut into the turns between which the other programs run:
  one round of the server's loop, the opening of a client's connection, one round of a client's
  wait. The system is one server and any number of clients on a world they share; between two
  turns the network may do anything to that world. A turn that does not return leaves its program
  stuck, and one that faults ends it.
\<close>

subsection \<open>Turns\<close>

definition server_turn :: "'w SDLNet \<Rightarrow> Server \<Rightarrow> 'w \<Rightarrow> (Server \<times> 'w) run" where
  "server_turn N sv w =
     run_bind (HandleNewTCPConnections N sv w) (\<lambda>(sv, w).
     run_bind (Some (FlushClientPacketQueues N sv w)) (\<lambda>(sv, w).
       Some (Inr (sv, net_usleep N w 40000))))"

lemma ServerLoop_turns:
  assumes "sv_protoPhase sv \<noteq> PROTO_NONE"
  shows "ServerLoop N sv w = run_bind (server_turn N sv w) (\<lambda>(sv, w). ServerLoop N sv w)"
  using assms
  by (subst ServerLoop.simps)
    (auto simp: server_turn_def run_bind_def split: option.splits sum.splits bind_splits)

text \<open>
  The first part of \<open>ConnectToServer\<close>: it returns a result at once, or the time at which the wait
  for the response starts.
\<close>

definition client_open ::
    "'w SDLNet \<Rightarrow> ServerConnector \<Rightarrow> 'w \<Rightarrow> (((bool + int) \<times> ServerConnector) \<times> 'w) res" where
  "client_open N cn w =
     (if cn_isConnected cn then Inr ((Inl True, cn), w)
      else
        rbind (Socket_by_name N UDP (cn_host cn) (cn_udpPort cn) 0 w) (\<lambda>(udp, w).
        rbind (SocketTCP N (cn_host cn) (cn_tcpPort cn) w) (\<lambda>(tcp, w).
        let cn = cn\<lparr>cn_udpSocket := Some udp, cn_tcpSocket := Some tcp\<rparr>
        in if \<not> IsConnectionOpen tcp then
             (case CleanUpSockets N cn w of (cn, w) \<Rightarrow> Inr ((Inl False, cn), w))
           else
             rbind (SendPacket N tcp (set_dword HOST M_port (GetListenPortUDP udp) (JoinRequestPacket HOST)) w)
               (\<lambda>(sent, w).
                if \<not> sent then (case CleanUpSockets N cn w of (cn, w) \<Rightarrow> Inr ((Inl False, cn), w))
                else (case net_time N w of (start, w) \<Rightarrow> Inr ((Inr start, cn), w))))))"

definition client_turn ::
    "'w SDLNet \<Rightarrow> int \<Rightarrow> ServerConnector \<Rightarrow> 'w \<Rightarrow> ((bool option \<times> ServerConnector) \<times> 'w) run" where
  "client_turn N start cn w =
     (case net_time N w of (now, w) \<Rightarrow>
        if now - start < 10 then
          run_bind (response_loop N cn w) (\<lambda>((res, cn), w).
            Some (Inr ((res, cn), case res of Some _ \<Rightarrow> w | None \<Rightarrow> net_usleep N w (10 * 1000))))
        else (case CleanUpSockets N cn w of (cn, w) \<Rightarrow> Some (Inr ((Some False, cn), w))))"

lemma wait_loop_turns:
  "wait_loop N start cn w =
     run_bind (client_turn N start cn w) (\<lambda>((res, cn), w).
       case res of Some r \<Rightarrow> Some (Inr ((r, cn), w)) | None \<Rightarrow> wait_loop N start cn w)"
proof -
  obtain now w1 where t: "net_time N w = (now, w1)" by fastforce
  show ?thesis
  proof (cases "now - start < 10")
    case True
    show ?thesis
    proof (cases "response_loop N cn w1")
      case None
      with True t show ?thesis by (subst wait_loop.simps) (simp add: client_turn_def)
    next
      case (Some r)
      with True t show ?thesis
        by (subst wait_loop.simps) (cases r; auto simp: client_turn_def split: option.split)
    qed
  next
    case False
    with t show ?thesis
      by (subst wait_loop.simps) (auto simp: client_turn_def split: prod.split)
  qed
qed

lemma ConnectToServer_turns:
  "ConnectToServer N cn w =
     run_bind (Some (client_open N cn w)) (\<lambda>((res, cn), w).
       case res of Inl r \<Rightarrow> Some (Inr ((r, cn), w)) | Inr start \<Rightarrow> wait_loop N start cn w)"
proof (cases "Socket_by_name N UDP (cn_host cn) (cn_udpPort cn) 0 w")
  case (Inr u)
  obtain udp w1 where u: "u = (udp, w1)" by fastforce
  show ?thesis
  proof (cases "SocketTCP N (cn_host cn) (cn_tcpPort cn) w1")
    case tcp: (Inr v)
    obtain tcp w2 where v: "v = (tcp, w2)" by fastforce
    let ?pkt = "set_dword HOST M_port (GetListenPortUDP udp) (JoinRequestPacket HOST)"
    show ?thesis
      using Inr u tcp v
      by (cases "SendPacket N tcp ?pkt w2")
        (auto simp: ConnectToServer_def client_open_def Let_def split: prod.split simp del: built_packets)
  qed (use Inr u in \<open>simp add: ConnectToServer_def client_open_def\<close>)
qed (simp add: ConnectToServer_def client_open_def)

subsection \<open>The system\<close>

datatype server_state =
    V_running Server
  | V_stuck
  | V_failed cxx_error

datatype client_state =
    C_new ServerConnector
  | C_waiting int ServerConnector
  | C_done bool ServerConnector
  | C_stuck
  | C_failed cxx_error

record 'w system =
  sy_server :: server_state
  sy_clients :: "nat \<Rightarrow> client_state"
  sy_world :: 'w

text \<open>What becomes of a program after a turn.\<close>

definition after_server_turn :: "(Server \<times> 'w) run \<Rightarrow> 'w system \<Rightarrow> 'w system" where
  "after_server_turn r st =
     (case r of
        None \<Rightarrow> st\<lparr>sy_server := V_stuck\<rparr>
      | Some (Inl e) \<Rightarrow> st\<lparr>sy_server := V_failed e\<rparr>
      | Some (Inr (sv, w)) \<Rightarrow> st\<lparr>sy_server := V_running sv, sy_world := w\<rparr>)"

definition put_client :: "nat \<Rightarrow> client_state \<Rightarrow> 'w system \<Rightarrow> 'w system" where
  "put_client k c st = st\<lparr>sy_clients := (sy_clients st)(k := c)\<rparr>"

definition after_client_open ::
    "nat \<Rightarrow> (((bool + int) \<times> ServerConnector) \<times> 'w) res \<Rightarrow> 'w system \<Rightarrow> 'w system" where
  "after_client_open k r st =
     (case r of
        Inl e \<Rightarrow> put_client k (C_failed e) st
      | Inr ((Inl b, cn), w) \<Rightarrow> put_client k (C_done b cn) (st\<lparr>sy_world := w\<rparr>)
      | Inr ((Inr start, cn), w) \<Rightarrow> put_client k (C_waiting start cn) (st\<lparr>sy_world := w\<rparr>))"

definition after_client_turn ::
    "nat \<Rightarrow> int \<Rightarrow> ((bool option \<times> ServerConnector) \<times> 'w) run \<Rightarrow> 'w system \<Rightarrow> 'w system" where
  "after_client_turn k start r st =
     (case r of
        None \<Rightarrow> put_client k C_stuck st
      | Some (Inl e) \<Rightarrow> put_client k (C_failed e) st
      | Some (Inr ((Some b, cn), w)) \<Rightarrow> put_client k (C_done b cn) (st\<lparr>sy_world := w\<rparr>)
      | Some (Inr ((None, cn), w)) \<Rightarrow> put_client k (C_waiting start cn) (st\<lparr>sy_world := w\<rparr>))"

text \<open>A client that is done may call \<open>ConnectToServer\<close> again.\<close>

inductive join_step :: "'w SDLNet \<Rightarrow> 'w SDLNet \<Rightarrow> 'w system \<Rightarrow> 'w system \<Rightarrow> bool" for Ns Nc where
  serves: "sy_server st = V_running sv \<Longrightarrow> sv_protoPhase sv \<noteq> PROTO_NONE \<Longrightarrow>
     join_step Ns Nc st (after_server_turn (server_turn Ns sv (sy_world st)) st)"
| opens: "sy_clients st k = C_new cn \<or> sy_clients st k = C_done b cn \<Longrightarrow>
     join_step Ns Nc st (after_client_open k (client_open Nc cn (sy_world st)) st)"
| polls: "sy_clients st k = C_waiting start cn \<Longrightarrow>
     join_step Ns Nc st (after_client_turn k start (client_turn Nc start cn (sy_world st)) st)"
| network: "join_step Ns Nc st (st\<lparr>sy_world := w\<rparr>)"

definition join_start :: "'w SDLNet \<Rightarrow> 'w system \<Rightarrow> bool" where
  "join_start Ns st \<longleftrightarrow>
     (\<exists>sv w. sy_server st = V_running sv \<and> new_Server Ns w = Inr (sv, sy_world st)) \<and>
     (\<forall>k. \<exists>host tcpPort udpPort. sy_clients st k = C_new (new_ServerConnector host tcpPort udpPort))"

subsection \<open>Nobody joins\<close>

text \<open>A server without clients, in the lobby, that has handed out no number.\<close>

definition empty_lobby :: "Server \<Rightarrow> bool" where
  "empty_lobby sv \<longleftrightarrow> roster_ok sv \<and> sv_clients sv = [] \<and> sv_protoPhase sv = PROTO_LOBBY
     \<and> sv_playerId sv = 1"

fun not_joined :: "client_state \<Rightarrow> bool" where
  "not_joined (C_new cn) = connector_idle cn"
| "not_joined (C_waiting start cn) =
     (connector_idle (cn\<lparr>cn_tcpSocket := None, cn_udpSocket := None\<rparr>)
      \<and> (\<exists>tcp. cn_tcpSocket cn = Some tcp \<and> s_pqueue tcp = []))"
| "not_joined (C_done b cn) = (\<not> b \<and> connector_idle cn)"
| "not_joined C_stuck = True"
| "not_joined (C_failed e) = True"

definition nobody_joined :: "'w system \<Rightarrow> bool" where
  "nobody_joined st \<longleftrightarrow>
     (\<forall>sv. sy_server st = V_running sv \<longrightarrow> empty_lobby sv) \<and> (\<forall>k. not_joined (sy_clients st k))"

lemma nobody_joined_put [intro]:
  "nobody_joined st \<Longrightarrow> not_joined c \<Longrightarrow> nobody_joined (put_client k c (st\<lparr>sy_world := w\<rparr>))"
  "nobody_joined st \<Longrightarrow> not_joined c \<Longrightarrow> nobody_joined (put_client k c st)"
  by (auto simp: nobody_joined_def put_client_def)

lemma flush_nobody: "flush_all {} sv = sv"
  by (simp add: flush_all_def)

lemma server_turn_empty:
  assumes "server_turn N sv w = Some (Inr (sv', w'))" and "empty_lobby sv"
  shows "empty_lobby sv'"
proof -
  from assms(1) obtain sv1 w1 w2 where h: "HandleNewTCPConnections N sv w = Some (Inr (sv1, w1))"
    and fl: "FlushClientPacketQueues N sv1 w1 = Inr (sv', w2)"
    by (auto simp: server_turn_def)
  from HandleNewTCPConnections_Inr [OF h] assms(2) have e: "empty_lobby sv1"
    by (auto simp: empty_lobby_def same_clients_def)
  then have "sv' = sv1"
    using Flush_result [OF fl] by (simp add: empty_lobby_def flush_nobody)
  with e show ?thesis by simp
qed

lemma client_open_idle:
  assumes "connector_idle cn" and "client_open N cn w = Inr ((res, cn'), w')"
  shows "case res of Inl b \<Rightarrow> not_joined (C_done b cn') | Inr start \<Rightarrow> not_joined (C_waiting start cn')"
proof -
  from assms obtain udp w1 tcp w2 where tcp: "SocketTCP N (cn_host cn) (cn_tcpPort cn) w1 = Inr (tcp, w2)"
    and rest: "(let cn = cn\<lparr>cn_udpSocket := Some udp, cn_tcpSocket := Some tcp\<rparr>
        in if \<not> IsConnectionOpen tcp then
             (case CleanUpSockets N cn w2 of (cn, w) \<Rightarrow> Inr ((Inl False, cn), w))
           else
             rbind (SendPacket N tcp (set_dword HOST M_port (GetListenPortUDP udp) (JoinRequestPacket HOST)) w2)
               (\<lambda>(sent, w).
                if \<not> sent then (case CleanUpSockets N cn w of (cn, w) \<Rightarrow> Inr ((Inl False, cn), w))
                else (case net_time N w of (start, w) \<Rightarrow> Inr ((Inr start, cn), w))))
      = Inr ((res, cn'), w')"
    unfolding client_open_def by (auto simp: connector_idle_def simp del: built_packets)
  have q: "s_pqueue tcp = []" using SocketTCP_fresh [OF tcp] by (simp add: fresh_def)
  from rest q assms(1) show ?thesis
    by (auto simp: Let_def CleanUpSockets_def connector_idle_def split: if_splits prod.splits
        simp del: built_packets)
qed

lemma client_turn_idle:
  assumes "not_joined (C_waiting start cn)" and "client_turn N start cn w = Some (Inr ((res, cn'), w'))"
  shows "case res of Some b \<Rightarrow> not_joined (C_done b cn') | None \<Rightarrow> not_joined (C_waiting start cn')"
proof -
  obtain now w1 where t: "net_time N w = (now, w1)" by fastforce
  from assms(1) obtain tcp where tcp: "cn_tcpSocket cn = Some tcp" "s_pqueue tcp = []" by auto
  show ?thesis
  proof (cases "now - start < 10")
    case True
    with assms(2) t obtain res2 cn2 w2 where r: "response_loop N cn w1 = Some (Inr ((res2, cn2), w2))"
      and "res = res2" "cn' = cn2" by (auto simp: client_turn_def)
    with response_loop_fresh [OF tcp r] assms(1) show ?thesis by simp
  next
    case False
    with assms t show ?thesis
      by (auto simp: client_turn_def CleanUpSockets_def connector_idle_def)
  qed
qed

lemma join_step_nobody:
  assumes "join_step Ns Nc st st'" and inv: "nobody_joined st"
  shows "nobody_joined st'"
  using assms(1)
proof (cases rule: join_step.cases)
  case (serves sv)
  have "empty_lobby sv" using inv serves(2) by (simp add: nobody_joined_def)
  with inv show ?thesis
    unfolding serves(1)
    by (auto simp: after_server_turn_def nobody_joined_def split: option.splits sum.splits
        dest: server_turn_empty)
next
  case (opens k cn b)
  have idle: "connector_idle cn"
    using inv opens(2) unfolding nobody_joined_def by (metis not_joined.simps(1,3))
  show ?thesis
  proof (cases "client_open Nc cn (sy_world st)")
    case (Inr x)
    obtain res cn' w' where x: "x = ((res, cn'), w')" by (metis surj_pair)
    from client_open_idle [OF idle Inr [unfolded x]] inv show ?thesis
      unfolding opens(1) Inr x by (cases res) (auto simp: after_client_open_def)
  qed (use inv in \<open>auto simp: opens(1) after_client_open_def\<close>)
next
  case (polls k start cn)
  have wait: "not_joined (C_waiting start cn)"
    using inv polls(2) unfolding nobody_joined_def by metis
  show ?thesis
  proof (cases "client_turn Nc start cn (sy_world st)")
    case (Some r)
    show ?thesis
    proof (cases r)
      case (Inr x)
      obtain res cn' w' where x: "x = ((res, cn'), w')" by (metis surj_pair)
      from client_turn_idle [OF wait Some [unfolded Inr x]] inv show ?thesis
        unfolding polls(1) Some Inr x by (cases res) (auto simp: after_client_turn_def)
    qed (use inv Some in \<open>auto simp: polls(1) after_client_turn_def\<close>)
  qed (use inv in \<open>auto simp: polls(1) after_client_turn_def\<close>)
next
  case network
  with inv show ?thesis by (simp add: nobody_joined_def)
qed

interpretation joining: inductive_invariant "join_start Ns" "join_step Ns Nc" nobody_joined for Ns Nc
proof unfold_locales
  show "nobody_joined st" if "join_start Ns st" for st :: "'a system"
  proof -
    from that obtain sv w where sv: "sy_server st = V_running sv" "new_Server Ns w = Inr (sv, sy_world st)"
      by (auto simp: join_start_def)
    then have "empty_lobby sv"
      using new_Server_ok [OF sv(2)] by (auto simp: empty_lobby_def new_Server_def)
    moreover have "not_joined (sy_clients st k)" for k
    proof -
      from that obtain host tcpPort udpPort
        where "sy_clients st k = C_new (new_ServerConnector host tcpPort udpPort)"
        unfolding join_start_def by blast
      then show ?thesis by (simp add: connector_idle_def new_ServerConnector_def)
    qed
    ultimately show ?thesis by (simp add: nobody_joined_def sv)
  qed
qed (rule join_step_nobody)

subsection \<open>A join request stops the server\<close>

lemma GetPacket_request:
  assumes "s_pqueue s = []" "s_protocol s = TCP" "s_tcp s = Some t" "recv_bounded N"
    and "HasActivity N s w = Inr (True, w1)"
    and "net_TCP_Recv N w1 t 128 = (Some (encode (JoinRequest port) @ rest), w2)"
    and "length (encode (JoinRequest port) @ rest) < 128"
  shows "GetPacket N s w = None"
proof (rule GetPacket_hangs [OF assms(1,5), where m = "JoinRequest port"])
  let ?bs = "encode (JoinRequest port) @ rest"
  show "GetData N s w1 = Some (Inr ((Some (map Byte (encode (JoinRequest port))
        @ (map Byte rest @ replicate (128 - length ?bs) Uninit)), int (length ?bs), None), w2))"
    using assms by (simp add: GetData_TCP)
  show "0 < int (length ?bs)" by (simp add: encode_def)
qed simp

lemma AcceptNewClient_request:
  assumes "fresh s" "s_protocol s = TCP" "s_tcp s = Some t" "recv_bounded N"
    and "HasActivity N s w = Inr (True, w1)" and "HasActivity N s w1 = Inr (True, w2)"
    and "net_TCP_Recv N w2 t 128 = (Some (encode (JoinRequest port) @ rest), w3)"
    and "length (encode (JoinRequest port) @ rest) < 128"
  shows "AcceptNewClient N s sv w = None"
  using GetPacket_request [of s t N w1 w2 port rest w3] assms
  by (simp add: AcceptNewClient_def fresh_def)

lemma HandleNewTCPConnections_request:
  assumes "sv_protoPhase sv = PROTO_LOBBY" "\<not> IsServerFull sv"
    and "net_Arrivals N w = (arrived, w0)" and "sv_newConnections sv @ arrived = t # q"
    and "Socket_accepted N t w0 = Inr (s, w1)" and "recv_bounded N"
    and "HasActivity N s w1 = Inr (True, w2)" and "HasActivity N s w2 = Inr (True, w3)"
    and "net_TCP_Recv N w3 t 128 = (Some (encode (JoinRequest port) @ rest), w4)"
    and "length (encode (JoinRequest port) @ rest) < 128"
  shows "HandleNewTCPConnections N sv w = None"
proof -
  have q: "fold (\<lambda>t. AddNewSocket (Some t)) arrived (sv_newConnections sv) = t # q"
    using connections.contents_enq_all [of arrived "sv_newConnections sv"] assms(4) by simp
  have get: "GetNewSocket N (t # q) w0 = Inr ((Some s, q), w1)"
    using assms(5) by (simp add: GetNewSocket_def take_socket_def)
  have s: "fresh s" "s_protocol s = TCP" "s_tcp s = Some t"
    using Socket_accepted_fresh [OF assms(5)] by blast+
  have "AcceptNewClient N s sv' w1 = None" for sv'
    using s assms by (intro AcceptNewClient_request)
  moreover have "\<not> IsServerFull (sv\<lparr>sv_newConnections := k\<rparr>)" for k
    using assms(2) by (simp add: IsServerFull_def)
  ultimately show ?thesis
    using assms(1,3) q get
    by (subst HandleNewTCPConnections.simps) (simp add: HasNewConnection_def Let_def)
qed

lemma empty_lobby_open: "empty_lobby sv \<Longrightarrow> sv_protoPhase sv = PROTO_LOBBY \<and> \<not> IsServerFull sv"
  by (simp add: empty_lobby_def IsServerFull_def MAX_PLAYERS_def)

lemma after_server_turn_None [simp]:
  "sy_server (after_server_turn None st) = V_stuck"
  by (simp add: after_server_turn_def)

end
