(* ===== verification/GTestFlags.thy ===== *)
theory GTestFlags
  imports Prelude
begin

section \<open>The command line of the test program (gtest/src/gtest.cc, gtest-port.cc)\<close>

text \<open>
  The part of the vendored test framework that the test program hands an array of its own to:
  the parsing of the framework's flags and their removal from \<open>argv\<close>. The array is a list of
  its cells (\<open>None\<close> is a null pointer); an access past its end is a fault. The characters of a
  string are those before its terminating zero. The values of the flags that the command line
  sets are a map from the name of the flag.
\<close>

type_synonym arg_array = "string option list"

datatype flag_value = FBool bool | FInt32 int | FString string

datatype flag_kind = KBool | KInt32 | KString

subsection \<open>One flag\<close>

definition SkipPrefix :: "string \<Rightarrow> string \<Rightarrow> string option" where
  "SkipPrefix prefix str =
     (if take (length prefix) str = prefix then Some (drop (length prefix) str) else None)"

definition ParseFlagValue :: "string \<Rightarrow> string \<Rightarrow> bool \<Rightarrow> string option" where
  "ParseFlagValue str flag def_optional =
     (let flag_str = ''--'' @ ''gtest_'' @ flag in
      if take (length flag_str) str \<noteq> flag_str then None
      else let flag_end = drop (length flag_str) str in
        if def_optional \<and> flag_end = [] then Some flag_end
        else case flag_end of
               [] \<Rightarrow> None
             | c # value \<Rightarrow> if c \<noteq> CHR ''='' then None else Some value)"

definition ParseBoolFlag :: "string \<Rightarrow> string \<Rightarrow> bool option" where
  "ParseBoolFlag str flag =
     (case ParseFlagValue str flag True of
        None \<Rightarrow> None
      | Some value_str \<Rightarrow>
          Some (\<not> (case value_str of [] \<Rightarrow> False
                    | c # _ \<Rightarrow> c = CHR ''0'' \<or> c = CHR ''f'' \<or> c = CHR ''F'')))"

text \<open>
  \<open>strtol\<close> to base 10: white space, a sign, digits; where there is no digit the value is 0 and the
  rest is the whole string. A value that a 64-bit \<open>long\<close> cannot hold is the nearest it can.
\<close>

definition LONG_MAX :: int where "LONG_MAX = 2 ^ 63 - 1"

definition LONG_MIN :: int where "LONG_MIN = - (2 ^ 63)"

definition c_isspace :: "char \<Rightarrow> bool" where
  "c_isspace c \<longleftrightarrow> of_char c = (32 :: nat) \<or> of_char c \<in> {9 :: nat .. 13}"

definition c_isdigit :: "char \<Rightarrow> bool" where
  "c_isdigit c \<longleftrightarrow> of_char c \<in> {48 :: nat .. 57}"

definition digits_value :: "string \<Rightarrow> int" where
  "digits_value ds = foldl (\<lambda>v c. 10 * v + (int (of_char c) - 48)) 0 ds"

definition strtol10 :: "string \<Rightarrow> int \<times> string" where
  "strtol10 str =
     (let s = dropWhile c_isspace str;
          (neg, s) = (case s of c # r \<Rightarrow> if c = CHR ''-'' then (True, r)
                                        else if c = CHR ''+'' then (False, r) else (False, s)
                      | [] \<Rightarrow> (False, s));
          ds = takeWhile c_isdigit s
      in if ds = [] then (0, str)
         else (max LONG_MIN (min LONG_MAX (if neg then - digits_value ds else digits_value ds)),
               dropWhile c_isdigit s))"

text \<open>The warnings that \<open>ParseInt32\<close> prints are left out.\<close>

definition ParseInt32 :: "string \<Rightarrow> int option" where
  "ParseInt32 str =
     (case strtol10 str of (long_value, rest) \<Rightarrow>
        if rest \<noteq> [] then None
        else let result = signed_take_bit 31 long_value in
          if long_value = LONG_MAX \<or> long_value = LONG_MIN \<or> result \<noteq> long_value then None
          else Some result)"

definition ParseInt32Flag :: "string \<Rightarrow> string \<Rightarrow> int option" where
  "ParseInt32Flag str flag =
     (case ParseFlagValue str flag False of None \<Rightarrow> None | Some value_str \<Rightarrow> ParseInt32 value_str)"

definition ParseStringFlag :: "string \<Rightarrow> string \<Rightarrow> string option" where
  "ParseStringFlag str flag = ParseFlagValue str flag False"

definition HasGoogleTestFlagPrefix :: "string \<Rightarrow> bool" where
  "HasGoogleTestFlagPrefix str =
     (let str = (case SkipPrefix ''--'' str of Some r \<Rightarrow> Some r
                 | None \<Rightarrow> (case SkipPrefix ''-'' str of Some r \<Rightarrow> Some r
                           | None \<Rightarrow> SkipPrefix ''/'' str))
      in case str of None \<Rightarrow> False
         | Some str \<Rightarrow> SkipPrefix ''gtest_internal_'' str = None
             \<and> (SkipPrefix ''gtest_'' str \<noteq> None \<or> SkipPrefix ''gtest-'' str \<noteq> None))"

text \<open>The flags in the order in which the loop tries them.\<close>

definition gtest_flags :: "(flag_kind \<times> string) list" where
  "gtest_flags =
     [(KBool, ''also_run_disabled_tests''), (KBool, ''break_on_failure''), (KBool, ''catch_exceptions''),
      (KString, ''color''), (KString, ''death_test_style''), (KBool, ''death_test_use_fork''),
      (KString, ''filter''), (KString, ''internal_run_death_test''), (KBool, ''list_tests''),
      (KString, ''output''), (KBool, ''print_time''), (KInt32, ''random_seed''), (KInt32, ''repeat''),
      (KBool, ''shuffle''), (KInt32, ''stack_trace_depth''), (KString, ''stream_result_to''),
      (KBool, ''throw_on_failure'')]"

definition parse_flag :: "string \<Rightarrow> flag_kind \<times> string \<Rightarrow> flag_value option" where
  "parse_flag arg f =
     (case fst f of
        KBool \<Rightarrow> map_option FBool (ParseBoolFlag arg (snd f))
      | KInt32 \<Rightarrow> map_option FInt32 (ParseInt32Flag arg (snd f))
      | KString \<Rightarrow> map_option FString (ParseStringFlag arg (snd f)))"

text \<open>The chain of alternatives: the first flag that the argument is.\<close>

fun first_flag :: "string \<Rightarrow> (flag_kind \<times> string) list \<Rightarrow> (string \<times> flag_value) option" where
  "first_flag arg [] = None"
| "first_flag arg (f # fs) =
     (case parse_flag arg f of Some v \<Rightarrow> Some (snd f, v) | None \<Rightarrow> first_flag arg fs)"

subsection \<open>The loop over the arguments\<close>

definition arg_at :: "arg_array \<Rightarrow> nat \<Rightarrow> string option res" where
  "arg_at argv i = (if i < length argv then Inr (argv ! i) else Inl OutOfBounds)"

text \<open>\<open>StreamableToString\<close> of a character pointer.\<close>

definition StreamableToString :: "string option \<Rightarrow> string" where
  "StreamableToString s = (case s of None \<Rightarrow> ''(null)'' | Some str \<Rightarrow> str)"

text \<open>\<open>for (int j = i; j != *argc; j++) argv[j] = argv[j + 1]\<close>, with the number of rounds left.\<close>

fun shift_args :: "nat \<Rightarrow> nat \<Rightarrow> arg_array \<Rightarrow> arg_array res" where
  "shift_args 0 j argv = Inr argv"
| "shift_args (Suc n) j argv =
     rbind (arg_at argv (j + 1)) (\<lambda>a. shift_args n (j + 1) (argv[j := a]))"

definition wants_help :: "string \<Rightarrow> bool" where
  "wants_help arg \<longleftrightarrow> arg = ''--help'' \<or> arg = ''-h'' \<or> arg = ''-?'' \<or> arg = ''/?''
     \<or> HasGoogleTestFlagPrefix arg"

record flag_parse =
  fp_argc :: nat
  fp_argv :: arg_array
  fp_flags :: "string \<rightharpoonup> flag_value"
  fp_help :: bool

function parse_args :: "nat \<Rightarrow> flag_parse \<Rightarrow> flag_parse res" where
  "parse_args i st =
     (if i < fp_argc st then
        rbind (arg_at (fp_argv st) i) (\<lambda>a.
        let arg = StreamableToString a in
        case first_flag arg gtest_flags of
          Some (name, v) \<Rightarrow>
            rbind (shift_args (fp_argc st - i) i (fp_argv st)) (\<lambda>argv.
              parse_args i (st\<lparr>fp_argv := argv, fp_argc := fp_argc st - 1,
                              fp_flags := (fp_flags st)(name \<mapsto> v)\<rparr>))
        | None \<Rightarrow>
            parse_args (i + 1)
              (if wants_help arg then st\<lparr>fp_help := True\<rparr> else st))
      else Inr st)"
  by pat_completeness auto
termination
  by (relation "measure (\<lambda>(i, st). fp_argc st - i)") auto

declare parse_args.simps [simp del]

definition ParseGoogleTestFlagsOnly :: "flag_parse \<Rightarrow> flag_parse res" where
  "ParseGoogleTestFlagsOnly st = parse_args 1 st"

text \<open>
  \<open>InitGoogleTest\<close>: only the first call does anything, and not on an empty command line. It first
  copies the arguments for the death tests. \<open>count\<close> is \<open>g_init_gtest_count\<close> before the call.
\<close>

definition InitGoogleTest :: "nat \<Rightarrow> flag_parse \<Rightarrow> flag_parse res" where
  "InitGoogleTest count st =
     (if count + 1 \<noteq> 1 then Inr st
      else if fp_argc st = 0 then Inr st
      else rbind (rfold (\<lambda>i st. rbind (arg_at (fp_argv st) i) (\<lambda>_. Inr st)) [0..<fp_argc st] st)
             ParseGoogleTestFlagsOnly)"

subsection \<open>What the loop does to the array\<close>

definition is_flag :: "string option \<Rightarrow> bool" where
  "is_flag a \<longleftrightarrow> first_flag (StreamableToString a) gtest_flags \<noteq> None"

lemma shift_args_past_end:
  "0 < n \<Longrightarrow> length argv \<le> j + n \<Longrightarrow> shift_args n j argv = Inl OutOfBounds"
proof (induction n arbitrary: j argv)
  case (Suc n)
  show ?case
  proof (cases "j + 1 < length argv")
    case True
    with Suc.prems have "0 < n" by simp
    with True Suc.prems show ?thesis by (simp add: arg_at_def Suc.IH)
  qed (simp add: arg_at_def)
qed simp

lemma shift_args_in:
  "j + n < length argv \<Longrightarrow>
     shift_args n j argv = Inr (take j argv @ take n (drop (Suc j) argv) @ drop (j + n) argv)"
proof (induction n arbitrary: j argv)
  case (Suc n)
  let ?a = "argv[j := argv ! Suc j]"
  have j: "Suc j < length argv" "j < length argv" using Suc.prems by simp_all
  have "shift_args (Suc n) j argv = shift_args n (Suc j) ?a"
    using j by (simp add: arg_at_def)
  also have "\<dots> = Inr (take (Suc j) ?a @ take n (drop (Suc (Suc j)) ?a) @ drop (Suc j + n) ?a)"
    using Suc.prems by (intro Suc.IH) simp
  also have "take (Suc j) ?a = take j argv @ [argv ! Suc j]"
    using j by (simp add: take_Suc_conv_app_nth)
  also have "drop (Suc (Suc j)) ?a = drop (Suc (Suc j)) argv" by simp
  also have "drop (Suc j + n) ?a = drop (j + Suc n) argv" by simp
  also have "(take j argv @ [argv ! Suc j]) @ take n (drop (Suc (Suc j)) argv) @ drop (j + Suc n) argv
      = take j argv @ take (Suc n) (drop (Suc j) argv) @ drop (j + Suc n) argv"
    unfolding Cons_nth_drop_Suc [OF j(1), symmetric] by simp
  finally show ?case .
qed simp

text \<open>Where the array ends with the last argument, a flag among the rest is read past the end.\<close>

lemma parse_args_past_end:
  assumes "length (fp_argv st) = fp_argc st" and "\<exists>k. i \<le> k \<and> k < fp_argc st \<and> is_flag (fp_argv st ! k)"
  shows "parse_args i st = Inl OutOfBounds"
  using assms
proof (induction i st rule: parse_args.induct)
  case (1 i st)
  from "1.prems"(2) have i: "i < fp_argc st" by auto
  then have a: "arg_at (fp_argv st) i = Inr (fp_argv st ! i)" using "1.prems"(1) by (simp add: arg_at_def)
  show ?case
  proof (cases "first_flag (StreamableToString (fp_argv st ! i)) gtest_flags")
    case None
    then have "\<not> is_flag (fp_argv st ! i)" by (simp add: is_flag_def)
    with "1.prems"(2) have "\<exists>k. i + 1 \<le> k \<and> k < fp_argc st \<and> is_flag (fp_argv st ! k)"
      by (metis Suc_eq_plus1 Suc_leI le_neq_implies_less)
    then show ?thesis
      using i a None "1.IH"(1) [OF i a refl None] "1.prems"(1) by (subst parse_args.simps) simp
  next
    case (Some f)
    have "shift_args (fp_argc st - i) i (fp_argv st) = Inl OutOfBounds"
      using i "1.prems"(1) by (intro shift_args_past_end) simp_all
    with i a Some show ?thesis by (subst parse_args.simps) (simp split: prod.split)
  qed
qed

text \<open>
  Where the array has a cell after the last argument, the flags are removed, the other arguments
  keep their order, and that cell follows them.
\<close>

lemma parse_args_in:
  assumes "i \<le> fp_argc st" and "fp_argc st < length (fp_argv st)"
  shows "\<exists>st'. parse_args i st = Inr st'
    \<and> take (fp_argc st') (fp_argv st')
        = take i (fp_argv st) @ filter (\<lambda>a. \<not> is_flag a) (drop i (take (fp_argc st) (fp_argv st)))
    \<and> fp_argc st' < length (fp_argv st')
    \<and> fp_argv st' ! fp_argc st' = fp_argv st ! fp_argc st"
  using assms
proof (induction i st rule: parse_args.induct)
  case (1 i st)
  let ?v = "fp_argv st" and ?n = "fp_argc st"
  show ?case
  proof (cases "i < ?n")
    case False
    with "1.prems" show ?thesis by (subst parse_args.simps) simp
  next
    case i: True
    then have a: "arg_at ?v i = Inr (?v ! i)" using "1.prems"(2) by (simp add: arg_at_def)
    have rest: "drop i (take ?n ?v) = ?v ! i # drop (Suc i) (take ?n ?v)"
      using i "1.prems"(2) by (simp add: drop_take take_Suc_conv_app_nth flip: Cons_nth_drop_Suc)
        (metis Cons_nth_drop_Suc Suc_diff_Suc dual_order.strict_trans take_Suc_Cons)
    show ?thesis
    proof (cases "first_flag (StreamableToString (?v ! i)) gtest_flags")
      case None
      let ?st = "if wants_help (StreamableToString (?v ! i)) then st\<lparr>fp_help := True\<rparr> else st"
      have same: "fp_argv ?st = ?v" "fp_argc ?st = ?n" by simp_all
      have run: "parse_args i st = parse_args (i + 1) ?st"
        using i a None by (subst parse_args.simps) simp
      have pre: "i + 1 \<le> fp_argc ?st" "fp_argc ?st < length (fp_argv ?st)"
        using i "1.prems"(2) by (simp_all only: same)
      have "take (i + 1) ?v = take i ?v @ [?v ! i]"
        using i "1.prems"(2) by (simp add: take_Suc_conv_app_nth)
      moreover have "\<not> is_flag (?v ! i)" using None by (simp add: is_flag_def)
      ultimately show ?thesis
        using "1.IH"(1) [OF i a refl None pre] unfolding run same rest by simp
    next
      case (Some f)
      obtain name v where f: "f = (name, v)" by fastforce
      define u where "u = take i ?v @ take (?n - i) (drop (Suc i) ?v) @ drop ?n ?v"
      let ?st = "st\<lparr>fp_argv := u, fp_argc := ?n - 1, fp_flags := (fp_flags st)(name \<mapsto> v)\<rparr>"
      have shift: "shift_args (?n - i) i ?v = Inr u"
        using shift_args_in [of i "?n - i" ?v] i "1.prems"(2) by (simp add: u_def)
      have run: "parse_args i st = parse_args i ?st"
        using i a Some f shift by (subst parse_args.simps) simp
      have front: "take i u = take i ?v" using i "1.prems"(2) by (simp add: u_def)
      have args: "drop i (take (?n - 1) u) = drop (Suc i) (take ?n ?v)"
      proof -
        have "drop i u = take (?n - i) (drop (Suc i) ?v) @ drop ?n ?v"
          using i "1.prems"(2) by (simp add: u_def)
        then have "drop i (take (?n - 1) u) = take (?n - Suc i) (take (?n - i) (drop (Suc i) ?v))"
          using i "1.prems"(2) by (simp only: drop_take) simp
        then show ?thesis by (simp add: drop_take min_absorb1)
      qed
      have cell: "u ! (?n - 1) = ?v ! ?n"
      proof -
        have "?n - 1 = length (take i ?v) + (?n - Suc i)" "?n - Suc i < length (take (?n - i) (drop (Suc i) ?v))"
          using i "1.prems"(2) by simp_all
        then have "u ! (?n - 1) = take (?n - i) (drop (Suc i) ?v) ! (?n - Suc i)"
          unfolding u_def by (simp only: nth_append_length_plus) (simp add: nth_append)
        then show ?thesis using i "1.prems"(2) by simp
      qed
      have flag: "is_flag (?v ! i)" using Some by (simp add: is_flag_def)
      have pre: "i \<le> fp_argc ?st" "fp_argc ?st < length (fp_argv ?st)"
        using i "1.prems"(2) by (simp_all add: u_def)
      show ?thesis
        using "1.IH"(2) [OF i a refl Some f [symmetric] shift pre] flag
        unfolding run rest by (simp add: front args [simplified] cell [simplified])
    qed
  qed
qed

end
