(* ===== verification/TestProgram.thy ===== *)
theory TestProgram
  imports ClientConnector GTestFlags
begin

section \<open>The test program (test/Tests.cpp, test/ProtocolTests.cpp)\<close>

text \<open>
  The program that starts a server as a process of its own and joins it with a
  \<open>ServerConnector\<close>. The operating system is a record of functions on the world that the network
  works on too. \<open>Returned\<close> is a function that comes back to its caller; the child of a fork does
  not: its image is replaced, or it exits.
\<close>

record 'w OS =
  \<comment> \<open>\<open>fork\<close>: negative on failure, 0 in the child, the child's number in the parent\<close>
  os_fork :: "'w \<Rightarrow> int \<times> 'w"
  \<comment> \<open>\<open>execl\<close> with a path and the arguments as passed: whether the image was replaced\<close>
  os_execl :: "'w \<Rightarrow> string \<Rightarrow> string list \<Rightarrow> bool \<times> 'w"
  os_kill :: "'w \<Rightarrow> int \<Rightarrow> int \<Rightarrow> 'w"
  os_getppid :: "'w \<Rightarrow> int"

datatype 'a proc_end = Returned 'a | Replaced | Exited int

subsection \<open>Server management\<close>

text \<open>\<open>pid\<close> is the static \<open>server_pid\<close>.\<close>

definition Tests_start_server :: "'w OS \<Rightarrow> int \<Rightarrow> 'w \<Rightarrow> (int proc_end \<times> int) \<times> 'w" where
  "Tests_start_server os pid w =
     (if pid \<noteq> 0 then ((Returned (-1), pid), w)
      else (case os_fork os w of (pid, w) \<Rightarrow>
        if pid < 0 then (let ret = pid in ((Returned ret, 0), w))
        else if pid = 0 then
          (case os_execl os w ''./srv'' [''''] of (replaced, w) \<Rightarrow>
             if replaced then ((Replaced, pid), w)
             else ((Exited (-1), pid), os_kill os w (os_getppid os w) 9))
        else ((Returned 0, pid), w)))"

definition Tests_kill_server :: "'w OS \<Rightarrow> int \<Rightarrow> 'w \<Rightarrow> int \<times> 'w" where
  "Tests_kill_server os pid w = (if pid \<noteq> 0 then (0, os_kill os w pid 9) else (pid, w))"

subsection \<open>The join test\<close>

text \<open>
  A failed assertion ends the test and names its line. An exception that leaves the test is
  reported by the framework as a failure.
\<close>

datatype test_result = Passed | Failed nat

definition ASSERT_TRUE :: "(nat \<Rightarrow> 'r) \<Rightarrow> nat \<Rightarrow> bool \<Rightarrow> 'r \<Rightarrow> 'r" where
  "ASSERT_TRUE fail line b k = (if b then k else fail line)"

definition ASSERT_ANY_THROW :: "(nat \<Rightarrow> 'b run) \<Rightarrow> nat \<Rightarrow> 'a res \<Rightarrow> 'b run \<Rightarrow> 'b run" where
  "ASSERT_ANY_THROW fail line r k =
     (case r of Inl (Thrown _) \<Rightarrow> k | Inl e \<Rightarrow> Some (Inl e) | Inr _ \<Rightarrow> fail line)"

definition ASSERT_NO_THROW :: "(nat \<Rightarrow> 'b run) \<Rightarrow> nat \<Rightarrow> 'a res \<Rightarrow> ('a \<Rightarrow> 'b run) \<Rightarrow> 'b run" where
  "ASSERT_NO_THROW fail line r k =
     (case r of Inl (Thrown _) \<Rightarrow> fail line | Inl e \<Rightarrow> Some (Inl e) | Inr x \<Rightarrow> k x)"

text \<open>The end of the test by an assertion: the connector goes out of scope.\<close>

definition test_fails ::
    "'w SDLNet \<Rightarrow> int \<Rightarrow> ServerConnector \<Rightarrow> 'w \<Rightarrow> nat \<Rightarrow> ((test_result proc_end \<times> int) \<times> 'w) run" where
  "test_fails N pid cn w line = Some (Inr ((Returned (Failed line), pid), delete_ServerConnector N cn w))"

text \<open>
  The end of the test: the sockets from the getters are deleted, the server is killed, and the
  connector goes out of scope; its destructor deletes the same two sockets, unless the flags say
  that they were retrieved.
\<close>

definition test_ends ::
    "'w SDLNet \<Rightarrow> 'w OS \<Rightarrow> int \<Rightarrow> ServerConnector \<Rightarrow> Socket \<Rightarrow> Socket \<Rightarrow> 'w
       \<Rightarrow> ((test_result proc_end \<times> int) \<times> 'w) run" where
  "test_ends N os pid cn tcp udp w =
     (let w = delete_Socket N tcp w;
          w = delete_Socket N udp w;
          (pid, w) = Tests_kill_server os pid w
      in if (\<not> cn_tcpGet cn \<and> cn_tcpSocket cn \<noteq> None) \<or> (\<not> cn_udpGet cn \<and> cn_udpSocket cn \<noteq> None)
         then Some (Inl DoubleFree)
         else Some (Inr ((Returned Passed, pid), w)))"

text \<open>The assertions after the connection has been made.\<close>

definition join_checks ::
    "'w SDLNet \<Rightarrow> 'w OS \<Rightarrow> string \<Rightarrow> int \<Rightarrow> ServerConnector \<Rightarrow> 'w
       \<Rightarrow> ((test_result proc_end \<times> int) \<times> 'w) run" where
  "join_checks N os fn pid cn w =
     (let fail = test_fails N pid cn w in
      ASSERT_TRUE fail 23 (IsConnectedToServer cn) (
      ASSERT_NO_THROW fail 31 (GetTCPSocket fn cn) (\<lambda>tcp.
      ASSERT_NO_THROW fail 32 (GetUDPSocket fn cn) (\<lambda>udp.
      ASSERT_NO_THROW fail 33 (Connector_GetPlayerID fn cn) (\<lambda>playerID.
      ASSERT_NO_THROW fail 34 (Connector_GetTeam fn cn) (\<lambda>team.
      case tcp of None \<Rightarrow> fail 37 | Some tcp \<Rightarrow>
      ASSERT_TRUE fail 38 (GetTransportLayerProtocol tcp = TCP) (
      ASSERT_TRUE fail 39 (IsConnectionOpen tcp) (
      case udp of None \<Rightarrow> fail 41 | Some udp \<Rightarrow>
      ASSERT_TRUE fail 42 (GetTransportLayerProtocol udp = UDP) (
      ASSERT_TRUE fail 44 (playerID \<noteq> 0) (
      ASSERT_TRUE fail 45 (team = TEAM_SPY \<or> team = TEAM_MERC) (
        test_ends N os pid cn tcp udp w)))))))))))"

definition TestServerJoin ::
    "'w SDLNet \<Rightarrow> 'w OS \<Rightarrow> string \<Rightarrow> int \<Rightarrow> 'w \<Rightarrow> ((test_result proc_end \<times> int) \<times> 'w) run" where
  "TestServerJoin N os fn pid w =
     (case Tests_start_server os pid w of
        ((Replaced, pid), w) \<Rightarrow> Some (Inr ((Replaced, pid), w))
      | ((Exited r, pid), w) \<Rightarrow> Some (Inr ((Exited r, pid), w))
      | ((Returned ret, pid), w) \<Rightarrow>
          if ret < 0 then Some (Inr ((Returned (Failed 9), pid), w))
          else
            let cn = new_ServerConnector ''localhost'' 43720 43720;
                fail = test_fails N pid cn w in
            ASSERT_ANY_THROW fail 15 (GetTCPSocket fn cn) (
            ASSERT_ANY_THROW fail 16 (GetUDPSocket fn cn) (
            ASSERT_ANY_THROW fail 17 (Connector_GetPlayerID fn cn) (
            ASSERT_ANY_THROW fail 18 (Connector_GetTeam fn cn) (
            ASSERT_TRUE fail 21 (\<not> IsConnectedToServer cn) (
            run_bind (ConnectToServer N cn w) (\<lambda>((connected, cn), w).
            ASSERT_TRUE (test_fails N pid cn w) 22 connected (
              join_checks N os fn pid cn w))))))))"

subsection \<open>The main function\<close>

text \<open>
  The copy of the command line with one more argument: \<open>args\<close> are the \<open>argc\<close> arguments, and the
  array has \<open>argc + 1\<close> cells. \<open>run_all\<close> is what \<open>RUN_ALL_TESTS\<close> returns.
\<close>

definition test_main :: "string list \<Rightarrow> (flag_parse \<Rightarrow> int) \<Rightarrow> int res" where
  "test_main args run_all =
     (let fakev = map Some args @ [Some ''--gtest_color=yes''];
          argc = length args + 1
      in rbind (InitGoogleTest 0 \<lparr>fp_argc = argc, fp_argv = fakev, fp_flags = Map.empty, fp_help = False\<rparr>)
           (\<lambda>st. Inr (run_all st)))"

subsection \<open>How the test ends\<close>

lemma getters_idle:
  assumes "\<not> cn_isConnected cn"
  shows "GetTCPSocket fn cn = Inl (Thrown (fn @ '': ServerConnector is not connected''))"
    "GetUDPSocket fn cn = Inl (Thrown (fn @ '': ServerConnector is not connected''))"
    "Connector_GetPlayerID fn cn = Inl (Thrown (fn @ '': ServerConnector is not connected''))"
    "Connector_GetTeam fn cn = Inl (Thrown (fn @ '': ServerConnector is not connected''))"
  using assms
  by (simp_all add: GetTCPSocket_def GetUDPSocket_def Connector_GetPlayerID_def Connector_GetTeam_def
      AssertIsConnected_def)

lemma getters_connected:
  assumes "cn_isConnected cn"
  shows "GetTCPSocket fn cn = Inr (cn_tcpSocket cn)" "GetUDPSocket fn cn = Inr (cn_udpSocket cn)"
    "Connector_GetPlayerID fn cn = Inr (cn_playerID cn)" "Connector_GetTeam fn cn = Inr (cn_team cn)"
  using assms
  by (simp_all add: GetTCPSocket_def GetUDPSocket_def Connector_GetPlayerID_def Connector_GetTeam_def
      AssertIsConnected_def)

text \<open>The test with a server that was started, up to the assertion on \<open>ConnectToServer\<close>.\<close>

lemma TestServerJoin_connects:
  assumes "Tests_start_server os pid w = ((Returned 0, pid'), w1)"
  shows "TestServerJoin N os fn pid w =
     run_bind (ConnectToServer N (new_ServerConnector ''localhost'' 43720 43720) w1) (\<lambda>((connected, cn), w).
       ASSERT_TRUE (test_fails N pid' cn w) 22 connected (join_checks N os fn pid' cn w))"
proof -
  have idle: "\<not> cn_isConnected (new_ServerConnector ''localhost'' 43720 43720)"
    by (simp add: new_ServerConnector_def)
  show ?thesis
    unfolding TestServerJoin_def assms
    by (simp add: Let_def getters_idle [OF idle] ASSERT_ANY_THROW_def ASSERT_TRUE_def [of _ 21]
        IsConnectedToServer_def idle)
qed

lemma Tests_start_server_cases:
  assumes "Tests_start_server os pid w = ((r, pid'), w')"
  shows "(\<exists>ret. r = Returned ret \<and> ret < 0 \<and> pid' = pid \<and> (pid = 0 \<or> ret = -1))
     \<or> (r = Returned 0 \<and> pid = 0 \<and> 0 < pid')
     \<or> ((r = Replaced \<or> r = Exited (-1)) \<and> pid = 0 \<and> pid' = 0)"
  using assms by (auto simp: Tests_start_server_def Let_def split: if_splits prod.splits)

lemma TestServerJoin_result:
  assumes "TestServerJoin N os fn pid w = Some (Inr ((Returned r, pid'), w'))"
  shows "(r = Failed 9 \<and> pid' = pid) \<or> (r = Failed 22 \<and> pid = 0 \<and> 0 < pid')"
proof -
  obtain s pid1 w1 where s: "Tests_start_server os pid w = ((s, pid1), w1)" by (metis surj_pair)
  from Tests_start_server_cases [OF s] consider
    (refused) ret where "s = Returned ret" "ret < 0" "pid1 = pid"
    | (started) "s = Returned 0" "pid = 0" "0 < pid1"
    | (child) "s = Replaced \<or> s = Exited (-1)" by blast
  then show ?thesis
  proof cases
    case refused
    with assms s show ?thesis by (simp add: TestServerJoin_def)
  next
    case child
    with assms s show ?thesis by (auto simp: TestServerJoin_def)
  next
    case started
    let ?cn = "new_ServerConnector ''localhost'' 43720 43720"
    from assms [unfolded TestServerJoin_connects [OF s [unfolded started(1)]]]
    obtain b cn w2 where c: "ConnectToServer N ?cn w1 = Some (Inr ((b, cn), w2))"
      and rest: "ASSERT_TRUE (test_fails N pid1 cn w2) 22 b (join_checks N os fn pid1 cn w2)
        = Some (Inr ((Returned r, pid'), w'))" by auto
    have "\<not> cn_isConnected ?cn" by (simp add: new_ServerConnector_def)
    from ConnectToServer_result [OF this c] have "\<not> b" by blast
    with rest started show ?thesis by (simp add: ASSERT_TRUE_def test_fails_def)
  qed
qed

lemma join_checks_connected:
  assumes "cn_isConnected cn" and "cn_tcpSocket cn = Some tcp" and "cn_udpSocket cn = Some udp"
    and "\<not> cn_tcpGet cn" and "s_protocol tcp = TCP" "IsConnectionOpen tcp" "s_protocol udp = UDP"
    and "cn_playerID cn \<noteq> 0"
  shows "join_checks N os fn pid cn w = Some (Inl DoubleFree)"
proof -
  have team: "cn_team cn = TEAM_SPY \<or> cn_team cn = TEAM_MERC" by (cases "cn_team cn") simp_all
  have ends: "test_ends N os pid cn tcp udp w = Some (Inl DoubleFree)"
    using assms by (simp add: test_ends_def Let_def split: prod.split)
  show ?thesis
    using assms team ends
    by (simp add: join_checks_def Let_def ASSERT_TRUE_def ASSERT_NO_THROW_def IsConnectedToServer_def
        getters_connected GetTransportLayerProtocol_def)
qed

subsection \<open>How the main function ends\<close>

lemma color_is_flag: "is_flag (Some ''--gtest_color=yes'')"
  by (simp add: is_flag_def StreamableToString_def gtest_flags_def parse_flag_def ParseBoolFlag_def
      ParseStringFlag_def ParseFlagValue_def)

lemma args_readable:
  "length argv = n \<Longrightarrow> rfold (\<lambda>i st. rbind (arg_at (fp_argv st) i) (\<lambda>_. Inr st)) [0..<n]
     \<lparr>fp_argc = n, fp_argv = argv, fp_flags = gf, fp_help = h\<rparr>
   = Inr \<lparr>fp_argc = n, fp_argv = argv, fp_flags = gf, fp_help = h\<rparr>"
proof -
  assume n: "length argv = n"
  have "rfold (\<lambda>i st. rbind (arg_at (fp_argv st) i) (\<lambda>_. Inr st)) is st = Inr st"
    if "\<forall>i \<in> set is. i < length (fp_argv st)" for "is" and st :: flag_parse
    using that by (induction "is") (simp_all add: arg_at_def)
  then show ?thesis using n by simp
qed

lemma test_main_past_end:
  assumes "args \<noteq> []"
  shows "test_main args run_all = Inl OutOfBounds"
proof -
  let ?argv = "map Some args @ [Some ''--gtest_color=yes'']"
  let ?st = "\<lparr>fp_argc = length args + 1, fp_argv = ?argv, fp_flags = Map.empty, fp_help = False\<rparr>"
  have "is_flag (?argv ! length args)" using color_is_flag by (simp add: nth_append)
  then have "\<exists>k. 1 \<le> k \<and> k < fp_argc ?st \<and> is_flag (fp_argv ?st ! k)"
    using assms by (intro exI [of _ "length args"]) (simp add: Suc_le_eq)
  then have "parse_args 1 ?st = Inl OutOfBounds"
    by (intro parse_args_past_end) simp_all
  then show ?thesis
    using args_readable [of ?argv "length args + 1" Map.empty False]
    by (simp add: test_main_def Let_def InitGoogleTest_def ParseGoogleTestFlagsOnly_def)
qed

end
