(* ===== verification/JoinTheorems.thy ===== *)
theory JoinTheorems
  imports JoinSystem TestProgram ServerTheorems
begin

section \<open>Properties of the programs together\<close>

text \<open>
  The server with its clients in every interleaving, and the test program. The concrete instances
  run on a link: a network of one connection, on which the client's bytes reach the server.
\<close>

subsection \<open>A link between a client and a server\<close>

record Link =
  lk_pending :: bool
  lk_up :: "u8 list"
  lk_clock :: int

definition client_side :: "Link SDLNet" where
  "client_side =
     \<lparr>net_ResolveHost = (\<lambda>w _ port. (Some (localhost\<lparr>ip_port := port\<rparr>), w)),
      net_AllocSocketSet = (\<lambda>w. (Some 0, w)),
      net_FreeSocketSet = (\<lambda>w _. w),
      net_AddSocket = (\<lambda>w _ _. (1, w)),
      net_CheckSockets = (\<lambda>w _. (0, w)),
      net_SocketReady = (\<lambda>w _. True),
      net_TCP_Open = (\<lambda>w _. (Some 0, w\<lparr>lk_pending := True\<rparr>)),
      net_TCP_Accept = (\<lambda>w _. (None, w)),
      net_TCP_GetPeerAddress = (\<lambda>w _. Some localhost),
      net_TCP_Send = (\<lambda>w _ bs. (int (length bs), w\<lparr>lk_up := lk_up w @ bs\<rparr>)),
      net_TCP_Recv = (\<lambda>w _ n. (Some [], w)),
      net_UDP_Open = (\<lambda>w _. (Some 0, w)),
      net_UDP_GetPeerAddress = (\<lambda>w _. Some localhost),
      net_UDP_Bind = (\<lambda>w _ _. (0, w)),
      net_UDP_Send = (\<lambda>w _ _ bs. (1, w)),
      net_AllocPacket = (\<lambda>w. (0, w)),
      net_FreePacket = (\<lambda>w _. w),
      net_UDP_Recv = (\<lambda>w _ _. ((0, []), w)),
      net_Arrivals = (\<lambda>w. ([], w)),
      net_time = (\<lambda>w. (lk_clock w, w)),
      net_usleep = (\<lambda>w _. w\<lparr>lk_clock := lk_clock w + 1\<rparr>),
      net_ResolveAny = (\<lambda>w port. (Some (localhost\<lparr>ip_port := port\<rparr>), w)),
      net_GetError = (\<lambda>w. [])\<rparr>"

definition server_side :: "Link SDLNet" where
  "server_side = client_side\<lparr>
     net_CheckSockets := \<lambda>w _. (if lk_up w = [] then 0 else 1, w),
     net_TCP_Recv := \<lambda>w _ n. (Some (take n (lk_up w)), w\<lparr>lk_up := drop n (lk_up w)\<rparr>),
     net_Arrivals := \<lambda>w. (if lk_pending w then [0] else [], w\<lparr>lk_pending := False\<rparr>)\<rparr>"

lemma recv_bounded_server_side: "recv_bounded server_side"
  by (simp add: recv_bounded_def server_side_def client_side_def)

definition link0 :: Link where
  "link0 = \<lparr>lk_pending = False, lk_up = [], lk_clock = 0\<rparr>"

definition requested :: Link where
  "requested = \<lparr>lk_pending = True, lk_up = encode (JoinRequest 43720), lk_clock = 0\<rparr>"

lemma new_Server_link: "new_Server server_side w = Inr (start_server, w)"
  by (simp add: new_Server_def start_server_def Socket_by_address_def udp_any_def Init_def Init_UDP_def
      CreateSocketSet_def CreateUDP_def AddToSet_def blank_Socket_def localhost_def UDP_SERVER_PORT_def
      server_side_def client_side_def)

abbreviation (input) link_client :: ServerConnector where
  "link_client \<equiv> new_ServerConnector ''srv'' 43720 43720"

lemma link_sockets:
  "Socket_by_name client_side UDP ''srv'' 43720 0 w = Inr (udp1, w)"
  "SocketTCP client_side ''srv'' 43720 w = Inr (tcp1, w\<lparr>lk_pending := True\<rparr>)"
  by (simp_all add: client_side_def Socket_by_name_def SocketTCP_def Init_def Init_UDP_def Init_TCP_def
      CreateSocketSet_def CreateUDP_def ConnectTCP_def AddToSet_def blank_Socket_def udp1_def tcp1_def
      localhost_def)

lemma client_opens:
  "client_open client_side link_client link0
     = Inr ((Inr 0, link_client\<lparr>cn_udpSocket := Some udp1, cn_tcpSocket := Some tcp1\<rparr>), requested)"
proof -
  have cn: "cn_host link_client = ''srv''" "cn_udpPort link_client = 43720" "cn_tcpPort link_client = 43720"
    "\<not> cn_isConnected link_client" by (simp_all add: new_ServerConnector_def)
  have open1: "IsConnectionOpen tcp1" "GetListenPortUDP udp1 = 43720"
    by (simp_all add: IsConnectionOpen_def tcp1_def GetListenPortUDP_def udp1_def)
  have "SendPacket_bytes client_side tcp1 (encode (JoinRequest 43720)) (link0\<lparr>lk_pending := True\<rparr>)
      = Inr (True, requested)"
    by (simp add: SendPacket_bytes_def tcp1_def client_side_def link0_def requested_def encode_def)
  moreover have "net_time client_side requested = (0, requested)"
    by (simp add: client_side_def requested_def)
  ultimately show ?thesis
    by (simp add: client_open_def cn link_sockets open1 SendPacket_packet_of Let_def)
qed

definition link_start :: "Link system" where
  "link_start = \<lparr>sy_server = V_running start_server, sy_clients = \<lambda>_. C_new link_client, sy_world = link0\<rparr>"

definition link_asked :: "Link system" where
  "link_asked = after_client_open 0 (client_open client_side link_client link0) link_start"

lemma link_started: "join_start server_side link_start"
  unfolding join_start_def link_start_def using new_Server_link by simp blast

lemma link_asked_reached: "reach (join_start server_side) (join_step server_side client_side) link_asked"
proof (rule reach_step)
  show "reach (join_start server_side) (join_step server_side client_side) link_start"
    by (rule reach_init) (rule link_started)
  show "join_step server_side client_side link_start link_asked"
    using opens [of link_start 0 link_client False server_side client_side]
    by (simp add: link_asked_def link_start_def)
qed

lemma link_asked_simps: "sy_server link_asked = V_running start_server" "sy_world link_asked = requested"
  by (simp_all add: link_asked_def client_opens after_client_open_def put_client_def link_start_def)

definition link_socket :: Socket where
  "link_socket = (blank_Socket TCP (GetOctalIP (ip_host localhost)) 0 localhost)\<lparr>s_tcp := Some 0, s_set := Some 0\<rparr>"

lemma link_accepted: "Socket_accepted server_side 0 w = Inr (link_socket, w)"
  by (simp add: Socket_accepted_def CreateSocketSet_def AddToSet_def link_socket_def blank_Socket_def
      server_side_def client_side_def)

lemma link_active: "lk_up w \<noteq> [] \<Longrightarrow> HasActivity server_side link_socket w = Inr (True, w)"
  by (simp add: HasActivity_def link_socket_def blank_Socket_def server_side_def client_side_def)

subsection \<open>The server and its clients\<close>

text \<open>
  C7 The server and any number of clients, in every interleaving of their turns, on a network that
  may do anything between them: no call of \<open>ConnectToServer\<close> ever returns true, no connector is
  ever connected, and a server that runs has no client and has handed out no player number.
\<close>

theorem system_nobody_joins:
  assumes "reach (join_start Ns) (join_step Ns Nc) st"
  shows "(\<forall>sv. sy_server st = V_running sv \<longrightarrow> sv_clients sv = [] \<and> sv_playerId sv = 1)
     \<and> (\<forall>k b cn. sy_clients st k = C_done b cn \<longrightarrow> \<not> b \<and> \<not> IsConnectedToServer cn)"
proof -
  have inv: "nobody_joined st" by (rule joining.inv_reach [OF assms])
  have "\<not> b \<and> \<not> IsConnectedToServer cn" if "sy_clients st k = C_done b cn" for k b cn
  proof -
    from inv have "not_joined (sy_clients st k)" by (simp add: nobody_joined_def)
    with that show ?thesis by (simp add: connector_idle_def IsConnectedToServer_def)
  qed
  with inv show ?thesis unfolding nobody_joined_def empty_lobby_def by blast
qed

theorem system_nobody_joins_witness:
  "sy_server link_asked = V_running start_server \<and> sv_playerId start_server = 1"
  using system_nobody_joins [OF link_asked_reached] link_asked_simps(1) by simp

text \<open>
  C8 The join request of one client stops the server for everybody. In every state the server and
  its clients can reach: when the first connection that waits has sent a join request, with
  whatever behind it, the server's turn never ends, and neither does its main loop.
\<close>

theorem join_request_stops_server:
  assumes "reach (join_start Ns) (join_step Ns Nc) st" and "sy_server st = V_running sv"
    and "net_Arrivals Ns (sy_world st) = (arrived, w0)" and "sv_newConnections sv @ arrived = t # q"
    and "Socket_accepted Ns t w0 = Inr (s, w1)" and "recv_bounded Ns"
    and "HasActivity Ns s w1 = Inr (True, w2)" and "HasActivity Ns s w2 = Inr (True, w3)"
    and "net_TCP_Recv Ns w3 t 128 = (Some (encode (JoinRequest port) @ rest), w4)"
    and "length (encode (JoinRequest port) @ rest) < 128"
  shows "sy_server (after_server_turn (server_turn Ns sv (sy_world st)) st) = V_stuck
     \<and> ServerLoop Ns sv (sy_world st) = None"
proof -
  have "nobody_joined st" by (rule joining.inv_reach [OF assms(1)])
  then have lobby: "sv_protoPhase sv = PROTO_LOBBY" "\<not> IsServerFull sv"
    using assms(2) empty_lobby_open by (simp_all add: nobody_joined_def)
  then have turn: "server_turn Ns sv (sy_world st) = None"
    using HandleNewTCPConnections_request [OF lobby assms(3-10)] by (simp add: server_turn_def)
  with lobby show ?thesis by (simp add: ServerLoop_turns)
qed

theorem join_request_stops_server_witness:
  "sy_server (after_server_turn (server_turn server_side start_server requested) link_asked) = V_stuck"
proof -
  let ?m = "encode (JoinRequest 43720)"
  have m: "?m \<noteq> []" "length ?m < 128"
    by (simp_all add: encode_def wire_simps net_bytes_def)
  have w: "net_Arrivals server_side requested = ([0], requested\<lparr>lk_pending := False\<rparr>)"
    "net_TCP_Recv server_side (requested\<lparr>lk_pending := False\<rparr>) 0 128
      = (Some (?m @ []), requested\<lparr>lk_pending := False, lk_up := drop 128 ?m\<rparr>)"
    using m(2) by (simp_all add: server_side_def client_side_def requested_def)
  have up: "lk_up (requested\<lparr>lk_pending := False\<rparr>) \<noteq> []"
    using m(1) by (simp add: requested_def)
  have "sv_newConnections start_server @ [0] = 0 # []" by (simp add: start_server_def)
  from join_request_stops_server [OF link_asked_reached link_asked_simps(1), unfolded link_asked_simps(2),
      OF w(1) this link_accepted recv_bounded_server_side link_active [OF up] link_active [OF up] w(2)] m(2)
  show ?thesis by simp
qed

end
