(* ===== verification/TestTheorems.thy ===== *)
theory TestTheorems
  imports TestProgram NetTheorems
begin

section \<open>Properties of the test program\<close>

text \<open>
  The join test, which never passes, and the command line of its main function. The concrete run
  has an operating system on which every call succeeds, and a server that stays silent.
\<close>

definition calm_os :: "Script OS" where
  "calm_os = \<lparr>os_fork = (\<lambda>w. (7, w)), os_execl = (\<lambda>w _ _. (True, w)), os_kill = (\<lambda>w _ _. w),
              os_getppid = (\<lambda>w. 1)\<rparr>"

lemma calm_start: "Tests_start_server calm_os 0 w = ((Returned 0, 7), w)"
  by (simp add: Tests_start_server_def calm_os_def)

lemma silent_named:
  "Socket_by_name silent UDP h 43720 0 w = Inr (udp1\<lparr>s_hostname := h\<rparr>, w)"
  "SocketTCP silent h 43720 w = Inr (tcp1\<lparr>s_hostname := h\<rparr>, w)"
  "SendPacket_bytes silent (tcp1\<lparr>s_hostname := h\<rparr>) bs w
     = Inr (bs \<noteq> [], w\<lparr>sc_sent := sc_sent w @ [bs]\<rparr>)"
  "HasActivity silent (tcp1\<lparr>s_hostname := h\<rparr>) w = Inr (False, w)"
  by (simp_all add: silent_def Socket_by_name_def SocketTCP_def Init_def Init_UDP_def Init_TCP_def
      CreateSocketSet_def CreateUDP_def ConnectTCP_def AddToSet_def blank_Socket_def udp1_def tcp1_def
      localhost_def SendPacket_bytes_def HasActivity_def)

lemma silent_server_given_up:
  "\<exists>cn' w'. ConnectToServer silent (new_ServerConnector ''localhost'' 43720 43720) (script [] [])
      = Some (Inr ((False, cn'), w'))"
proof -
  let ?cn = "new_ServerConnector ''localhost'' 43720 43720"
  let ?tcp = "tcp1\<lparr>s_hostname := ''localhost''\<rparr>" and ?udp = "udp1\<lparr>s_hostname := ''localhost''\<rparr>"
  let ?cn2 = "?cn\<lparr>cn_udpSocket := Some ?udp, cn_tcpSocket := Some ?tcp\<rparr>"
  have cn: "cn_host ?cn = ''localhost''" "cn_udpPort ?cn = 43720" "cn_tcpPort ?cn = 43720"
    "\<not> cn_isConnected ?cn"
    by (simp_all add: new_ServerConnector_def)
  have t: "\<exists>w'. wait_loop silent 0 ?cn2 w
      = Some (Inr ((False, ?cn2\<lparr>cn_tcpSocket := None, cn_udpSocket := None\<rparr>), w'))" if "sc_clock w = 0" for w
    using that by (intro wait_loop_times_out [where tcp = ?tcp and clock = sc_clock and n = 10])
      (simp_all add: silent_named silent_sockets(5) silent_clock)
  have eq: "ConnectToServer silent ?cn (script [] []) = wait_loop silent 0 ?cn2
      ((script [] [])\<lparr>sc_sent := [encode (JoinRequest (s_udpListenPort ?udp))]\<rparr>)"
    using ConnectToServer_request [OF cn(4), of silent "script [] []" ?udp "script [] []" ?tcp "script [] []"]
    by (simp add: cn(1-3) silent_named silent_sockets(5))
  have "sc_clock ((script [] [])\<lparr>sc_sent := m\<rparr>) = 0" for m by simp
  from t [OF this] show ?thesis unfolding eq by blast
qed

text \<open>
  C21 The join test never passes, on any network and any system. When it ends, it has failed: at
  its first check, because the server could not be started, or at the assertion that
  \<open>ConnectToServer\<close> returns true. In the second case the server it started is left running, and
  from then on \<open>start_server\<close> refuses to start another one.
\<close>

theorem TestServerJoin_never_passes:
  assumes "TestServerJoin N os fn pid w = Some (Inr ((Returned r, pid'), w'))"
  shows "(r = Failed 9 \<and> pid' = pid) \<or>
     (r = Failed 22 \<and> 0 < pid' \<and> (\<forall>w. Tests_start_server os pid' w = ((Returned (-1), pid'), w)))"
  using TestServerJoin_result [OF assms] by (auto simp: Tests_start_server_def)

theorem TestServerJoin_never_passes_witness:
  "\<exists>w'. TestServerJoin silent calm_os ''f'' 0 (script [] []) = Some (Inr ((Returned (Failed 22), 7), w'))
     \<and> Tests_start_server calm_os 7 w' = ((Returned (-1), 7), w')"
proof -
  obtain cn' w' where "ConnectToServer silent (new_ServerConnector ''localhost'' 43720 43720) (script [] [])
      = Some (Inr ((False, cn'), w'))" using silent_server_given_up by blast
  then have run: "TestServerJoin silent calm_os ''f'' 0 (script [] [])
      = Some (Inr ((Returned (Failed 22), 7), delete_ServerConnector silent cn' w'))"
    by (simp add: TestServerJoin_connects [OF calm_start] ASSERT_TRUE_def test_fails_def)
  from TestServerJoin_never_passes [OF run]
  have "\<forall>w. Tests_start_server calm_os 7 w = ((Returned (-1), 7), w)" by simp
  with run show ?thesis by simp
qed

text \<open>
  The flags of the framework in an array that ends in one more cell, as the framework requires:
  the flags are removed, the other arguments stay in their order after the program's name, the
  last cell follows them, and nothing is read past the end.
\<close>

theorem flags_removed:
  assumes "1 \<le> fp_argc st" and "fp_argc st < length (fp_argv st)"
  shows "\<exists>st'. ParseGoogleTestFlagsOnly st = Inr st'
    \<and> take (fp_argc st') (fp_argv st') = take 1 (fp_argv st)
        @ filter (\<lambda>a. \<not> is_flag a) (drop 1 (take (fp_argc st) (fp_argv st)))
    \<and> fp_argv st' ! fp_argc st' = fp_argv st ! fp_argc st"
  using parse_args_in [OF assms] unfolding ParseGoogleTestFlagsOnly_def by blast

definition demo_args :: flag_parse where
  "demo_args = \<lparr>fp_argc = 3, fp_argv = [Some ''utest'', Some ''--gtest_color=yes'', Some ''x'', None],
                fp_flags = Map.empty, fp_help = False\<rparr>"

lemma x_no_flag: "\<not> is_flag (Some ''x'')"
  by (simp add: is_flag_def StreamableToString_def gtest_flags_def parse_flag_def ParseBoolFlag_def
      ParseStringFlag_def ParseInt32Flag_def ParseFlagValue_def)

theorem flags_removed_witness:
  "\<exists>st'. ParseGoogleTestFlagsOnly demo_args = Inr st'
    \<and> take (fp_argc st') (fp_argv st') = [Some ''utest'', Some ''x''] \<and> fp_argv st' ! fp_argc st' = None"
proof -
  have "1 \<le> fp_argc demo_args" "fp_argc demo_args < length (fp_argv demo_args)"
    by (simp_all add: demo_args_def)
  from flags_removed [OF this] show ?thesis
    by (simp add: demo_args_def color_is_flag x_no_flag)
qed

text \<open>
  C22 The main function of the tests reads past its copy of the command line: the array it hands to
  the framework ends with the flag it adds, and removing a flag moves the cell behind the last
  argument.
\<close>

theorem test_main_reads_past_end:
  assumes "args \<noteq> []"
  shows "test_main args run_all = Inl OutOfBounds"
  using assms by (rule test_main_past_end)

theorem test_main_reads_past_end_witness:
  "test_main [''utest''] (\<lambda>_. 0) = Inl OutOfBounds"
  using test_main_reads_past_end [of "[''utest'']" "\<lambda>_. 0"] by simp

end
