(* ===== verification/GTestFilter.thy ===== *)
theory GTestFilter
  imports Prelude
begin

section \<open>The filter of the test names (gtest/src/gtest.cc)\<close>

text \<open>
  The vendored test framework selects tests by a filter: patterns with wildcards, separated by
  colons, those after the first dash excluding. The functions work on C strings; a string here is
  the characters before the terminating zero. The meaning of a pattern is a set of strings.
\<close>

subsection \<open>The matching functions\<close>

fun PatternMatchesString :: "string \<Rightarrow> string \<Rightarrow> bool" where
  "PatternMatchesString [] str = (str = [])"
| "PatternMatchesString (p # pattern) str =
     (if p = CHR '':'' then str = []
      else if p = CHR ''?'' then (case str of [] \<Rightarrow> False | _ # str' \<Rightarrow> PatternMatchesString pattern str')
      else if p = CHR ''*'' then
        (case str of [] \<Rightarrow> False | _ # str' \<Rightarrow> PatternMatchesString (p # pattern) str')
          \<or> PatternMatchesString pattern str
      else (case str of [] \<Rightarrow> False | c # str' \<Rightarrow> p = c \<and> PatternMatchesString pattern str'))"

text \<open>\<open>strchr\<close>: the string from the first occurrence of the character on.\<close>

definition strchr :: "string \<Rightarrow> char \<Rightarrow> string option" where
  "strchr s c = (case dropWhile (\<lambda>d. d \<noteq> c) s of [] \<Rightarrow> None | r \<Rightarrow> Some r)"

lemma strchr_length: "strchr s c = Some r \<Longrightarrow> r \<noteq> [] \<and> length r \<le> length s"
proof -
  assume "strchr s c = Some r"
  then have "r = dropWhile (\<lambda>d. d \<noteq> c) s" "r \<noteq> []"
    by (auto simp: strchr_def split: list.splits)
  then show ?thesis using length_dropWhile_le [of "\<lambda>d. d \<noteq> c" s] by simp
qed

function MatchesFilter :: "string \<Rightarrow> string \<Rightarrow> bool" where
  "MatchesFilter name cur_pattern =
     (if PatternMatchesString cur_pattern name then True
      else case strchr cur_pattern (CHR '':'') of
             None \<Rightarrow> False
           | Some cur_pattern \<Rightarrow> MatchesFilter name (tl cur_pattern))"
  by pat_completeness auto
termination
  by (relation "measure (\<lambda>(name, cur). length cur)")
    (auto dest!: strchr_length simp: length_tl neq_Nil_conv)

declare MatchesFilter.simps [simp del]

definition kUniversalFilter :: string where "kUniversalFilter = ''*''"

definition kDisableTestFilter :: string where "kDisableTestFilter = ''DISABLED_*:*/DISABLED_*''"

definition kDeathTestCaseFilter :: string where "kDeathTestCaseFilter = ''*DeathTest:*DeathTest/*''"

text \<open>\<open>flt\<close> is the value of the flag of that name.\<close>

definition FilterMatchesTest :: "string \<Rightarrow> string \<Rightarrow> string \<Rightarrow> bool" where
  "FilterMatchesTest flt test_case_name test_name =
     (let full_name = test_case_name @ ''.'' @ test_name;
          (positive, negative) =
            (case strchr flt (CHR ''-'') of
               None \<Rightarrow> (flt, '''')
             | Some dash \<Rightarrow>
                 let positive = take (length flt - length dash) flt
                 in (if positive = [] then kUniversalFilter else positive, tl dash))
      in MatchesFilter full_name positive \<and> \<not> MatchesFilter full_name negative)"

subsection \<open>What patterns and filters mean\<close>

text \<open>The strings that a pattern without colons stands for, and the patterns of a filter.\<close>

primrec glob :: "string \<Rightarrow> string set" where
  "glob [] = {[]}"
| "glob (p # ps) =
     (if p = CHR ''*'' then {s @ t | s t. t \<in> glob ps}
      else if p = CHR ''?'' then {c # t | c t. t \<in> glob ps}
      else {p # t | t. t \<in> glob ps})"

fun split_on :: "char \<Rightarrow> string \<Rightarrow> string list" where
  "split_on c [] = [[]]"
| "split_on c (d # s) =
     (if d = c then [] # split_on c s
      else (d # hd (split_on c s)) # tl (split_on c s))"

definition some_pattern :: "string \<Rightarrow> string \<Rightarrow> bool" where
  "some_pattern flt name \<longleftrightarrow> (\<exists>p \<in> set (split_on (CHR '':'') flt). name \<in> glob p)"

lemma glob_star: "s \<in> glob (CHR ''*'' # ps) \<longleftrightarrow> s \<in> glob ps \<or> (\<exists>c t. s = c # t \<and> t \<in> glob (CHR ''*'' # ps))"
proof
  assume "s \<in> glob (CHR ''*'' # ps)"
  then obtain u t where "s = u @ t" "t \<in> glob ps" by auto
  then show "s \<in> glob ps \<or> (\<exists>c t. s = c # t \<and> t \<in> glob (CHR ''*'' # ps))"
    by (cases u) auto
next
  assume "s \<in> glob ps \<or> (\<exists>c t. s = c # t \<and> t \<in> glob (CHR ''*'' # ps))"
  then show "s \<in> glob (CHR ''*'' # ps)"
  proof (elim disjE exE conjE)
    assume "s \<in> glob ps"
    then show ?thesis by (auto intro: exI [of _ "[]"])
  next
    fix c t assume s: "s = c # t" and "t \<in> glob (CHR ''*'' # ps)"
    then obtain u v where "t = u @ v" "v \<in> glob ps" by auto
    with s have "s = (c # u) @ v" "v \<in> glob ps" by simp_all
    then show ?thesis by (simp del: append_Cons) blast
  qed
qed

lemma glob_star_Nil: "[] \<in> glob (CHR ''*'' # ps) \<longleftrightarrow> [] \<in> glob ps"
  using glob_star [of "[]" ps] by blast

lemma glob_star_Cons: "c # s \<in> glob (CHR ''*'' # ps) \<longleftrightarrow> c # s \<in> glob ps \<or> s \<in> glob (CHR ''*'' # ps)"
  using glob_star [of "c # s" ps] by blast

lemma PatternMatchesString_glob:
  "PatternMatchesString pattern str \<longleftrightarrow> str \<in> glob (takeWhile (\<lambda>c. c \<noteq> CHR '':'') pattern)"
proof (induction pattern str rule: PatternMatchesString.induct)
  case (2 p pattern str)
  show ?case
  proof (cases "p = CHR ''*''")
    case True
    then show ?thesis
      using "2.IH"(2,3) by (cases str) (simp_all add: glob_star_Nil glob_star_Cons disj_commute del: glob.simps(2))
  next
    case False
    then show ?thesis using "2.IH"(1,4) by (cases str) auto
  qed
qed simp

lemma split_on_split:
  "split_on c s = takeWhile (\<lambda>d. d \<noteq> c) s #
     (case dropWhile (\<lambda>d. d \<noteq> c) s of [] \<Rightarrow> [] | _ # r \<Rightarrow> split_on c r)"
  by (induction s) (simp_all split: list.split)

lemma MatchesFilter_some_pattern: "MatchesFilter name flt \<longleftrightarrow> some_pattern flt name"
proof (induction name flt rule: MatchesFilter.induct)
  case (1 name cur)
  show ?case
  proof (cases "dropWhile (\<lambda>d. d \<noteq> CHR '':'') cur")
    case Nil
    then show ?thesis
      by (subst MatchesFilter.simps, unfold some_pattern_def, subst split_on_split)
        (simp add: strchr_def PatternMatchesString_glob Nil del: dropWhile_eq_Nil_conv)
  next
    case (Cons d r)
    then have s: "strchr cur (CHR '':'') = Some (d # r)" by (simp add: strchr_def)
    show ?thesis
      using "1.IH" [OF _ s]
      by (subst MatchesFilter.simps, unfold some_pattern_def, subst split_on_split)
        (auto simp: s Cons PatternMatchesString_glob some_pattern_def)
  qed
qed

text \<open>The part of a filter before the first dash, and the part after it.\<close>

definition positive_part :: "string \<Rightarrow> string" where
  "positive_part flt =
     (if \<exists>r. flt = CHR ''-'' # r then ''*'' else takeWhile (\<lambda>c. c \<noteq> CHR ''-'') flt)"

definition negative_part :: "string \<Rightarrow> string" where
  "negative_part flt = tl (dropWhile (\<lambda>c. c \<noteq> CHR ''-'') flt)"

lemma some_pattern_Nil: "some_pattern [] name \<longleftrightarrow> name = []"
  by (simp add: some_pattern_def)

lemma FilterMatchesTest_glob:
  "FilterMatchesTest flt tc tn \<longleftrightarrow>
     some_pattern (positive_part flt) (tc @ ''.'' @ tn) \<and>
     \<not> some_pattern (negative_part flt) (tc @ ''.'' @ tn)"
proof -
  let ?pre = "takeWhile (\<lambda>c. c \<noteq> CHR ''-'') flt" and ?post = "dropWhile (\<lambda>c. c \<noteq> CHR ''-'') flt"
  have parts: "flt = ?pre @ ?post" by simp
  show ?thesis
  proof (cases ?post)
    case Nil
    then have pre: "?pre = flt" using parts by (metis append.right_neutral)
    from this have "\<not> (\<exists>r. flt = CHR ''-'' # r)" by (cases flt) auto
    then show ?thesis
      using Nil by (simp add: pre FilterMatchesTest_def strchr_def MatchesFilter_some_pattern some_pattern_Nil
          positive_part_def negative_part_def del: dropWhile_eq_Nil_conv)
  next
    case (Cons d r)
    have d: "d = CHR ''-''" using hd_dropWhile [of "\<lambda>c. c \<noteq> CHR ''-''" flt] Cons by simp
    have "length flt = length ?pre + length (d # r)" using parts Cons by (metis length_append)
    then have take: "take (length flt - length (d # r)) flt = ?pre"
      by (metis add_diff_cancel_right' append_eq_conv_conj parts)
    have empty: "?pre = [] \<longleftrightarrow> (\<exists>r. flt = CHR ''-'' # r)"
      using d Cons by (cases flt) auto
    show ?thesis
      using Cons take empty
      by (simp add: FilterMatchesTest_def strchr_def Let_def MatchesFilter_some_pattern kUniversalFilter_def
          positive_part_def negative_part_def)
  qed
qed

end
