(* ===== verification/Geometry.thy ===== *)
theory Geometry
  imports Prelude Complex_Main "HOL-Library.Signed_Division"
begin

unbundle bit_operations_syntax

section \<open>Numbers, vectors and rectangles of the client\<close>

text \<open>
  The \<open>int\<close> arithmetic of the client with its overflow, the conversions of client/Physics.h, and
  the vectors, rectangles and colours that the client passes around.

  A \<open>float\<close> is a value of a type with the operations of the language and no law about them; a
  literal and a conversion from \<open>int\<close> go through a rounding function \<open>fl\<close>, an argument of the
  definitions. Statements that need exact arithmetic are about an ordered field and \<open>of_rat\<close>.
\<close>

subsection \<open>\<open>int\<close>\<close>

definition chk :: "int \<Rightarrow> int res" where
  "chk n = (if - (2 ^ 31) \<le> n \<and> n < 2 ^ 31 then Inr n else Inl SignedOverflow)"

definition iadd :: "int \<Rightarrow> int \<Rightarrow> int res" where "iadd a b = chk (a + b)"
definition isub :: "int \<Rightarrow> int \<Rightarrow> int res" where "isub a b = chk (a - b)"
definition imul :: "int \<Rightarrow> int \<Rightarrow> int res" where "imul a b = chk (a * b)"

definition idiv :: "int \<Rightarrow> int \<Rightarrow> int res" where
  "idiv a b = (if b = 0 then Inl DivByZero else chk (a sdiv b))"

definition imod :: "int \<Rightarrow> int \<Rightarrow> int res" where
  "imod a b = (if b = 0 then Inl DivByZero else chk (a smod b))"

lemma chk_eq_Inr [simp]: "chk n = Inr m \<longleftrightarrow> m = n \<and> - (2 ^ 31) \<le> n \<and> n < 2 ^ 31"
  by (auto simp: chk_def)

lemma chk_in_range: "- (2 ^ 31) \<le> n \<Longrightarrow> n < 2 ^ 31 \<Longrightarrow> chk n = Inr n"
  by (simp add: chk_def)

lemma sdiv_nonneg: "0 \<le> a \<Longrightarrow> 0 < b \<Longrightarrow> a sdiv b = (a :: int) div b"
  by (cases "a = 0") (simp_all add: signed_divide_int_def)

lemma smod_nonneg: "0 \<le> a \<Longrightarrow> 0 < b \<Longrightarrow> a smod b = (a :: int) mod b"
  by (cases "a = 0") (simp_all add: signed_modulo_int_def)

subsection \<open>Vectors, rectangles, colours\<close>

record 'f Vec2 =
  v_x :: 'f
  v_y :: 'f

record 'f Rect =
  r_x :: 'f
  r_y :: 'f
  r_w :: 'f
  r_h :: 'f

record 'f Color =
  col_r :: 'f
  col_g :: 'f
  col_b :: 'f
  col_a :: 'f

definition vec2 :: "'f \<Rightarrow> 'f \<Rightarrow> 'f Vec2" where "vec2 x y = \<lparr>v_x = x, v_y = y\<rparr>"

definition rect :: "'f \<Rightarrow> 'f \<Rightarrow> 'f \<Rightarrow> 'f \<Rightarrow> 'f Rect" where
  "rect x y w h = \<lparr>r_x = x, r_y = y, r_w = w, r_h = h\<rparr>"

definition color :: "'f \<Rightarrow> 'f \<Rightarrow> 'f \<Rightarrow> 'f \<Rightarrow> 'f Color" where
  "color r g b a = \<lparr>col_r = r, col_g = g, col_b = b, col_a = a\<rparr>"

lemma vec2_simps [simp]: "v_x (vec2 x y) = x" "v_y (vec2 x y) = y"
  by (simp_all add: vec2_def)

lemma vec2_inject [simp]: "vec2 x y = vec2 x' y' \<longleftrightarrow> x = x' \<and> y = y'"
  by (simp add: vec2_def)

lemma vec2_eq: "v = vec2 (v_x v) (v_y v)"
  by (simp add: vec2_def)

lemma rect_simps [simp]:
  "r_x (rect x y w h) = x" "r_y (rect x y w h) = y" "r_w (rect x y w h) = w" "r_h (rect x y w h) = h"
  by (simp_all add: rect_def)

lemma color_simps [simp]:
  "col_r (color r g b a) = r" "col_g (color r g b a) = g" "col_b (color r g b a) = b"
  "col_a (color r g b a) = a"
  by (simp_all add: color_def)

subsection \<open>Pixels and metres (client/Physics.h)\<close>

record 'f b2Vec2 =
  b2_x :: 'f
  b2_y :: 'f

definition b2vec :: "'f \<Rightarrow> 'f \<Rightarrow> 'f b2Vec2" where "b2vec x y = \<lparr>b2_x = x, b2_y = y\<rparr>"

lemma b2vec_simps [simp]: "b2_x (b2vec x y) = x" "b2_y (b2vec x y) = y"
  by (simp_all add: b2vec_def)

definition MAP_TILE_SIZE :: int where "MAP_TILE_SIZE = 64"

definition B2METER_PER_TILE :: int where "B2METER_PER_TILE = 2"

text \<open>The quotient is computed on integers and then converted.\<close>

definition B2_PTM :: "(rat \<Rightarrow> 'f) \<Rightarrow> 'f" where
  "B2_PTM fl = fl (of_int (MAP_TILE_SIZE div B2METER_PER_TILE))"

definition ToB2Vec2 :: "(rat \<Rightarrow> 'f::divide) \<Rightarrow> 'f Vec2 \<Rightarrow> 'f b2Vec2" where
  "ToB2Vec2 fl v = b2vec (v_x v div B2_PTM fl) (v_y v div B2_PTM fl)"

definition ToVec2 :: "(rat \<Rightarrow> 'f::times) \<Rightarrow> 'f b2Vec2 \<Rightarrow> 'f Vec2" where
  "ToVec2 fl v = vec2 (b2_x v * B2_PTM fl) (b2_y v * B2_PTM fl)"

text \<open>The collision groups, as the bits of the filters.\<close>

definition WALL :: u16 where "WALL = 0x01"
definition VENTILATION :: u16 where "VENTILATION = 0x02"
definition TERM_AREA :: u16 where "TERM_AREA = 0x04"
definition PLAYER :: u16 where "PLAYER = 0xF0"
definition ALL_GROUPS :: u16 where "ALL_GROUPS = NOT 0"

lemma B2_PTM_32: "B2_PTM fl = fl 32"
  by (simp add: B2_PTM_def MAP_TILE_SIZE_def B2METER_PER_TILE_def)

text \<open>In exact arithmetic the two conversions are inverse to each other.\<close>

lemma ToVec2_ToB2Vec2:
  "ToVec2 of_rat (ToB2Vec2 of_rat v) = (v :: 'f::field_char_0 Vec2)"
  by (simp add: ToVec2_def ToB2Vec2_def B2_PTM_32 vec2_def)

lemma ToB2Vec2_ToVec2:
  "ToB2Vec2 of_rat (ToVec2 of_rat b) = (b :: 'f::field_char_0 b2Vec2)"
  by (simp add: ToVec2_def ToB2Vec2_def B2_PTM_32 b2vec_def)

end
