(* ===== verification/GTestUnit.thy ===== *)
theory GTestUnit
  imports GTestFilter GTestFlags Geometry "HOL-Library.Multiset"
begin

section \<open>Test cases: registration, selection, order (gtest/src/gtest.cc)\<close>

text \<open>
  The state of the framework: the registered test cases and tests, which of them are to be run,
  in which order. User code (fixtures, test bodies, environments) is a function on the world it
  works on. It gives the assertions it reports on the way, each with the world at that point, and
  how it ends; it may also fault or not return. The objects are owned by the vectors that hold
  them, so that the pointer to the test that runs is a position.
\<close>

datatype TestPartResult = kSuccess | kNonFatalFailure | kFatalFailure

datatype 'w trace =
    Ends 'w
  | Throws 'w
  | Reports TestPartResult 'w "'w trace"

type_synonym 'w code = "'w \<Rightarrow> 'w trace run"

record 'w TestInfo =
  ti_test_case_name :: string
  ti_name :: string
  ti_fixture_class_id :: nat
  ti_should_run :: bool
  ti_is_disabled :: bool
  ti_matches_filter :: bool
  ti_constructor :: "'w code"
  ti_SetUp :: "'w code"
  ti_TestBody :: "'w code"
  ti_TearDown :: "'w code"
  ti_destructor :: "'w code"
  ti_result :: "TestPartResult list"

record 'w TestCase =
  tc_name :: string
  tc_test_info_list :: "'w TestInfo list"
  tc_test_indices :: "nat list"
  tc_set_up :: "'w code"
  tc_tear_down :: "'w code"
  tc_should_run :: bool

record 'w UnitTestImpl =
  ut_environments :: "('w code \<times> 'w code) list"
  ut_test_cases :: "'w TestCase list"
  ut_test_case_indices :: "nat list"
  ut_last_death_test_case :: int
  ut_current_test_case :: "nat option"
  ut_current_test_info :: "(nat \<times> nat) option"
  ut_ad_hoc_test_result :: "TestPartResult list"
  ut_random_seed :: int
  ut_random :: u32
  ut_catch_exceptions :: bool
  ut_world :: 'w

definition new_UnitTestImpl :: "'w \<Rightarrow> 'w UnitTestImpl" where
  "new_UnitTestImpl w =
     \<lparr>ut_environments = [], ut_test_cases = [], ut_test_case_indices = [], ut_last_death_test_case = -1,
      ut_current_test_case = None, ut_current_test_info = None, ut_ad_hoc_test_result = [],
      ut_random_seed = 0, ut_random = 0, ut_catch_exceptions = False, ut_world = w\<rparr>"

subsection \<open>Registration\<close>

definition new_TestCase :: "string \<Rightarrow> 'w code \<Rightarrow> 'w code \<Rightarrow> 'w TestCase" where
  "new_TestCase a_name set_up_tc tear_down_tc =
     \<lparr>tc_name = a_name, tc_test_info_list = [], tc_test_indices = [], tc_set_up = set_up_tc,
      tc_tear_down = tear_down_tc, tc_should_run = False\<rparr>"

definition is_death_test_case :: "string \<Rightarrow> bool" where
  "is_death_test_case name \<longleftrightarrow> MatchesFilter name kDeathTestCaseFilter"

text \<open>The position of the first element with a property; the length of the list when there is none.\<close>

fun find_if :: "('a \<Rightarrow> bool) \<Rightarrow> 'a list \<Rightarrow> nat" where
  "find_if P [] = 0"
| "find_if P (x # xs) = (if P x then 0 else Suc (find_if P xs))"

definition insert_at :: "nat \<Rightarrow> 'a \<Rightarrow> 'a list \<Rightarrow> 'a list" where
  "insert_at k x xs = take k xs @ x # drop k xs"

text \<open>\<open>GetTestCase\<close> by name: the position of the test case, which is created if there is none.\<close>

definition FindTestCase ::
    "string \<Rightarrow> 'w code \<Rightarrow> 'w code \<Rightarrow> 'w UnitTestImpl \<Rightarrow> nat \<times> 'w UnitTestImpl" where
  "FindTestCase test_case_name set_up_tc tear_down_tc ut =
     (let cases = ut_test_cases ut;
          i = find_if (\<lambda>tc. tc_name tc = test_case_name) cases
      in if i \<noteq> length cases then (i, ut)
         else
           let tc = new_TestCase test_case_name set_up_tc tear_down_tc;
               (i, ut) =
                 (if is_death_test_case test_case_name then
                    let last = ut_last_death_test_case ut + 1
                    in (nat last, ut\<lparr>ut_last_death_test_case := last,
                                     ut_test_cases := insert_at (nat last) tc cases\<rparr>)
                  else (length cases, ut\<lparr>ut_test_cases := cases @ [tc]\<rparr>))
           in (i, ut\<lparr>ut_test_case_indices := ut_test_case_indices ut @ [length (ut_test_case_indices ut)]\<rparr>))"

definition TestCase_AddTestInfo :: "'w TestInfo \<Rightarrow> 'w TestCase \<Rightarrow> 'w TestCase" where
  "TestCase_AddTestInfo test_info tc =
     tc\<lparr>tc_test_info_list := tc_test_info_list tc @ [test_info],
        tc_test_indices := tc_test_indices tc @ [length (tc_test_indices tc)]\<rparr>"

definition update_nth :: "nat \<Rightarrow> ('a \<Rightarrow> 'a) \<Rightarrow> 'a list \<Rightarrow> 'a list" where
  "update_nth i f xs = xs[i := f (xs ! i)]"

definition AddTestInfo ::
    "'w code \<Rightarrow> 'w code \<Rightarrow> 'w TestInfo \<Rightarrow> 'w UnitTestImpl \<Rightarrow> 'w UnitTestImpl" where
  "AddTestInfo set_up_tc tear_down_tc test_info ut =
     (let (i, ut) = FindTestCase (ti_test_case_name test_info) set_up_tc tear_down_tc ut
      in ut\<lparr>ut_test_cases := update_nth i (TestCase_AddTestInfo test_info) (ut_test_cases ut)\<rparr>)"

text \<open>The order of running: the position at an index, or a null pointer.\<close>

definition GetElementOr :: "nat list \<Rightarrow> nat \<Rightarrow> nat option" where
  "GetElementOr v i = (if i < length v then Some (v ! i) else None)"

definition GetMutableTestInfo :: "'w TestCase \<Rightarrow> nat \<Rightarrow> nat option" where
  "GetMutableTestInfo tc i = GetElementOr (tc_test_indices tc) i"

definition GetMutableTestCase :: "'w UnitTestImpl \<Rightarrow> nat \<Rightarrow> nat option" where
  "GetMutableTestCase ut i = GetElementOr (ut_test_case_indices ut) i"

text \<open>The constant version, which the listeners and reports use, forgets the indirection.\<close>

definition GetTestCase :: "'w UnitTestImpl \<Rightarrow> nat \<Rightarrow> nat option" where
  "GetTestCase ut i = (case GetElementOr (ut_test_case_indices ut) i of None \<Rightarrow> None | Some index \<Rightarrow> Some i)"

subsection \<open>The values of the flags\<close>

record GTestFlags =
  gf_also_run_disabled_tests :: bool
  gf_break_on_failure :: bool
  gf_catch_exceptions :: bool
  gf_filter :: string
  gf_internal_run_death_test :: string
  gf_list_tests :: bool
  gf_random_seed :: int
  gf_repeat :: int
  gf_shuffle :: bool
  gf_throw_on_failure :: bool

definition ToUpper :: "char \<Rightarrow> char" where
  "ToUpper c = (if of_char c \<in> {97 :: nat .. 122} then char_of (of_char c - 32 :: nat) else c)"

type_synonym environ = "string \<rightharpoonup> string"

definition FlagToEnvVar :: "string \<Rightarrow> string" where
  "FlagToEnvVar flag = map ToUpper (''gtest_'' @ flag)"

definition BoolFromGTestEnv :: "environ \<Rightarrow> string \<Rightarrow> bool \<Rightarrow> bool" where
  "BoolFromGTestEnv env flag default_value =
     (case env (FlagToEnvVar flag) of None \<Rightarrow> default_value | Some string_value \<Rightarrow> string_value \<noteq> ''0'')"

definition Int32FromGTestEnv :: "environ \<Rightarrow> string \<Rightarrow> int \<Rightarrow> int" where
  "Int32FromGTestEnv env flag default_value =
     (case env (FlagToEnvVar flag) of
        None \<Rightarrow> default_value
      | Some string_value \<Rightarrow>
          (case ParseInt32 string_value of None \<Rightarrow> default_value | Some result \<Rightarrow> result))"

definition StringFromGTestEnv :: "environ \<Rightarrow> string \<Rightarrow> string \<Rightarrow> string" where
  "StringFromGTestEnv env flag default_value =
     (case env (FlagToEnvVar flag) of None \<Rightarrow> default_value | Some string_value \<Rightarrow> string_value)"

text \<open>The initial values, from the environment.\<close>

definition default_flags :: "environ \<Rightarrow> GTestFlags" where
  "default_flags env =
     \<lparr>gf_also_run_disabled_tests = BoolFromGTestEnv env ''also_run_disabled_tests'' False,
      gf_break_on_failure = BoolFromGTestEnv env ''break_on_failure'' False,
      gf_catch_exceptions = BoolFromGTestEnv env ''catch_exceptions'' True,
      gf_filter = StringFromGTestEnv env ''filter'' kUniversalFilter,
      gf_internal_run_death_test = '''', gf_list_tests = False,
      gf_random_seed = Int32FromGTestEnv env ''random_seed'' 0,
      gf_repeat = Int32FromGTestEnv env ''repeat'' 1,
      gf_shuffle = BoolFromGTestEnv env ''shuffle'' False,
      gf_throw_on_failure = BoolFromGTestEnv env ''throw_on_failure'' False\<rparr>"

text \<open>What the command line has set, by the name of the flag.\<close>

definition parsed_bool :: "(string \<rightharpoonup> flag_value) \<Rightarrow> string \<Rightarrow> bool \<Rightarrow> bool" where
  "parsed_bool m flag d = (case m flag of Some (FBool b) \<Rightarrow> b | _ \<Rightarrow> d)"

definition parsed_int :: "(string \<rightharpoonup> flag_value) \<Rightarrow> string \<Rightarrow> int \<Rightarrow> int" where
  "parsed_int m flag d = (case m flag of Some (FInt32 n) \<Rightarrow> n | _ \<Rightarrow> d)"

definition parsed_string :: "(string \<rightharpoonup> flag_value) \<Rightarrow> string \<Rightarrow> string \<Rightarrow> string" where
  "parsed_string m flag d = (case m flag of Some (FString s) \<Rightarrow> s | _ \<Rightarrow> d)"

definition flags_of :: "(string \<rightharpoonup> flag_value) \<Rightarrow> GTestFlags \<Rightarrow> GTestFlags" where
  "flags_of m d =
     \<lparr>gf_also_run_disabled_tests = parsed_bool m ''also_run_disabled_tests'' (gf_also_run_disabled_tests d),
      gf_break_on_failure = parsed_bool m ''break_on_failure'' (gf_break_on_failure d),
      gf_catch_exceptions = parsed_bool m ''catch_exceptions'' (gf_catch_exceptions d),
      gf_filter = parsed_string m ''filter'' (gf_filter d),
      gf_internal_run_death_test = parsed_string m ''internal_run_death_test'' (gf_internal_run_death_test d),
      gf_list_tests = parsed_bool m ''list_tests'' (gf_list_tests d),
      gf_random_seed = parsed_int m ''random_seed'' (gf_random_seed d),
      gf_repeat = parsed_int m ''repeat'' (gf_repeat d),
      gf_shuffle = parsed_bool m ''shuffle'' (gf_shuffle d),
      gf_throw_on_failure = parsed_bool m ''throw_on_failure'' (gf_throw_on_failure d)\<rparr>"

subsection \<open>Selection\<close>

datatype ReactionToSharding = HONOR_SHARDING_PROTOCOL | IGNORE_SHARDING_PROTOCOL

definition Int32FromEnvOrDie :: "environ \<Rightarrow> string \<Rightarrow> int \<Rightarrow> int res" where
  "Int32FromEnvOrDie env var default_val =
     (case env var of
        None \<Rightarrow> Inr default_val
      | Some str_val \<Rightarrow>
          (case ParseInt32 str_val of None \<Rightarrow> Inl (ProgramExit 1) | Some result \<Rightarrow> Inr result))"

definition kTestTotalShards :: string where "kTestTotalShards = ''GTEST_TOTAL_SHARDS''"

definition kTestShardIndex :: string where "kTestShardIndex = ''GTEST_SHARD_INDEX''"

definition ShouldShard :: "environ \<Rightarrow> string \<Rightarrow> string \<Rightarrow> bool \<Rightarrow> bool res" where
  "ShouldShard env total_shards_env shard_index_env in_subprocess_for_death_test =
     (if in_subprocess_for_death_test then Inr False
      else
        rbind (Int32FromEnvOrDie env total_shards_env (-1)) (\<lambda>total_shards.
        rbind (Int32FromEnvOrDie env shard_index_env (-1)) (\<lambda>shard_index.
        if total_shards = -1 \<and> shard_index = -1 then Inr False
        else if total_shards = -1 \<and> shard_index \<noteq> -1 then Inl (ProgramExit 1)
        else if total_shards \<noteq> -1 \<and> shard_index = -1 then Inl (ProgramExit 1)
        else if shard_index < 0 \<or> shard_index \<ge> total_shards then Inl (ProgramExit 1)
        else Inr (total_shards > 1))))"

definition ShouldRunTestOnShard :: "int \<Rightarrow> int \<Rightarrow> int \<Rightarrow> bool res" where
  "ShouldRunTestOnShard total_shards shard_index test_id =
     rbind (imod test_id total_shards) (\<lambda>r. Inr (r = shard_index))"

text \<open>
  The loops of \<open>FilterTests\<close>. The counters are \<open>num_runnable_tests\<close> and \<open>num_selected_tests\<close>; the
  truth value is the test case's \<open>should_run\<close>.
\<close>

definition runnable :: "GTestFlags \<Rightarrow> string \<Rightarrow> string \<Rightarrow> bool" where
  "runnable fl test_case_name test_name \<longleftrightarrow>
     (gf_also_run_disabled_tests fl \<or>
        \<not> (MatchesFilter test_case_name kDisableTestFilter \<or> MatchesFilter test_name kDisableTestFilter)) \<and>
     FilterMatchesTest (gf_filter fl) test_case_name test_name"

fun filter_infos ::
    "GTestFlags \<Rightarrow> ReactionToSharding \<Rightarrow> int \<Rightarrow> int \<Rightarrow> string \<Rightarrow> 'w TestInfo list \<Rightarrow> int \<times> int \<times> bool
       \<Rightarrow> ('w TestInfo list \<times> int \<times> int \<times> bool) res" where
  "filter_infos fl shard total_shards shard_index name [] st = Inr ([], st)"
| "filter_infos fl shard total_shards shard_index name (ti # tis) (num_runnable, num_selected, should_run) =
     (let is_disabled = MatchesFilter name kDisableTestFilter \<or> MatchesFilter (ti_name ti) kDisableTestFilter;
          matches_filter = FilterMatchesTest (gf_filter fl) name (ti_name ti);
          is_runnable = (gf_also_run_disabled_tests fl \<or> \<not> is_disabled) \<and> matches_filter
      in rbind (if is_runnable then
                  (if shard = IGNORE_SHARDING_PROTOCOL then Inr True
                   else ShouldRunTestOnShard total_shards shard_index num_runnable)
                else Inr False) (\<lambda>is_selected.
         rbind (filter_infos fl shard total_shards shard_index name tis
                  (num_runnable + of_bool is_runnable, num_selected + of_bool is_selected,
                   should_run \<or> is_selected)) (\<lambda>(tis, st).
         Inr (ti\<lparr>ti_is_disabled := is_disabled, ti_matches_filter := matches_filter,
                 ti_should_run := is_selected\<rparr> # tis, st))))"

fun filter_cases ::
    "GTestFlags \<Rightarrow> ReactionToSharding \<Rightarrow> int \<Rightarrow> int \<Rightarrow> 'w TestCase list \<Rightarrow> int \<times> int
       \<Rightarrow> ('w TestCase list \<times> int \<times> int) res" where
  "filter_cases fl shard total_shards shard_index [] st = Inr ([], st)"
| "filter_cases fl shard total_shards shard_index (tc # tcs) (num_runnable, num_selected) =
     rbind (filter_infos fl shard total_shards shard_index (tc_name tc) (tc_test_info_list tc)
              (num_runnable, num_selected, False)) (\<lambda>(tis, num_runnable, num_selected, should_run).
     rbind (filter_cases fl shard total_shards shard_index tcs (num_runnable, num_selected)) (\<lambda>(tcs, st).
     Inr (tc\<lparr>tc_test_info_list := tis, tc_should_run := should_run\<rparr> # tcs, st)))"

definition FilterTests ::
    "GTestFlags \<Rightarrow> environ \<Rightarrow> ReactionToSharding \<Rightarrow> 'w UnitTestImpl \<Rightarrow> (int \<times> 'w UnitTestImpl) res" where
  "FilterTests fl env shard_tests ut =
     rbind (if shard_tests = HONOR_SHARDING_PROTOCOL then Int32FromEnvOrDie env kTestTotalShards (-1)
            else Inr (-1)) (\<lambda>total_shards.
     rbind (if shard_tests = HONOR_SHARDING_PROTOCOL then Int32FromEnvOrDie env kTestShardIndex (-1)
            else Inr (-1)) (\<lambda>shard_index.
     rbind (filter_cases fl shard_tests total_shards shard_index (ut_test_cases ut) (0, 0))
       (\<lambda>(tcs, num_runnable, num_selected). Inr (num_selected, ut\<lparr>ut_test_cases := tcs\<rparr>))))"

subsection \<open>Shuffling\<close>

definition kMaxRange :: u32 where "kMaxRange = 2 ^ 31"

definition Random_Generate :: "u32 \<Rightarrow> u32 \<Rightarrow> (u32 \<times> u32) res" where
  "Random_Generate rng state =
     (let state = (1103515245 * state + 12345) mod kMaxRange
      in if \<not> rng > 0 then Inl ProgramAbort
         else if \<not> rng \<le> kMaxRange then Inl ProgramAbort
         else Inr (state mod rng, state))"

definition swap :: "nat \<Rightarrow> nat \<Rightarrow> 'a list \<Rightarrow> 'a list" where
  "swap i j v = v[i := v ! j, j := v ! i]"

text \<open>The loop, with the width of the range that is left.\<close>

fun shuffle_loop :: "nat \<Rightarrow> nat \<Rightarrow> u32 \<Rightarrow> 'a list \<Rightarrow> (u32 \<times> 'a list) res" where
  "shuffle_loop begin_at 0 random v = Inr (random, v)"
| "shuffle_loop begin_at (Suc n) random v =
     (if Suc n \<ge> 2 then
        rbind (Random_Generate (of_nat (Suc n)) random) (\<lambda>(g, random).
        let last_in_range = begin_at + Suc n - 1;
            selected = begin_at + unat g
        in shuffle_loop begin_at n random (swap selected last_in_range v))
      else Inr (random, v))"

definition ShuffleRange :: "u32 \<Rightarrow> int \<Rightarrow> int \<Rightarrow> 'a list \<Rightarrow> (u32 \<times> 'a list) res" where
  "ShuffleRange random begin_at end_at v =
     (let size = int (length v)
      in if \<not> (0 \<le> begin_at \<and> begin_at \<le> size) then Inl ProgramAbort
         else if \<not> (begin_at \<le> end_at \<and> end_at \<le> size) then Inl ProgramAbort
         else shuffle_loop (nat begin_at) (nat (end_at - begin_at)) random v)"

definition Shuffle :: "u32 \<Rightarrow> 'a list \<Rightarrow> (u32 \<times> 'a list) res" where
  "Shuffle random v = ShuffleRange random 0 (int (length v)) v"

fun shuffle_cases :: "u32 \<Rightarrow> 'w TestCase list \<Rightarrow> (u32 \<times> 'w TestCase list) res" where
  "shuffle_cases random [] = Inr (random, [])"
| "shuffle_cases random (tc # tcs) =
     rbind (Shuffle random (tc_test_indices tc)) (\<lambda>(random, is).
     rbind (shuffle_cases random tcs) (\<lambda>(random, tcs).
     Inr (random, tc\<lparr>tc_test_indices := is\<rparr> # tcs)))"

definition ShuffleTests :: "'w UnitTestImpl \<Rightarrow> 'w UnitTestImpl res" where
  "ShuffleTests ut =
     rbind (ShuffleRange (ut_random ut) 0 (ut_last_death_test_case ut + 1) (ut_test_case_indices ut))
       (\<lambda>(random, is).
     rbind (ShuffleRange random (ut_last_death_test_case ut + 1) (int (length (ut_test_cases ut))) is)
       (\<lambda>(random, is).
     rbind (shuffle_cases random (ut_test_cases ut)) (\<lambda>(random, tcs).
     Inr (ut\<lparr>ut_random := random, ut_test_case_indices := is, ut_test_cases := tcs\<rparr>))))"

definition TestCase_UnshuffleTests :: "'w TestCase \<Rightarrow> 'w TestCase" where
  "TestCase_UnshuffleTests tc = tc\<lparr>tc_test_indices := [0..<length (tc_test_indices tc)]\<rparr>"

definition UnshuffleTests :: "'w UnitTestImpl \<Rightarrow> 'w UnitTestImpl res" where
  "UnshuffleTests ut =
     (if length (ut_test_case_indices ut) < length (ut_test_cases ut) then Inl OutOfBounds
      else Inr (ut\<lparr>ut_test_cases := map TestCase_UnshuffleTests (ut_test_cases ut),
                   ut_test_case_indices := [0..<length (ut_test_cases ut)] @
                     drop (length (ut_test_cases ut)) (ut_test_case_indices ut)\<rparr>))"

text \<open>Seeds are from 1 to \<open>kMaxRandomSeed\<close>; \<open>now\<close> is the time in milliseconds.\<close>

definition kMaxRandomSeed :: int where "kMaxRandomSeed = 99999"

definition GetRandomSeedFromFlag :: "int \<Rightarrow> int \<Rightarrow> int" where
  "GetRandomSeedFromFlag now random_seed_flag =
     (let raw_seed = (if random_seed_flag = 0 then word_of_int now else word_of_int random_seed_flag) :: u32
      in uint ((raw_seed - 1) mod word_of_int kMaxRandomSeed) + 1)"

definition GetNextRandomSeed :: "int \<Rightarrow> int res" where
  "GetNextRandomSeed seed =
     (if \<not> (1 \<le> seed \<and> seed \<le> kMaxRandomSeed) then Inl ProgramAbort
      else let next_seed = seed + 1 in Inr (if next_seed > kMaxRandomSeed then 1 else next_seed))"

end
