(* ===== verification/GTestRun.thy ===== *)
theory GTestRun
  imports GTestUnit
begin

section \<open>Running the tests (gtest/src/gtest.cc)\<close>

text \<open>
  From a failed assertion to the exit code. A step works on the state of the framework and can
  raise an exception: one of the user's, or the framework's own of \<open>throw_on_failure\<close>. Event
  listeners, which print, and measured times are left out.
\<close>

datatype exn = StdException | GoogleTestFailureException

type_synonym ('w, 'a) gt = "'w UnitTestImpl \<Rightarrow> ((exn + 'a) \<times> 'w UnitTestImpl) run"

definition gret :: "'a \<Rightarrow> ('w, 'a) gt" where "gret a ut = Some (Inr (Inr a, ut))"

definition graise :: "exn \<Rightarrow> ('w, 'a) gt" where "graise x ut = Some (Inr (Inl x, ut))"

definition gbind :: "('w, 'a) gt \<Rightarrow> ('a \<Rightarrow> ('w, 'b) gt) \<Rightarrow> ('w, 'b) gt" where
  "gbind m f ut = run_bind (m ut) (\<lambda>(r, ut'). case r of Inl x \<Rightarrow> graise x ut' | Inr a \<Rightarrow> f a ut')"

definition gget :: "('w UnitTestImpl \<Rightarrow> 'a) \<Rightarrow> ('w, 'a) gt" where "gget f ut = gret (f ut) ut"

definition gmod :: "('w UnitTestImpl \<Rightarrow> 'w UnitTestImpl) \<Rightarrow> ('w, unit) gt" where "gmod f ut = gret () (f ut)"

definition gfail :: "cxx_error \<Rightarrow> ('w, 'a) gt" where "gfail e ut = Some (Inl e)"

definition glift :: "('w UnitTestImpl \<Rightarrow> 'w UnitTestImpl res) \<Rightarrow> ('w, unit) gt" where
  "glift f ut = (case f ut of Inl e \<Rightarrow> Some (Inl e) | Inr ut' \<Rightarrow> gret () ut')"

text \<open>A loop over a list, up to the first exception.\<close>

fun gfor :: "'b list \<Rightarrow> ('b \<Rightarrow> ('w, unit) gt) \<Rightarrow> ('w, unit) gt" where
  "gfor [] f = gret ()"
| "gfor (x # xs) f = gbind (f x) (\<lambda>_. gfor xs f)"

lemma gbind_simps [simp]:
  "gbind (gret a) f = f a" "gbind (graise x) f = graise x" "gbind (gfail e) f = gfail e"
  by (simp_all add: fun_eq_iff gbind_def gret_def graise_def gfail_def)

lemma gbind_state [simp]:
  "gbind (gget g) f ut = f (g ut) ut" "gbind (gmod h) k ut = k () (h ut)"
  by (simp_all add: gbind_def gget_def gmod_def gret_def)

lemma gbind_glift: "g ut = Inr ut' \<Longrightarrow> gbind (glift g) f ut = f () ut'"
  by (simp add: gbind_def glift_def gret_def)

lemma gbind_assoc: "gbind (gbind m f) g = gbind m (\<lambda>a. gbind (f a) g)"
proof
  fix ut
  show "gbind (gbind m f) g ut = gbind m (\<lambda>a. gbind (f a) g) ut"
  proof (cases "m ut")
    case (Some r)
    then show ?thesis
      by (cases r) (auto simp: gbind_def graise_def split: prod.splits sum.splits)
  qed (simp add: gbind_def)
qed

lemma gfor_append: "gfor (xs @ ys) f = gbind (gfor xs f) (\<lambda>_. gfor ys f)"
  by (induction xs) (simp_all add: gbind_assoc)

subsection \<open>Results\<close>

definition current_test_result :: "'w UnitTestImpl \<Rightarrow> TestPartResult list" where
  "current_test_result ut =
     (case ut_current_test_info ut of
        None \<Rightarrow> ut_ad_hoc_test_result ut
      | Some (i, j) \<Rightarrow> ti_result (tc_test_info_list (ut_test_cases ut ! i) ! j))"

definition update_result ::
    "(TestPartResult list \<Rightarrow> TestPartResult list) \<Rightarrow> nat \<Rightarrow> nat \<Rightarrow> 'w UnitTestImpl \<Rightarrow> 'w UnitTestImpl" where
  "update_result f i j ut =
     ut\<lparr>ut_test_cases := update_nth i (\<lambda>tc. tc\<lparr>tc_test_info_list :=
          update_nth j (\<lambda>ti. ti\<lparr>ti_result := f (ti_result ti)\<rparr>) (tc_test_info_list tc)\<rparr>) (ut_test_cases ut)\<rparr>"

definition ReportTestPartResult :: "TestPartResult \<Rightarrow> 'w UnitTestImpl \<Rightarrow> 'w UnitTestImpl" where
  "ReportTestPartResult result ut =
     (case ut_current_test_info ut of
        None \<Rightarrow> ut\<lparr>ut_ad_hoc_test_result := ut_ad_hoc_test_result ut @ [result]\<rparr>
      | Some (i, j) \<Rightarrow> update_result (\<lambda>rs. rs @ [result]) i j ut)"

text \<open>\<open>break_on_failure\<close> writes through a null pointer.\<close>

definition AddTestPartResult :: "GTestFlags \<Rightarrow> TestPartResult \<Rightarrow> ('w, unit) gt" where
  "AddTestPartResult fl result_type ut =
     (let ut = ReportTestPartResult result_type ut
      in if result_type \<noteq> kSuccess then
           if gf_break_on_failure fl then gfail NullDeref ut
           else if gf_throw_on_failure fl then graise GoogleTestFailureException ut
           else gret () ut
         else gret () ut)"

definition result_failed :: "TestPartResult list \<Rightarrow> bool" where
  "result_failed rs \<longleftrightarrow> (\<exists>r \<in> set rs. r \<noteq> kSuccess)"

definition HasFatalFailure :: "'w UnitTestImpl \<Rightarrow> bool" where
  "HasFatalFailure ut \<longleftrightarrow> kFatalFailure \<in> set (current_test_result ut)"

subsection \<open>User code\<close>

fun run_trace :: "GTestFlags \<Rightarrow> 'w trace \<Rightarrow> ('w, unit) gt" where
  "run_trace fl (Ends w) = gmod (\<lambda>ut. ut\<lparr>ut_world := w\<rparr>)"
| "run_trace fl (Throws w) = gbind (gmod (\<lambda>ut. ut\<lparr>ut_world := w\<rparr>)) (\<lambda>_. graise StdException)"
| "run_trace fl (Reports r w t) =
     gbind (gmod (\<lambda>ut. ut\<lparr>ut_world := w\<rparr>)) (\<lambda>_.
     gbind (AddTestPartResult fl r) (\<lambda>_. run_trace fl t))"

definition run_code :: "GTestFlags \<Rightarrow> 'w code \<Rightarrow> ('w, unit) gt" where
  "run_code fl c ut = run_bind (c (ut_world ut)) (\<lambda>t. run_trace fl t ut)"

text \<open>The result \<open>None\<close> is the value 0 that a caught exception leaves.\<close>

definition HandleExceptionsInMethodIfSupported :: "GTestFlags \<Rightarrow> ('w, 'a) gt \<Rightarrow> ('w, 'a option) gt" where
  "HandleExceptionsInMethodIfSupported fl m ut =
     (if ut_catch_exceptions ut then
        run_bind (m ut) (\<lambda>(r, ut').
          case r of
            Inr a \<Rightarrow> gret (Some a) ut'
          | Inl GoogleTestFailureException \<Rightarrow> graise GoogleTestFailureException ut'
          | Inl StdException \<Rightarrow> gbind (AddTestPartResult fl kFatalFailure) (\<lambda>_. gret None) ut')
      else gbind m (\<lambda>a. gret (Some a)) ut)"

subsection \<open>One test\<close>

definition HasSameFixtureClass :: "GTestFlags \<Rightarrow> nat \<Rightarrow> nat \<Rightarrow> ('w, bool) gt" where
  "HasSameFixtureClass fl i j ut =
     (let tis = tc_test_info_list (ut_test_cases ut ! i)
      in if ti_fixture_class_id (tis ! j) \<noteq> ti_fixture_class_id (tis ! 0)
         then gbind (AddTestPartResult fl kNonFatalFailure) (\<lambda>_. gret False) ut
         else gret True ut)"

definition Test_Run :: "GTestFlags \<Rightarrow> nat \<Rightarrow> nat \<Rightarrow> 'w TestInfo \<Rightarrow> ('w, unit) gt" where
  "Test_Run fl i j ti =
     gbind (HasSameFixtureClass fl i j) (\<lambda>same.
     if \<not> same then gret ()
     else
       gbind (HandleExceptionsInMethodIfSupported fl (run_code fl (ti_SetUp ti))) (\<lambda>_.
       gbind (gget HasFatalFailure) (\<lambda>fatal.
       gbind (if \<not> fatal then
                gbind (HandleExceptionsInMethodIfSupported fl (run_code fl (ti_TestBody ti))) (\<lambda>_. gret ())
              else gret ()) (\<lambda>_.
       gbind (HandleExceptionsInMethodIfSupported fl (run_code fl (ti_TearDown ti))) (\<lambda>_. gret ())))))"

text \<open>
  A constructor that throws leaves no object, and the method that deletes it is called through a
  null pointer all the same.
\<close>

definition TestInfo_Run :: "GTestFlags \<Rightarrow> nat \<Rightarrow> nat \<Rightarrow> ('w, unit) gt" where
  "TestInfo_Run fl i j ut =
     (let ti = tc_test_info_list (ut_test_cases ut ! i) ! j
      in if \<not> ti_should_run ti then gret () ut
         else
           gbind (gmod (\<lambda>ut. ut\<lparr>ut_current_test_info := Some (i, j)\<rparr>)) (\<lambda>_.
           gbind (HandleExceptionsInMethodIfSupported fl (run_code fl (ti_constructor ti))) (\<lambda>test.
           gbind (gget HasFatalFailure) (\<lambda>fatal.
           gbind (if test \<noteq> None \<and> \<not> fatal then Test_Run fl i j ti else gret ()) (\<lambda>_.
           gbind (if test = None then gfail NullDeref
                  else HandleExceptionsInMethodIfSupported fl (run_code fl (ti_destructor ti))) (\<lambda>_.
           gmod (\<lambda>ut. ut\<lparr>ut_current_test_info := None\<rparr>)))))) ut)"

subsection \<open>A test case\<close>

definition TestCase_Run :: "GTestFlags \<Rightarrow> nat \<Rightarrow> ('w, unit) gt" where
  "TestCase_Run fl i ut =
     (let tc = ut_test_cases ut ! i
      in if \<not> tc_should_run tc then gret () ut
         else
           gbind (gmod (\<lambda>ut. ut\<lparr>ut_current_test_case := Some i\<rparr>)) (\<lambda>_.
           gbind (HandleExceptionsInMethodIfSupported fl (run_code fl (tc_set_up tc))) (\<lambda>_.
           gbind (gfor [0..<length (tc_test_info_list tc)] (\<lambda>k.
             case GetMutableTestInfo tc k of None \<Rightarrow> gfail NullDeref | Some j \<Rightarrow> TestInfo_Run fl i j)) (\<lambda>_.
           gbind (HandleExceptionsInMethodIfSupported fl (run_code fl (tc_tear_down tc))) (\<lambda>_.
           gmod (\<lambda>ut. ut\<lparr>ut_current_test_case := None\<rparr>))))) ut)"

text \<open>The verdicts.\<close>

definition TestPassed :: "'w TestInfo \<Rightarrow> bool" where
  "TestPassed ti \<longleftrightarrow> ti_should_run ti \<and> \<not> result_failed (ti_result ti)"

definition TestFailed :: "'w TestInfo \<Rightarrow> bool" where
  "TestFailed ti \<longleftrightarrow> ti_should_run ti \<and> result_failed (ti_result ti)"

definition CountIf :: "('a \<Rightarrow> bool) \<Rightarrow> 'a list \<Rightarrow> nat" where
  "CountIf P xs = length (filter P xs)"

definition TestCaseFailed :: "'w TestCase \<Rightarrow> bool" where
  "TestCaseFailed tc \<longleftrightarrow> tc_should_run tc \<and> CountIf TestFailed (tc_test_info_list tc) > 0"

definition UnitTest_Failed :: "'w UnitTestImpl \<Rightarrow> bool" where
  "UnitTest_Failed ut \<longleftrightarrow>
     CountIf TestCaseFailed (ut_test_cases ut) > 0 \<or> result_failed (ut_ad_hoc_test_result ut)"

definition ClearNonAdHocTestResult :: "'w UnitTestImpl \<Rightarrow> 'w UnitTestImpl" where
  "ClearNonAdHocTestResult ut =
     ut\<lparr>ut_test_cases := map (\<lambda>tc. tc\<lparr>tc_test_info_list :=
          map (\<lambda>ti. ti\<lparr>ti_result := []\<rparr>) (tc_test_info_list tc)\<rparr>) (ut_test_cases ut)\<rparr>"

subsection \<open>All tests\<close>

text \<open>What the framework asks of the system: the environment, the time, a file to write.\<close>

record 'w GTestEnv =
  ge_environ :: environ
  ge_time :: "'w \<Rightarrow> int"
  ge_FOpen :: "'w \<Rightarrow> string \<Rightarrow> bool \<times> 'w"

definition kTestShardStatusFile :: string where "kTestShardStatusFile = ''GTEST_SHARD_STATUS_FILE''"

definition WriteToShardStatusFileIfNeeded :: "'w GTestEnv \<Rightarrow> ('w, unit) gt" where
  "WriteToShardStatusFileIfNeeded E ut =
     (case ge_environ E kTestShardStatusFile of
        None \<Rightarrow> gret () ut
      | Some test_shard_file \<Rightarrow>
          (case ge_FOpen E (ut_world ut) test_shard_file of (ok, w) \<Rightarrow>
             if ok then gret () (ut\<lparr>ut_world := w\<rparr>) else gfail (ProgramExit 1) ut))"

text \<open>The environments are set up and torn down without a handler of exceptions.\<close>

definition run_iteration :: "GTestFlags \<Rightarrow> bool \<Rightarrow> ('w, unit) gt" where
  "run_iteration fl has_tests_to_run =
     gbind (gmod ClearNonAdHocTestResult) (\<lambda>_.
     gbind (if has_tests_to_run \<and> gf_shuffle fl then
              gbind (gmod (\<lambda>ut. ut\<lparr>ut_random := word_of_int (ut_random_seed ut)\<rparr>)) (\<lambda>_. glift ShuffleTests)
            else gret ()) (\<lambda>_.
     if has_tests_to_run then
       gbind (gget ut_environments) (\<lambda>envs.
       gbind (gfor envs (\<lambda>env. run_code fl (fst env))) (\<lambda>_.
       gbind (gget HasFatalFailure) (\<lambda>fatal.
       gbind (if \<not> fatal then
                gbind (gget (\<lambda>ut. length (ut_test_cases ut))) (\<lambda>n.
                gfor [0..<n] (\<lambda>test_index.
                  gbind (gget (\<lambda>ut. GetMutableTestCase ut test_index)) (\<lambda>tc.
                  case tc of None \<Rightarrow> gfail NullDeref | Some i \<Rightarrow> TestCase_Run fl i)))
              else gret ()) (\<lambda>_.
       gfor (rev envs) (\<lambda>env. run_code fl (snd env))))))
     else gret ()))"

text \<open>
  The loop over the iterations. The counter is an \<open>int\<close>: repeating for ever ends when it
  overflows.
\<close>

function repeat_loop :: "GTestFlags \<Rightarrow> bool \<Rightarrow> int \<Rightarrow> int \<Rightarrow> bool \<Rightarrow> ('w, bool) gt" where
  "repeat_loop fl has_tests_to_run repeat i failed =
     (if repeat < 0 \<or> i \<noteq> repeat then
        gbind (run_iteration fl has_tests_to_run) (\<lambda>_.
        gbind (gget UnitTest_Failed) (\<lambda>f.
        let failed = (if f then True else failed)
        in gbind (glift UnshuffleTests) (\<lambda>_.
           gbind (if gf_shuffle fl then
                    glift (\<lambda>ut. rbind (GetNextRandomSeed (ut_random_seed ut)) (\<lambda>s. Inr (ut\<lparr>ut_random_seed := s\<rparr>)))
                  else gret ()) (\<lambda>_.
           if i + 1 < 2 ^ 31 then repeat_loop fl has_tests_to_run repeat (i + 1) failed
           else gfail SignedOverflow))))
      else gret (\<not> failed))"
  by pat_completeness auto
termination
  by (relation "measure (\<lambda>(fl, h, repeat, i, f). nat (2 ^ 31 - i))") auto

declare repeat_loop.simps [simp del]

text \<open>
  \<open>initialized\<close>: whether \<open>InitGoogleTest\<close> was called; \<open>g_help_flag\<close>: whether it has seen a request
  for help. No value-parameterized tests are registered, and the flag of a death test's subprocess,
  which the framework itself passes on, is well formed when it is set.
\<close>

definition RunAllTests :: "GTestFlags \<Rightarrow> 'w GTestEnv \<Rightarrow> bool \<Rightarrow> bool \<Rightarrow> ('w, bool) gt" where
  "RunAllTests fl E initialized g_help_flag =
     (if \<not> initialized then gret False
      else if g_help_flag then gret True
      else
        gbind (WriteToShardStatusFileIfNeeded E) (\<lambda>_ ut.
        let in_subprocess_for_death_test = gf_internal_run_death_test fl \<noteq> '''' in
        case ShouldShard (ge_environ E) kTestTotalShards kTestShardIndex in_subprocess_for_death_test of
          Inl e \<Rightarrow> gfail e ut
        | Inr should_shard \<Rightarrow>
            (case FilterTests fl (ge_environ E)
                    (if should_shard then HONOR_SHARDING_PROTOCOL else IGNORE_SHARDING_PROTOCOL) ut of
               Inl e \<Rightarrow> gfail e ut
             | Inr (num_selected, ut) \<Rightarrow>
                 if gf_list_tests fl then gret True ut
                 else
                   let seed = (if gf_shuffle fl
                               then GetRandomSeedFromFlag (ge_time E (ut_world ut)) (gf_random_seed fl) else 0);
                       repeat = (if in_subprocess_for_death_test then 1 else gf_repeat fl)
                   in repeat_loop fl (num_selected > 0) repeat 0 False (ut\<lparr>ut_random_seed := seed\<rparr>))))"

definition UnitTest_Run ::
    "GTestFlags \<Rightarrow> 'w GTestEnv \<Rightarrow> bool \<Rightarrow> bool \<Rightarrow> ('w, int) gt" where
  "UnitTest_Run fl E initialized g_help_flag =
     gbind (gmod (\<lambda>ut. ut\<lparr>ut_catch_exceptions := gf_catch_exceptions fl\<rparr>)) (\<lambda>_.
     gbind (HandleExceptionsInMethodIfSupported fl (RunAllTests fl E initialized g_help_flag)) (\<lambda>r.
     gret (case r of Some True \<Rightarrow> 0 | _ \<Rightarrow> 1)))"

end
