(* ===== verification/GTestProps.thy ===== *)
theory GTestProps
  imports GTestRun
begin

section \<open>Lemmas on selection, registration and order\<close>

text \<open>
  The selection as a marking of the list of all tests, the invariant of the registry, and the
  shuffle as a permutation that stays within its range.
\<close>

subsection \<open>Selection\<close>

definition tests_of :: "'w TestCase list \<Rightarrow> (string \<times> 'w TestInfo) list" where
  "tests_of tcs = concat (map (\<lambda>tc. map (Pair (tc_name tc)) (tc_test_info_list tc)) tcs)"

definition is_runnable :: "GTestFlags \<Rightarrow> string \<times> 'w TestInfo \<Rightarrow> bool" where
  "is_runnable fl t \<longleftrightarrow> runnable fl (fst t) (ti_name (snd t))"

text \<open>The marks of all tests: a test that can run is given the next number, which decides.\<close>

fun marks ::
    "GTestFlags \<Rightarrow> (int \<Rightarrow> bool) \<Rightarrow> int \<Rightarrow> (string \<times> 'w TestInfo) list \<Rightarrow> (string \<times> 'w TestInfo) list" where
  "marks fl chosen r [] = []"
| "marks fl chosen r ((name, ti) # ts) =
     (name, ti\<lparr>ti_is_disabled := MatchesFilter name kDisableTestFilter \<or> MatchesFilter (ti_name ti) kDisableTestFilter,
               ti_matches_filter := FilterMatchesTest (gf_filter fl) name (ti_name ti),
               ti_should_run := is_runnable fl (name, ti) \<and> chosen r\<rparr>)
       # marks fl chosen (r + of_bool (is_runnable fl (name, ti))) ts"

definition rank :: "GTestFlags \<Rightarrow> (string \<times> 'w TestInfo) list \<Rightarrow> int" where
  "rank fl ts = int (length (filter (is_runnable fl) ts))"

definition selected :: "(string \<times> 'w TestInfo) list \<Rightarrow> int" where
  "selected ts = int (length (filter (\<lambda>t. ti_should_run (snd t)) ts))"

lemma rank_simps [simp]:
  "rank fl [] = 0" "rank fl (t # ts) = of_bool (is_runnable fl t) + rank fl ts"
  "rank fl (ts @ us) = rank fl ts + rank fl us" "0 \<le> rank fl ts"
  by (simp_all add: rank_def)

lemma selected_simps [simp]:
  "selected [] = 0" "selected (t # ts) = of_bool (ti_should_run (snd t)) + selected ts"
  "selected (ts @ us) = selected ts + selected us" "0 \<le> selected ts"
  by (simp_all add: selected_def)

lemma selected_pos: "0 < selected ts \<longleftrightarrow> (\<exists>t \<in> set ts. ti_should_run (snd t))"
  by (auto simp: selected_def filter_empty_conv)

lemma marks_append:
  "marks fl ch r (ts @ us) = marks fl ch r ts @ marks fl ch (r + rank fl ts) us"
  by (induction fl ch r ts rule: marks.induct) (simp_all add: add.assoc)

lemma length_marks [simp]: "length (marks fl ch r ts) = length ts"
  by (induction fl ch r ts rule: marks.induct) simp_all

lemma marks_nth:
  "k < length ts \<Longrightarrow> ti_should_run (snd (marks fl ch r ts ! k))
     \<longleftrightarrow> is_runnable fl (ts ! k) \<and> ch (r + rank fl (take k ts))"
proof (induction fl ch r ts arbitrary: k rule: marks.induct)
  case (2 fl ch r name ti ts)
  then show ?case by (cases k) (simp_all add: add.assoc)
qed simp

lemma marks_names:
  "map (\<lambda>t. (fst t, ti_name (snd t))) (marks fl ch r ts) = map (\<lambda>t. (fst t, ti_name (snd t))) ts"
  by (induction fl ch r ts rule: marks.induct) simp_all

text \<open>The decision on the number of a test that can run.\<close>

definition decides :: "ReactionToSharding \<Rightarrow> int \<Rightarrow> int \<Rightarrow> (int \<Rightarrow> bool) \<Rightarrow> bool" where
  "decides shard total_shards shard_index ch \<longleftrightarrow>
     (\<forall>k \<ge> 0. (if shard = IGNORE_SHARDING_PROTOCOL then Inr True
                else ShouldRunTestOnShard total_shards shard_index k) = Inr (ch k))"

lemma filter_infos_marks:
  assumes "decides shard tot ix ch" and "0 \<le> r"
  shows "\<exists>tis'. filter_infos fl shard tot ix name tis (r, s, b) =
       Inr (tis', r + rank fl (map (Pair name) tis),
            s + selected (map (Pair name) tis'), b \<or> 0 < selected (map (Pair name) tis')) \<and>
     map (Pair name) tis' = marks fl ch r (map (Pair name) tis)"
  using assms(2)
proof (induction tis arbitrary: r s b)
  case (Cons ti tis)
  let ?run = "is_runnable fl (name, ti)"
  have run: "?run \<longleftrightarrow> (gf_also_run_disabled_tests fl \<or>
      \<not> (MatchesFilter name kDisableTestFilter \<or> MatchesFilter (ti_name ti) kDisableTestFilter)) \<and>
      FilterMatchesTest (gf_filter fl) name (ti_name ti)"
    by (simp add: is_runnable_def runnable_def)
  have d: "(if ?run then (if shard = IGNORE_SHARDING_PROTOCOL then Inr True
      else ShouldRunTestOnShard tot ix r) else Inr False) = Inr (?run \<and> ch r)"
    using assms(1) Cons.prems by (simp add: decides_def)
  obtain tis' where t: "filter_infos fl shard tot ix name tis
        (r + of_bool ?run, s + of_bool (?run \<and> ch r), b \<or> ?run \<and> ch r) =
       Inr (tis', r + of_bool ?run + rank fl (map (Pair name) tis),
            s + of_bool (?run \<and> ch r) + selected (map (Pair name) tis'),
            (b \<or> ?run \<and> ch r) \<or> 0 < selected (map (Pair name) tis'))"
    and m: "map (Pair name) tis' = marks fl ch (r + of_bool ?run) (map (Pair name) tis)"
    using Cons.IH [of "r + of_bool ?run"] Cons.prems by fastforce
  have pos: "(b \<or> P) \<or> 0 < selected ts \<longleftrightarrow> b \<or> 0 < of_bool P + selected ts" for P and ts :: "(string \<times> 'a TestInfo) list"
    using selected_simps(4) [of ts] by (cases P) (simp_all del: selected_simps(4))
  define ti' where "ti' = ti\<lparr>ti_is_disabled :=
        MatchesFilter name kDisableTestFilter \<or> MatchesFilter (ti_name ti) kDisableTestFilter,
      ti_matches_filter := FilterMatchesTest (gf_filter fl) name (ti_name ti), ti_should_run := ?run \<and> ch r\<rparr>"
  have "filter_infos fl shard tot ix name (ti # tis) (r, s, b) =
      rbind (if ?run then (if shard = IGNORE_SHARDING_PROTOCOL then Inr True
             else ShouldRunTestOnShard tot ix r) else Inr False) (\<lambda>is_selected.
        rbind (filter_infos fl shard tot ix name tis
                 (r + of_bool ?run, s + of_bool is_selected, b \<or> is_selected)) (\<lambda>(tis, st).
        Inr (ti\<lparr>ti_is_disabled :=
              MatchesFilter name kDisableTestFilter \<or> MatchesFilter (ti_name ti) kDisableTestFilter,
            ti_matches_filter := FilterMatchesTest (gf_filter fl) name (ti_name ti),
            ti_should_run := is_selected\<rparr> # tis, st)))"
    by (simp only: filter_infos.simps Let_def run)
  also have "\<dots> = Inr (ti' # tis', r + of_bool ?run + rank fl (map (Pair name) tis),
      s + of_bool (?run \<and> ch r) + selected (map (Pair name) tis'),
      (b \<or> ?run \<and> ch r) \<or> 0 < selected (map (Pair name) tis'))"
    by (simp only: d rbind_Inr t prod.case ti'_def)
  finally have run1: "filter_infos fl shard tot ix name (ti # tis) (r, s, b) = Inr (ti' # tis',
      r + rank fl (map (Pair name) (ti # tis)), s + selected (map (Pair name) (ti' # tis')),
      b \<or> 0 < selected (map (Pair name) (ti' # tis')))"
    unfolding pos by (simp add: ti'_def add.assoc)
  moreover have "map (Pair name) (ti' # tis') = marks fl ch r (map (Pair name) (ti # tis))"
    by (simp add: m ti'_def)
  ultimately show ?case by blast
qed simp

lemma filter_cases_marks:
  assumes "decides shard tot ix ch" and "0 \<le> r"
  shows "\<exists>tcs'. filter_cases fl shard tot ix tcs (r, s) =
       Inr (tcs', r + rank fl (tests_of tcs), s + selected (tests_of tcs')) \<and>
     tests_of tcs' = marks fl ch r (tests_of tcs)"
  using assms(2)
proof (induction tcs arbitrary: r s)
  case (Cons tc tcs)
  let ?ts = "map (Pair (tc_name tc)) (tc_test_info_list tc)"
  obtain tis' where t: "filter_infos fl shard tot ix (tc_name tc) (tc_test_info_list tc) (r, s, False) =
       Inr (tis', r + rank fl ?ts, s + selected (map (Pair (tc_name tc)) tis'),
            False \<or> 0 < selected (map (Pair (tc_name tc)) tis'))"
    and m: "map (Pair (tc_name tc)) tis' = marks fl ch r ?ts"
    using filter_infos_marks [OF assms(1) Cons.prems] by blast
  have "0 \<le> r + rank fl ?ts" using Cons.prems by simp
  from Cons.IH [OF this] obtain tcs' where c: "filter_cases fl shard tot ix tcs
        (r + rank fl ?ts, s + selected (map (Pair (tc_name tc)) tis')) =
       Inr (tcs', r + rank fl ?ts + rank fl (tests_of tcs),
            s + selected (map (Pair (tc_name tc)) tis') + selected (tests_of tcs'))"
    and mc: "tests_of tcs' = marks fl ch (r + rank fl ?ts) (tests_of tcs)" by blast
  show ?case
    using t c m mc
    by (intro exI [of _ "tc\<lparr>tc_test_info_list := tis', tc_should_run := 0 < selected (map (Pair (tc_name tc)) tis')\<rparr> # tcs'"])
      (simp add: tests_of_def marks_append add.assoc)
qed (simp add: tests_of_def)

lemma decides_shard:
  assumes "0 < n" "n < 2 ^ 31"
  shows "decides HONOR_SHARDING_PROTOCOL n i (\<lambda>k. k mod n = i)"
proof -
  have "imod k n = Inr (k mod n)" if "0 \<le> k" for k
  proof -
    have "k smod n = k mod n" using assms that by (simp add: smod_int_alt_def sgn_if)
    moreover have "0 \<le> k mod n" "k mod n < n" using assms by simp_all
    then have "- (2 ^ 31) \<le> k mod n" "k mod n < 2 ^ 31" using assms(2) by linarith+
    ultimately show ?thesis using assms by (simp add: imod_def chk_def)
  qed
  then show ?thesis by (simp add: decides_def ShouldRunTestOnShard_def)
qed

lemma decides_all: "decides IGNORE_SHARDING_PROTOCOL n i (\<lambda>_. True)"
  by (simp add: decides_def)

text \<open>On \<open>n\<close> shards every test that can run is selected on exactly one of them.\<close>

lemma FilterTests_shard:
  assumes "0 < n" "n < 2 ^ 31"
    and "Int32FromEnvOrDie env kTestTotalShards (-1) = Inr n"
    and "Int32FromEnvOrDie env kTestShardIndex (-1) = Inr i"
  shows "\<exists>tcs. FilterTests fl env HONOR_SHARDING_PROTOCOL ut
      = Inr (selected (tests_of tcs), ut\<lparr>ut_test_cases := tcs\<rparr>) \<and>
     tests_of tcs = marks fl (\<lambda>k. k mod n = i) 0 (tests_of (ut_test_cases ut))"
proof -
  obtain tcs where "filter_cases fl HONOR_SHARDING_PROTOCOL n i (ut_test_cases ut) (0, 0) =
       Inr (tcs, 0 + rank fl (tests_of (ut_test_cases ut)), 0 + selected (tests_of tcs))"
    and "tests_of tcs = marks fl (\<lambda>k. k mod n = i) 0 (tests_of (ut_test_cases ut))"
    using filter_cases_marks [OF decides_shard [OF assms(1,2)] order_refl] by blast
  then show ?thesis using assms(3,4) by (intro exI [of _ tcs]) (simp add: FilterTests_def)
qed

lemma FilterTests_all:
  "\<exists>tcs. FilterTests fl env IGNORE_SHARDING_PROTOCOL ut
      = Inr (selected (tests_of tcs), ut\<lparr>ut_test_cases := tcs\<rparr>) \<and>
     tests_of tcs = marks fl (\<lambda>_. True) 0 (tests_of (ut_test_cases ut))"
proof -
  obtain tcs where "filter_cases fl IGNORE_SHARDING_PROTOCOL (-1) (-1) (ut_test_cases ut) (0, 0) =
       Inr (tcs, 0 + rank fl (tests_of (ut_test_cases ut)), 0 + selected (tests_of tcs))"
    and "tests_of tcs = marks fl (\<lambda>_. True) 0 (tests_of (ut_test_cases ut))"
    using filter_cases_marks [OF decides_all order_refl] by blast
  then show ?thesis by (intro exI [of _ tcs]) (simp add: FilterTests_def)
qed

subsection \<open>The registry\<close>

definition case_ok :: "'w TestCase \<Rightarrow> bool" where
  "case_ok tc \<longleftrightarrow> tc_test_indices tc = [0..<length (tc_test_info_list tc)]"

definition deaths :: "'w UnitTestImpl \<Rightarrow> nat" where
  "deaths ut = nat (ut_last_death_test_case ut + 1)"

text \<open>
  The death test cases come first, in a row whose end is kept; the names are distinct; the
  indices are in order.
\<close>

definition registry_ok :: "'w UnitTestImpl \<Rightarrow> bool" where
  "registry_ok ut \<longleftrightarrow>
     -1 \<le> ut_last_death_test_case ut \<and> deaths ut \<le> length (ut_test_cases ut) \<and>
     (\<forall>tc \<in> set (take (deaths ut) (ut_test_cases ut)). is_death_test_case (tc_name tc)) \<and>
     (\<forall>tc \<in> set (drop (deaths ut) (ut_test_cases ut)). \<not> is_death_test_case (tc_name tc)) \<and>
     distinct (map tc_name (ut_test_cases ut)) \<and> list_all case_ok (ut_test_cases ut) \<and>
     ut_test_case_indices ut = [0..<length (ut_test_cases ut)]"

lemma find_if_le: "find_if P xs \<le> length xs"
  by (induction xs) simp_all

lemma find_if_none: "find_if P xs = length xs \<longleftrightarrow> (\<forall>x \<in> set xs. \<not> P x)"
  by (induction xs) auto

lemma find_if_some: "find_if P xs \<noteq> length xs \<Longrightarrow> find_if P xs < length xs \<and> P (xs ! find_if P xs)"
  by (induction xs) auto

lemma length_insert_at [simp]: "k \<le> length xs \<Longrightarrow> length (insert_at k x xs) = Suc (length xs)"
  by (simp add: insert_at_def)

lemma insert_at_nth: "k \<le> length xs \<Longrightarrow> insert_at k x xs ! k = x"
  by (simp add: insert_at_def nth_append)

lemma mset_insert_at: "mset (insert_at k x xs) = add_mset x (mset xs)"
proof -
  have "mset (take k xs) + mset (drop k xs) = mset (take k xs @ drop k xs)"
    by (simp only: mset_append)
  also have "\<dots> = mset xs" by (simp only: append_take_drop_id)
  finally show ?thesis by (simp add: insert_at_def)
qed

lemma FindTestCase_ok:
  assumes ok: "registry_ok ut" and find: "FindTestCase name su td ut = (i, ut')"
  shows "registry_ok ut' \<and> i < length (ut_test_cases ut') \<and> tc_name (ut_test_cases ut' ! i) = name"
proof (cases "find_if (\<lambda>tc. tc_name tc = name) (ut_test_cases ut) = length (ut_test_cases ut)")
  case False
  with find have "i = find_if (\<lambda>tc. tc_name tc = name) (ut_test_cases ut)" "ut' = ut"
    by (auto simp: FindTestCase_def Let_def)
  with False ok find_if_some [OF False] show ?thesis by simp
next
  case True
  let ?cases = "ut_test_cases ut" and ?tc = "new_TestCase name su td"
  from True have new: "name \<notin> tc_name ` set ?cases" by (auto simp: find_if_none)
  have tc: "tc_name ?tc = name" "case_ok ?tc" by (simp_all add: new_TestCase_def case_ok_def)
  show ?thesis
  proof (cases "is_death_test_case name")
    case death: True
    have n: "nat (ut_last_death_test_case ut + 1) = deaths ut" by (simp add: deaths_def)
    have ut': "i = deaths ut"
      "ut' = ut\<lparr>ut_last_death_test_case := ut_last_death_test_case ut + 1,
               ut_test_cases := insert_at (deaths ut) ?tc ?cases,
               ut_test_case_indices := ut_test_case_indices ut @ [length (ut_test_case_indices ut)]\<rparr>"
      using find True death by (auto simp: FindTestCase_def Let_def n)
    have le: "deaths ut \<le> length ?cases" using ok by (simp add: registry_ok_def)
    have "-1 \<le> ut_last_death_test_case ut" using ok by (simp add: registry_ok_def)
    then have d: "deaths ut' = Suc (deaths ut)" by (simp add: ut' deaths_def)
    have "take (Suc (deaths ut)) (insert_at (deaths ut) ?tc ?cases) = take (deaths ut) ?cases @ [?tc]"
      "drop (Suc (deaths ut)) (insert_at (deaths ut) ?tc ?cases) = drop (deaths ut) ?cases"
      using le by (simp_all add: insert_at_def)
    moreover have "distinct (map tc_name (insert_at (deaths ut) ?tc ?cases))"
    proof -
      have "mset (map tc_name (insert_at (deaths ut) ?tc ?cases)) = mset (name # map tc_name ?cases)"
        by (simp add: mset_insert_at tc)
      moreover have "distinct (name # map tc_name ?cases)" using ok new by (simp add: registry_ok_def)
      ultimately show ?thesis using mset_eq_imp_distinct_iff by blast
    qed
    moreover have "list_all case_ok (insert_at (deaths ut) ?tc ?cases)"
      using ok tc by (auto simp: registry_ok_def list_all_iff insert_at_def dest: in_set_takeD in_set_dropD)
    ultimately show ?thesis
      using ok le death tc d by (simp add: registry_ok_def ut' insert_at_nth)
  next
    case False
    with find True have ut': "i = length ?cases"
      "ut' = ut\<lparr>ut_test_cases := ?cases @ [?tc],
               ut_test_case_indices := ut_test_case_indices ut @ [length (ut_test_case_indices ut)]\<rparr>"
      by (auto simp: FindTestCase_def Let_def)
    have "deaths ut' = deaths ut" by (simp add: ut' deaths_def)
    with ok new tc False show ?thesis by (auto simp: registry_ok_def ut')
  qed
qed

lemma registry_ok_update:
  assumes "registry_ok ut" and "i < length (ut_test_cases ut)"
    and "\<And>tc. tc_name (f tc) = tc_name tc" "\<And>tc. case_ok tc \<Longrightarrow> case_ok (f tc)"
  shows "registry_ok (ut\<lparr>ut_test_cases := update_nth i f (ut_test_cases ut)\<rparr>)"
proof -
  let ?cs = "ut_test_cases ut" and ?us = "update_nth i f (ut_test_cases ut)"
  have names: "map tc_name ?us = map tc_name ?cs"
    using assms(2,3) by (simp add: update_nth_def map_update list_update_same_conv [THEN iffD2])
  have "list_all P (map tc_name (take k ?us)) = list_all P (map tc_name (take k ?cs))"
    "list_all P (map tc_name (drop k ?us)) = list_all P (map tc_name (drop k ?cs))" for P k
    unfolding take_map [symmetric] drop_map [symmetric] names by (rule refl)+
  from this(1) [of is_death_test_case] this(2) [of "\<lambda>n. \<not> is_death_test_case n"]
  have "(\<forall>tc \<in> set (take k ?us). is_death_test_case (tc_name tc))
      = (\<forall>tc \<in> set (take k ?cs). is_death_test_case (tc_name tc))"
    "(\<forall>tc \<in> set (drop k ?us). \<not> is_death_test_case (tc_name tc))
      = (\<forall>tc \<in> set (drop k ?cs). \<not> is_death_test_case (tc_name tc))" for k
    by (simp_all add: list_all_iff)
  moreover have "list_all case_ok ?us"
    using assms(1,2,4) by (auto simp: registry_ok_def list_all_length update_nth_def nth_list_update)
  moreover have "length ?us = length ?cs" by (simp add: update_nth_def)
  ultimately show ?thesis using assms(1) names by (simp add: registry_ok_def deaths_def)
qed

lemma AddTestInfo_ok: "registry_ok ut \<Longrightarrow> registry_ok (AddTestInfo su td ti ut)"
proof -
  assume ok: "registry_ok ut"
  obtain i ut' where f: "FindTestCase (ti_test_case_name ti) su td ut = (i, ut')" by fastforce
  from FindTestCase_ok [OF ok f] have "registry_ok ut'" "i < length (ut_test_cases ut')" by simp_all
  then show ?thesis
    unfolding AddTestInfo_def f Let_def prod.case
    by (rule registry_ok_update) (simp_all add: TestCase_AddTestInfo_def case_ok_def)
qed

lemma new_UnitTestImpl_ok: "registry_ok (new_UnitTestImpl w)"
  by (simp add: new_UnitTestImpl_def registry_ok_def deaths_def)

inductive registers :: "'w UnitTestImpl \<Rightarrow> 'w UnitTestImpl \<Rightarrow> bool" where
  "registers ut (AddTestInfo su td ti ut)"

interpretation registry: inductive_invariant "\<lambda>ut. \<exists>w. ut = new_UnitTestImpl w" registers registry_ok
  by unfold_locales (auto elim!: registers.cases intro: new_UnitTestImpl_ok AddTestInfo_ok)

subsection \<open>The shuffle\<close>

lemma mset_swap: "i < length v \<Longrightarrow> j < length v \<Longrightarrow> mset (swap i j v) = mset v"
  by (simp add: swap_def mset_swap)

lemma swap_outside:
  "i < length v \<Longrightarrow> b \<le> i \<Longrightarrow> i < e \<Longrightarrow> b \<le> j \<Longrightarrow> j < e \<Longrightarrow> take b (swap i j v) = take b v \<and> drop e (swap i j v) = drop e v"
  by (simp add: swap_def)

lemma Generate_below:
  assumes "0 < n" "n \<le> 2 ^ 31"
  shows "\<exists>g st'. Random_Generate (of_nat n) st = Inr (g, st') \<and> unat g < n"
proof -
  let ?r = "of_nat n :: u32"
  have n: "unat ?r = n" using assms by (simp add: unat_of_nat take_bit_nat_eq_self)
  have pos: "0 < ?r" unfolding word_less_nat_alt n using assms(1) by simp
  have "unat ?r \<le> unat (2 ^ 31 :: u32)" using n assms(2) by simp
  then have le: "?r \<le> 2 ^ 31" by (simp only: word_le_nat_alt)
  have "unat (w mod ?r) < n" for w :: u32
    using assms(1) by (simp add: unat_mod n)
  then show ?thesis using pos le by (simp add: Random_Generate_def Let_def kMaxRange_def)
qed

lemma shuffle_loop_range:
  assumes "b + n \<le> length v" and "n \<le> 2 ^ 31"
  shows "\<exists>st' v'. shuffle_loop b n st v = Inr (st', v') \<and> mset v' = mset v
     \<and> take b v' = take b v \<and> drop (b + n) v' = drop (b + n) v"
  using assms
proof (induction n arbitrary: st v)
  case (Suc n)
  show ?case
  proof (cases "Suc n \<ge> 2")
    case True
    have "0 < Suc n" by simp
    from Generate_below [OF this Suc.prems(2)] obtain g st1 where
      g: "Random_Generate (of_nat (Suc n)) st = Inr (g, st1)" "unat g < Suc n" by blast
    let ?v = "swap (b + unat g) (b + Suc n - 1) v"
    have in_range: "b + unat g < length v" "b + Suc n - 1 < length v" using Suc.prems g by simp_all
    then have "mset ?v = mset v" by (rule mset_swap)
    moreover from this have len: "length ?v = length v" by (metis size_mset)
    have "take b ?v = take b v \<and> drop (b + Suc n) ?v = drop (b + Suc n) v"
      using in_range g by (intro swap_outside) simp_all
    moreover obtain st' v' where "shuffle_loop b n st1 ?v = Inr (st', v')" "mset v' = mset ?v"
      "take b v' = take b ?v" "drop (b + n) v' = drop (b + n) ?v"
      using Suc.IH [of ?v st1] Suc.prems len by auto
    moreover from this(4) have "drop (b + Suc n) v' = drop (b + Suc n) ?v"
      by (metis add_Suc_right drop_Suc drop_drop plus_1_eq_Suc tl_drop)
    ultimately show ?thesis using True g(1) by (simp add: Let_def del: of_nat_Suc)
  next
    case False
    then show ?thesis by simp
  qed
qed simp

lemma ShuffleRange_range:
  assumes "b \<le> e" "e \<le> length v" and "length v \<le> 2 ^ 31"
  shows "\<exists>st' v'. ShuffleRange st (int b) (int e) v = Inr (st', v') \<and> mset v' = mset v
     \<and> take b v' = take b v \<and> drop e v' = drop e v"
proof -
  have "nat (int e - int b) = e - b" by simp
  then show ?thesis
    using shuffle_loop_range [of b "e - b" v st] assms by (simp add: ShuffleRange_def Let_def)
qed

lemma mset_take_eq: "mset v' = mset v \<Longrightarrow> drop e v' = drop e v \<Longrightarrow> mset (take e v') = mset (take e v)"
  by (metis add_right_cancel append_take_drop_id mset_append)

lemma mset_drop_eq: "mset v' = mset v \<Longrightarrow> take e v' = take e v \<Longrightarrow> mset (drop e v') = mset (drop e v)"
  by (metis add_left_cancel append_take_drop_id mset_append)

lemma Shuffle_mset:
  assumes "length v \<le> 2 ^ 31"
  shows "\<exists>st' v'. Shuffle st v = Inr (st', v') \<and> mset v' = mset v"
  using ShuffleRange_range [of 0 "length v" v st] assms by (auto simp: Shuffle_def)

lemma shuffle_cases_ok:
  assumes "\<forall>tc \<in> set tcs. length (tc_test_indices tc) \<le> 2 ^ 31"
  shows "\<exists>st' tcs'. shuffle_cases st tcs = Inr (st', tcs') \<and>
     list_all2 (\<lambda>tc tc'. \<exists>is. tc' = tc\<lparr>tc_test_indices := is\<rparr> \<and> mset is = mset (tc_test_indices tc)) tcs tcs'"
  using assms
proof (induction tcs arbitrary: st)
  case (Cons tc tcs)
  then obtain st1 "is" where i: "Shuffle st (tc_test_indices tc) = Inr (st1, is)" "mset is = mset (tc_test_indices tc)"
    using Shuffle_mset [of "tc_test_indices tc" st] by auto
  obtain st2 tcs' where "shuffle_cases st1 tcs = Inr (st2, tcs')"
    "list_all2 (\<lambda>tc tc'. \<exists>is. tc' = tc\<lparr>tc_test_indices := is\<rparr> \<and> mset is = mset (tc_test_indices tc)) tcs tcs'"
    using Cons.IH [of st1] Cons.prems by auto
  with i show ?case by auto
qed simp

text \<open>
  A shuffle of the registry does not abort: it permutes the death test cases among themselves,
  the others among themselves, and the tests of every case; and unshuffling undoes it.
\<close>

lemma ShuffleTests_ok:
  assumes ok: "registry_ok ut" and "length (ut_test_cases ut) \<le> 2 ^ 31"
    and "\<forall>tc \<in> set (ut_test_cases ut). length (tc_test_info_list tc) \<le> 2 ^ 31"
  shows "\<exists>st is tcs. ShuffleTests ut = Inr (ut\<lparr>ut_random := st, ut_test_case_indices := is, ut_test_cases := tcs\<rparr>)
     \<and> mset (take (deaths ut) is) = mset [0..<deaths ut]
     \<and> mset (drop (deaths ut) is) = mset [deaths ut..<length (ut_test_cases ut)]
     \<and> list_all2 (\<lambda>tc tc'. \<exists>js. tc' = tc\<lparr>tc_test_indices := js\<rparr> \<and> mset js = mset (tc_test_indices tc))
         (ut_test_cases ut) tcs"
proof -
  let ?d = "deaths ut" and ?n = "length (ut_test_cases ut)" and ?is = "ut_test_case_indices ut"
  have "is": "?is = [0..<?n]" and d: "?d \<le> ?n" "ut_last_death_test_case ut + 1 = int ?d"
    using ok by (simp_all add: registry_ok_def deaths_def)
  have n: "length ?is = ?n" by (simp add: "is")
  obtain st1 is1 where 1: "ShuffleRange (ut_random ut) 0 (int ?d) ?is = Inr (st1, is1)" "mset is1 = mset ?is"
    "drop ?d is1 = drop ?d ?is"
    using ShuffleRange_range [of 0 ?d ?is "ut_random ut"] d assms(2) n by auto
  from 1(2) have n1: "length is1 = ?n" using n by (metis size_mset)
  obtain st2 is2 where 2: "ShuffleRange st1 (int ?d) (int ?n) is1 = Inr (st2, is2)" "mset is2 = mset is1"
    "take ?d is2 = take ?d is1"
    using ShuffleRange_range [of ?d ?n is1 st1] d assms(2) n1 by auto
  have "\<forall>tc \<in> set (ut_test_cases ut). length (tc_test_indices tc) \<le> 2 ^ 31"
    using ok assms(3) by (auto simp: registry_ok_def list_all_iff case_ok_def)
  from shuffle_cases_ok [OF this] obtain st3 tcs where
    3: "shuffle_cases st2 (ut_test_cases ut) = Inr (st3, tcs)"
      "list_all2 (\<lambda>tc tc'. \<exists>is. tc' = tc\<lparr>tc_test_indices := is\<rparr> \<and> mset is = mset (tc_test_indices tc))
         (ut_test_cases ut) tcs" by blast
  have "mset (take ?d is2) = mset (take ?d ?is)" using 2(3) mset_take_eq [OF 1(2,3)] by simp
  moreover have "mset (drop ?d is2) = mset (drop ?d ?is)" using mset_drop_eq [OF 2(2,3)] 1(3) by simp
  ultimately show ?thesis
    using 1(1) 2(1) 3 d
    by (intro exI [of _ st3] exI [of _ is2] exI [of _ tcs]) (simp add: ShuffleTests_def "is" take_upt)
qed

lemma unshuffled:
  assumes ok: "registry_ok ut"
    and tcs: "list_all2 (\<lambda>tc tc'. \<exists>js. tc' = tc\<lparr>tc_test_indices := js\<rparr> \<and> mset js = mset (tc_test_indices tc))
       (ut_test_cases ut) tcs" and "mset is = mset [0..<length (ut_test_cases ut)]"
  shows "UnshuffleTests (ut\<lparr>ut_random := st, ut_test_case_indices := is, ut_test_cases := tcs\<rparr>)
    = Inr (ut\<lparr>ut_random := st\<rparr>)"
proof -
  let ?n = "length (ut_test_cases ut)"
  have "length is = ?n" using assms(3) by (metis diff_zero length_upt size_mset)
  moreover have "length tcs = ?n" using tcs by (simp add: list_all2_lengthD)
  moreover have "map TestCase_UnshuffleTests tcs = ut_test_cases ut"
  proof (rule nth_equalityI)
    show "length (map TestCase_UnshuffleTests tcs) = ?n" using \<open>length tcs = ?n\<close> by simp
  next
    fix k assume "k < length (map TestCase_UnshuffleTests tcs)"
    then have k: "k < ?n" "k < length tcs" using \<open>length tcs = ?n\<close> by simp_all
    let ?tc = "ut_test_cases ut ! k"
    from list_all2_nthD [OF tcs k(1)] obtain js where "tcs ! k = ?tc\<lparr>tc_test_indices := js\<rparr>"
      "mset js = mset (tc_test_indices ?tc)" by blast
    moreover from this have "length js = length (tc_test_indices ?tc)" by (metis size_mset)
    moreover have "case_ok ?tc" using ok k by (simp add: registry_ok_def list_all_length)
    ultimately show "map TestCase_UnshuffleTests tcs ! k = ?tc"
      using k by (simp add: TestCase_UnshuffleTests_def case_ok_def)
  qed
  ultimately show ?thesis
    using ok by (simp add: UnshuffleTests_def registry_ok_def)
qed

end
