(* ===== verification/GTestRunProps.thy ===== *)
theory GTestRunProps
  imports GTestProps
begin

section \<open>Lemmas on the run of the tests\<close>

text \<open>
  What the run of one test comes to, without positions and handlers: the results that its user
  code reports, in order, with a fatal failure for each exception.
\<close>

primrec reports :: "'w trace \<Rightarrow> TestPartResult list" where
  "reports (Ends w) = []"
| "reports (Throws w) = []"
| "reports (Reports r w t) = r # reports t"

primrec final :: "'w trace \<Rightarrow> 'w" where
  "final (Ends w) = w"
| "final (Throws w) = w"
| "final (Reports r w t) = final t"

primrec throws :: "'w trace \<Rightarrow> bool" where
  "throws (Ends w) = False"
| "throws (Throws w) = True"
| "throws (Reports r w t) = throws t"

definition handled :: "'w trace \<Rightarrow> TestPartResult list" where
  "handled t = reports t @ (if throws t then [kFatalFailure] else [])"

text \<open>Failures are recorded and nothing else happens.\<close>

definition quiet :: "GTestFlags \<Rightarrow> bool" where
  "quiet fl \<longleftrightarrow> \<not> gf_break_on_failure fl \<and> \<not> gf_throw_on_failure fl"

lemma AddTestPartResult_quiet:
  "quiet fl \<Longrightarrow> AddTestPartResult fl r ut = gret () (ReportTestPartResult r ut)"
  by (simp add: AddTestPartResult_def quiet_def Let_def)

text \<open>User code on results and a world.\<close>

definition spec_code :: "'w code \<Rightarrow> TestPartResult list \<times> 'w \<Rightarrow> (bool \<times> TestPartResult list \<times> 'w) run" where
  "spec_code c s = run_bind (c (snd s)) (\<lambda>t. Some (Inr (\<not> throws t, fst s @ handled t, final t)))"

definition spec_Test ::
    "bool \<Rightarrow> 'w TestInfo \<Rightarrow> TestPartResult list \<times> 'w \<Rightarrow> (TestPartResult list \<times> 'w) run" where
  "spec_Test same ti s =
     (if \<not> same then Some (Inr (fst s @ [kNonFatalFailure], snd s))
      else
        run_bind (spec_code (ti_SetUp ti) s) (\<lambda>(_, s).
        run_bind (if kFatalFailure \<in> set (fst s) then Some (Inr (True, s)) else spec_code (ti_TestBody ti) s) (\<lambda>(_, s).
        run_bind (spec_code (ti_TearDown ti) s) (\<lambda>(_, s). Some (Inr s)))))"

definition spec_TestInfo ::
    "bool \<Rightarrow> 'w TestInfo \<Rightarrow> TestPartResult list \<times> 'w \<Rightarrow> (TestPartResult list \<times> 'w) run" where
  "spec_TestInfo same ti s =
     run_bind (spec_code (ti_constructor ti) s) (\<lambda>(created, s).
     run_bind (if created \<and> kFatalFailure \<notin> set (fst s) then spec_Test same ti s else Some (Inr s)) (\<lambda>s.
     if \<not> created then Some (Inl NullDeref)
     else run_bind (spec_code (ti_destructor ti) s) (\<lambda>(_, s). Some (Inr s))))"

subsection \<open>The framework during a test\<close>

definition in_test :: "nat \<Rightarrow> nat \<Rightarrow> 'w UnitTestImpl \<Rightarrow> TestPartResult list \<times> 'w \<Rightarrow> 'w UnitTestImpl" where
  "in_test i j ut s =
     (update_result (\<lambda>_. fst s) i j ut)\<lparr>ut_current_test_info := Some (i, j), ut_world := snd s\<rparr>"

definition test_at :: "nat \<Rightarrow> nat \<Rightarrow> 'w UnitTestImpl \<Rightarrow> bool" where
  "test_at i j ut \<longleftrightarrow> i < length (ut_test_cases ut) \<and> j < length (tc_test_info_list (ut_test_cases ut ! i))"

lemma update_nth_nth [simp]:
  "k < length xs \<Longrightarrow> update_nth i f xs ! k = (if k = i then f (xs ! i) else xs ! k)"
  by (simp add: update_nth_def)

lemma length_update_nth [simp]: "length (update_nth i f xs) = length xs"
  by (simp add: update_nth_def)

lemma update_nth_twice:
  "i < length xs \<Longrightarrow> update_nth i f (update_nth i g xs) = update_nth i (f \<circ> g) xs"
  by (simp add: update_nth_def)

lemma in_test_simps [simp]:
  "ut_world (in_test i j ut s) = snd s" "ut_catch_exceptions (in_test i j ut s) = ut_catch_exceptions ut"
  "(in_test i j ut s)\<lparr>ut_world := w\<rparr> = in_test i j ut (fst s, w)"
  by (simp_all add: in_test_def update_result_def)

lemma in_test_result:
  "test_at i j ut \<Longrightarrow> current_test_result (in_test i j ut s) = fst s"
  by (simp add: in_test_def update_result_def current_test_result_def test_at_def)

lemma in_test_report:
  assumes "test_at i j ut"
  shows "ReportTestPartResult r (in_test i j ut s) = in_test i j ut (fst s @ [r], snd s)"
proof -
  let ?tis = "\<lambda>tc. tc_test_info_list tc"
  have "update_nth i (\<lambda>tc. tc\<lparr>tc_test_info_list := update_nth j (\<lambda>ti. ti\<lparr>ti_result := ti_result ti @ [r]\<rparr>) (?tis tc)\<rparr>)
      (update_nth i (\<lambda>tc. tc\<lparr>tc_test_info_list := update_nth j (\<lambda>ti. ti\<lparr>ti_result := fst s\<rparr>) (?tis tc)\<rparr>)
        (ut_test_cases ut))
    = update_nth i (\<lambda>tc. tc\<lparr>tc_test_info_list := update_nth j (\<lambda>ti. ti\<lparr>ti_result := fst s @ [r]\<rparr>) (?tis tc)\<rparr>)
        (ut_test_cases ut)"
    using assms by (simp add: update_nth_def test_at_def)
  then show ?thesis
    by (cases ut) (simp add: in_test_def ReportTestPartResult_def update_result_def)
qed

lemma in_test_fixture:
  assumes "test_at i j ut"
  shows "ti_fixture_class_id (tc_test_info_list (ut_test_cases (in_test i j ut s) ! i) ! k)
    = ti_fixture_class_id (tc_test_info_list (ut_test_cases ut ! i) ! k)"
  using assms
  by (cases "k < length (tc_test_info_list (ut_test_cases ut ! i))")
    (simp_all add: in_test_def update_result_def test_at_def update_nth_def nth_list_update)

lemma in_test_trace:
  assumes "quiet fl" and "test_at i j ut"
  shows "run_trace fl t (in_test i j ut s)
    = Some (Inr (if throws t then Inl StdException else Inr (), in_test i j ut (fst s @ reports t, final t)))"
proof (induction t arbitrary: s)
  case (Reports r w t)
  show ?case
    using Reports.IH [of "(fst s @ [r], w)"]
    by (simp add: gbind_def gmod_def gret_def AddTestPartResult_quiet [OF assms(1)] in_test_report [OF assms(2)])
qed (simp_all add: gbind_def gmod_def gret_def graise_def)

lemma in_test_code:
  assumes "quiet fl" and "test_at i j ut" and "ut_catch_exceptions ut"
  shows "HandleExceptionsInMethodIfSupported fl (run_code fl c) (in_test i j ut s)
    = run_bind (spec_code c s) (\<lambda>(ok, s). Some (Inr (Inr (if ok then Some () else None), in_test i j ut s)))"
proof (cases "c (snd s)")
  case (Some r)
  show ?thesis
  proof (cases r)
    case (Inr t)
    show ?thesis
      using Some Inr assms(3)
      by (simp add: HandleExceptionsInMethodIfSupported_def run_code_def spec_code_def handled_def
          in_test_trace [OF assms(1,2)] gbind_def gret_def AddTestPartResult_quiet [OF assms(1)]
          in_test_report [OF assms(2)])
  qed (use Some assms(3) in \<open>simp add: HandleExceptionsInMethodIfSupported_def run_code_def spec_code_def\<close>)
qed (use assms(3) in \<open>simp add: HandleExceptionsInMethodIfSupported_def run_code_def spec_code_def\<close>)

subsection \<open>One test\<close>

definition same_fixture :: "nat \<Rightarrow> nat \<Rightarrow> 'w UnitTestImpl \<Rightarrow> bool" where
  "same_fixture i j ut \<longleftrightarrow>
     ti_fixture_class_id (tc_test_info_list (ut_test_cases ut ! i) ! j)
       = ti_fixture_class_id (tc_test_info_list (ut_test_cases ut ! i) ! 0)"

text \<open>A step of the framework during a test that comes to a step of the specification.\<close>

lemma gbind_handled:
  assumes "quiet fl" and "test_at i j ut" and "ut_catch_exceptions ut"
  shows "gbind (HandleExceptionsInMethodIfSupported fl (run_code fl c)) f (in_test i j ut s)
    = run_bind (spec_code c s) (\<lambda>(ok, s). f (if ok then Some () else None) (in_test i j ut s))"
proof (cases "spec_code c s")
  case (Some r)
  then show ?thesis by (cases r) (auto simp: gbind_def in_test_code [OF assms])
qed (simp add: gbind_def in_test_code [OF assms])

lemma gbind_fatal:
  "test_at i j ut \<Longrightarrow>
     gbind (gget HasFatalFailure) f (in_test i j ut s) = f (kFatalFailure \<in> set (fst s)) (in_test i j ut s)"
  by (simp add: gbind_def gget_def gret_def HasFatalFailure_def in_test_result)

lemma gbind_spec:
  assumes "m (in_test i j ut s) = run_bind r (\<lambda>s. Some (Inr (Inr a, in_test i j ut s)))"
  shows "gbind m f (in_test i j ut s) = run_bind r (\<lambda>s. f a (in_test i j ut s))"
proof (cases r)
  case (Some q)
  then show ?thesis using assms by (cases q) (simp_all add: gbind_def)
qed (use assms in \<open>simp add: gbind_def\<close>)

lemma run_bind_assoc: "run_bind (run_bind m f) g = run_bind m (\<lambda>x. run_bind (f x) g)"
  by (cases m) (auto simp: run_bind_def split: sum.splits)

lemma Test_Run_spec:
  assumes "quiet fl" and "test_at i j ut" and "ut_catch_exceptions ut"
  shows "Test_Run fl i j ti (in_test i j ut s)
    = run_bind (spec_Test (same_fixture i j ut) ti s) (\<lambda>s. Some (Inr (Inr (), in_test i j ut s)))"
proof -
  note h = gbind_handled [OF assms] and f = gbind_fatal [OF assms(2)]
  have same: "HasSameFixtureClass fl i j (in_test i j ut s) =
     (if same_fixture i j ut then Some (Inr (Inr True, in_test i j ut s))
      else Some (Inr (Inr False, in_test i j ut (fst s @ [kNonFatalFailure], snd s))))"
    using assms(2)
    by (simp add: HasSameFixtureClass_def Let_def in_test_fixture same_fixture_def gbind_def gret_def
        AddTestPartResult_quiet [OF assms(1)] in_test_report)
  have body: "gbind (if \<not> b then gbind (HandleExceptionsInMethodIfSupported fl (run_code fl c)) (\<lambda>_. gret ()) else gret ())
        g (in_test i j ut s)
      = run_bind (if b then Some (Inr (True, s)) else spec_code c s) (\<lambda>(_, s). g () (in_test i j ut s))"
    for b c g s
    by (simp add: gbind_assoc h gret_def [of _ "in_test i j ut s"])
  show ?thesis
  proof (cases "same_fixture i j ut")
    case True
    have "Test_Run fl i j ti (in_test i j ut s) =
        gbind (HandleExceptionsInMethodIfSupported fl (run_code fl (ti_SetUp ti))) (\<lambda>_.
        gbind (gget HasFatalFailure) (\<lambda>fatal.
        gbind (if \<not> fatal then
                 gbind (HandleExceptionsInMethodIfSupported fl (run_code fl (ti_TestBody ti))) (\<lambda>_. gret ())
               else gret ()) (\<lambda>_.
        gbind (HandleExceptionsInMethodIfSupported fl (run_code fl (ti_TearDown ti))) (\<lambda>_. gret ()))))
        (in_test i j ut s)"
      unfolding Test_Run_def using True by (subst gbind_def) (simp add: same)
    then show ?thesis
      using True unfolding h f body
      by (simp add: spec_Test_def run_bind_assoc case_prod_unfold gret_def)
  next
    case False
    then show ?thesis
      unfolding Test_Run_def by (subst gbind_def) (simp add: same spec_Test_def gret_def)
  qed
qed

lemma TestInfo_Run_spec:
  assumes "quiet fl" and "test_at i j ut" and "ut_catch_exceptions ut"
    and ti: "ti = tc_test_info_list (ut_test_cases ut ! i) ! j" and "ti_should_run ti"
  shows "TestInfo_Run fl i j ut =
     run_bind (spec_TestInfo (same_fixture i j ut) ti (ti_result ti, ut_world ut)) (\<lambda>(rs, w).
       Some (Inr (Inr (), (update_result (\<lambda>_. rs) i j ut)\<lparr>ut_current_test_info := None, ut_world := w\<rparr>)))"
proof -
  note h = gbind_handled [OF assms(1-3)] and f = gbind_fatal [OF assms(2)]
  let ?s = "(ti_result ti, ut_world ut)"
  have start: "ut\<lparr>ut_current_test_info := Some (i, j)\<rparr> = in_test i j ut ?s"
    using assms(2) ti by (cases ut) (simp add: in_test_def update_result_def update_nth_def test_at_def)
  have stop: "(in_test i j ut s)\<lparr>ut_current_test_info := None\<rparr>
      = (update_result (\<lambda>_. fst s) i j ut)\<lparr>ut_current_test_info := None, ut_world := snd s\<rparr>" for s
    by (simp add: in_test_def)
  have body: "gbind (if b then Test_Run fl i j ti else gret ()) g (in_test i j ut s)
      = run_bind (if b then spec_Test (same_fixture i j ut) ti s else Some (Inr s)) (\<lambda>s. g () (in_test i j ut s))"
    for b g s
    by (rule gbind_spec) (simp add: Test_Run_spec [OF assms(1-3)] gret_def)
  have dtor: "gbind (if test = None then gfail NullDeref
        else HandleExceptionsInMethodIfSupported fl (run_code fl c)) g (in_test i j ut s)
      = (if test = None then Some (Inl NullDeref)
         else run_bind (spec_code c s) (\<lambda>(ok, s). g (if ok then Some () else None) (in_test i j ut s)))"
    for test :: "unit option" and c and g :: "unit option \<Rightarrow> ('a, unit) gt" and s
    by (cases test) (simp_all add: h gfail_def)
  have "TestInfo_Run fl i j ut =
      gbind (HandleExceptionsInMethodIfSupported fl (run_code fl (ti_constructor ti))) (\<lambda>test.
      gbind (gget HasFatalFailure) (\<lambda>fatal.
      gbind (if test \<noteq> None \<and> \<not> fatal then Test_Run fl i j ti else gret ()) (\<lambda>_.
      gbind (if test = None then gfail NullDeref
             else HandleExceptionsInMethodIfSupported fl (run_code fl (ti_destructor ti))) (\<lambda>_.
      gmod (\<lambda>ut. ut\<lparr>ut_current_test_info := None\<rparr>))))) (in_test i j ut ?s)"
    using assms(5) unfolding TestInfo_Run_def ti [symmetric] Let_def
    by (simp add: gbind_def [of "gmod _"] gmod_def [of "\<lambda>ut. ut\<lparr>ut_current_test_info := Some (i, j)\<rparr>"] gret_def start)
  moreover have "((if b then Some () else None) = Some ()) = b" "((if b then Some () else None) = None) = (\<not> b)" for b
    by simp_all
  ultimately show ?thesis
    unfolding h f body dtor
    by (simp add: spec_TestInfo_def run_bind_assoc case_prod_unfold gmod_def gret_def stop if_distrib [of "\<lambda>m. run_bind m _"]
        if_distribR cong: if_cong)
qed

subsection \<open>A program of one test\<close>

text \<open>A test of a \<open>TEST\<close> macro has a body only.\<close>

definition nop :: "'w code" where "nop w = Some (Inr (Ends w))"

definition TEST_info :: "string \<Rightarrow> string \<Rightarrow> 'w code \<Rightarrow> TestPartResult list \<Rightarrow> bool \<Rightarrow> 'w TestInfo" where
  "TEST_info tc tn body rs run =
     \<lparr>ti_test_case_name = tc, ti_name = tn, ti_fixture_class_id = 0, ti_should_run = run, ti_is_disabled = False,
      ti_matches_filter = run, ti_constructor = nop, ti_SetUp = nop, ti_TestBody = body, ti_TearDown = nop,
      ti_destructor = nop, ti_result = rs\<rparr>"

definition one_test ::
    "string \<Rightarrow> string \<Rightarrow> 'w code \<Rightarrow> TestPartResult list \<Rightarrow> 'w \<Rightarrow> int \<Rightarrow> u32 \<Rightarrow> 'w UnitTestImpl" where
  "one_test tc tn body rs w seed rnd =
     \<lparr>ut_environments = [],
      ut_test_cases = [\<lparr>tc_name = tc, tc_test_info_list = [TEST_info tc tn body rs True],
                        tc_test_indices = [0], tc_set_up = nop, tc_tear_down = nop, tc_should_run = True\<rparr>],
      ut_test_case_indices = [0], ut_last_death_test_case = -1, ut_current_test_case = None,
      ut_current_test_info = None, ut_ad_hoc_test_result = [], ut_random_seed = seed, ut_random = rnd,
      ut_catch_exceptions = True, ut_world = w\<rparr>"

lemma spec_code_nop [simp]: "spec_code nop s = Some (Inr (True, s))"
  by (simp add: spec_code_def nop_def handled_def)

lemma spec_one_test:
  "spec_TestInfo True (TEST_info tc tn body rs True) ([], w) =
     run_bind (body w) (\<lambda>t. Some (Inr (handled t, final t)))"
  by (simp add: spec_TestInfo_def spec_Test_def TEST_info_def spec_code_def [of body] run_bind_assoc)

lemma handle_nop:
  "HandleExceptionsInMethodIfSupported fl (run_code fl nop) ut = gret (Some ()) ut"
  by (simp add: HandleExceptionsInMethodIfSupported_def run_code_def nop_def gmod_def gret_def gbind_def)

lemma TestCase_Run_one:
  assumes "quiet fl"
  shows "TestCase_Run fl 0 (one_test tc tn body [] w seed rnd) =
     run_bind (body w) (\<lambda>t. Some (Inr (Inr (), one_test tc tn body (handled t) (final t) seed rnd)))"
proof -
  let ?ut = "(one_test tc tn body [] w seed rnd)\<lparr>ut_current_test_case := Some 0\<rparr>"
  have here: "test_at 0 0 ?ut" "ut_catch_exceptions ?ut" "same_fixture 0 0 ?ut"
    by (simp_all add: test_at_def one_test_def same_fixture_def)
  have ti: "TEST_info tc tn body [] True = tc_test_info_list (ut_test_cases ?ut ! 0) ! 0"
    "ti_should_run (TEST_info tc tn body [] True)" "ti_result (TEST_info tc tn body [] True) = []"
    "ut_world ?ut = w"
    by (simp_all add: one_test_def TEST_info_def)
  have upd: "(update_result (\<lambda>_. rs) 0 0 ?ut)\<lparr>ut_current_test_info := None, ut_world := v\<rparr>
      = (one_test tc tn body rs v seed rnd)\<lparr>ut_current_test_case := Some 0\<rparr>" for rs v
    by (simp add: update_result_def one_test_def update_nth_def TEST_info_def)
  have run: "TestInfo_Run fl 0 0 ?ut = run_bind (body w) (\<lambda>t. Some (Inr (Inr (),
      (one_test tc tn body (handled t) (final t) seed rnd)\<lparr>ut_current_test_case := Some 0\<rparr>)))"
    unfolding TestInfo_Run_spec [OF assms here(1,2) ti(1,2)] ti(3,4)
    by (simp add: here(3) spec_one_test run_bind_assoc upd)
  have loop: "gfor [0..<length (tc_test_info_list (ut_test_cases (one_test tc tn body [] w seed rnd) ! 0))]
      (\<lambda>k. case GetMutableTestInfo (ut_test_cases (one_test tc tn body [] w seed rnd) ! 0) k of
             None \<Rightarrow> gfail NullDeref | Some j \<Rightarrow> TestInfo_Run fl 0 j)
    = gbind (TestInfo_Run fl 0 0) (\<lambda>_. gret ())"
    by (simp add: one_test_def GetMutableTestInfo_def GetElementOr_def)
  have code: "tc_should_run (ut_test_cases (one_test tc tn body [] w seed rnd) ! 0)"
    "tc_set_up (ut_test_cases (one_test tc tn body [] w seed rnd) ! 0) = nop"
    "tc_tear_down (ut_test_cases (one_test tc tn body [] w seed rnd) ! 0) = nop"
    by (simp_all add: one_test_def)
  have idle: "(one_test tc tn body rs v seed rnd)\<lparr>ut_current_test_case := None\<rparr> = one_test tc tn body rs v seed rnd" for rs v
    by (simp add: one_test_def)
  show ?thesis
    unfolding TestCase_Run_def Let_def loop
    by (simp add: code gbind_def gmod_def gret_def handle_nop run run_bind_assoc idle)
qed

lemma one_test_simps:
  "ClearNonAdHocTestResult (one_test tc tn body rs w seed rnd) = one_test tc tn body [] w seed rnd"
  "UnitTest_Failed (one_test tc tn body rs w seed rnd) = result_failed rs"
  "UnshuffleTests (one_test tc tn body rs w seed rnd) = Inr (one_test tc tn body rs w seed rnd)"
  "ShuffleTests (one_test tc tn body rs w seed rnd) = Inr (one_test tc tn body rs w seed rnd)"
  "HasFatalFailure (one_test tc tn body rs w seed rnd) = False"
  "ut_environments (one_test tc tn body rs w seed rnd) = []"
  "length (ut_test_cases (one_test tc tn body rs w seed rnd)) = 1"
  "GetMutableTestCase (one_test tc tn body rs w seed rnd) 0 = Some 0"
  "ut_random_seed (one_test tc tn body rs w seed rnd) = seed"
  "(one_test tc tn body rs w seed rnd)\<lparr>ut_random := rnd'\<rparr> = one_test tc tn body rs w seed rnd'"
  "(one_test tc tn body rs w seed rnd)\<lparr>ut_random_seed := seed'\<rparr> = one_test tc tn body rs w seed' rnd"
  by (simp_all add: one_test_def TEST_info_def ClearNonAdHocTestResult_def UnitTest_Failed_def CountIf_def
      TestCaseFailed_def TestFailed_def UnshuffleTests_def TestCase_UnshuffleTests_def ShuffleTests_def
      ShuffleRange_def Shuffle_def HasFatalFailure_def current_test_result_def result_failed_def
      GetMutableTestCase_def GetElementOr_def)

lemma run_iteration_one:
  assumes "quiet fl"
  shows "\<exists>rnd'. run_iteration fl True (one_test tc tn body rs w seed rnd) =
     run_bind (body w) (\<lambda>t. Some (Inr (Inr (), one_test tc tn body (handled t) (final t) seed rnd')))"
proof -
  define rnd' where "rnd' = (if gf_shuffle fl then word_of_int seed else rnd)"
  have shuffled: "gbind (if gf_shuffle fl then
        gbind (gmod (\<lambda>ut. ut\<lparr>ut_random := word_of_int (ut_random_seed ut)\<rparr>)) (\<lambda>_. glift ShuffleTests)
      else gret ()) f (one_test tc tn body [] w seed rnd) = f () (one_test tc tn body [] w seed rnd')" for f
    by (simp add: gbind_assoc gbind_glift one_test_simps rnd'_def)
  have cases: "gbind (if \<not> HasFatalFailure (one_test tc tn body [] w seed rnd') then
        gbind (gget (\<lambda>ut. length (ut_test_cases ut))) (\<lambda>n.
        gfor [0..<n] (\<lambda>test_index. gbind (gget (\<lambda>ut. GetMutableTestCase ut test_index)) (\<lambda>tc.
          case tc of None \<Rightarrow> gfail NullDeref | Some i \<Rightarrow> TestCase_Run fl i)))
      else gret ()) (\<lambda>_. gfor [] (\<lambda>env. run_code fl (snd env))) (one_test tc tn body [] w seed rnd')
    = gbind (TestCase_Run fl 0) (\<lambda>_. gret ()) (one_test tc tn body [] w seed rnd')"
    by (simp add: one_test_simps gbind_assoc)
  have "run_iteration fl True (one_test tc tn body rs w seed rnd) =
      gbind (TestCase_Run fl 0) (\<lambda>_. gret ()) (one_test tc tn body [] w seed rnd')"
    unfolding run_iteration_def using cases by (simp add: one_test_simps shuffled)
  also have "\<dots> = run_bind (body w) (\<lambda>t. Some (Inr (Inr (), one_test tc tn body (handled t) (final t) seed rnd')))"
    by (simp add: gbind_def TestCase_Run_one [OF assms] run_bind_assoc gret_def)
  finally show ?thesis by blast
qed

definition always_fails :: "'w code \<Rightarrow> bool" where
  "always_fails body \<longleftrightarrow> (\<forall>w t. body w = Some (Inr t) \<longrightarrow> result_failed (handled t))"

definition seed_ok :: "GTestFlags \<Rightarrow> int \<Rightarrow> bool" where
  "seed_ok fl seed \<longleftrightarrow> (gf_shuffle fl \<longrightarrow> 1 \<le> seed \<and> seed \<le> kMaxRandomSeed)"

lemma GetNextRandomSeed_ok:
  assumes "1 \<le> seed" "seed \<le> kMaxRandomSeed"
  shows "\<exists>s. GetNextRandomSeed seed = Inr s \<and> 1 \<le> s \<and> s \<le> kMaxRandomSeed"
  using assms by (simp add: GetNextRandomSeed_def Let_def kMaxRandomSeed_def)

lemma GetRandomSeedFromFlag_ok:
  "1 \<le> GetRandomSeedFromFlag now flag \<and> GetRandomSeedFromFlag now flag \<le> kMaxRandomSeed"
proof -
  have "uint (v mod 99999) \<le> 99998" for v :: u32
    using pos_mod_bound [of 99999 "uint v"] by (simp add: uint_mod)
  then show ?thesis
    by (simp add: GetRandomSeedFromFlag_def Let_def kMaxRandomSeed_def)
qed

lemma repeat_loop_step:
  assumes "quiet fl" and "rep < 0 \<or> i \<noteq> rep" and "seed_ok fl seed"
  shows "\<exists>seed' rnd'. seed_ok fl seed' \<and>
     repeat_loop fl True rep i failed (one_test tc tn body rs w seed rnd) =
      run_bind (body w) (\<lambda>t. (if i + 1 < 2 ^ 31
         then repeat_loop fl True rep (i + 1) (if result_failed (handled t) then True else failed)
         else gfail SignedOverflow) (one_test tc tn body (handled t) (final t) seed' rnd'))"
proof -
  obtain rnd' where it: "run_iteration fl True (one_test tc tn body rs w seed rnd) =
     run_bind (body w) (\<lambda>t. Some (Inr (Inr (), one_test tc tn body (handled t) (final t) seed rnd')))"
    by (rule exE [OF run_iteration_one [OF assms(1)]])
  obtain seed' where seed': "(if gf_shuffle fl then GetNextRandomSeed seed else Inr seed) = Inr seed'"
    "seed_ok fl seed'"
    using assms(3) GetNextRandomSeed_ok [of seed] by (cases "gf_shuffle fl") (auto simp: seed_ok_def)
  have next_seed: "gbind (if gf_shuffle fl then
        glift (\<lambda>ut. rbind (GetNextRandomSeed (ut_random_seed ut)) (\<lambda>s. Inr (ut\<lparr>ut_random_seed := s\<rparr>)))
      else gret ()) f (one_test tc tn body rs v seed rnd') = f () (one_test tc tn body rs v seed' rnd')" for f rs v
    using seed'(1) by (simp add: gbind_def glift_def gret_def one_test_simps split: if_splits)
  have "repeat_loop fl True rep i failed (one_test tc tn body rs w seed rnd) =
    run_bind (body w) (\<lambda>t. (if i + 1 < 2 ^ 31
       then repeat_loop fl True rep (i + 1) (if result_failed (handled t) then True else failed)
       else gfail SignedOverflow) (one_test tc tn body (handled t) (final t) seed' rnd'))"
    using assms(2)
    by (subst repeat_loop.simps)
      (simp add: gbind_def [of "run_iteration fl True"] it run_bind_assoc gbind_def [of "gget _"] gget_def
        gbind_def [of "glift UnshuffleTests"] glift_def [of UnshuffleTests] gret_def one_test_simps next_seed
        Let_def cong: if_cong)
  with seed'(2) show ?thesis by blast
qed

lemma repeat_loop_fails:
  assumes "quiet fl" and "always_fails body"
    and "repeat_loop fl True rep i failed (one_test tc tn body rs w seed rnd) = Some (Inr (r, ut'))"
    and "rep < 0 \<or> i \<noteq> rep \<or> failed" and "seed_ok fl seed"
  shows "r = Inr False"
  using assms(3-5)
proof (induction "nat (2 ^ 31 - i)" arbitrary: i failed rs w seed rnd rule: less_induct)
  case less
  show ?case
  proof (cases "rep < 0 \<or> i \<noteq> rep")
    case False
    with less.prems show ?thesis by (simp add: repeat_loop.simps [of fl True rep i] gret_def)
  next
    case go: True
    obtain seed' rnd' where seed': "seed_ok fl seed'"
      and step: "repeat_loop fl True rep i failed (one_test tc tn body rs w seed rnd) =
      run_bind (body w) (\<lambda>t. (if i + 1 < 2 ^ 31
         then repeat_loop fl True rep (i + 1) (if result_failed (handled t) then True else failed)
         else gfail SignedOverflow) (one_test tc tn body (handled t) (final t) seed' rnd'))"
      using repeat_loop_step [OF assms(1) go less.prems(3),
          where failed = failed and tc = tc and tn = tn and body = body and rs = rs and w = w and rnd = rnd]
      by (elim exE conjE) (rule that)
    with less.prems(1) obtain t where t: "body w = Some (Inr t)"
      and rest: "(if i + 1 < 2 ^ 31
         then repeat_loop fl True rep (i + 1) (if result_failed (handled t) then True else failed)
         else gfail SignedOverflow) (one_test tc tn body (handled t) (final t) seed' rnd') = Some (Inr (r, ut'))"
      by (auto simp del: power_numeral)
    have f: "result_failed (handled t)" using assms(2) t by (simp add: always_fails_def)
    have bound: "i + 1 < 2 ^ 31" using rest by (auto simp: gfail_def split: if_splits)
    then have "nat (2 ^ 31 - (i + 1)) < nat (2 ^ 31 - i)" by simp
    from less.hyps [OF this _ _ seed'] rest f bound show ?thesis by simp
  qed
qed

text \<open>A run that repeats a finite number of times returns, if the body does in the worlds that arise.\<close>

lemma repeat_loop_returns:
  assumes "quiet fl" and "\<forall>s \<in> W. \<exists>t. body s = Some (Inr t) \<and> final t \<in> W" and "rep < 2 ^ 31"
    and "w \<in> W" and "seed_ok fl seed" and "0 \<le> i" "i \<le> rep"
  shows "\<exists>b ut'. repeat_loop fl True rep i failed (one_test tc tn body rs w seed rnd) = Some (Inr (Inr b, ut'))"
  using assms(4-)
proof (induction "nat (rep - i)" arbitrary: i failed rs w seed rnd rule: less_induct)
  case less
  show ?case
  proof (cases "i = rep")
    case True
    with less.prems(3) show ?thesis by (simp add: repeat_loop.simps [of fl True rep rep] gret_def)
  next
    case False
    obtain seed' rnd' where seed': "seed_ok fl seed'"
      and step: "repeat_loop fl True rep i failed (one_test tc tn body rs w seed rnd) =
      run_bind (body w) (\<lambda>t. (if i + 1 < 2 ^ 31
         then repeat_loop fl True rep (i + 1) (if result_failed (handled t) then True else failed)
         else gfail SignedOverflow) (one_test tc tn body (handled t) (final t) seed' rnd'))"
      using repeat_loop_step [OF assms(1) disjI2 [OF False] less.prems(2),
          where failed = failed and tc = tc and tn = tn and body = body and rs = rs and w = w and rnd = rnd]
      by (elim exE conjE) (rule that)
    obtain t where t: "body w = Some (Inr t)" "final t \<in> W" using assms(2) less.prems(1) by blast
    have i: "i + 1 \<le> rep" "0 \<le> i + 1" "i + 1 < 2 ^ 31" "nat (rep - (i + 1)) < nat (rep - i)"
      using less.prems(3,4) False assms(3) by auto
    show ?thesis
      unfolding step t(1) run_bind_simps if_P [OF i(3)] by (rule less.hyps [OF i(4) t(2) seed' i(2,1)])
  qed
qed

text \<open>The program as the macro registers it, and what \<open>main\<close> runs.\<close>

definition test_program :: "string \<Rightarrow> string \<Rightarrow> 'w code \<Rightarrow> 'w \<Rightarrow> 'w UnitTestImpl" where
  "test_program tc tn body w =
     AddTestInfo nop nop (TEST_info tc tn body [] False) (new_UnitTestImpl w)"

text \<open>A test whose names mark neither a death test nor a disabled one.\<close>

definition ordinary :: "string \<Rightarrow> string \<Rightarrow> bool" where
  "ordinary tc tn \<longleftrightarrow> \<not> is_death_test_case tc \<and>
     \<not> MatchesFilter tc kDisableTestFilter \<and> \<not> MatchesFilter tn kDisableTestFilter"

definition idle_test :: "string \<Rightarrow> string \<Rightarrow> 'w code \<Rightarrow> 'w \<Rightarrow> int \<Rightarrow> 'w UnitTestImpl" where
  "idle_test tc tn body w seed = (one_test tc tn body [] w seed 0)
     \<lparr>ut_test_cases := [\<lparr>tc_name = tc, tc_test_info_list = [TEST_info tc tn body [] False],
        tc_test_indices = [0], tc_set_up = nop, tc_tear_down = nop, tc_should_run = False\<rparr>]\<rparr>"

lemma idle_test_simps:
  "ut_world (idle_test tc tn body w seed) = w" "ut_random_seed (idle_test tc tn body w seed) = seed"
  "(idle_test tc tn body w seed)\<lparr>ut_random_seed := seed'\<rparr> = idle_test tc tn body w seed'"
  "ClearNonAdHocTestResult (idle_test tc tn body w seed) = idle_test tc tn body w seed"
  "UnitTest_Failed (idle_test tc tn body w seed) = False"
  "UnshuffleTests (idle_test tc tn body w seed) = Inr (idle_test tc tn body w seed)"
  by (simp_all add: idle_test_def one_test_def TEST_info_def ClearNonAdHocTestResult_def UnitTest_Failed_def
      CountIf_def TestCaseFailed_def result_failed_def UnshuffleTests_def TestCase_UnshuffleTests_def)

lemma FilterTests_test_program:
  assumes "ordinary tc tn"
  shows "FilterTests fl env IGNORE_SHARDING_PROTOCOL
      ((test_program tc tn body w)\<lparr>ut_catch_exceptions := True, ut_world := v\<rparr>)
    = Inr (if FilterMatchesTest (gf_filter fl) tc tn then (1, one_test tc tn body [] v 0 0)
           else (0, idle_test tc tn body v 0))"
  using assms
  by (simp add: ordinary_def test_program_def AddTestInfo_def FindTestCase_def new_UnitTestImpl_def new_TestCase_def
      TestCase_AddTestInfo_def update_nth_def TEST_info_def FilterTests_def one_test_def idle_test_def Let_def)

lemma test_program_world:
  "(test_program tc tn body w)\<lparr>ut_catch_exceptions := True, ut_world := w\<rparr>
     = (test_program tc tn body w)\<lparr>ut_catch_exceptions := True\<rparr>"
  "ut_world (test_program tc tn body w) = w"
  by (simp_all add: test_program_def AddTestInfo_def FindTestCase_def new_UnitTestImpl_def Let_def)

text \<open>A run that gets past the status file of a shard.\<close>

lemma status_written:
  assumes run: "RunAllTests fl E True False ((test_program tc tn body w)\<lparr>ut_catch_exceptions := True\<rparr>)
      = Some (Inr (r, ut'))"
  shows "\<exists>v. WriteToShardStatusFileIfNeeded E ((test_program tc tn body w)\<lparr>ut_catch_exceptions := True\<rparr>)
      = gret () ((test_program tc tn body w)\<lparr>ut_catch_exceptions := True, ut_world := v\<rparr>)"
proof -
  let ?ut = "(test_program tc tn body w)\<lparr>ut_catch_exceptions := True\<rparr>"
  have same: "?ut\<lparr>ut_world := w\<rparr> = ?ut" "ut_world ?ut = w" by (simp_all add: test_program_world)
  show ?thesis
  proof (cases "ge_environ E kTestShardStatusFile")
    case None
    with same(1) show ?thesis by (intro exI [of _ w]) (simp add: WriteToShardStatusFileIfNeeded_def)
  next
    case (Some path)
    obtain ok v where o: "ge_FOpen E w path = (ok, v)" by fastforce
    have ok
      using run Some o same(2)
      by (cases ok) (simp_all add: RunAllTests_def gbind_def WriteToShardStatusFileIfNeeded_def gfail_def)
    with Some o same(2) show ?thesis
      by (intro exI [of _ v]) (simp add: WriteToShardStatusFileIfNeeded_def)
  qed
qed

lemma RunAllTests_test_program:
  assumes "ordinary tc tn" and "gf_internal_run_death_test fl = ''''"
    and "ge_environ E kTestTotalShards = None" "ge_environ E kTestShardIndex = None"
    and "WriteToShardStatusFileIfNeeded E ((test_program tc tn body w)\<lparr>ut_catch_exceptions := True\<rparr>)
      = gret () ((test_program tc tn body w)\<lparr>ut_catch_exceptions := True, ut_world := v\<rparr>)"
  shows "\<exists>seed ut1. seed_ok fl seed \<and>
     RunAllTests fl E True False ((test_program tc tn body w)\<lparr>ut_catch_exceptions := True\<rparr>) =
      (if gf_list_tests fl then gret True ut1
       else if FilterMatchesTest (gf_filter fl) tc tn
       then repeat_loop fl True (gf_repeat fl) 0 False (one_test tc tn body [] v seed 0)
       else repeat_loop fl False (gf_repeat fl) 0 False (idle_test tc tn body v seed))"
proof -
  let ?seed = "if gf_shuffle fl then GetRandomSeedFromFlag (ge_time E v) (gf_random_seed fl) else 0"
  have shard: "ShouldShard (ge_environ E) kTestTotalShards kTestShardIndex False = Inr False"
    using assms(3,4) by (simp add: ShouldShard_def Int32FromEnvOrDie_def)
  have world: "ut_world (one_test tc tn body [] v 0 0) = v" by (simp add: one_test_def)
  have "RunAllTests fl E True False ((test_program tc tn body w)\<lparr>ut_catch_exceptions := True\<rparr>) =
      (if gf_list_tests fl
       then gret True (if FilterMatchesTest (gf_filter fl) tc tn then one_test tc tn body [] v 0 0 else idle_test tc tn body v 0)
       else if FilterMatchesTest (gf_filter fl) tc tn
       then repeat_loop fl True (gf_repeat fl) 0 False (one_test tc tn body [] v ?seed 0)
       else repeat_loop fl False (gf_repeat fl) 0 False (idle_test tc tn body v ?seed))"
    using assms(2,5) FilterTests_test_program [OF assms(1), where env = "ge_environ E" and body = body and w = w and v = v]
    by (simp add: RunAllTests_def gbind_def gret_def Let_def shard world one_test_simps idle_test_simps)
  moreover have "seed_ok fl ?seed" using GetRandomSeedFromFlag_ok by (simp add: seed_ok_def)
  ultimately show ?thesis by blast
qed

text \<open>With the test left out nothing runs and nothing fails.\<close>

lemma repeat_loop_idle_step:
  assumes "rep < 0 \<or> i \<noteq> rep" and "seed_ok fl seed"
  shows "\<exists>seed'. seed_ok fl seed' \<and>
     repeat_loop fl False rep i False (idle_test tc tn body w seed) =
      (if i + 1 < 2 ^ 31 then repeat_loop fl False rep (i + 1) False else gfail SignedOverflow)
        (idle_test tc tn body w seed')"
proof -
  obtain seed' where seed': "(if gf_shuffle fl then GetNextRandomSeed seed else Inr seed) = Inr seed'"
    "seed_ok fl seed'"
    using assms(2) GetNextRandomSeed_ok [of seed] by (cases "gf_shuffle fl") (auto simp: seed_ok_def)
  have next_seed: "gbind (if gf_shuffle fl then
        glift (\<lambda>ut. rbind (GetNextRandomSeed (ut_random_seed ut)) (\<lambda>s. Inr (ut\<lparr>ut_random_seed := s\<rparr>)))
      else gret ()) f (idle_test tc tn body w seed) = f () (idle_test tc tn body w seed')" for f
    using seed'(1) by (simp add: gbind_def glift_def gret_def idle_test_simps split: if_splits)
  have it: "run_iteration fl False (idle_test tc tn body w seed) = gret () (idle_test tc tn body w seed)"
    by (simp add: run_iteration_def idle_test_simps)
  have "repeat_loop fl False rep i False (idle_test tc tn body w seed) =
      (if i + 1 < 2 ^ 31 then repeat_loop fl False rep (i + 1) False else gfail SignedOverflow)
        (idle_test tc tn body w seed')"
    using assms(1)
    by (subst repeat_loop.simps)
      (simp add: gbind_def [of "run_iteration fl False"] it gret_def
        gbind_def [of "glift UnshuffleTests"] glift_def [of UnshuffleTests] idle_test_simps next_seed
        Let_def cong: if_cong)
  with seed'(2) show ?thesis by blast
qed

lemma repeat_loop_idle:
  assumes "repeat_loop fl False rep i False (idle_test tc tn body w seed) = Some (Inr (r, ut'))" and "seed_ok fl seed"
  shows "r = Inr True"
  using assms
proof (induction "nat (2 ^ 31 - i)" arbitrary: i seed rule: less_induct)
  case less
  show ?case
  proof (cases "rep < 0 \<or> i \<noteq> rep")
    case False
    with less.prems show ?thesis by (simp add: repeat_loop.simps [of fl False rep i] gret_def)
  next
    case True
    from repeat_loop_idle_step [OF this less.prems(2), where tc = tc and tn = tn and body = body and w = w] obtain seed' where seed': "seed_ok fl seed'"
      and step: "repeat_loop fl False rep i False (idle_test tc tn body w seed) =
        (if i + 1 < 2 ^ 31 then repeat_loop fl False rep (i + 1) False else gfail SignedOverflow)
          (idle_test tc tn body w seed')" by (elim exE conjE) (rule that)
    have bound: "i + 1 < 2 ^ 31" using less.prems(1) unfolding step by (auto simp: gfail_def split: if_splits)
    then have "nat (2 ^ 31 - (i + 1)) < nat (2 ^ 31 - i)" by simp
    from less.hyps [OF this _ seed'] less.prems(1) bound show ?thesis unfolding step by simp
  qed
qed

lemma repeat_loop_idle_returns:
  assumes "0 \<le> i" "i \<le> rep" "rep < 2 ^ 31" and "seed_ok fl seed"
  shows "\<exists>ut'. repeat_loop fl False rep i False (idle_test tc tn body w seed) = Some (Inr (Inr True, ut'))"
  using assms
proof (induction "nat (rep - i)" arbitrary: i seed rule: less_induct)
  case less
  show ?case
  proof (cases "i = rep")
    case True
    with less.prems(1) show ?thesis by (simp add: repeat_loop.simps [of fl False rep rep] gret_def)
  next
    case False
    from repeat_loop_idle_step [OF disjI2 [OF False] less.prems(4), where tc = tc and tn = tn and body = body and w = w]
      obtain seed' where seed': "seed_ok fl seed'"
      and step: "repeat_loop fl False rep i False (idle_test tc tn body w seed) =
        (if i + 1 < 2 ^ 31 then repeat_loop fl False rep (i + 1) False else gfail SignedOverflow)
          (idle_test tc tn body w seed')" by (elim exE conjE) (rule that)
    have i: "nat (rep - (i + 1)) < nat (rep - i)" "0 \<le> i + 1" "i + 1 \<le> rep" "i + 1 < 2 ^ 31"
      using less.prems False by auto
    show ?thesis unfolding step if_P [OF i(4)] by (rule less.hyps [OF i(1-3) less.prems(3) seed'])
  qed
qed

text \<open>The verdict on a test that always fails, and that there is one.\<close>

definition exit_success :: "GTestFlags \<Rightarrow> string \<Rightarrow> string \<Rightarrow> bool" where
  "exit_success fl tc tn \<longleftrightarrow> gf_list_tests fl \<or> gf_repeat fl = 0 \<or> \<not> FilterMatchesTest (gf_filter fl) tc tn"

lemma RunAllTests_verdict:
  assumes "quiet fl" and "ordinary tc tn" and "gf_internal_run_death_test fl = ''''"
    and "ge_environ E kTestTotalShards = None" "ge_environ E kTestShardIndex = None" and "always_fails body"
    and run: "RunAllTests fl E True False ((test_program tc tn body w)\<lparr>ut_catch_exceptions := True\<rparr>)
      = Some (Inr (r, ut'))"
  shows "r = Inr (exit_success fl tc tn)"
proof -
  obtain v where "WriteToShardStatusFileIfNeeded E ((test_program tc tn body w)\<lparr>ut_catch_exceptions := True\<rparr>)
      = gret () ((test_program tc tn body w)\<lparr>ut_catch_exceptions := True, ut_world := v\<rparr>)"
    by (rule exE [OF status_written [OF run]])
  from RunAllTests_test_program [OF assms(2-5) this] obtain seed ut1 where seed: "seed_ok fl seed"
    and eq: "RunAllTests fl E True False ((test_program tc tn body w)\<lparr>ut_catch_exceptions := True\<rparr>) =
      (if gf_list_tests fl then gret True ut1
       else if FilterMatchesTest (gf_filter fl) tc tn
       then repeat_loop fl True (gf_repeat fl) 0 False (one_test tc tn body [] v seed 0)
       else repeat_loop fl False (gf_repeat fl) 0 False (idle_test tc tn body v seed))"
    by (elim exE conjE) (rule that)
  show ?thesis
  proof (cases "gf_list_tests fl")
    case False
    show ?thesis
    proof (cases "FilterMatchesTest (gf_filter fl) tc tn")
      case True
      with False run eq have loop: "repeat_loop fl True (gf_repeat fl) 0 False (one_test tc tn body [] v seed 0)
        = Some (Inr (r, ut'))" by simp
      show ?thesis
      proof (cases "gf_repeat fl = 0")
        case True
        with loop show ?thesis by (simp add: repeat_loop.simps [of fl True 0 0] gret_def exit_success_def)
      next
        case rep: False
        with True False repeat_loop_fails [OF assms(1,6) loop _ seed] show ?thesis by (simp add: exit_success_def)
      qed
    next
      case none: False
      with False run eq have "repeat_loop fl False (gf_repeat fl) 0 False (idle_test tc tn body v seed)
        = Some (Inr (r, ut'))" by simp
      from repeat_loop_idle [OF this seed] none show ?thesis by (simp add: exit_success_def)
    qed
  qed (use run eq in \<open>simp add: gret_def exit_success_def\<close>)
qed

lemma RunAllTests_returns:
  assumes "quiet fl" and "ordinary tc tn" and "gf_internal_run_death_test fl = ''''"
    and "ge_environ E kTestTotalShards = None" "ge_environ E kTestShardIndex = None"
    and "ge_environ E kTestShardStatusFile = None" and "0 \<le> gf_repeat fl" "gf_repeat fl < 2 ^ 31"
    and "w \<in> W" and "\<forall>s \<in> W. \<exists>t. body s = Some (Inr t) \<and> final t \<in> W"
  shows "\<exists>b ut'. RunAllTests fl E True False ((test_program tc tn body w)\<lparr>ut_catch_exceptions := True\<rparr>)
    = Some (Inr (Inr b, ut'))"
proof -
  have "WriteToShardStatusFileIfNeeded E ((test_program tc tn body w)\<lparr>ut_catch_exceptions := True\<rparr>)
      = gret () ((test_program tc tn body w)\<lparr>ut_catch_exceptions := True, ut_world := w\<rparr>)"
    using assms(6) by (simp add: WriteToShardStatusFileIfNeeded_def test_program_world)
  from RunAllTests_test_program [OF assms(2-5) this] obtain seed ut1 where seed: "seed_ok fl seed"
    and eq: "RunAllTests fl E True False ((test_program tc tn body w)\<lparr>ut_catch_exceptions := True\<rparr>) =
      (if gf_list_tests fl then gret True ut1
       else if FilterMatchesTest (gf_filter fl) tc tn
       then repeat_loop fl True (gf_repeat fl) 0 False (one_test tc tn body [] w seed 0)
       else repeat_loop fl False (gf_repeat fl) 0 False (idle_test tc tn body w seed))"
    by (elim exE conjE) (rule that)
  have "\<exists>b ut'. repeat_loop fl True (gf_repeat fl) 0 False (one_test tc tn body [] w seed 0) = Some (Inr (Inr b, ut'))"
    by (rule repeat_loop_returns [OF assms(1,10,8,9) seed order_refl assms(7)])
  moreover have "\<exists>ut'. repeat_loop fl False (gf_repeat fl) 0 False (idle_test tc tn body w seed) = Some (Inr (Inr True, ut'))"
    by (rule repeat_loop_idle_returns [OF order_refl assms(7,8) seed])
  ultimately show ?thesis unfolding eq by (auto simp: gret_def)
qed

text \<open>The exit code.\<close>

lemma UnitTest_Run_eq:
  assumes "gf_catch_exceptions fl"
  shows "UnitTest_Run fl E True False (test_program tc tn body w) =
      gbind (HandleExceptionsInMethodIfSupported fl (RunAllTests fl E True False)) (\<lambda>r.
        gret (case r of Some True \<Rightarrow> 0 | _ \<Rightarrow> 1)) ((test_program tc tn body w)\<lparr>ut_catch_exceptions := True\<rparr>)"
  using assms by (simp add: UnitTest_Run_def)

lemma UnitTest_Run_exit_code:
  assumes "quiet fl" "gf_catch_exceptions fl" and "ordinary tc tn" and "gf_internal_run_death_test fl = ''''"
    and "ge_environ E kTestTotalShards = None" "ge_environ E kTestShardIndex = None"
    and "always_fails body"
    and run: "UnitTest_Run fl E True False (test_program tc tn body w) = Some (Inr (r, ut'))"
  shows "r = Inr (if exit_success fl tc tn then 0 else 1)"
proof -
  let ?ut = "(test_program tc tn body w)\<lparr>ut_catch_exceptions := True\<rparr>"
  from run obtain q ut1 where all: "RunAllTests fl E True False ?ut = Some (Inr (q, ut1))"
    unfolding UnitTest_Run_eq [OF assms(2)] by (auto simp: HandleExceptionsInMethodIfSupported_def gbind_def)
  from RunAllTests_verdict [OF assms(1,3,4-7) all] all run show ?thesis
    unfolding UnitTest_Run_eq [OF assms(2)]
    by (auto simp: HandleExceptionsInMethodIfSupported_def gbind_def gret_def split: bool.splits)
qed

lemma UnitTest_Run_returns:
  assumes "quiet fl" "gf_catch_exceptions fl" and "ordinary tc tn" and "gf_internal_run_death_test fl = ''''"
    and "ge_environ E kTestTotalShards = None" "ge_environ E kTestShardIndex = None"
    and "ge_environ E kTestShardStatusFile = None" and "0 \<le> gf_repeat fl" "gf_repeat fl < 2 ^ 31"
    and "w \<in> W" and "\<forall>s \<in> W. \<exists>t. body s = Some (Inr t) \<and> final t \<in> W"
  shows "\<exists>r ut'. UnitTest_Run fl E True False (test_program tc tn body w) = Some (Inr (r, ut'))"
proof -
  obtain b ut1 where
    "RunAllTests fl E True False ((test_program tc tn body w)\<lparr>ut_catch_exceptions := True\<rparr>) = Some (Inr (Inr b, ut1))"
    using RunAllTests_returns [OF assms(1,3-11)] by (elim exE) (rule that)
  then show ?thesis
    unfolding UnitTest_Run_eq [OF assms(2)]
    by (simp add: HandleExceptionsInMethodIfSupported_def gret_def
        gbind_def [of "HandleExceptionsInMethodIfSupported fl (RunAllTests fl E True False)"])
qed

end
