(* ===== verification/GTestTheorems.thy ===== *)
theory GTestTheorems
  imports TestTheorems GTestRunProps
begin

section \<open>Properties of the test framework and of the test program as a whole\<close>

text \<open>
  The selection, the order and the run of the tests, and the exit code of the program that runs
  the join test.
\<close>

text \<open>
  C36 The filter of the test names. The recursive matcher decides the wildcard language of a
  pattern; a test matches a filter when its full name is in the language of one of the patterns
  before the first dash (of any name, if there is nothing before it) and in that of none after it.
\<close>

theorem filter_language:
  "(PatternMatchesString pattern str \<longleftrightarrow> str \<in> glob (takeWhile (\<lambda>c. c \<noteq> CHR '':'') pattern)) \<and>
   (FilterMatchesTest flt tc tn \<longleftrightarrow>
      (\<exists>p \<in> set (split_on (CHR '':'') (positive_part flt)). tc @ ''.'' @ tn \<in> glob p) \<and>
      (\<nexists>p. p \<in> set (split_on (CHR '':'') (negative_part flt)) \<and> tc @ ''.'' @ tn \<in> glob p))"
  using PatternMatchesString_glob FilterMatchesTest_glob [of flt tc tn] unfolding some_pattern_def by blast

text \<open>
  C34 Sharding. With \<open>n\<close> shards, whatever the filter, every test that can run is selected by exactly
  one shard, the one of its rank among those tests modulo \<open>n\<close>; a test that cannot run is selected by
  none; every shard reports the number of its tests.
\<close>

theorem shards_partition:
  assumes "0 < n" "n < 2 ^ 31"
    and "\<And>i. i \<in> {0..<n} \<Longrightarrow> Int32FromEnvOrDie (env i) kTestTotalShards (-1) = Inr n"
    and "\<And>i. i \<in> {0..<n} \<Longrightarrow> Int32FromEnvOrDie (env i) kTestShardIndex (-1) = Inr i"
  shows "\<exists>tcs.
     (\<forall>i \<in> {0..<n}. FilterTests fl (env i) HONOR_SHARDING_PROTOCOL ut
        = Inr (selected (tests_of (tcs i)), ut\<lparr>ut_test_cases := tcs i\<rparr>)) \<and>
     (\<forall>k < length (tests_of (ut_test_cases ut)).
        {i \<in> {0..<n}. ti_should_run (snd (tests_of (tcs i) ! k))}
          = (if is_runnable fl (tests_of (ut_test_cases ut) ! k)
             then {rank fl (take k (tests_of (ut_test_cases ut))) mod n} else {}))"
proof -
  let ?ts = "tests_of (ut_test_cases ut)"
  have "\<exists>tcs. FilterTests fl (env i) HONOR_SHARDING_PROTOCOL ut
        = Inr (selected (tests_of tcs), ut\<lparr>ut_test_cases := tcs\<rparr>) \<and>
      tests_of tcs = marks fl (\<lambda>k. k mod n = i) 0 ?ts" if "i \<in> {0..<n}" for i
    using FilterTests_shard [OF assms(1,2) assms(3,4) [OF that]] .
  then obtain tcs where run: "\<And>i. i \<in> {0..<n} \<Longrightarrow> FilterTests fl (env i) HONOR_SHARDING_PROTOCOL ut
        = Inr (selected (tests_of (tcs i)), ut\<lparr>ut_test_cases := tcs i\<rparr>)"
    and m: "\<And>i. i \<in> {0..<n} \<Longrightarrow> tests_of (tcs i) = marks fl (\<lambda>k. k mod n = i) 0 ?ts" by metis
  have "{i \<in> {0..<n}. ti_should_run (snd (tests_of (tcs i) ! k))}
      = (if is_runnable fl (?ts ! k) then {rank fl (take k ?ts) mod n} else {})" if "k < length ?ts" for k
  proof -
    have "ti_should_run (snd (tests_of (tcs i) ! k)) \<longleftrightarrow> is_runnable fl (?ts ! k) \<and> rank fl (take k ?ts) mod n = i"
      if "i \<in> {0..<n}" for i
      using marks_nth [OF \<open>k < length ?ts\<close>, of fl "\<lambda>k. k mod n = i" 0] m [OF that] by simp
    moreover have "rank fl (take k ?ts) mod n \<in> {0..<n}" using assms(1) by simp
    ultimately show ?thesis by auto
  qed
  with run show ?thesis by blast
qed

definition two_shards :: "int \<Rightarrow> environ" where
  "two_shards i = [kTestTotalShards \<mapsto> ''2'', kTestShardIndex \<mapsto> (if i = 0 then ''0'' else ''1'')]"

lemma two_shards_env:
  "Int32FromEnvOrDie (two_shards i) kTestTotalShards (-1) = Inr 2"
  "i \<in> {0..<2} \<Longrightarrow> Int32FromEnvOrDie (two_shards i) kTestShardIndex (-1) = Inr i"
proof -
  have parse: "ParseInt32 ''2'' = Some 2" "ParseInt32 ''1'' = Some 1" "ParseInt32 ''0'' = Some 0"
    by code_simp+
  have keys: "kTestTotalShards \<noteq> kTestShardIndex" by (simp add: kTestTotalShards_def kTestShardIndex_def)
  show "Int32FromEnvOrDie (two_shards i) kTestTotalShards (-1) = Inr 2"
    using keys by (simp add: Int32FromEnvOrDie_def two_shards_def parse)
  assume "i \<in> {0..<2}"
  then have "i = 0 \<or> i = 1" by auto
  then show "Int32FromEnvOrDie (two_shards i) kTestShardIndex (-1) = Inr i"
    using keys by (auto simp: Int32FromEnvOrDie_def two_shards_def parse)
qed

definition three_tests :: "nat UnitTestImpl" where
  "three_tests = (new_UnitTestImpl 0)\<lparr>ut_test_cases := [\<lparr>tc_name = ''T'',
     tc_test_info_list = map (\<lambda>n. TEST_info ''T'' n nop [] False) [''a'', ''b'', ''c''],
     tc_test_indices = [0, 1, 2], tc_set_up = nop, tc_tear_down = nop, tc_should_run = False\<rparr>]\<rparr>"

lemma three_runnable:
  assumes "n \<in> {''a'', ''b'', ''c''}"
  shows "is_runnable (default_flags Map.empty) (''T'', TEST_info ''T'' n (nop :: nat code) [] False)"
proof -
  have "runnable (default_flags Map.empty) ''T'' ''a''" "runnable (default_flags Map.empty) ''T'' ''b''"
    "runnable (default_flags Map.empty) ''T'' ''c''"
    by code_simp+
  moreover have "ti_name (TEST_info ''T'' n (nop :: nat code) [] False) = n" by (simp add: TEST_info_def)
  ultimately show ?thesis using assms by (auto simp: is_runnable_def)
qed

theorem shards_partition_witness:
  "\<exists>tcs. (\<forall>i \<in> {0..<2}. FilterTests (default_flags Map.empty) (two_shards i) HONOR_SHARDING_PROTOCOL three_tests
        = Inr (selected (tests_of (tcs i)), three_tests\<lparr>ut_test_cases := tcs i\<rparr>)) \<and>
     {i \<in> {0..<2}. ti_should_run (snd (tests_of (tcs i) ! 2))} = {0}"
proof -
  have "(0::int) < 2" "(2::int) < 2 ^ 31" by simp_all
  note p = shards_partition [OF this, of two_shards "default_flags Map.empty" three_tests]
  let ?ts = "tests_of (ut_test_cases three_tests)"
  have ts: "?ts = map (\<lambda>n. (''T'', TEST_info ''T'' n nop [] False)) [''a'', ''b'', ''c'']"
    by (simp add: tests_of_def three_tests_def)
  have "is_runnable (default_flags Map.empty) (?ts ! 2)" "rank (default_flags Map.empty) (take 2 ?ts) mod 2 = 0"
    using three_runnable [of "''a''"] three_runnable [of "''b''"] three_runnable [of "''c''"]
    by (simp_all add: ts)
  moreover have "2 < length ?ts" by (simp add: ts)
  ultimately show ?thesis using p [OF two_shards_env] by fastforce
qed

lemma nth_in_take: "k < d \<Longrightarrow> d \<le> length xs \<Longrightarrow> xs ! k \<in> set (take d xs)"
  using nth_mem [of k "take d xs"] by simp

lemma nth_in_drop: "d \<le> k \<Longrightarrow> k < length xs \<Longrightarrow> xs ! k \<in> set (drop d xs)"
  using nth_mem [of "k - d" "drop d xs"] by simp

text \<open>
  C35 The order of the tests. After any registrations, a shuffle does not abort; it permutes the test
  cases and the tests of each of them; no death test case runs after one that is not; and
  unshuffling restores the order of registration.
\<close>

theorem death_tests_first:
  assumes "reach (\<lambda>ut. \<exists>w. ut = new_UnitTestImpl w) registers ut"
    and "length (ut_test_cases ut) \<le> 2 ^ 31"
    and "\<forall>tc \<in> set (ut_test_cases ut). length (tc_test_info_list tc) \<le> 2 ^ 31"
  shows "\<exists>ut'. ShuffleTests ut = Inr ut' \<and>
     mset (ut_test_case_indices ut') = mset [0..<length (ut_test_cases ut)] \<and>
     (\<forall>tc \<in> set (ut_test_cases ut'). mset (tc_test_indices tc) = mset [0..<length (tc_test_info_list tc)]) \<and>
     (\<forall>i j. i < j \<and> j < length (ut_test_cases ut) \<and>
        is_death_test_case (tc_name (ut_test_cases ut ! (ut_test_case_indices ut' ! j))) \<longrightarrow>
        is_death_test_case (tc_name (ut_test_cases ut ! (ut_test_case_indices ut' ! i)))) \<and>
     UnshuffleTests ut' = Inr (ut\<lparr>ut_random := ut_random ut'\<rparr>)"
proof -
  let ?d = "deaths ut" and ?n = "length (ut_test_cases ut)"
  have ok: "registry_ok ut" by (rule registry.inv_reach [OF assms(1)])
  obtain st "is" tcs where s: "ShuffleTests ut =
       Inr (ut\<lparr>ut_random := st, ut_test_case_indices := is, ut_test_cases := tcs\<rparr>)"
    and low: "mset (take ?d is) = mset [0..<?d]" and high: "mset (drop ?d is) = mset [?d..<?n]"
    and tcs: "list_all2 (\<lambda>tc tc'. \<exists>js. tc' = tc\<lparr>tc_test_indices := js\<rparr> \<and> mset js = mset (tc_test_indices tc))
       (ut_test_cases ut) tcs"
    using ShuffleTests_ok [OF ok assms(2,3)] by blast
  have d: "?d \<le> ?n" using ok by (simp add: registry_ok_def)
  have all: "mset is = mset [0..<?n]"
  proof -
    have "mset is = mset (take ?d is) + mset (drop ?d is)"
      by (simp only: mset_append [symmetric] append_take_drop_id)
    also have "\<dots> = mset ([0..<?d] @ [?d..<?n])" unfolding low high by simp
    also have "[0..<?d] @ [?d..<?n] = [0..<?n]" using upt_add_eq_append [of 0 ?d "?n - ?d"] d by simp
    finally show ?thesis .
  qed
  have len: "length is = ?n" using mset_eq_length [OF all] by simp
  have death: "is_death_test_case (tc_name (ut_test_cases ut ! (is ! k))) \<longleftrightarrow> k < ?d" if "k < ?n" for k
  proof (cases "k < ?d")
    case True
    have "is ! k \<in> set (take ?d is)" by (rule nth_in_take [OF True]) (simp add: len d)
    then have "is ! k < ?d" unfolding mset_eq_setD [OF low] by simp
    from nth_in_take [OF this d] ok True show ?thesis by (simp add: registry_ok_def)
  next
    case False
    have "is ! k \<in> set (drop ?d is)" by (rule nth_in_drop) (use False that len in simp_all)
    then have "?d \<le> is ! k" "is ! k < ?n" unfolding mset_eq_setD [OF high] by simp_all
    from nth_in_drop [OF this] ok False show ?thesis by (simp add: registry_ok_def)
  qed
  have tests: "mset (tc_test_indices tc) = mset [0..<length (tc_test_info_list tc)]" if "tc \<in> set tcs" for tc
  proof -
    from that obtain k where k: "k < length tcs" "tcs ! k = tc" by (auto simp: in_set_conv_nth)
    moreover have "case_ok (ut_test_cases ut ! k)"
      using k ok list_all2_lengthD [OF tcs] by (simp add: registry_ok_def list_all_length)
    ultimately show ?thesis using list_all2_nthD2 [OF tcs k(1)] by (auto simp: case_ok_def)
  qed
  let ?ut' = "ut\<lparr>ut_random := st, ut_test_case_indices := is, ut_test_cases := tcs\<rparr>"
  have "UnshuffleTests ?ut' = Inr (ut\<lparr>ut_random := st\<rparr>)" by (rule unshuffled [OF ok tcs all])
  then show ?thesis
    using s all tests death by (intro exI [of _ ?ut']) auto
qed

definition two_cases :: "nat UnitTestImpl" where
  "two_cases = AddTestInfo nop nop (TEST_info ''FooDeathTest'' ''b'' nop [] False) (test_program ''T'' ''a'' nop 0)"

theorem death_tests_first_witness:
  "\<exists>ut'. ShuffleTests two_cases = Inr ut' \<and> mset (ut_test_case_indices ut') = {#0, 1#} \<and>
     UnshuffleTests ut' = Inr (two_cases\<lparr>ut_random := ut_random ut'\<rparr>)"
proof -
  have "reach (\<lambda>ut. \<exists>w. ut = new_UnitTestImpl w) registers two_cases"
    unfolding two_cases_def test_program_def
    by (rule reach_step, rule reach_step, rule reach_init) (blast intro: registers.intros)+
  moreover have "length (ut_test_cases two_cases) = 2"
    "\<forall>tc \<in> set (ut_test_cases two_cases). length (tc_test_info_list tc) = 1"
    by (simp_all add: two_cases_def test_program_def AddTestInfo_def FindTestCase_def new_UnitTestImpl_def
        new_TestCase_def TestCase_AddTestInfo_def TEST_info_def update_nth_def insert_at_def Let_def)
  ultimately obtain ut' where "ShuffleTests two_cases = Inr ut'"
    and "mset (ut_test_case_indices ut') = mset [0..<2]"
    and "UnshuffleTests ut' = Inr (two_cases\<lparr>ut_random := ut_random ut'\<rparr>)"
    using death_tests_first [of two_cases] by auto
  moreover have "mset [0..<2] = {#0, 1#}" by (simp add: upt_rec numeral_2_eq_2)
  ultimately show ?thesis by (intro exI [of _ ut']) simp
qed

text \<open>
  C33 One test, with failures recorded and exceptions caught. Its run changes its own result, the
  world and nothing else: the body runs if the fixture was constructed and set up without a fatal
  failure, the fixture is torn down and destroyed in any case, an exception is a fatal failure. The
  exception is a constructor that throws: the destructor is then called through a null pointer.
\<close>

theorem test_isolated:
  assumes "quiet fl" and "test_at i j ut" and "ut_catch_exceptions ut"
    and "ti = tc_test_info_list (ut_test_cases ut ! i) ! j" and "ti_should_run ti"
  shows "TestInfo_Run fl i j ut =
     run_bind (spec_TestInfo (same_fixture i j ut) ti (ti_result ti, ut_world ut)) (\<lambda>(rs, w).
       Some (Inr (Inr (), (update_result (\<lambda>_. rs) i j ut)\<lparr>ut_current_test_info := None, ut_world := w\<rparr>)))"
  using assms by (rule TestInfo_Run_spec)

definition throwing :: "nat code" where
  "throwing w = Some (Inr (Reports kNonFatalFailure w (Throws (w + 1))))"

theorem test_isolated_witness:
  "\<exists>ut'. TestInfo_Run (default_flags Map.empty) 0 0 (one_test ''T'' ''a'' throwing [] 5 0 0) = Some (Inr (Inr (), ut')) \<and>
     ut_world ut' = 6 \<and>
     ti_result (tc_test_info_list (ut_test_cases ut' ! 0) ! 0) = [kNonFatalFailure, kFatalFailure]"
proof -
  let ?ut = "one_test ''T'' ''a'' throwing [] 5 0 0" and ?ti = "TEST_info ''T'' ''a'' throwing [] True"
  have q: "quiet (default_flags Map.empty)" by (simp add: quiet_def default_flags_def BoolFromGTestEnv_def)
  have here: "test_at 0 0 ?ut" "ut_catch_exceptions ?ut" "same_fixture 0 0 ?ut"
    by (simp_all add: test_at_def one_test_def same_fixture_def)
  have ti: "?ti = tc_test_info_list (ut_test_cases ?ut ! 0) ! 0" "ti_should_run ?ti" "ti_result ?ti = []"
    "ut_world ?ut = 5"
    by (simp_all add: one_test_def TEST_info_def)
  have upd: "(update_result (\<lambda>_. rs) 0 0 ?ut)\<lparr>ut_current_test_info := None, ut_world := v\<rparr>
      = one_test ''T'' ''a'' throwing rs v 0 0" for rs v
    by (simp add: update_result_def one_test_def update_nth_def TEST_info_def)
  have "TestInfo_Run (default_flags Map.empty) 0 0 ?ut =
      run_bind (throwing 5) (\<lambda>t. Some (Inr (Inr (), one_test ''T'' ''a'' throwing (handled t) (final t) 0 0)))"
    unfolding test_isolated [OF q here(1,2) ti(1,2)] ti(3,4)
    by (simp add: here(3) spec_one_test run_bind_assoc upd)
  also have "\<dots> = Some (Inr (Inr (), one_test ''T'' ''a'' throwing [kNonFatalFailure, kFatalFailure] 6 0 0))"
    by (simp add: throwing_def handled_def)
  finally show ?thesis by (auto simp: one_test_def TEST_info_def)
qed

subsection \<open>The test program\<close>










end
