(* ===== verification/GL.thy ===== *)
theory GL
  imports Geometry
begin

section \<open>Drawing calls\<close>

text \<open>
  The calls of the client to OpenGL and to the engine's renderer and render textures, as data: a
  rendering function yields the list of its calls. The state of OpenGL that such a list leaves
  behind is computed from it: the depth of the matrix stack, the capabilities and client arrays
  that are on, the buffer, the texture and the program bound, the frame buffer bound.
\<close>

datatype gl_cap = GL_TEXTURE_2D | GL_STENCIL_TEST

datatype gl_array = GL_VERTEX_ARRAY | GL_TEXTURE_COORD_ARRAY | GL_COLOR_ARRAY

datatype gl_mode = GL_QUADS | GL_TRIANGLE_FAN | GL_LINES | GL_LINE_LOOP | GL_POLYGON

datatype gl_enum =
    GL_NOTEQUAL | GL_NEVER | GL_KEEP | GL_REPLACE
  | GL_ONE | GL_ONE_MINUS_DST_ALPHA | GL_SRC_ALPHA | GL_ONE_MINUS_SRC_ALPHA
  | GL_COLOR_BUFFER_BIT | GL_STENCIL_BUFFER_BIT

text \<open>Vertex data: in the buffer that is bound (a null pointer), or in memory of the program.\<close>

datatype 'f gl_data = Bound | Floats "'f list" | Bytes "u8 list"

text \<open>Calls that move: the matrix stack, and the renderer's own transforms.\<close>

datatype 'f gl_move =
    PushMatrix | PopMatrix | LoadIdentity
  | Translatef 'f 'f 'f | Rotatef 'f 'f 'f 'f | Scalef 'f 'f 'f
  | PushTransform | PopTransform | ApplyTransform "'f Vec2"

text \<open>Calls that switch or bind; textures by file or number, render textures by number.\<close>

datatype gl_switch =
    Enable gl_cap | Disable gl_cap
  | EnableClientState gl_array | DisableClientState gl_array
  | BindTexture nat | BindTextureFile string | BindTex nat
  | BindBuffer nat | GenBuffer nat | DeleteBuffer nat
  | BindFBO nat | UnbindFBO nat | UseProgram nat
  | StencilFunc gl_enum int u32 | StencilOp gl_enum gl_enum gl_enum | BlendFunc gl_enum gl_enum
  | PrintOpenGLErrors

text \<open>Calls that pass data or draw.\<close>

datatype 'f gl_draw =
    BufferData "'f list"
  | VertexPointer nat "'f gl_data" | TexCoordPointer nat "'f gl_data" | ColorPointer nat "'f gl_data"
  | DrawArrays gl_mode nat nat
  | Color3ub u8 u8 u8 | Color4ub u8 u8 u8 u8 | Color4f 'f 'f 'f 'f
  | ClearColor 'f 'f 'f 'f | Clear "gl_enum list"
  | Uniformi int "int list" | Uniformf int "'f list"

datatype 'f gl = Mv "'f gl_move" | Sw gl_switch | Dr "'f gl_draw"

record gl_state =
  g_depth :: int
  g_transforms :: int
  g_caps :: "gl_cap set"
  g_arrays :: "gl_array set"
  g_buffer :: nat
  g_program :: nat
  g_fbo :: "nat option"

fun gl_exec :: "'f gl \<Rightarrow> gl_state \<Rightarrow> gl_state" where
  "gl_exec (Mv PushMatrix) g = g\<lparr>g_depth := g_depth g + 1\<rparr>"
| "gl_exec (Mv PopMatrix) g = g\<lparr>g_depth := g_depth g - 1\<rparr>"
| "gl_exec (Mv PushTransform) g = g\<lparr>g_transforms := g_transforms g + 1\<rparr>"
| "gl_exec (Mv PopTransform) g = g\<lparr>g_transforms := g_transforms g - 1\<rparr>"
| "gl_exec (Sw (Enable c)) g = g\<lparr>g_caps := insert c (g_caps g)\<rparr>"
| "gl_exec (Sw (Disable c)) g = g\<lparr>g_caps := g_caps g - {c}\<rparr>"
| "gl_exec (Sw (EnableClientState a)) g = g\<lparr>g_arrays := insert a (g_arrays g)\<rparr>"
| "gl_exec (Sw (DisableClientState a)) g = g\<lparr>g_arrays := g_arrays g - {a}\<rparr>"
| "gl_exec (Sw (BindBuffer b)) g = g\<lparr>g_buffer := b\<rparr>"
| "gl_exec (Sw (UseProgram p)) g = g\<lparr>g_program := p\<rparr>"
| "gl_exec (Sw (BindFBO t)) g = g\<lparr>g_fbo := Some t\<rparr>"
| "gl_exec (Sw (UnbindFBO t)) g = g\<lparr>g_fbo := None\<rparr>"
| "gl_exec _ g = g"

definition gl_run :: "'f gl list \<Rightarrow> gl_state \<Rightarrow> gl_state" where
  "gl_run calls g = fold gl_exec calls g"

lemma gl_run_simps [simp]:
  "gl_run [] g = g" "gl_run (c # cs) g = gl_run cs (gl_exec c g)"
  "gl_run (xs @ ys) g = gl_run ys (gl_run xs g)"
  by (simp_all add: gl_run_def)

lemma gl_run_concat:
  assumes "\<And>cs g. cs \<in> set css \<Longrightarrow> P g \<Longrightarrow> P (gl_run cs g)" and "P g"
  shows "P (gl_run (concat css) g)"
  using assms by (induction css arbitrary: g) auto

text \<open>The state a rendering function should leave: nothing of its own is on.\<close>

definition gl_idle :: "gl_state \<Rightarrow> bool" where
  "gl_idle g \<longleftrightarrow> g_caps g = {} \<and> g_arrays g = {} \<and> g_buffer g = 0 \<and> g_program g = 0"

end
