(* ===== verification/Lights.thy ===== *)
theory Lights
  imports GL
begin

section \<open>Light sources and their shared texture (client/LightSource.h, client/LightSource.cpp)\<close>

text \<open>
  \<open>LightTexture\<close> is static state: a reference count and a pointer to the one render texture.
  Pointers are numbers; the render textures that exist are kept, so that the use of a deleted one
  is a fault. For the textures of the engine the model counts the calls of \<open>Retain\<close> less those of
  \<open>Release\<close>. The mathematical library and the engine are arguments.
\<close>

record 'f Libm =
  m_pi2 :: 'f            \<comment> \<open>two pi as a \<open>float\<close>\<close>
  m_cos :: "'f \<Rightarrow> 'f"
  m_sin :: "'f \<Rightarrow> 'f"
  m_fabs :: "'f \<Rightarrow> 'f"
  m_atan2_degrees :: "'f \<Rightarrow> 'f \<Rightarrow> 'f"   \<comment> \<open>\<open>atan2f(y, x) * (180.f / M_PI)\<close>\<close>
  m_Length :: "'f Vec2 \<Rightarrow> 'f"         \<comment> \<open>\<open>Vec2::Length\<close> of the engine\<close>
  m_abs_gt :: "'f \<Rightarrow> rat \<Rightarrow> bool"       \<comment> \<open>\<open>abs(f) > d\<close> for a \<open>double\<close> literal \<open>d\<close>\<close>

text \<open>
  What a component reads of its game object, from the engine: \<open>Position\<close>, \<open>WorldPosition\<close>,
  \<open>WorldRotation\<close>, \<open>Scale\<close>, \<open>Pivot\<close>, and the size of its texture, if it has one.
\<close>

record 'f GameObject =
  go_Position :: "'f Vec2"
  go_WorldPosition :: "'f Vec2"
  go_WorldRotation :: 'f
  go_Scale :: "'f Vec2"
  go_Pivot :: "'f Vec2"
  go_texture :: "'f Vec2 option"

record 'f Engine =
  en_GetDimensions :: "nat \<Rightarrow> 'f Vec2"   \<comment> \<open>\<open>Texture::GetDimensions\<close>\<close>
  en_GetTextureID :: "nat \<Rightarrow> nat"
  en_GetTex :: "nat \<Rightarrow> nat"             \<comment> \<open>\<open>RenderTexture::GetTex\<close>\<close>
  en_Overlaps :: "'f Rect \<Rightarrow> 'f Rect \<Rightarrow> bool"
  en_GetResolution :: "nat \<Rightarrow> 'f Vec2"   \<comment> \<open>\<open>RenderTexture::GetResolution\<close>\<close>
  en_Vec2 :: "'f Vec2"                 \<comment> \<open>a default-constructed vector\<close>
  en_GameObject :: "'f GameObject"     \<comment> \<open>a new game object\<close>
  en_AddToShadowLayer :: "'f GameObject \<Rightarrow> 'f GameObject"   \<comment> \<open>after \<open>AddChild\<close>\<close>
  en_AddToGameLayer :: "'f GameObject \<Rightarrow> 'f GameObject"
  en_Moved :: "'f GameObject \<Rightarrow> 'f GameObject"   \<comment> \<open>with its world position brought up to date\<close>
  en_LoadTexture :: "string \<Rightarrow> 'f Vec2 option"   \<comment> \<open>the size of the image, if there is one\<close>
  en_GetResource :: "string \<Rightarrow> nat option"

subsection \<open>\<open>LightSource::Properties\<close>\<close>

record 'f Properties =
  pr_radius :: 'f
  pr_color :: "'f Color"
  pr_initialized :: bool

definition default_Properties :: "(rat \<Rightarrow> 'f) \<Rightarrow> 'f Properties" where
  "default_Properties fl =
     \<lparr>pr_radius = fl 0, pr_color = color (fl 0) (fl 0) (fl 0) (fl 0), pr_initialized = False\<rparr>"

definition new_Properties :: "'f \<Rightarrow> 'f Color \<Rightarrow> 'f Properties" where
  "new_Properties r c = \<lparr>pr_radius = r, pr_color = c, pr_initialized = True\<rparr>"

definition IsInitialized :: "'f Properties \<Rightarrow> bool" where
  "IsInitialized p = pr_initialized p"

subsection \<open>\<open>LightTexture\<close>\<close>

record LightTexture =
  lt_refs :: int
  lt_renderTexture :: "nat option"
  lt_live :: "nat set"
  lt_next :: nat
  lt_retained :: "nat \<Rightarrow> int"

definition c_lightRadius :: "(rat \<Rightarrow> 'f) \<Rightarrow> 'f" where "c_lightRadius fl = fl 256"

definition light_triangles :: nat where "light_triangles = 101"

text \<open>The vertices of the disc: the centre, then a closed circle.\<close>

definition light_vertices :: "(rat \<Rightarrow> 'f::{plus,times,divide}) \<Rightarrow> 'f Libm \<Rightarrow> 'f list" where
  "light_vertices fl m =
     (let r = c_lightRadius fl;
          v = concat (map (\<lambda>i.
                if i = 0 then [r, r]
                else let rad = (fl (of_nat i) div fl (of_nat (light_triangles - 1))) * m_pi2 m
                     in [r + r * m_cos m rad, r + r * m_sin m rad]) [0..<light_triangles])
      in v[2 * (light_triangles - 1) := v ! 2, 2 * (light_triangles - 1) + 1 := v ! 3])"

text \<open>The colours: an opaque centre and a transparent rim.\<close>

definition light_colors :: "u8 list" where
  "light_colors =
     [255, 255, 255, 255] @ concat (replicate (light_triangles - 1) [255, 255, 255, 0])"

definition CreateSharedTexture ::
    "(rat \<Rightarrow> 'f::{plus,times,divide}) \<Rightarrow> 'f Libm \<Rightarrow> LightTexture \<Rightarrow> (LightTexture \<times> 'f gl list) res" where
  "CreateSharedTexture fl m lt =
     (let lt = (if lt_renderTexture lt = None
                then lt\<lparr>lt_renderTexture := Some (lt_next lt), lt_live := insert (lt_next lt) (lt_live lt),
                        lt_next := lt_next lt + 1\<rparr>
                else lt)
      in case lt_renderTexture lt of
           None \<Rightarrow> Inl NullDeref
         | Some t \<Rightarrow>
             if t \<notin> lt_live lt then Inl UseAfterFree
             else Inr (lt,
               [Sw (BindFBO t), Dr (ClearColor (fl 0) (fl 0) (fl 0) (fl 0)), Dr (Clear [GL_COLOR_BUFFER_BIT]),
                Sw (EnableClientState GL_VERTEX_ARRAY), Sw (EnableClientState GL_COLOR_ARRAY),
                Dr (VertexPointer 2 (Floats (light_vertices fl m))),
                Dr (ColorPointer 4 (Bytes light_colors)),
                Dr (DrawArrays GL_TRIANGLE_FAN 0 light_triangles),
                Sw (DisableClientState GL_VERTEX_ARRAY), Sw (DisableClientState GL_COLOR_ARRAY),
                Sw (UnbindFBO t)]))"

text \<open>The pointer is deleted and not set to null.\<close>

definition DeleteSharedTexture :: "LightTexture \<Rightarrow> LightTexture res" where
  "DeleteSharedTexture lt =
     (case lt_renderTexture lt of
        None \<Rightarrow> Inr lt
      | Some t \<Rightarrow> if t \<in> lt_live lt then Inr (lt\<lparr>lt_live := lt_live lt - {t}\<rparr>) else Inl DoubleFree)"

definition GetSharedTexture ::
    "(rat \<Rightarrow> 'f::{plus,times,divide}) \<Rightarrow> 'f Libm \<Rightarrow> LightTexture
       \<Rightarrow> (nat option \<times> LightTexture \<times> 'f gl list) res" where
  "GetSharedTexture fl m lt =
     rbind (if lt_renderTexture lt = None then CreateSharedTexture fl m lt else Inr (lt, []))
       (\<lambda>(lt, calls). Inr (lt_renderTexture lt, lt, calls))"

definition GetRetainCount :: "LightTexture \<Rightarrow> int" where "GetRetainCount lt = lt_refs lt"

definition RetainSharedTexture :: "LightTexture \<Rightarrow> LightTexture res" where
  "RetainSharedTexture lt = rbind (iadd (lt_refs lt) 1) (\<lambda>refs. Inr (lt\<lparr>lt_refs := refs\<rparr>))"

definition Texture_ReleaseShared :: "LightTexture \<Rightarrow> LightTexture res" where
  "Texture_ReleaseShared lt =
     (let lt = (if lt_refs lt \<noteq> 0 then lt\<lparr>lt_refs := lt_refs lt - 1\<rparr> else lt)
      in if lt_refs lt = 0 \<and> lt_renderTexture lt \<noteq> None then DeleteSharedTexture lt else Inr lt)"

subsection \<open>\<open>LightSource\<close>\<close>

record 'f LightSource =
  lsrc_texture :: "nat option"
  lsrc_shared :: "nat option"
  lsrc_properties :: "'f Properties"

definition new_LightSource :: "(rat \<Rightarrow> 'f) \<Rightarrow> 'f LightSource" where
  "new_LightSource fl = \<lparr>lsrc_texture = None, lsrc_shared = None, lsrc_properties = default_Properties fl\<rparr>"

definition IsUsingSharedTexture :: "'f LightSource \<Rightarrow> bool" where
  "IsUsingSharedTexture l \<longleftrightarrow> lsrc_shared l \<noteq> None"

definition UseSharedTexture ::
    "(rat \<Rightarrow> 'f::{plus,times,divide}) \<Rightarrow> 'f Libm \<Rightarrow> 'f LightSource \<Rightarrow> LightTexture
       \<Rightarrow> ('f LightSource \<times> LightTexture \<times> 'f gl list) res" where
  "UseSharedTexture fl m l lt =
     (let l = l\<lparr>lsrc_texture := None\<rparr>
      in if \<not> IsUsingSharedTexture l then
           rbind (GetSharedTexture fl m lt) (\<lambda>(t, lt, calls).
           rbind (RetainSharedTexture lt) (\<lambda>lt.
             Inr (l\<lparr>lsrc_shared := t\<rparr>, lt, calls)))
         else Inr (l, lt, []))"

definition ReleaseSharedTexture :: "'f LightSource \<Rightarrow> LightTexture \<Rightarrow> ('f LightSource \<times> LightTexture) res" where
  "ReleaseSharedTexture l lt =
     (if IsUsingSharedTexture l then
        rbind (Texture_ReleaseShared lt) (\<lambda>lt. Inr (l\<lparr>lsrc_shared := None\<rparr>, lt))
      else Inr (l, lt))"

definition delete_LightSource :: "'f LightSource \<Rightarrow> LightTexture \<Rightarrow> LightTexture res" where
  "delete_LightSource l lt =
     rbind (ReleaseSharedTexture l lt) (\<lambda>(l, lt).
       case lsrc_texture l of
         None \<Rightarrow> Inr lt
       | Some t \<Rightarrow> Inr (lt\<lparr>lt_retained := (lt_retained lt)(t := lt_retained lt t - 1)\<rparr>))"

definition SetLightProperties ::
    "(rat \<Rightarrow> 'f::{plus,times,divide}) \<Rightarrow> 'f Libm \<Rightarrow> 'f \<Rightarrow> 'f Color \<Rightarrow> 'f LightSource \<Rightarrow> LightTexture
       \<Rightarrow> ('f LightSource \<times> LightTexture \<times> 'f gl list) res" where
  "SetLightProperties fl m lightDistance c l lt =
     UseSharedTexture fl m (l\<lparr>lsrc_properties := new_Properties lightDistance c\<rparr>) lt"

definition SetTexture ::
    "'f Engine \<Rightarrow> nat option \<Rightarrow> 'f LightSource \<Rightarrow> LightTexture \<Rightarrow> ('f LightSource \<times> LightTexture) res" where
  "SetTexture E texture l lt =
     rbind (ReleaseSharedTexture l lt) (\<lambda>(l, lt).
       case texture of
         None \<Rightarrow> Inl NullDeref
       | Some t \<Rightarrow>
           Inr (l\<lparr>lsrc_texture := Some t,
                  lsrc_properties := (lsrc_properties l)\<lparr>pr_initialized := False,
                                        pr_radius := v_x (en_GetDimensions E t)\<rparr>\<rparr>,
                lt\<lparr>lt_retained := (lt_retained lt)(t := lt_retained lt t + 1)\<rparr>))"

definition GetLightProperties :: "'f LightSource \<Rightarrow> 'f Properties" where
  "GetLightProperties l = lsrc_properties l"

definition GetLightRadius :: "'f LightSource \<Rightarrow> 'f" where
  "GetLightRadius l = pr_radius (lsrc_properties l)"

definition GetLightColor :: "'f LightSource \<Rightarrow> 'f Color" where
  "GetLightColor l = pr_color (lsrc_properties l)"

text \<open>\<open>p\<close> is the position of the component.\<close>

definition Light_GetAABB :: "(rat \<Rightarrow> 'f::{minus,times}) \<Rightarrow> 'f Vec2 \<Rightarrow> 'f LightSource \<Rightarrow> 'f Rect" where
  "Light_GetAABB fl p l =
     (let rad = GetLightRadius l in rect (v_x p - rad) (v_y p - rad) (rad * fl 2) (rad * fl 2))"

text \<open>\<open>wp\<close> and \<open>rot\<close> are the world position and rotation of the game object.\<close>

definition Light_RenderLight ::
    "(rat \<Rightarrow> 'f::{uminus,divide}) \<Rightarrow> 'f Engine \<Rightarrow> 'f Vec2 \<Rightarrow> 'f \<Rightarrow> LightTexture \<Rightarrow> 'f LightSource
       \<Rightarrow> 'f gl list res" where
  "Light_RenderLight fl E wp rot lt l =
     rbind (case lsrc_shared l of
              Some t \<Rightarrow>
                if t \<in> lt_live lt then
                  let r = pr_radius (lsrc_properties l)
                  in Inr (Some (en_GetTex E t, [- r, - r, r, - r, r, r, - r, r]))
                else Inl UseAfterFree
            | None \<Rightarrow>
                (case lsrc_texture l of
                   None \<Rightarrow> Inr None
                 | Some t \<Rightarrow>
                     let d = en_GetDimensions E t
                     in Inr (Some (en_GetTextureID E t,
                          [fl 0, (- v_y d) div fl 2, v_x d, (- v_y d) div fl 2,
                           v_x d, v_y d div fl 2, fl 0, v_y d div fl 2]))))
       (\<lambda>tv. case tv of
          None \<Rightarrow> Inr []
        | Some (tex, v) \<Rightarrow>
            Inr [Mv PushMatrix, Mv (Translatef (v_x wp) (v_y wp) (fl 0)),
                 Mv (Rotatef rot (fl 0) (fl 0) (fl 1)),
                 Sw (Enable GL_TEXTURE_2D), Sw (BindTexture tex),
                 Sw (EnableClientState GL_VERTEX_ARRAY), Sw (EnableClientState GL_TEXTURE_COORD_ARRAY),
                 Dr (Color4ub 255 255 255 255),
                 Dr (VertexPointer 2 (Floats v)),
                 Dr (TexCoordPointer 2 (Floats [fl 0, fl 0, fl 1, fl 0, fl 1, fl 1, fl 0, fl 1])),
                 Dr (DrawArrays GL_QUADS 0 4),
                 Sw (DisableClientState GL_VERTEX_ARRAY), Sw (DisableClientState GL_TEXTURE_COORD_ARRAY),
                 Sw (BindTexture 0), Sw (Disable GL_TEXTURE_2D), Mv PopMatrix])"

end
