(* ===== verification/ShaderProgram.thy ===== *)
theory ShaderProgram
  imports Geometry
begin

section \<open>Shader programs (client/Shader.h, client/Shader.cpp)\<close>

text \<open>
  Compiling and linking, the uniforms and their cache. The shader functions of OpenGL and the
  file system are an argument that works on a state \<open>'w\<close>; names are numbers, 0 is no object. The
  constructor throws when \<open>LoadShader\<close> fails; the destructor is not run then.
\<close>

datatype shader_kind = GL_FRAGMENT_SHADER | GL_VERTEX_SHADER

record ('w, 'f) ShaderLib =
  gs_open :: "'w \<Rightarrow> string \<Rightarrow> string option"   \<comment> \<open>the contents of a file, \<open>None\<close> if it cannot be opened\<close>
  gs_CreateShader :: "'w \<Rightarrow> shader_kind \<Rightarrow> nat \<times> 'w"
  gs_ShaderSource :: "'w \<Rightarrow> nat \<Rightarrow> string \<Rightarrow> 'w"
  gs_CompileShader :: "'w \<Rightarrow> nat \<Rightarrow> 'w"
  gs_CompileStatus :: "'w \<Rightarrow> nat \<Rightarrow> bool"
  gs_DeleteShader :: "'w \<Rightarrow> nat \<Rightarrow> 'w"
  gs_CreateProgram :: "'w \<Rightarrow> nat \<times> 'w"
  gs_AttachShader :: "'w \<Rightarrow> nat \<Rightarrow> nat \<Rightarrow> 'w"
  gs_LinkProgram :: "'w \<Rightarrow> nat \<Rightarrow> 'w"
  gs_LinkStatus :: "'w \<Rightarrow> nat \<Rightarrow> bool"
  gs_DeleteProgram :: "'w \<Rightarrow> nat \<Rightarrow> 'w"
  gs_UseProgram :: "'w \<Rightarrow> nat \<Rightarrow> 'w"
  gs_GetUniformLocation :: "'w \<Rightarrow> nat \<Rightarrow> string \<Rightarrow> int \<times> 'w"
  gs_Uniformi :: "'w \<Rightarrow> int \<Rightarrow> int list \<Rightarrow> 'w"
  gs_Uniformf :: "'w \<Rightarrow> int \<Rightarrow> 'f list \<Rightarrow> 'w"

record Shader =
  sd_vert :: nat
  sd_frag :: nat
  sd_prog :: nat
  sd_uniformID :: "string \<Rightarrow> int option"

definition blank_Shader :: Shader where
  "blank_Shader = \<lparr>sd_vert = 0, sd_frag = 0, sd_prog = 0, sd_uniformID = (\<lambda>_. None)\<rparr>"

subsection \<open>Loading\<close>

text \<open>
  The loop of \<open>GetShaderSource\<close> over what is left of the file: the last \<open>getline\<close>, which fails,
  still adds a newline.
\<close>

definition newline :: char where "newline = CHR 0x0A"

function read_lines :: "string \<Rightarrow> string" where
  "read_lines s =
     (if s = [] then [newline]
      else takeWhile (\<lambda>c. c \<noteq> newline) s @ newline #
             read_lines (drop (Suc (length (takeWhile (\<lambda>c. c \<noteq> newline) s))) s))"
  by pat_completeness auto
termination by (relation "measure length") auto

declare read_lines.simps [simp del]

definition GetShaderSource :: "('w, 'f) ShaderLib \<Rightarrow> string \<Rightarrow> 'w \<Rightarrow> string" where
  "GetShaderSource G filename w =
     (case gs_open G w filename of None \<Rightarrow> [] | Some s \<Rightarrow> read_lines s)"

text \<open>The name is passed by reference: it becomes 0 when the shader has been deleted.\<close>

definition CompileShader ::
    "('w, 'f) ShaderLib \<Rightarrow> nat \<Rightarrow> string \<Rightarrow> 'w \<Rightarrow> bool \<times> nat \<times> 'w" where
  "CompileShader G shader sourcefile w =
     (let source = GetShaderSource G sourcefile w;
          w = gs_ShaderSource G w shader source;
          w = gs_CompileShader G w shader
      in if \<not> gs_CompileStatus G w shader then (False, 0, gs_DeleteShader G w shader)
         else (True, shader, w))"

definition LinkProgram :: "('w, 'f) ShaderLib \<Rightarrow> Shader \<Rightarrow> 'w \<Rightarrow> bool \<times> Shader \<times> 'w" where
  "LinkProgram G s w =
     (if sd_prog s = 0 then (False, s, w)
      else
        let w = gs_LinkProgram G w (sd_prog s)
        in if \<not> gs_LinkStatus G w (sd_prog s) then
             (False, s\<lparr>sd_prog := 0, sd_frag := 0, sd_vert := 0\<rparr>,
              gs_DeleteProgram G (gs_DeleteShader G (gs_DeleteShader G w (sd_frag s)) (sd_vert s)) (sd_prog s))
           else (True, s, w))"

definition LoadShader ::
    "('w, 'f) ShaderLib \<Rightarrow> string \<Rightarrow> string \<Rightarrow> Shader \<Rightarrow> 'w \<Rightarrow> bool \<times> Shader \<times> 'w" where
  "LoadShader G fragfile vertfile s w =
     (let (f, w) = gs_CreateShader G w GL_FRAGMENT_SHADER;
          s = s\<lparr>sd_frag := f\<rparr>;
          (v, w) = gs_CreateShader G w GL_VERTEX_SHADER;
          s = s\<lparr>sd_vert := v\<rparr>
      in if f = 0 \<or> v = 0 then (False, s, w)
         else
           let (ok, f, w) = CompileShader G (sd_frag s) fragfile w; s = s\<lparr>sd_frag := f\<rparr>
           in if \<not> ok then (False, s, w)
              else
                let (ok, v, w) = CompileShader G (sd_vert s) vertfile w; s = s\<lparr>sd_vert := v\<rparr>
                in if \<not> ok then (False, s, w)
                   else
                     let (p, w) = gs_CreateProgram G w; s = s\<lparr>sd_prog := p\<rparr>
                     in if p = 0 then (False, s, w)
                        else
                          let w = gs_AttachShader G w p (sd_vert s);
                              w = gs_AttachShader G w p (sd_frag s)
                          in LinkProgram G s w)"

text \<open>The constructor: the shader, or \<open>None\<close> when it throws, with the state it leaves.\<close>

definition new_Shader ::
    "('w, 'f) ShaderLib \<Rightarrow> string \<Rightarrow> string \<Rightarrow> 'w \<Rightarrow> Shader option \<times> 'w" where
  "new_Shader G fragfile vertfile w =
     (let (ok, s, w) = LoadShader G fragfile vertfile blank_Shader w
      in (if ok then Some s else None, w))"

definition delete_Shader :: "('w, 'f) ShaderLib \<Rightarrow> Shader \<Rightarrow> 'w \<Rightarrow> 'w" where
  "delete_Shader G s w =
     (let w = (if sd_vert s \<noteq> 0 then gs_DeleteShader G w (sd_vert s) else w);
          w = (if sd_frag s \<noteq> 0 then gs_DeleteShader G w (sd_frag s) else w)
      in if sd_prog s \<noteq> 0 then gs_DeleteProgram G w (sd_prog s) else w)"

definition Shader_Enable :: "('w, 'f) ShaderLib \<Rightarrow> Shader \<Rightarrow> 'w \<Rightarrow> 'w" where
  "Shader_Enable G s w = gs_UseProgram G w (sd_prog s)"

definition Shader_Disable :: "('w, 'f) ShaderLib \<Rightarrow> Shader \<Rightarrow> 'w \<Rightarrow> 'w" where
  "Shader_Disable G s w = gs_UseProgram G w 0"

subsection \<open>Uniforms\<close>

definition GetUniformLocation ::
    "('w, 'f) ShaderLib \<Rightarrow> string \<Rightarrow> Shader \<Rightarrow> 'w \<Rightarrow> int \<times> Shader \<times> 'w" where
  "GetUniformLocation G uniform s w =
     (case sd_uniformID s uniform of
        Some loc \<Rightarrow> (loc, s, w)
      | None \<Rightarrow>
          (case gs_GetUniformLocation G w (sd_prog s) uniform of
             (loc, w) \<Rightarrow> (loc, s\<lparr>sd_uniformID := (sd_uniformID s)(uniform \<mapsto> loc)\<rparr>, w)))"

text \<open>The two setters switch on the number of values; any other number sets nothing.\<close>

definition SetUniformXi ::
    "('w, 'f) ShaderLib \<Rightarrow> string \<Rightarrow> int list \<Rightarrow> Shader \<Rightarrow> 'w \<Rightarrow> Shader \<times> 'w" where
  "SetUniformXi G name arr s w =
     (let w = gs_UseProgram G w (sd_prog s);
          (s, w) = (if length arr \<in> {1, 2, 3, 4}
                    then let (loc, s, w) = GetUniformLocation G name s w in (s, gs_Uniformi G w loc arr)
                    else (s, w))
      in (s, gs_UseProgram G w 0))"

definition SetUniformXf ::
    "('w, 'f) ShaderLib \<Rightarrow> string \<Rightarrow> 'f list \<Rightarrow> Shader \<Rightarrow> 'w \<Rightarrow> Shader \<times> 'w" where
  "SetUniformXf G name arr s w =
     (let w = gs_UseProgram G w (sd_prog s);
          (s, w) = (if length arr \<in> {1, 2, 3, 4}
                    then let (loc, s, w) = GetUniformLocation G name s w in (s, gs_Uniformf G w loc arr)
                    else (s, w))
      in (s, gs_UseProgram G w 0))"

definition SetUniform1i :: "('w, 'f) ShaderLib \<Rightarrow> string \<Rightarrow> int \<Rightarrow> Shader \<Rightarrow> 'w \<Rightarrow> Shader \<times> 'w" where
  "SetUniform1i G n a = SetUniformXi G n [a]"

definition SetUniform2i :: "('w, 'f) ShaderLib \<Rightarrow> string \<Rightarrow> int \<Rightarrow> int \<Rightarrow> Shader \<Rightarrow> 'w \<Rightarrow> Shader \<times> 'w" where
  "SetUniform2i G n a b = SetUniformXi G n [a, b]"

definition SetUniform3i ::
    "('w, 'f) ShaderLib \<Rightarrow> string \<Rightarrow> int \<Rightarrow> int \<Rightarrow> int \<Rightarrow> Shader \<Rightarrow> 'w \<Rightarrow> Shader \<times> 'w" where
  "SetUniform3i G n a b c = SetUniformXi G n [a, b, c]"

definition SetUniform4i ::
    "('w, 'f) ShaderLib \<Rightarrow> string \<Rightarrow> int \<Rightarrow> int \<Rightarrow> int \<Rightarrow> int \<Rightarrow> Shader \<Rightarrow> 'w \<Rightarrow> Shader \<times> 'w" where
  "SetUniform4i G n a b c d = SetUniformXi G n [a, b, c, d]"

definition SetUniform1f :: "('w, 'f) ShaderLib \<Rightarrow> string \<Rightarrow> 'f \<Rightarrow> Shader \<Rightarrow> 'w \<Rightarrow> Shader \<times> 'w" where
  "SetUniform1f G n a = SetUniformXf G n [a]"

definition SetUniform2f :: "('w, 'f) ShaderLib \<Rightarrow> string \<Rightarrow> 'f \<Rightarrow> 'f \<Rightarrow> Shader \<Rightarrow> 'w \<Rightarrow> Shader \<times> 'w" where
  "SetUniform2f G n a b = SetUniformXf G n [a, b]"

definition SetUniform3f ::
    "('w, 'f) ShaderLib \<Rightarrow> string \<Rightarrow> 'f \<Rightarrow> 'f \<Rightarrow> 'f \<Rightarrow> Shader \<Rightarrow> 'w \<Rightarrow> Shader \<times> 'w" where
  "SetUniform3f G n a b c = SetUniformXf G n [a, b, c]"

definition SetUniform4f ::
    "('w, 'f) ShaderLib \<Rightarrow> string \<Rightarrow> 'f \<Rightarrow> 'f \<Rightarrow> 'f \<Rightarrow> 'f \<Rightarrow> Shader \<Rightarrow> 'w \<Rightarrow> Shader \<times> 'w" where
  "SetUniform4f G n a b c d = SetUniformXf G n [a, b, c, d]"

end
