(* ===== verification/Shadows.thy ===== *)
theory Shadows
  imports Lights ShaderProgram
begin

section \<open>Shadow casters (client/ShadowCaster.h, client/ShadowCaster.cpp)\<close>

record 'f ShadowCaster =
  cast_local :: "'f Vec2 list"
  cast_global :: "'f Vec2 list"
  cast_calcPos :: "'f Vec2"

definition new_ShadowCaster :: "(rat \<Rightarrow> 'f) \<Rightarrow> 'f ShadowCaster" where
  "new_ShadowCaster fl =
     \<lparr>cast_local = [], cast_global = [], cast_calcPos = vec2 (fl (- 1500)) (fl (- 1500))\<rparr>"

text \<open>The corners of a rectangle, counter-clockwise.\<close>

definition corners :: "'f::plus Rect \<Rightarrow> 'f Vec2 list" where
  "corners r = [vec2 (r_x r) (r_y r), vec2 (r_x r + r_w r) (r_y r),
                vec2 (r_x r + r_w r) (r_y r + r_h r), vec2 (r_x r) (r_y r + r_h r)]"

definition translate :: "'f::plus Vec2 \<Rightarrow> 'f Vec2 \<Rightarrow> 'f Vec2" where
  "translate p v = vec2 (v_x v + v_x p) (v_y v + v_y p)"

definition CalculateGlobalVertices ::
    "'f::plus GameObject \<Rightarrow> 'f ShadowCaster \<Rightarrow> 'f ShadowCaster" where
  "CalculateGlobalVertices go c =
     c\<lparr>cast_calcPos := go_WorldPosition go,
       cast_global := map (translate (go_WorldPosition go)) (cast_local c)\<rparr>"

definition SetShadowRectangle ::
    "'f::plus GameObject \<Rightarrow> 'f Rect \<Rightarrow> 'f ShadowCaster \<Rightarrow> 'f ShadowCaster" where
  "SetShadowRectangle go srect c = CalculateGlobalVertices go (c\<lparr>cast_local := corners srect\<rparr>)"

definition GetShadowRect :: "'f::{minus,times} GameObject \<Rightarrow> 'f Rect res" where
  "GetShadowRect go =
     (case go_texture go of
        None \<Rightarrow> Inl NullDeref
      | Some d \<Rightarrow>
          let dim = vec2 (v_x d * v_x (go_Scale go)) (v_y d * v_y (go_Scale go));
              pos = go_WorldPosition go
          in Inr (rect (v_x pos - v_x (go_Pivot go) * v_x dim) (v_y pos - v_y (go_Pivot go) * v_y dim)
                       (v_x dim) (v_y dim)))"

definition CreateShadowVertices ::
    "'f::{plus,minus,times} GameObject \<Rightarrow> 'f ShadowCaster \<Rightarrow> 'f ShadowCaster res" where
  "CreateShadowVertices go c =
     rbind (GetShadowRect go) (\<lambda>r. Inr (c\<lparr>cast_local := corners r\<rparr>))"

definition IsPositionDirty ::
    "(rat \<Rightarrow> 'f::{minus,ord}) \<Rightarrow> 'f Libm \<Rightarrow> 'f GameObject \<Rightarrow> 'f ShadowCaster \<Rightarrow> bool" where
  "IsPositionDirty fl m go c =
     (let p = go_WorldPosition go;
          d = vec2 (m_fabs m (v_x p - v_x (cast_calcPos c))) (m_fabs m (v_y p - v_y (cast_calcPos c)))
      in m_Length m d > fl (1 / 1000))"

definition GetShadowShape ::
    "(rat \<Rightarrow> 'f::{plus,minus,times,ord}) \<Rightarrow> 'f Libm \<Rightarrow> 'f GameObject \<Rightarrow> 'f ShadowCaster
       \<Rightarrow> ('f Vec2 list \<times> 'f ShadowCaster) res" where
  "GetShadowShape fl m go c =
     rbind (if cast_local c = [] then CreateShadowVertices go c else Inr c) (\<lambda>c.
       let c = (if cast_global c = [] \<or> IsPositionDirty fl m go c then CalculateGlobalVertices go c else c)
       in Inr (cast_global c, c))"

text \<open>The two loops of \<open>GetAABB\<close>: the lowest coordinates, then the extent.\<close>

fun lowest :: "'f::ord Vec2 list \<Rightarrow> 'f Rect \<Rightarrow> 'f Rect" where
  "lowest [] r = r"
| "lowest (v # vs) r =
     (let r = (if v_x v < r_x r then r\<lparr>r_x := v_x v\<rparr> else r);
          r = (if v_y v < r_y r then r\<lparr>r_y := v_y v\<rparr> else r)
      in lowest vs r)"

fun extent :: "'f::{plus,minus,ord} Vec2 list \<Rightarrow> 'f Rect \<Rightarrow> 'f Rect" where
  "extent [] r = r"
| "extent (v # vs) r =
     (let r = (if v_x v > r_x r + r_w r then r\<lparr>r_w := v_x v - r_x r\<rparr> else r);
          r = (if v_y v > r_y r + r_h r then r\<lparr>r_h := v_y v - r_y r\<rparr> else r)
      in extent vs r)"

definition Caster_GetAABB ::
    "(rat \<Rightarrow> 'f::{plus,minus,ord}) \<Rightarrow> 'f GameObject \<Rightarrow> 'f ShadowCaster \<Rightarrow> 'f Rect res" where
  "Caster_GetAABB fl go c =
     (case cast_local c of
        [] \<Rightarrow> Inl OutOfBounds
      | v # vs \<Rightarrow>
          let r = rect (v_x v) (v_y v) (fl 0) (fl 0);
              r = lowest vs r;
              r = extent (v # vs) r
          in Inr (r\<lparr>r_x := r_x r + v_x (go_WorldPosition go), r_y := r_y r + v_y (go_WorldPosition go)\<rparr>))"

section \<open>The shadow layer (client/ShadowLayer.h, client/ShadowLayer.cpp)\<close>

text \<open>
  The layer holds pointers to the light sources and the casters. The objects themselves, with
  the game object each belongs to, are in a stage; a pointer without an object is a deleted one. New objects get
  the next number.
\<close>

record 'f Stage =
  st_static :: LightTexture
  st_lights :: "nat \<Rightarrow> ('f LightSource \<times> 'f GameObject) option"
  st_casters :: "nat \<Rightarrow> ('f ShadowCaster \<times> 'f GameObject) option"
  st_next :: nat

record 'f ShadowLayer =
  sl_lightSources :: "nat list"
  sl_shadowCasters :: "nat list"
  sl_shadowColor :: "'f Color"
  sl_renderTexture :: nat
  sl_shader :: Shader

definition get_light :: "'f Stage \<Rightarrow> nat \<Rightarrow> ('f LightSource \<times> 'f GameObject) res" where
  "get_light st p = (case st_lights st p of None \<Rightarrow> Inl UseAfterFree | Some l \<Rightarrow> Inr l)"

definition get_caster :: "'f Stage \<Rightarrow> nat \<Rightarrow> ('f ShadowCaster \<times> 'f GameObject) res" where
  "get_caster st p = (case st_casters st p of None \<Rightarrow> Inl UseAfterFree | Some c \<Rightarrow> Inr c)"

definition AddLightSource :: "nat \<Rightarrow> 'f ShadowLayer \<Rightarrow> 'f ShadowLayer" where
  "AddLightSource obj s = s\<lparr>sl_lightSources := sl_lightSources s @ [obj]\<rparr>"

text \<open>
  Both removal loops keep the index after an erasure. The one over the light sources is bounded
  by the number of shadow casters.
\<close>

function remove_light_loop :: "nat \<Rightarrow> nat \<Rightarrow> nat \<Rightarrow> nat list \<Rightarrow> nat list res" where
  "remove_light_loop obj n i lights =
     (if i < n then
        if i < length lights then
          if lights ! i = obj then remove_light_loop obj n i (take i lights @ drop (Suc i) lights)
          else remove_light_loop obj n (i + 1) lights
        else Inl OutOfBounds
      else Inr lights)"
  by pat_completeness auto
termination
  by (relation "measure (\<lambda>(obj, n, i, lights). length lights - i)") auto

definition RemoveLightSource :: "nat \<Rightarrow> 'f ShadowLayer \<Rightarrow> 'f ShadowLayer res" where
  "RemoveLightSource obj s =
     rbind (remove_light_loop obj (length (sl_shadowCasters s)) 0 (sl_lightSources s)) (\<lambda>lights.
       Inr (s\<lparr>sl_lightSources := lights\<rparr>))"

definition AddShadowCaster :: "nat \<Rightarrow> 'f ShadowLayer \<Rightarrow> 'f ShadowLayer" where
  "AddShadowCaster obj s = s\<lparr>sl_shadowCasters := sl_shadowCasters s @ [obj]\<rparr>"

function remove_caster_loop :: "nat \<Rightarrow> nat \<Rightarrow> nat list \<Rightarrow> nat list" where
  "remove_caster_loop obj i casters =
     (if i < length casters then
        if casters ! i = obj then remove_caster_loop obj i (take i casters @ drop (Suc i) casters)
        else remove_caster_loop obj (i + 1) casters
      else casters)"
  by pat_completeness auto
termination
  by (relation "measure (\<lambda>(obj, i, casters). length casters - i)") auto

definition RemoveShadowCaster :: "nat \<Rightarrow> 'f ShadowLayer \<Rightarrow> 'f ShadowLayer" where
  "RemoveShadowCaster obj s = s\<lparr>sl_shadowCasters := remove_caster_loop obj 0 (sl_shadowCasters s)\<rparr>"

declare remove_light_loop.simps [simp del] remove_caster_loop.simps [simp del]

definition SetShadowColor ::
    "('w, 'f) ShaderLib \<Rightarrow> 'f Color \<Rightarrow> 'f ShadowLayer \<Rightarrow> 'w \<Rightarrow> 'f ShadowLayer \<times> 'w" where
  "SetShadowColor G c s w =
     (let (sh, w) = SetUniform4f G ''ulcolor'' (col_r c) (col_g c) (col_b c) (col_a c) (sl_shader s) w
      in (s\<lparr>sl_shadowColor := c, sl_shader := sh\<rparr>, w))"

text \<open>The constructor; \<open>rt\<close> is the new render texture and \<open>c0\<close> a default-constructed colour.\<close>

definition new_ShadowLayer ::
    "(rat \<Rightarrow> 'f) \<Rightarrow> ('w, 'f) ShaderLib \<Rightarrow> nat \<Rightarrow> 'f Color \<Rightarrow> 'w \<Rightarrow> ('f ShadowLayer \<times> 'w) res" where
  "new_ShadowLayer fl G rt c0 w =
     (case new_Shader G ''res/shd/light.frag'' ''res/shd/light.vert'' w of
        (None, w) \<Rightarrow> Inl (Thrown ''Failed to load shader'')
      | (Some sh, w) \<Rightarrow>
          let (sh, w) = SetUniform1i G ''tex'' 0 sh w;
              (sh, w) = SetUniform1f G ''lalpha'' (fl (8 / 10)) sh w
          in Inr (SetShadowColor G (color (fl 0) (fl 0) (fl 0) (fl (9 / 10)))
               \<lparr>sl_lightSources = [], sl_shadowCasters = [], sl_shadowColor = c0,
                sl_renderTexture = rt, sl_shader = sh\<rparr> w))"

definition delete_ShadowLayer :: "('w, 'f) ShaderLib \<Rightarrow> 'f ShadowLayer \<Rightarrow> 'w \<Rightarrow> 'w" where
  "delete_ShadowLayer G s w = delete_Shader G (sl_shader s) w"

subsection \<open>Culling\<close>

text \<open>\<open>layerPos\<close> is the position of the game layer.\<close>

definition ShouldDrawLight ::
    "(rat \<Rightarrow> 'f::{minus,uminus}) \<Rightarrow> 'f Engine \<Rightarrow> 'f Vec2 \<Rightarrow> 'f LightSource \<Rightarrow> 'f GameObject \<Rightarrow> bool" where
  "ShouldDrawLight fl E layerPos source go =
     (let lp = go_Position go;
          rad = GetLightRadius source;
          l = rect (v_x lp - rad) (v_y lp - rad) rad rad;
          s = rect (- v_x layerPos) (- v_y layerPos) (fl 1280) (fl 720)
      in en_Overlaps E l s)"

definition WillLightHitCaster ::
    "(rat \<Rightarrow> 'f::{plus,minus,times,ord}) \<Rightarrow> 'f Engine \<Rightarrow> 'f LightSource \<Rightarrow> 'f GameObject
       \<Rightarrow> 'f ShadowCaster \<Rightarrow> 'f GameObject \<Rightarrow> bool res" where
  "WillLightHitCaster fl E source go caster cgo =
     (let lp = go_Position go;
          rad = GetLightRadius source;
          l = rect (v_x lp - rad) (v_y lp - rad) (rad * fl 2) (rad * fl 2)
      in rbind (Caster_GetAABB fl cgo caster) (\<lambda>c. Inr (en_Overlaps E l c)))"

subsection \<open>Shadow volumes\<close>

text \<open>The end point of the shadow of a corner, and the four corners pushed for one edge.\<close>

definition far_point :: "(rat \<Rightarrow> 'f::{plus,minus,times}) \<Rightarrow> 'f Engine \<Rightarrow> 'f Vec2 \<Rightarrow> 'f Vec2 \<Rightarrow> 'f Vec2" where
  "far_point fl E p v =
     (let d = en_Vec2 E;
          d = vec2 (v_x d + (v_x v - v_x p)) (v_y d + (v_y v - v_y p))
      in vec2 (v_x d * fl 1000) (v_y d * fl 1000))"

definition shadow_quad ::
    "(rat \<Rightarrow> 'f::{plus,minus,times}) \<Rightarrow> 'f Engine \<Rightarrow> 'f Vec2 \<Rightarrow> 'f Vec2 list \<Rightarrow> nat \<Rightarrow> 'f Vec2 list" where
  "shadow_quad fl E p shape j =
     (let a = shape ! (j mod length shape); b = shape ! ((1 + j) mod length shape)
      in [a, b, far_point fl E p b, far_point fl E p a])"

fun shadow_vertices_loop ::
    "(rat \<Rightarrow> 'f::{plus,minus,times,ord}) \<Rightarrow> 'f Libm \<Rightarrow> 'f Engine \<Rightarrow> 'f LightSource \<Rightarrow> 'f GameObject
       \<Rightarrow> nat list \<Rightarrow> 'f Stage \<Rightarrow> ('f Vec2 list \<times> 'f Stage) res" where
  "shadow_vertices_loop fl m E source go [] st = Inr ([], st)"
| "shadow_vertices_loop fl m E source go (cp # cps) st =
     rbind (get_caster st cp) (\<lambda>(caster, cgo).
     rbind (WillLightHitCaster fl E source go caster cgo) (\<lambda>hit.
       if \<not> hit then shadow_vertices_loop fl m E source go cps st
       else
         rbind (GetShadowShape fl m cgo caster) (\<lambda>(shape, caster).
         let st = st\<lparr>st_casters := (st_casters st)(cp \<mapsto> (caster, cgo))\<rparr>;
             p = go_WorldPosition go;
             quads = concat (map (shadow_quad fl E p shape) [0..<length shape])
         in rbind (shadow_vertices_loop fl m E source go cps st) (\<lambda>(rest, st).
              Inr (quads @ rest, st)))))"

definition GetShadowVertices ::
    "(rat \<Rightarrow> 'f::{plus,minus,times,ord}) \<Rightarrow> 'f Libm \<Rightarrow> 'f Engine \<Rightarrow> 'f LightSource \<Rightarrow> 'f GameObject
       \<Rightarrow> 'f ShadowLayer \<Rightarrow> 'f Stage \<Rightarrow> ('f Vec2 list \<times> 'f Stage) res" where
  "GetShadowVertices fl m E source go s st =
     shadow_vertices_loop fl m E source go (sl_shadowCasters s) st"

subsection \<open>Rendering\<close>

definition flat :: "'f Vec2 list \<Rightarrow> 'f list" where
  "flat vs = concat (map (\<lambda>v. [v_x v, v_y v]) vs)"

text \<open>The pointer passed is to the first element of the vector, which an empty one does not have.\<close>

definition RenderShadows ::
    "(rat \<Rightarrow> 'f::{plus,minus,times,ord}) \<Rightarrow> 'f Libm \<Rightarrow> 'f Engine \<Rightarrow> 'f LightSource \<Rightarrow> 'f GameObject
       \<Rightarrow> 'f ShadowLayer \<Rightarrow> 'f Stage \<Rightarrow> ('f gl list \<times> 'f Stage) res" where
  "RenderShadows fl m E source go s st =
     rbind (GetShadowVertices fl m E source go s st) (\<lambda>(verts, st).
       if verts = [] then Inl OutOfBounds
       else Inr
         ([Dr (Clear [GL_STENCIL_BUFFER_BIT]), Sw (StencilFunc GL_NEVER 1 0),
           Sw (StencilOp GL_REPLACE GL_REPLACE GL_REPLACE),
           Dr (Color4f (col_r (sl_shadowColor s)) (col_g (sl_shadowColor s)) (col_b (sl_shadowColor s)) (fl 1)),
           Sw (EnableClientState GL_VERTEX_ARRAY), Dr (VertexPointer 2 (Floats (flat verts))),
           Dr (DrawArrays GL_QUADS 0 (length verts)), Sw (DisableClientState GL_VERTEX_ARRAY),
           Dr (Color4ub 255 255 255 255)], st))"

definition Layer_RenderLight ::
    "(rat \<Rightarrow> 'f::{uminus,divide}) \<Rightarrow> 'f Engine \<Rightarrow> 'f LightSource \<Rightarrow> 'f GameObject \<Rightarrow> 'f Stage
       \<Rightarrow> 'f gl list res" where
  "Layer_RenderLight fl E source go st =
     rbind (Light_RenderLight fl E (go_WorldPosition go) (go_WorldRotation go) (st_static st) source)
       (\<lambda>calls. Inr ([Sw (StencilFunc GL_NOTEQUAL 1 1), Sw (StencilOp GL_KEEP GL_KEEP GL_KEEP)] @ calls))"

definition DrawFillShadow :: "(rat \<Rightarrow> 'f) \<Rightarrow> 'f Engine \<Rightarrow> 'f ShadowLayer \<Rightarrow> 'f gl list" where
  "DrawFillShadow fl E s =
     (let c = sl_shadowColor s; r = en_GetResolution E (sl_renderTexture s)
      in [Dr (Color4f (col_r c) (col_g c) (col_b c) (col_a c)),
          Sw (BlendFunc GL_ONE_MINUS_DST_ALPHA GL_ONE),
          Sw (EnableClientState GL_VERTEX_ARRAY),
          Dr (VertexPointer 2 (Floats [fl 0, fl 0, v_x r, fl 0, v_x r, v_y r, fl 0, v_y r])),
          Dr (DrawArrays GL_QUADS 0 4), Sw (DisableClientState GL_VERTEX_ARRAY),
          Dr (Color4ub 255 255 255 255), Sw (BlendFunc GL_SRC_ALPHA GL_ONE_MINUS_SRC_ALPHA)])"

definition DrawRenderTexture :: "(rat \<Rightarrow> 'f) \<Rightarrow> 'f Engine \<Rightarrow> 'f ShadowLayer \<Rightarrow> 'f gl list" where
  "DrawRenderTexture fl E s =
     (let r = en_GetResolution E (sl_renderTexture s)
      in [Sw (Enable GL_TEXTURE_2D), Sw (BindTex (sl_renderTexture s)), Sw (UseProgram (sd_prog (sl_shader s))),
          Sw (EnableClientState GL_VERTEX_ARRAY), Sw (EnableClientState GL_TEXTURE_COORD_ARRAY),
          Dr (Color4ub 255 255 255 255),
          Dr (VertexPointer 2 (Floats [fl 0, fl 0, v_x r, fl 0, v_x r, v_y r, fl 0, v_y r])),
          Dr (TexCoordPointer 2 (Floats [fl 0, fl 0, fl 1, fl 0, fl 1, fl 1, fl 0, fl 1])),
          Dr (DrawArrays GL_QUADS 0 4),
          Sw (DisableClientState GL_VERTEX_ARRAY), Sw (DisableClientState GL_TEXTURE_COORD_ARRAY),
          Sw (UseProgram 0)])"

fun render_lights ::
    "(rat \<Rightarrow> 'f::{plus,minus,uminus,times,divide,ord}) \<Rightarrow> 'f Libm \<Rightarrow> 'f Engine \<Rightarrow> 'f Vec2 \<Rightarrow> 'f ShadowLayer
       \<Rightarrow> nat list \<Rightarrow> 'f Stage \<Rightarrow> ('f gl list \<times> 'f Stage) res" where
  "render_lights fl m E layerPos s [] st = Inr ([], st)"
| "render_lights fl m E layerPos s (lp # lps) st =
     rbind (get_light st lp) (\<lambda>(source, go).
       if ShouldDrawLight fl E layerPos source go then
         rbind (RenderShadows fl m E source go s st) (\<lambda>(shadows, st).
         rbind (Layer_RenderLight fl E source go st) (\<lambda>light.
         rbind (render_lights fl m E layerPos s lps st) (\<lambda>(rest, st).
           Inr (shadows @ light @ rest, st))))
       else render_lights fl m E layerPos s lps st)"

definition ShadowLayer_Render ::
    "(rat \<Rightarrow> 'f::{plus,minus,uminus,times,divide,ord}) \<Rightarrow> 'f Libm \<Rightarrow> 'f Engine \<Rightarrow> 'f Vec2 \<Rightarrow> 'f ShadowLayer
       \<Rightarrow> 'f Stage \<Rightarrow> ('f gl list \<times> 'f Stage) res" where
  "ShadowLayer_Render fl m E layerPos s st =
     rbind (render_lights fl m E layerPos s (sl_lightSources s) st) (\<lambda>(lights, st).
       Inr ([Sw (BindFBO (sl_renderTexture s)), Sw (Enable GL_STENCIL_TEST),
             Dr (ClearColor (fl 0) (fl 0) (fl 0) (fl 0)),
             Dr (Clear [GL_COLOR_BUFFER_BIT, GL_STENCIL_BUFFER_BIT]),
             Mv PushTransform, Mv (ApplyTransform layerPos)]
            @ lights
            @ [Sw (Disable GL_STENCIL_TEST), Mv PopTransform]
            @ DrawFillShadow fl E s
            @ [Sw (UnbindFBO (sl_renderTexture s)), Mv PushMatrix, Mv LoadIdentity]
            @ DrawRenderTexture fl E s
            @ [Mv PopMatrix], st))"

end
