(* ===== verification/MapLayer.thy ===== *)
theory MapLayer
  imports Lights
begin

section \<open>Map layers (client/MapLayer.h, client/MapLayer.cpp)\<close>

text \<open>
  A drawable layer: its texture, named by the file it was loaded from, or a null pointer when there
  was no image; the corners of its tiles and their texture coordinates, and the two vertex buffers
  they are copied to. The names that \<open>glGenBuffers\<close> yields are an argument.
\<close>

record 'f MapLayer =
  ml_texture :: "string option"
  ml_texCoords :: "'f list"
  ml_vertices :: "'f list"
  ml_numTiles :: int
  ml_tileSize :: "'f Vec2"
  ml_texBuf :: nat
  ml_vertBuf :: nat

definition new_MapLayer :: "'f Engine \<Rightarrow> string \<Rightarrow> 'f MapLayer" where
  "new_MapLayer E textureFile =
     \<lparr>ml_texture = map_option (\<lambda>_. textureFile) (en_LoadTexture E textureFile),
      ml_texCoords = [], ml_vertices = [], ml_numTiles = 0,
      ml_tileSize = en_Vec2 E, ml_texBuf = 0, ml_vertBuf = 0\<rparr>"

text \<open>The corners of a rectangle, as both coordinate vectors get them.\<close>

definition quad :: "'f::plus Rect \<Rightarrow> 'f list" where
  "quad r = [r_x r, r_y r, r_x r + r_w r, r_y r, r_x r + r_w r, r_y r + r_h r, r_x r, r_y r + r_h r]"

definition AddTile :: "'f::plus Rect \<Rightarrow> 'f Rect \<Rightarrow> 'f MapLayer \<Rightarrow> 'f MapLayer res" where
  "AddTile worldClip texClip m =
     rbind (iadd (ml_numTiles m) 1) (\<lambda>n.
       Inr (m\<lparr>ml_vertices := ml_vertices m @ quad worldClip,
              ml_texCoords := ml_texCoords m @ quad texClip,
              ml_numTiles := n, ml_tileSize := vec2 (r_w texClip) (r_h texClip)\<rparr>))"

definition DestroyBuffers :: "'f MapLayer \<Rightarrow> 'f MapLayer \<times> 'f gl list" where
  "DestroyBuffers m =
     (m\<lparr>ml_texBuf := 0, ml_vertBuf := 0\<rparr>,
      (if ml_texBuf m \<noteq> 0 then [Sw (DeleteBuffer (ml_texBuf m))] else []) @
      (if ml_vertBuf m \<noteq> 0 then [Sw (DeleteBuffer (ml_vertBuf m))] else []))"

definition CreateBuffers :: "nat \<Rightarrow> nat \<Rightarrow> 'f MapLayer \<Rightarrow> 'f MapLayer \<times> 'f gl list" where
  "CreateBuffers vertName texName m =
     (let (m, calls) = (if ml_texBuf m \<noteq> 0 \<or> ml_vertBuf m \<noteq> 0 then DestroyBuffers m else (m, []))
      in (m\<lparr>ml_vertBuf := vertName, ml_texBuf := texName\<rparr>,
          calls @ [Sw (GenBuffer vertName), Sw (GenBuffer texName), Sw PrintOpenGLErrors]))"

definition FillBuffers :: "'f MapLayer \<Rightarrow> 'f gl list" where
  "FillBuffers m =
     [Sw (BindBuffer (ml_texBuf m)), Dr (BufferData (ml_texCoords m)),
      Sw (BindBuffer (ml_vertBuf m)), Dr (BufferData (ml_vertices m)),
      Sw (BindBuffer 0), Sw PrintOpenGLErrors]"

definition CreateVBO :: "nat \<Rightarrow> nat \<Rightarrow> 'f MapLayer \<Rightarrow> 'f MapLayer \<times> 'f gl list" where
  "CreateVBO vertName texName m =
     (if ml_numTiles m = 0 then (m, [])
      else let (m, calls) = (if ml_vertBuf m = 0 \<or> ml_texBuf m = 0
                             then CreateBuffers vertName texName m else (m, []))
           in (m, calls @ FillBuffers m))"

definition MapLayer_Render :: "'f MapLayer \<Rightarrow> 'f gl list res" where
  "MapLayer_Render m =
     (if ml_numTiles m = 0 then Inr []
      else case ml_texture m of
        None \<Rightarrow> Inl NullDeref
      | Some texture \<Rightarrow>
          Inr [Mv PushMatrix, Sw (Enable GL_TEXTURE_2D), Sw (BindTextureFile texture),
               Sw (EnableClientState GL_VERTEX_ARRAY), Sw (EnableClientState GL_TEXTURE_COORD_ARRAY),
               Sw (BindBuffer (ml_vertBuf m)), Dr (VertexPointer 2 Bound),
               Sw (BindBuffer (ml_texBuf m)), Dr (TexCoordPointer 2 Bound),
               Dr (DrawArrays GL_QUADS 0 (nat (ml_numTiles m * 4))),
               Sw (BindTexture 0), Sw (BindBuffer 0), Sw (Disable GL_TEXTURE_2D), Mv PopMatrix,
               Sw PrintOpenGLErrors])"

definition delete_MapLayer :: "'f MapLayer \<Rightarrow> 'f gl list" where
  "delete_MapLayer m = snd (DestroyBuffers m)"

subsection \<open>The two coordinate vectors\<close>

definition layer_ok :: "'f MapLayer \<Rightarrow> bool" where
  "layer_ok m \<longleftrightarrow> 0 \<le> ml_numTiles m \<and> ml_numTiles m < 2 ^ 31 \<and>
     length (ml_vertices m) = 8 * nat (ml_numTiles m) \<and>
     length (ml_texCoords m) = 8 * nat (ml_numTiles m)"

lemma length_quad [simp]: "length (quad r) = 8"
  by (simp add: quad_def)

lemma new_MapLayer_ok: "layer_ok (new_MapLayer E f)"
  by (simp add: layer_ok_def new_MapLayer_def)

lemma AddTile_ok: "AddTile wc tc m = Inr m' \<Longrightarrow> layer_ok m \<Longrightarrow> layer_ok m'"
  by (auto simp: AddTile_def layer_ok_def iadd_def nat_add_distrib)

lemma AddTile_eq:
  assumes "layer_ok m" and "ml_numTiles m < 2 ^ 31 - 1"
  shows "AddTile wc tc m = Inr (m\<lparr>ml_vertices := ml_vertices m @ quad wc,
     ml_texCoords := ml_texCoords m @ quad tc, ml_numTiles := ml_numTiles m + 1,
     ml_tileSize := vec2 (r_w tc) (r_h tc)\<rparr>)"
  using assms by (simp add: AddTile_def iadd_def chk_def layer_ok_def)

text \<open>All the tiles of a list.\<close>

definition add_tiles :: "('f::plus Rect \<times> 'f Rect) list \<Rightarrow> 'f MapLayer \<Rightarrow> 'f MapLayer res" where
  "add_tiles ts m = rfold (\<lambda>(wc, tc). AddTile wc tc) ts m"

lemma add_tiles_fields:
  assumes "layer_ok m" and "ml_numTiles m + int (length ts) < 2 ^ 31"
  shows "\<exists>m'. add_tiles ts m = Inr m' \<and> layer_ok m' \<and>
     ml_numTiles m' = ml_numTiles m + int (length ts) \<and>
     ml_vertices m' = ml_vertices m @ concat (map (\<lambda>t. quad (fst t)) ts) \<and>
     ml_texCoords m' = ml_texCoords m @ concat (map (\<lambda>t. quad (snd t)) ts) \<and>
     ml_texBuf m' = ml_texBuf m \<and> ml_vertBuf m' = ml_vertBuf m \<and> ml_texture m' = ml_texture m"
  using assms unfolding add_tiles_def
proof (induction ts arbitrary: m)
  case (Cons t ts)
  obtain wc tc where t: "t = (wc, tc)" by fastforce
  from Cons.prems have e: "AddTile wc tc m = Inr (m\<lparr>ml_vertices := ml_vertices m @ quad wc,
     ml_texCoords := ml_texCoords m @ quad tc, ml_numTiles := ml_numTiles m + 1,
     ml_tileSize := vec2 (r_w tc) (r_h tc)\<rparr>)" (is "_ = Inr ?m")
    by (intro AddTile_eq) auto
  have "layer_ok ?m" using AddTile_ok [OF e Cons.prems(1)] .
  with Cons.IH [of ?m] Cons.prems(2) obtain m' where "rfold (\<lambda>(wc, tc). AddTile wc tc) ts ?m = Inr m'"
    and m': "layer_ok m'" "ml_numTiles m' = ml_numTiles m + 1 + int (length ts)"
     "ml_vertices m' = (ml_vertices m @ quad wc) @ concat (map (\<lambda>t. quad (fst t)) ts)"
     "ml_texCoords m' = (ml_texCoords m @ quad tc) @ concat (map (\<lambda>t. quad (snd t)) ts)"
     "ml_texBuf m' = ml_texBuf m" "ml_vertBuf m' = ml_vertBuf m" "ml_texture m' = ml_texture m"
    by auto
  then show ?case by (simp add: t e)
qed simp

subsection \<open>Drawing\<close>

text \<open>A layer without tiles is not drawn; any other needs its texture.\<close>

definition layer_drawable :: "'f MapLayer \<Rightarrow> bool" where
  "layer_drawable m \<longleftrightarrow> ml_numTiles m = 0 \<or> ml_texture m \<noteq> None"

lemma MapLayer_Render_fault: "MapLayer_Render m = Inl e \<longleftrightarrow> e = NullDeref \<and> \<not> layer_drawable m"
  by (auto simp: MapLayer_Render_def layer_drawable_def split: option.splits)

lemma MapLayer_Render_returns: "layer_drawable m \<Longrightarrow> \<exists>calls. MapLayer_Render m = Inr calls"
  using MapLayer_Render_fault [of m] by (cases "MapLayer_Render m") auto

subsection \<open>The buffers\<close>

text \<open>What the calls leave in the buffers: a map from buffer names to their contents.\<close>

fun buffer_exec :: "'f gl \<Rightarrow> (nat \<times> (nat \<Rightarrow> 'f list option)) \<Rightarrow> (nat \<times> (nat \<Rightarrow> 'f list option))" where
  "buffer_exec (Sw (BindBuffer b)) (cur, h) = (b, h)"
| "buffer_exec (Dr (BufferData d)) (cur, h) = (cur, h(cur \<mapsto> d))"
| "buffer_exec (Sw (GenBuffer b)) (cur, h) = (cur, h(b \<mapsto> []))"
| "buffer_exec (Sw (DeleteBuffer b)) (cur, h) = (if cur = b then 0 else cur, h(b := None))"
| "buffer_exec _ s = s"

definition buffers :: "'f gl list \<Rightarrow> (nat \<times> (nat \<Rightarrow> 'f list option)) \<Rightarrow> (nat \<times> (nat \<Rightarrow> 'f list option))" where
  "buffers calls s = fold buffer_exec calls s"

lemma CreateVBO_buffers:
  assumes "ml_numTiles m \<noteq> 0" and "CreateVBO v t m = (m', calls)"
    and "v \<noteq> t" "v \<noteq> 0" "t \<noteq> 0" and "ml_vertBuf m \<noteq> ml_texBuf m \<or> ml_vertBuf m = 0"
  shows "snd (buffers calls s) (ml_vertBuf m') = Some (ml_vertices m)
     \<and> snd (buffers calls s) (ml_texBuf m') = Some (ml_texCoords m)
     \<and> ml_vertBuf m' \<noteq> 0 \<and> ml_texBuf m' \<noteq> 0 \<and> ml_vertBuf m' \<noteq> ml_texBuf m'
     \<and> ml_numTiles m' = ml_numTiles m"
  using assms
  by (cases s) (auto simp: CreateVBO_def CreateBuffers_def DestroyBuffers_def FillBuffers_def buffers_def
      Let_def split: if_splits)

text \<open>No buffer is lost: those there were are deleted before new ones are made.\<close>

lemma CreateVBO_no_leak:
  assumes "CreateVBO v t m = (m', calls)" and "v \<noteq> t" "v \<noteq> 0" "t \<noteq> 0"
    and h: "dom h \<subseteq> {ml_vertBuf m, ml_texBuf m} - {0}" and "ml_numTiles m \<noteq> 0"
  shows "dom (snd (buffers calls (0, h))) = {ml_vertBuf m', ml_texBuf m'}"
proof -
  have h': "h b \<noteq> None \<Longrightarrow> b \<noteq> 0 \<and> (b = ml_vertBuf m \<or> b = ml_texBuf m)" for b
    using h by blast
  have "(b \<in> dom (snd (buffers calls (0, h)))) = (b \<in> {ml_vertBuf m', ml_texBuf m'})" for b
    using assms(1-4,6) h' [of b]
    by (cases "h b") (auto simp: CreateVBO_def CreateBuffers_def DestroyBuffers_def FillBuffers_def
        buffers_def Let_def split: if_splits)
  then show ?thesis by blast
qed

subsection \<open>What is drawn\<close>

text \<open>
  The state of OpenGL that decides what a call to \<open>glDrawArrays\<close> draws: the buffers and the one
  bound, the buffers the two arrays point into with the number of components of an element, the
  arrays that are on, the texture. Each such call adds its mode, its texture, and the
  vertices and texture coordinates it reads.
\<close>

record 'f raster =
  ra_bound :: nat
  ra_heap :: "nat \<Rightarrow> 'f list option"
  ra_vertex :: "nat \<times> nat"
  ra_coord :: "nat \<times> nat"
  ra_arrays :: "gl_array set"
  ra_texturing :: bool
  ra_texture :: "string option"
  ra_drawn :: "(gl_mode \<times> string option \<times> 'f list option \<times> 'f list option) list"

text \<open>The elements \<open>first\<close> to \<open>first + count\<close> of an array in a buffer, if they are there.\<close>

definition array_elements ::
    "'f raster \<Rightarrow> gl_array \<Rightarrow> nat \<times> nat \<Rightarrow> nat \<Rightarrow> nat \<Rightarrow> 'f list option" where
  "array_elements r a ptr first count =
     (case (ptr, ra_heap r (snd ptr)) of
        ((n, b), Some d) \<Rightarrow>
          if a \<in> ra_arrays r \<and> n * (first + count) \<le> length d then Some (take (n * count) (drop (n * first) d))
          else None
      | _ \<Rightarrow> None)"

fun raster_exec :: "'f gl \<Rightarrow> 'f raster \<Rightarrow> 'f raster" where
  "raster_exec (Sw (BindBuffer b)) r = r\<lparr>ra_bound := b\<rparr>"
| "raster_exec (Sw (GenBuffer b)) r = r\<lparr>ra_heap := (ra_heap r)(b \<mapsto> [])\<rparr>"
| "raster_exec (Sw (DeleteBuffer b)) r = r\<lparr>ra_heap := (ra_heap r)(b := None)\<rparr>"
| "raster_exec (Dr (BufferData d)) r = r\<lparr>ra_heap := (ra_heap r)(ra_bound r \<mapsto> d)\<rparr>"
| "raster_exec (Sw (EnableClientState a)) r = r\<lparr>ra_arrays := insert a (ra_arrays r)\<rparr>"
| "raster_exec (Sw (DisableClientState a)) r = r\<lparr>ra_arrays := ra_arrays r - {a}\<rparr>"
| "raster_exec (Sw (Enable c)) r = (if c = GL_TEXTURE_2D then r\<lparr>ra_texturing := True\<rparr> else r)"
| "raster_exec (Sw (Disable c)) r = (if c = GL_TEXTURE_2D then r\<lparr>ra_texturing := False\<rparr> else r)"
| "raster_exec (Sw (BindTextureFile f)) r = r\<lparr>ra_texture := Some f\<rparr>"
| "raster_exec (Sw (BindTexture t)) r = r\<lparr>ra_texture := None\<rparr>"
| "raster_exec (Dr (VertexPointer n Bound)) r = r\<lparr>ra_vertex := (n, ra_bound r)\<rparr>"
| "raster_exec (Dr (TexCoordPointer n Bound)) r = r\<lparr>ra_coord := (n, ra_bound r)\<rparr>"
| "raster_exec (Dr (DrawArrays mode first count)) r =
     r\<lparr>ra_drawn := ra_drawn r @
        [(mode, if ra_texturing r then ra_texture r else None,
          array_elements r GL_VERTEX_ARRAY (ra_vertex r) first count,
          array_elements r GL_TEXTURE_COORD_ARRAY (ra_coord r) first count)]\<rparr>"
| "raster_exec _ r = r"

definition raster_run :: "'f gl list \<Rightarrow> 'f raster \<Rightarrow> 'f raster" where
  "raster_run calls r = fold raster_exec calls r"

lemma raster_run_simps [simp]:
  "raster_run [] r = r" "raster_run (c # cs) r = raster_run cs (raster_exec c r)"
  "raster_run (xs @ ys) r = raster_run ys (raster_run xs r)"
  by (simp_all add: raster_run_def)

text \<open>A frame of a layer draws its tiles once, whatever the state before, out of its two buffers.\<close>

lemma MapLayer_Render_draws:
  assumes "layer_ok m" and "ml_numTiles m \<noteq> 0" and "ml_texture m = Some f" and "MapLayer_Render m = Inr frame"
    and "ra_heap r (ml_vertBuf m) = Some (ml_vertices m)" and "ra_heap r (ml_texBuf m) = Some (ml_texCoords m)"
  shows "ra_drawn (raster_run frame r) = ra_drawn r @ [(GL_QUADS, Some f, Some (ml_vertices m), Some (ml_texCoords m))]"
proof -
  have "nat (ml_numTiles m * 4) = nat (ml_numTiles m) * 4" using assms(1) by (simp add: layer_ok_def nat_mult_distrib)
  then have "2 * nat (ml_numTiles m * 4) = length (ml_vertices m)" "2 * nat (ml_numTiles m * 4) = length (ml_texCoords m)"
    using assms(1) by (simp_all add: layer_ok_def)
  with assms show ?thesis by (auto simp: MapLayer_Render_def array_elements_def)
qed

text \<open>The buffers after they are made from nothing.\<close>

lemma CreateVBO_heap:
  assumes "ml_numTiles m \<noteq> 0" and "ml_vertBuf m = 0" "ml_texBuf m = 0" and "v \<noteq> t" and "CreateVBO v t m = (m', calls)"
  shows "ra_heap (raster_run calls r) = (ra_heap r)(v \<mapsto> ml_vertices m, t \<mapsto> ml_texCoords m) \<and>
     ra_drawn (raster_run calls r) = ra_drawn r \<and>
     m' = m\<lparr>ml_vertBuf := v, ml_texBuf := t\<rparr>"
  using assms
  by (auto simp: CreateVBO_def CreateBuffers_def DestroyBuffers_def FillBuffers_def Let_def fun_eq_iff split: if_splits)

end
