(* ===== verification/TileMap.thy ===== *)
theory TileMap
  imports Geometry
begin

unbundle bit_operations_syntax

section \<open>The tile template (client/Map.h, client/Map.cpp)\<close>

text \<open>
  \<open>Map::TileTemplate\<close>: a row-major vector of flags. The index \<open>y * _w + x\<close> is computed in
  \<open>int\<close> and is not checked, so that a coordinate outside the map is either out of bounds or
  another tile.
\<close>

definition TILE_WALL :: u32 where "TILE_WALL = 0x1"
definition TILE_VENT :: u32 where "TILE_VENT = 0x2"
definition TILE_SHADOW :: u32 where "TILE_SHADOW = 0x4"

record TileTemplate =
  tt_w :: int
  tt_h :: int
  tt_tiles :: "u32 list"

definition empty_TileTemplate :: TileTemplate where
  "empty_TileTemplate = \<lparr>tt_w = 0, tt_h = 0, tt_tiles = []\<rparr>"

text \<open>A negative size, converted to \<open>size_t\<close>, exceeds what the vector can hold.\<close>

definition new_TileTemplate :: "int \<Rightarrow> int \<Rightarrow> TileTemplate res" where
  "new_TileTemplate mapWidth mapHeight =
     rbind (imul mapWidth mapHeight) (\<lambda>n.
       if n < 0 then Inl (Thrown ''vector::resize'')
       else Inr \<lparr>tt_w = mapWidth, tt_h = mapHeight, tt_tiles = replicate (nat n) 0\<rparr>)"

definition tile_index :: "TileTemplate \<Rightarrow> int \<Rightarrow> int \<Rightarrow> nat res" where
  "tile_index tt x y =
     rbind (imul y (tt_w tt)) (\<lambda>a.
     rbind (iadd a x) (\<lambda>i.
       if 0 \<le> i \<and> i < int (length (tt_tiles tt)) then Inr (nat i) else Inl OutOfBounds))"

definition AddFlag :: "int \<Rightarrow> int \<Rightarrow> u32 \<Rightarrow> TileTemplate \<Rightarrow> TileTemplate res" where
  "AddFlag x y flag tt =
     rbind (tile_index tt x y) (\<lambda>i.
       Inr (tt\<lparr>tt_tiles := (tt_tiles tt)[i := tt_tiles tt ! i OR flag]\<rparr>))"

definition GetWidth :: "TileTemplate \<Rightarrow> int" where "GetWidth tt = tt_w tt"

definition GetHeight :: "TileTemplate \<Rightarrow> int" where "GetHeight tt = tt_h tt"

definition GetFlags :: "TileTemplate \<Rightarrow> int \<Rightarrow> int \<Rightarrow> u32 res" where
  "GetFlags tt x y = rbind (tile_index tt x y) (\<lambda>i. Inr (tt_tiles tt ! i))"

subsection \<open>Well-formed templates\<close>

definition tt_ok :: "TileTemplate \<Rightarrow> bool" where
  "tt_ok tt \<longleftrightarrow> 0 \<le> tt_w tt \<and> 0 \<le> tt_h tt \<and> tt_w tt * tt_h tt < 2 ^ 31 \<and>
     length (tt_tiles tt) = nat (tt_w tt * tt_h tt)"

definition in_map :: "TileTemplate \<Rightarrow> int \<Rightarrow> int \<Rightarrow> bool" where
  "in_map tt x y \<longleftrightarrow> 0 \<le> x \<and> x < tt_w tt \<and> 0 \<le> y \<and> y < tt_h tt"

text \<open>The flags of a tile that is in the map, as a function.\<close>

definition flags_at :: "TileTemplate \<Rightarrow> int \<Rightarrow> int \<Rightarrow> u32" where
  "flags_at tt x y = tt_tiles tt ! nat (y * tt_w tt + x)"

lemma index_bounds:
  assumes "in_map tt x y"
  shows "0 \<le> y * tt_w tt + x" "y * tt_w tt + x < tt_w tt * tt_h tt" "0 \<le> y * tt_w tt"
proof -
  from assms have xy: "0 \<le> x" "x < tt_w tt" "0 \<le> y" "y \<le> tt_h tt - 1" by (auto simp: in_map_def)
  then have "y * tt_w tt \<le> (tt_h tt - 1) * tt_w tt" by (intro mult_right_mono) auto
  with xy show "0 \<le> y * tt_w tt + x" "y * tt_w tt + x < tt_w tt * tt_h tt" "0 \<le> y * tt_w tt"
    by (auto simp: algebra_simps)
qed

lemma tile_index_in_map:
  assumes "tt_ok tt" and "in_map tt x y"
  shows "tile_index tt x y = Inr (nat (y * tt_w tt + x))"
proof -
  note b = index_bounds [OF assms(2)]
  have "y * tt_w tt < 2 ^ 31" "y * tt_w tt + x < 2 ^ 31"
    using b assms by (auto simp: tt_ok_def in_map_def)
  with b assms(1) show ?thesis
    by (simp add: tile_index_def imul_def iadd_def chk_def tt_ok_def)
qed

lemma index_inject:
  assumes "in_map tt x y" and "in_map tt x' y'"
  shows "y * tt_w tt + x = y' * tt_w tt + x' \<longleftrightarrow> x = x' \<and> y = y'"
proof
  assume eq: "y * tt_w tt + x = y' * tt_w tt + x'"
  have "(y * tt_w tt + x) div tt_w tt = y" "(y' * tt_w tt + x') div tt_w tt = y'"
    using assms by (auto simp: in_map_def)
  with eq have "y = y'" by metis
  with eq show "x = x' \<and> y = y'" by simp
qed simp

lemma nat_index_inject:
  assumes "in_map tt x y" and "in_map tt x' y'"
  shows "nat (y * tt_w tt + x) = nat (y' * tt_w tt + x') \<longleftrightarrow> x = x' \<and> y = y'"
  using index_bounds(1) [OF assms(1)] index_bounds(1) [OF assms(2)] index_inject [OF assms] by auto

lemma new_TileTemplate_eq:
  assumes "0 \<le> w" and "0 \<le> h" and "w * h < 2 ^ 31"
  shows "new_TileTemplate w h = Inr \<lparr>tt_w = w, tt_h = h, tt_tiles = replicate (nat (w * h)) 0\<rparr>"
proof -
  have "0 \<le> w * h" using assms by simp
  then have "\<not> w * h < 0" "- (2 ^ 31) \<le> w * h" by simp_all
  then show ?thesis using assms(3) by (simp add: new_TileTemplate_def imul_def chk_def)
qed

lemma new_TileTemplate_Inr:
  assumes "new_TileTemplate w h = Inr tt" and "0 \<le> w" "0 \<le> h"
  shows "tt = \<lparr>tt_w = w, tt_h = h, tt_tiles = replicate (nat (w * h)) 0\<rparr> \<and> w * h < 2 ^ 31"
proof -
  from assms(1) have "w * h < 2 ^ 31" by (auto simp: new_TileTemplate_def imul_def)
  with new_TileTemplate_eq [OF assms(2,3)] assms(1) show ?thesis by simp
qed

lemma new_TileTemplate_ok:
  assumes "new_TileTemplate w h = Inr tt" and "0 \<le> w" "0 \<le> h"
  shows "tt_ok tt \<and> tt_w tt = w \<and> tt_h tt = h"
  using new_TileTemplate_Inr [OF assms] assms by (simp add: tt_ok_def)

lemma flags_at_new:
  assumes "new_TileTemplate w h = Inr tt" and "0 \<le> w" "0 \<le> h" and "in_map tt x y"
  shows "flags_at tt x y = 0"
  using new_TileTemplate_Inr [OF assms(1-3)] index_bounds [OF assms(4)]
  by (auto simp: flags_at_def)

text \<open>Inside the map, \<open>AddFlag\<close> sets bits of one tile and \<open>GetFlags\<close> reads them.\<close>

lemma AddFlag_in_map:
  assumes "tt_ok tt" and "in_map tt x y"
  shows "\<exists>tt'. AddFlag x y f tt = Inr tt' \<and> tt_ok tt' \<and> tt_w tt' = tt_w tt \<and> tt_h tt' = tt_h tt \<and>
     (\<forall>x' y'. in_map tt x' y' \<longrightarrow>
        flags_at tt' x' y' = (if x' = x \<and> y' = y then flags_at tt x y OR f else flags_at tt x' y'))"
proof -
  let ?i = "nat (y * tt_w tt + x)"
  have i: "?i < length (tt_tiles tt)"
    using index_bounds [OF assms(2)] assms(1) by (simp add: tt_ok_def)
  have "(tt_tiles tt)[?i := v] ! nat (y' * tt_w tt + x')
      = (if x' = x \<and> y' = y then v else tt_tiles tt ! nat (y' * tt_w tt + x'))"
    if "in_map tt x' y'" for x' y' v
    using nat_index_inject [OF that assms(2)] i by auto
  with assms show ?thesis
    by (auto simp: AddFlag_def tile_index_in_map tt_ok_def flags_at_def)
qed

lemma GetFlags_in_map:
  "tt_ok tt \<Longrightarrow> in_map tt x y \<Longrightarrow> GetFlags tt x y = Inr (flags_at tt x y)"
  by (simp add: GetFlags_def tile_index_in_map flags_at_def)

lemma AddFlag_ok:
  assumes "AddFlag x y f tt = Inr tt'" and "tt_ok tt"
  shows "tt_ok tt' \<and> tt_w tt' = tt_w tt \<and> tt_h tt' = tt_h tt"
  using assms by (auto simp: AddFlag_def tt_ok_def)

text \<open>A column past the right edge is the start of the next row.\<close>

lemma GetFlags_past_edge:
  assumes "tt_ok tt" and "0 \<le> y" and "y + 1 < tt_h tt" and "0 < tt_w tt"
  shows "GetFlags tt (tt_w tt) y = GetFlags tt 0 (y + 1)"
proof -
  have "(y + 1) * tt_w tt \<le> (tt_h tt - 1) * tt_w tt"
    using assms by (intro mult_right_mono) auto
  then have "(y + 1) * tt_w tt < 2 ^ 31"
    using assms by (auto simp: tt_ok_def algebra_simps)
  moreover have "0 \<le> y * tt_w tt" using assms by simp
  ultimately have "imul y (tt_w tt) = Inr (y * tt_w tt)" "iadd (y * tt_w tt) (tt_w tt) = Inr ((y + 1) * tt_w tt)"
    "imul (y + 1) (tt_w tt) = Inr ((y + 1) * tt_w tt)" "iadd ((y + 1) * tt_w tt) 0 = Inr ((y + 1) * tt_w tt)"
    using assms(4) by (auto simp: imul_def iadd_def algebra_simps)
  then show ?thesis by (simp add: GetFlags_def tile_index_def)
qed

end
