(* ===== verification/DebugDraw.thy ===== *)
theory DebugDraw
  imports Lights
begin

section \<open>The debug drawer of the physics (client/PhysicsDebugDrawer.h, client/PhysicsDebugDrawer.cpp)\<close>

text \<open>
  The functions that Box2D calls back to draw its shapes. The overloads with a drawing mode are
  the private ones. The loop that makes the points of a circle adds up a \<open>float\<close>; whether it ends
  depends on that arithmetic, so that it is a partial function, and \<open>circle_loop_exact\<close> shows what
  it yields where the arithmetic is exact.
\<close>

definition CommonPreRender :: "(rat \<Rightarrow> 'f) \<Rightarrow> 'f gl list" where
  "CommonPreRender fl =
     [Mv PushMatrix, Mv (Scalef (B2_PTM fl) (B2_PTM fl) (fl 1)),
      Sw (EnableClientState GL_VERTEX_ARRAY), Sw (Disable GL_TEXTURE_2D)]"

definition CommonPostRender :: "'f gl list" where
  "CommonPostRender =
     [Mv PopMatrix, Sw (DisableClientState GL_VERTEX_ARRAY), Dr (Color3ub 255 255 255)]"

definition coords :: "'f b2Vec2 list \<Rightarrow> 'f list" where
  "coords vs = concat (map (\<lambda>v. [b2_x v, b2_y v]) vs)"

definition DrawPolygon_mode :: "(rat \<Rightarrow> 'f) \<Rightarrow> 'f b2Vec2 list \<Rightarrow> 'f Color \<Rightarrow> gl_mode \<Rightarrow> 'f gl list" where
  "DrawPolygon_mode fl vertices c drawMode =
     CommonPreRender fl
     @ [Dr (Color4f (col_r c) (col_g c) (col_b c) (col_a c)), Dr (VertexPointer 2 (Floats (coords vertices))),
        Dr (DrawArrays drawMode 0 (length vertices))]
     @ CommonPostRender"

definition DrawPolygon :: "(rat \<Rightarrow> 'f) \<Rightarrow> 'f b2Vec2 list \<Rightarrow> 'f Color \<Rightarrow> 'f gl list" where
  "DrawPolygon fl vertices c = DrawPolygon_mode fl vertices (c\<lparr>col_a := fl (2 / 10)\<rparr>) GL_LINE_LOOP"

definition DrawSolidPolygon :: "(rat \<Rightarrow> 'f) \<Rightarrow> 'f b2Vec2 list \<Rightarrow> 'f Color \<Rightarrow> 'f gl list" where
  "DrawSolidPolygon fl vertices c = DrawPolygon_mode fl vertices (c\<lparr>col_a := fl (4 / 10)\<rparr>) GL_POLYGON"

definition circle_point :: "'f::times Libm \<Rightarrow> 'f \<Rightarrow> 'f \<Rightarrow> 'f b2Vec2" where
  "circle_point m radius r = b2vec (radius * m_cos m r) (radius * m_sin m r)"

definition tris :: int where "tris = 20"

partial_function (option) circle_loop ::
    "(rat \<Rightarrow> 'f::{plus,times,divide,ord}) \<Rightarrow> 'f Libm \<Rightarrow> 'f \<Rightarrow> 'f \<Rightarrow> 'f b2Vec2 list \<Rightarrow> 'f b2Vec2 list option" where
  "circle_loop fl m radius r pts =
     (if r < m_pi2 m
      then circle_loop fl m radius (r + m_pi2 m div fl (of_int tris)) (pts @ [circle_point m radius r])
      else Some pts)"

text \<open>The first vertex is pushed again to close a fan; the fan's centre is at index 0.\<close>

definition DrawCircle_mode ::
    "(rat \<Rightarrow> 'f::{plus,times,divide,ord}) \<Rightarrow> 'f Libm \<Rightarrow> 'f b2Vec2 \<Rightarrow> 'f \<Rightarrow> 'f Color \<Rightarrow> gl_mode \<Rightarrow> 'f gl list run" where
  "DrawCircle_mode fl m center radius c drawMode =
     (case circle_loop fl m radius (fl 0) (if drawMode = GL_TRIANGLE_FAN then [b2vec (fl 0) (fl 0)] else []) of
        None \<Rightarrow> None
      | Some pts \<Rightarrow>
          if drawMode = GL_TRIANGLE_FAN \<and> length pts < 2 \<or> pts = [] then Some (Inl OutOfBounds)
          else
            let pts = (if drawMode = GL_TRIANGLE_FAN then pts @ [pts ! 1] else pts)
            in Some (Inr (CommonPreRender fl
                 @ [Mv (Translatef (b2_x center) (b2_y center) (fl 0)),
                    Dr (Color4f (col_r c) (col_g c) (col_b c) (col_a c)),
                    Dr (VertexPointer 2 (Floats (coords pts))), Dr (DrawArrays drawMode 0 (length pts))]
                 @ CommonPostRender)))"

definition DrawCircle ::
    "(rat \<Rightarrow> 'f::{plus,times,divide,ord}) \<Rightarrow> 'f Libm \<Rightarrow> 'f b2Vec2 \<Rightarrow> 'f \<Rightarrow> 'f Color \<Rightarrow> 'f gl list run" where
  "DrawCircle fl m center radius c =
     DrawCircle_mode fl m center radius (c\<lparr>col_a := fl (2 / 10)\<rparr>) GL_TRIANGLE_FAN"

definition DrawSolidCircle ::
    "(rat \<Rightarrow> 'f::{plus,times,divide,ord}) \<Rightarrow> 'f Libm \<Rightarrow> 'f b2Vec2 \<Rightarrow> 'f \<Rightarrow> 'f b2Vec2 \<Rightarrow> 'f Color \<Rightarrow> 'f gl list run" where
  "DrawSolidCircle fl m center radius axis c =
     DrawCircle_mode fl m center radius (c\<lparr>col_a := fl (4 / 10)\<rparr>) GL_LINE_LOOP"

definition DrawSegment :: "(rat \<Rightarrow> 'f) \<Rightarrow> 'f b2Vec2 \<Rightarrow> 'f b2Vec2 \<Rightarrow> 'f Color \<Rightarrow> 'f gl list" where
  "DrawSegment fl p1 p2 c =
     CommonPreRender fl
     @ [Dr (Color4f (col_r c) (col_g c) (col_b c) (fl (4 / 10))), Dr (VertexPointer 2 (Floats (coords [p1, p2]))),
        Dr (DrawArrays GL_LINES 0 2)]
     @ CommonPostRender"

text \<open>\<open>angle\<close> is the angle of the transform's rotation.\<close>

definition DrawTransform :: "(rat \<Rightarrow> 'f::uminus) \<Rightarrow> 'f \<Rightarrow> 'f gl list" where
  "DrawTransform fl angle =
     CommonPreRender fl
     @ [Mv (Rotatef angle (fl 0) (fl 0) (fl 1)), Dr (Color4ub 255 0 0 200),
        Dr (VertexPointer 2 (Floats
          [fl 0, fl 0, fl 1, fl 0, fl 1, fl 0, fl (95 / 100), fl (4 / 100), fl 1, fl 0, fl (95 / 100), - fl (4 / 100)])),
        Dr (DrawArrays GL_LINES 0 6)]
     @ CommonPostRender"

subsection \<open>What Box2D asks to be drawn\<close>

datatype 'f debug_call =
    CallPolygon "'f b2Vec2 list" "'f Color"
  | CallSolidPolygon "'f b2Vec2 list" "'f Color"
  | CallCircle "'f b2Vec2" 'f "'f Color"
  | CallSolidCircle "'f b2Vec2" 'f "'f b2Vec2" "'f Color"
  | CallSegment "'f b2Vec2" "'f b2Vec2" "'f Color"
  | CallTransform 'f

fun debug_draw ::
    "(rat \<Rightarrow> 'f::{plus,uminus,times,divide,ord}) \<Rightarrow> 'f Libm \<Rightarrow> 'f debug_call \<Rightarrow> 'f gl list run" where
  "debug_draw fl m (CallPolygon vs c) = Some (Inr (DrawPolygon fl vs c))"
| "debug_draw fl m (CallSolidPolygon vs c) = Some (Inr (DrawSolidPolygon fl vs c))"
| "debug_draw fl m (CallCircle p r c) = DrawCircle fl m p r c"
| "debug_draw fl m (CallSolidCircle p r a c) = DrawSolidCircle fl m p r a c"
| "debug_draw fl m (CallSegment p q c) = Some (Inr (DrawSegment fl p q c))"
| "debug_draw fl m (CallTransform a) = Some (Inr (DrawTransform fl a))"

primrec debug_draws ::
    "(rat \<Rightarrow> 'f::{plus,uminus,times,divide,ord}) \<Rightarrow> 'f Libm \<Rightarrow> 'f debug_call list \<Rightarrow> 'f gl list run" where
  "debug_draws fl m [] = Some (Inr [])"
| "debug_draws fl m (c # cs) =
     run_bind (debug_draw fl m c) (\<lambda>calls. run_bind (debug_draws fl m cs) (\<lambda>rest. Some (Inr (calls @ rest))))"

subsection \<open>The circle\<close>

lemma circle_loop_steps:
  assumes "m_pi2 m > (0 :: 'f::linordered_field)" and "fl = of_rat"
  shows "k \<le> 20 \<Longrightarrow> circle_loop fl m radius (of_nat k * (m_pi2 m / 20)) pts
     = Some (pts @ map (\<lambda>i. circle_point m radius (of_nat i * (m_pi2 m / 20))) [k..<20])"
proof (induction "20 - k" arbitrary: k pts)
  case 0
  then show ?case by (subst circle_loop.simps) simp
next
  case (Suc n)
  then have k: "k < 20" by simp
  have "of_nat k * (m_pi2 m / 20) < of_nat 20 * (m_pi2 m / 20)"
    using assms(1) k by (intro mult_strict_right_mono) (simp_all del: of_nat_numeral)
  then have lt: "of_nat k * (m_pi2 m / 20) < m_pi2 m" by simp
  have next_r: "of_nat k * (m_pi2 m / 20) + m_pi2 m / fl (of_int tris) = of_nat (Suc k) * (m_pi2 m / 20)"
    by (simp add: assms(2) tris_def field_simps)
  have "[k..<20] = k # [Suc k..<20]" using k by (simp add: upt_rec)
  moreover have "circle_loop fl m radius (of_nat (Suc k) * (m_pi2 m / 20)) ps
     = Some (ps @ map (\<lambda>i. circle_point m radius (of_nat i * (m_pi2 m / 20))) [Suc k..<20])" for ps
    using Suc.hyps(1) [of "Suc k"] Suc.hyps(2) k by simp
  ultimately show ?case
    by (subst circle_loop.simps) (simp only: lt next_r if_True list.map append_assoc append.simps)
qed

lemma circle_loop_exact:
  assumes "m_pi2 m > (0 :: 'f::linordered_field)"
  shows "circle_loop of_rat m radius (of_rat 0) pts
     = Some (pts @ map (\<lambda>i. circle_point m radius (of_nat i * (m_pi2 m / 20))) [0..<20])"
  using circle_loop_steps [OF assms refl, of 0 radius pts] by simp

end
