(* ===== verification/GameMap.thy ===== *)
theory GameMap
  imports Shadows MapLayer TileMap DebugDraw
begin

section \<open>The map and its loader (client/Map.h, client/Map.cpp, client/MapLoader.h, client/MapLoader.cpp)\<close>

text \<open>
  \<open>Map\<close> owns the two drawable layers, the tile template and the physics world. Box2D is an
  argument that works on a state \<open>'b\<close>; what a body or fixture definition leaves at the library's
  default is \<open>None\<close>; the shapes it draws are the calls it makes to the debug drawer. \<open>MapLoader\<close> makes the bodies and shadow casters that the template asks for.
\<close>

datatype body_type = b2_staticBody | b2_dynamicBody

datatype 'f shape = Box 'f 'f | Circle 'f

record 'f BodyDef =
  bd_type :: body_type
  bd_fixedRotation :: "bool option"
  bd_allowSleep :: "bool option"
  bd_position :: "'f b2Vec2 option"

record 'f FixtureDef =
  fd_shape :: "'f shape"
  fd_categoryBits :: u16
  fd_maskBits :: u16
  fd_density :: "'f option"
  fd_friction :: "'f option"

record ('b, 'f) Box2D =
  bx_new_world :: 'b
  bx_delete_world :: "'b \<Rightarrow> 'b"
  bx_CreateBody :: "'b \<Rightarrow> 'f BodyDef \<Rightarrow> nat \<times> 'b"
  bx_CreateFixture :: "'b \<Rightarrow> nat \<Rightarrow> 'f FixtureDef \<Rightarrow> 'b"
  bx_DestroyBody :: "'b \<Rightarrow> nat \<Rightarrow> 'b"
  bx_Step :: "'b \<Rightarrow> 'f \<Rightarrow> int \<Rightarrow> int \<Rightarrow> 'b"
  bx_GetPosition :: "'b \<Rightarrow> nat \<Rightarrow> 'f b2Vec2"
  bx_SetLinearVelocity :: "'b \<Rightarrow> nat \<Rightarrow> 'f b2Vec2 \<Rightarrow> 'b"
  bx_DrawDebugData :: "'b \<Rightarrow> 'f debug_call list"

subsection \<open>\<open>Map\<close>\<close>

record ('b, 'f) Map =
  map_bgLayer :: "'f MapLayer option"
  map_fgLayer :: "'f MapLayer option"
  map_tileTemplate :: TileTemplate
  map_b2World :: 'b
  map_globalBodies :: "nat list"

definition new_Map :: "('b, 'f) Box2D \<Rightarrow> ('b, 'f) Map" where
  "new_Map B =
     \<lparr>map_bgLayer = None, map_fgLayer = None, map_tileTemplate = empty_TileTemplate,
      map_b2World = bx_new_world B, map_globalBodies = []\<rparr>"

definition delete_Map :: "('b, 'f) Box2D \<Rightarrow> ('b, 'f) Map \<Rightarrow> 'b" where
  "delete_Map B m =
     bx_delete_world B (fold (\<lambda>b w. bx_DestroyBody B w b) (map_globalBodies m) (map_b2World m))"

definition SetBackgroundLayer :: "'f MapLayer \<Rightarrow> ('b, 'f) Map \<Rightarrow> ('b, 'f) Map" where
  "SetBackgroundLayer layer m = m\<lparr>map_bgLayer := Some layer\<rparr>"

definition SetForegroundLayer :: "'f MapLayer \<Rightarrow> ('b, 'f) Map \<Rightarrow> ('b, 'f) Map" where
  "SetForegroundLayer layer m = m\<lparr>map_fgLayer := Some layer\<rparr>"

definition SetTileTemplate :: "TileTemplate \<Rightarrow> ('b, 'f) Map \<Rightarrow> ('b, 'f) Map" where
  "SetTileTemplate tt m = m\<lparr>map_tileTemplate := tt\<rparr>"

definition GetTileTemplate :: "('b, 'f) Map \<Rightarrow> TileTemplate" where
  "GetTileTemplate m = map_tileTemplate m"

definition GetB2World :: "('b, 'f) Map \<Rightarrow> 'b" where "GetB2World m = map_b2World m"

definition AddGlobalBody :: "nat \<Rightarrow> ('b, 'f) Map \<Rightarrow> ('b, 'f) Map" where
  "AddGlobalBody body m = m\<lparr>map_globalBodies := map_globalBodies m @ [body]\<rparr>"

definition Map_Update :: "(rat \<Rightarrow> 'f::divide) \<Rightarrow> ('b, 'f) Box2D \<Rightarrow> ('b, 'f) Map \<Rightarrow> ('b, 'f) Map" where
  "Map_Update fl B m = m\<lparr>map_b2World := bx_Step B (map_b2World m) (fl 1 div fl 60) 10 10\<rparr>"

definition Map_Render :: "('b, 'f) Map \<Rightarrow> 'f gl list" where "Map_Render m = []"

definition render_layer :: "'f MapLayer option \<Rightarrow> 'f gl list res" where
  "render_layer layer = (case layer of None \<Rightarrow> Inr [] | Some l \<Rightarrow> MapLayer_Render l)"

definition RenderBackgroundLayer :: "('b, 'f) Map \<Rightarrow> 'f gl list res" where
  "RenderBackgroundLayer m = render_layer (map_bgLayer m)"

definition RenderForegroundLayer ::
    "(rat \<Rightarrow> 'f::{plus,uminus,times,divide,ord}) \<Rightarrow> 'f Libm \<Rightarrow> ('b, 'f) Box2D \<Rightarrow> ('b, 'f) Map
       \<Rightarrow> 'f gl list run" where
  "RenderForegroundLayer fl lm B m =
     run_bind (Some (render_layer (map_fgLayer m))) (\<lambda>layer.
     run_bind (debug_draws fl lm (bx_DrawDebugData B (map_b2World m))) (\<lambda>shapes.
       Some (Inr (layer @ shapes))))"

subsection \<open>What the client has loaded\<close>

text \<open>The map, the shadow layer, and the stage with the lights and casters it points to.\<close>

record ('b, 'f) Game =
  gm_map :: "('b, 'f) Map"
  gm_shadow :: "'f ShadowLayer"
  gm_stage :: "'f Stage"

subsection \<open>\<open>MapLoader\<close>\<close>

text \<open>
  \<open>LoadShadowCaster\<close>: a new game object at the tile, a child of the shadow layer, with a shadow
  caster that is registered and then given the rectangle of a tile.
\<close>

definition LoadShadowCaster ::
    "(rat \<Rightarrow> 'f::plus) \<Rightarrow> 'f Engine \<Rightarrow> int \<Rightarrow> int \<Rightarrow> ('b, 'f) Game \<Rightarrow> ('b, 'f) Game res" where
  "LoadShadowCaster fl E x y g =
     rbind (imul x MAP_TILE_SIZE) (\<lambda>px.
     rbind (imul y MAP_TILE_SIZE) (\<lambda>py.
       let go = en_AddToShadowLayer E ((en_GameObject E)\<lparr>go_Position := vec2 (fl (of_int px)) (fl (of_int py))\<rparr>);
           sc = new_ShadowCaster fl;
           st = gm_stage g; ptr = st_next st;
           size = fl (of_int MAP_TILE_SIZE);
           sc = SetShadowRectangle go (rect (fl 0) (fl 0) size size) sc
       in Inr (g\<lparr>gm_shadow := AddShadowCaster ptr (gm_shadow g),
                 gm_stage := st\<lparr>st_casters := (st_casters st)(ptr \<mapsto> (sc, go)), st_next := ptr + 1\<rparr>\<rparr>)))"

definition wall_body :: "(rat \<Rightarrow> 'f::{plus,times,divide}) \<Rightarrow> int \<Rightarrow> int \<Rightarrow> 'f BodyDef" where
  "wall_body fl x y =
     \<lparr>bd_type = b2_staticBody, bd_fixedRotation = Some True, bd_allowSleep = None,
      bd_position = Some (b2vec
        ((fl (of_int MAP_TILE_SIZE) * (fl (of_int x) + fl (1 / 2))) div B2_PTM fl)
        ((fl (of_int MAP_TILE_SIZE) * (fl (of_int y) + fl (1 / 2))) div B2_PTM fl))\<rparr>"

definition wall_fixture :: "(rat \<Rightarrow> 'f::divide) \<Rightarrow> bool \<Rightarrow> 'f FixtureDef" where
  "wall_fixture fl isVentilation =
     (let metersWide = fl (of_int B2METER_PER_TILE) div fl 2
      in \<lparr>fd_shape = Box metersWide metersWide,
          fd_categoryBits = (if isVentilation then WALL else VENTILATION),
          fd_maskBits = PLAYER, fd_density = None, fd_friction = None\<rparr>)"

definition LoadWall ::
    "(rat \<Rightarrow> 'f::{plus,times,divide}) \<Rightarrow> ('b, 'f) Box2D \<Rightarrow> int \<Rightarrow> int \<Rightarrow> bool \<Rightarrow> ('b, 'f) Map \<Rightarrow> ('b, 'f) Map" where
  "LoadWall fl B x y isVentilation m =
     (let (body, w) = bx_CreateBody B (GetB2World m) (wall_body fl x y);
          w = bx_CreateFixture B w body (wall_fixture fl isVentilation)
      in AddGlobalBody body (m\<lparr>map_b2World := w\<rparr>))"

text \<open>The body of the loops, and \<open>LoadMap\<close>: column by column, on a copy of the template.\<close>

definition load_tile ::
    "(rat \<Rightarrow> 'f::{plus,times,divide}) \<Rightarrow> 'f Engine \<Rightarrow> ('b, 'f) Box2D \<Rightarrow> TileTemplate \<Rightarrow> int \<Rightarrow> int
       \<Rightarrow> ('b, 'f) Game \<Rightarrow> ('b, 'f) Game res" where
  "load_tile fl E B tt x y g =
     rbind (GetFlags tt x y) (\<lambda>flags.
     rbind (if and flags TILE_SHADOW \<noteq> 0 then LoadShadowCaster fl E x y g else Inr g) (\<lambda>g.
       if and flags TILE_WALL \<noteq> 0 then
         let vent = (and flags TILE_VENT \<noteq> 0)
         in Inr (g\<lparr>gm_map := LoadWall fl B x y vent (gm_map g)\<rparr>)
       else Inr g))"

definition LoadMap ::
    "(rat \<Rightarrow> 'f::{plus,times,divide}) \<Rightarrow> 'f Engine \<Rightarrow> ('b, 'f) Box2D \<Rightarrow> ('b, 'f) Game \<Rightarrow> ('b, 'f) Game res" where
  "LoadMap fl E B g =
     (let tt = GetTileTemplate (gm_map g)
      in rfold (\<lambda>x. rfold (\<lambda>y. load_tile fl E B tt x y) (upto_int (GetHeight tt)))
           (upto_int (GetWidth tt)) g)"

section \<open>Adding a light (client/GameLayer.cpp)\<close>

text \<open>
  \<open>GameLayer::AddLight\<close>: the log message is formatted into a buffer of 256 characters; \<open>fmt\<close> is
  the text of a number under \<open>%g\<close>. Then a new game object gets a light source with the radius and
  colour, its position, and becomes a child of the layer.
\<close>

definition AddLight_message :: "('f \<Rightarrow> string) \<Rightarrow> 'f Properties \<Rightarrow> 'f Vec2 \<Rightarrow> string \<Rightarrow> string" where
  "AddLight_message fmt props pos type =
     ''(GameLayer::AddLight) Adding light (r='' @ fmt (pr_radius props)
     @ '' R='' @ fmt (col_r (pr_color props)) @ '' G='' @ fmt (col_g (pr_color props))
     @ '' B='' @ fmt (col_b (pr_color props)) @ '' A='' @ fmt (col_a (pr_color props))
     @ '') at (x='' @ fmt (v_x pos) @ '' y='' @ fmt (v_y pos) @ '') (type='' @ type @ '')''"

definition AddLight ::
    "(rat \<Rightarrow> 'f::{plus,times,divide}) \<Rightarrow> 'f Libm \<Rightarrow> 'f Engine \<Rightarrow> ('f \<Rightarrow> string) \<Rightarrow> 'f Properties \<Rightarrow> 'f Vec2
       \<Rightarrow> string \<Rightarrow> ('b, 'f) Game \<Rightarrow> (('b, 'f) Game \<times> 'f gl list) res" where
  "AddLight fl m E fmt lightProps pos type g =
     (if length (AddLight_message fmt lightProps pos type) + 1 > 256 then Inl OutOfBounds
      else
        let st = gm_stage g; ptr = st_next st
        in rbind (SetLightProperties fl m (pr_radius lightProps) (pr_color lightProps)
                    (new_LightSource fl) (st_static st)) (\<lambda>(light, lt, calls).
           let go = en_AddToGameLayer E ((en_GameObject E)\<lparr>go_Position := pos\<rparr>)
           in Inr (g\<lparr>gm_shadow := AddLightSource ptr (gm_shadow g),
                     gm_stage := st\<lparr>st_static := lt, st_lights := (st_lights st)(ptr \<mapsto> (light, go)),
                                    st_next := ptr + 1\<rparr>\<rparr>, calls)))"

end
