(* ===== verification/Players.thy ===== *)
theory Players
  imports GameMap
begin

unbundle bit_operations_syntax

section \<open>The player (client/Player.h, client/Player.cpp)\<close>

text \<open>
  The player is a game object with a component that moves it, one that turns it to the mouse and
  a light source. Its game object is the one its light source belongs to, which the stage holds.
  A component made by the engine has the pointer to its body not yet set.
\<close>

datatype body_ref = Unset | NullBody | Body nat

definition PLAYER_DEFAULT_SPEED :: "(rat \<Rightarrow> 'f) \<Rightarrow> 'f" where "PLAYER_DEFAULT_SPEED fl = fl 400"

text \<open>The input and the window, as the components read them.\<close>

record 'f Input =
  in_IsKeyDown :: "char \<Rightarrow> bool"
  in_GetMousePosition :: "'f Vec2"
  in_GetWindowSize :: "'f Vec2"
  in_GetResolution :: "'f Vec2"

subsection \<open>\<open>MoveComponent\<close>\<close>

record 'f MoveComponent =
  mc_speed :: 'f
  mc_body :: body_ref

definition new_MoveComponent :: "(rat \<Rightarrow> 'f) \<Rightarrow> 'f MoveComponent" where
  "new_MoveComponent fl = \<lparr>mc_speed = PLAYER_DEFAULT_SPEED fl, mc_body = Unset\<rparr>"

text \<open>The direction of the keys that are down, of length at most one.\<close>

definition key_direction :: "(rat \<Rightarrow> 'f::uminus) \<Rightarrow> 'f Input \<Rightarrow> 'f Vec2" where
  "key_direction fl input =
     (let vel = vec2 (fl 0) (fl 0);
          vel = (if in_IsKeyDown input (CHR ''a'') then vel\<lparr>v_x := - fl 1\<rparr> else vel);
          vel = (if in_IsKeyDown input (CHR ''d'') then vel\<lparr>v_x := fl 1\<rparr> else vel);
          vel = (if in_IsKeyDown input (CHR ''s'') then vel\<lparr>v_y := - fl 1\<rparr> else vel)
      in if in_IsKeyDown input (CHR ''w'') then vel\<lparr>v_y := fl 1\<rparr> else vel)"

definition direction :: "(rat \<Rightarrow> 'f::{uminus,divide,ord}) \<Rightarrow> 'f Libm \<Rightarrow> 'f Input \<Rightarrow> 'f Vec2" where
  "direction fl m input =
     (let vel = key_direction fl input; len = m_Length m vel
      in if len > fl 1 then vec2 (v_x vel div len) (v_y vel div len) else vel)"

text \<open>
  From the position of the game object and the physics world: the position it writes, if it writes
  one, and the world it leaves.
\<close>

definition MoveComponent_Update ::
    "(rat \<Rightarrow> 'f::{plus,uminus,times,divide,ord}) \<Rightarrow> 'f Libm \<Rightarrow> ('b, 'f) Box2D \<Rightarrow> 'f Input \<Rightarrow> 'f
       \<Rightarrow> 'f MoveComponent \<Rightarrow> 'f Vec2 \<times> 'b \<Rightarrow> ('f Vec2 option \<times> 'b) res" where
  "MoveComponent_Update fl m B input dt mc s =
     (let vel = direction fl m input; (pos, w) = s
      in case mc_body mc of
           Unset \<Rightarrow> Inl Indeterminate
         | Body b \<Rightarrow>
             let f = mc_speed mc * dt
             in Inr (None, bx_SetLinearVelocity B w b (b2vec (v_x vel * f) (v_y vel * f)))
         | NullBody \<Rightarrow>
             Inr (Some (vec2 (v_x pos + v_x vel * mc_speed mc * B2_PTM fl * dt)
                             (v_y pos + v_y vel * mc_speed mc * B2_PTM fl * dt)), w))"

definition SetBody :: "nat option \<Rightarrow> 'f MoveComponent \<Rightarrow> 'f MoveComponent" where
  "SetBody body mc = mc\<lparr>mc_body := (case body of None \<Rightarrow> NullBody | Some b \<Rightarrow> Body b)\<rparr>"

subsection \<open>\<open>AimComponent\<close>\<close>

text \<open>The new rotation, from the mouse in the window and the positions of the object and its layer.\<close>

definition AimComponent_Update ::
    "(rat \<Rightarrow> 'f::{plus,minus,times,divide}) \<Rightarrow> 'f Libm \<Rightarrow> 'f Input \<Rightarrow> 'f Vec2 \<Rightarrow> 'f Vec2 \<Rightarrow> 'f" where
  "AimComponent_Update fl m input position layerPos =
     (let size = in_GetWindowSize input;
          mouse = in_GetMousePosition input;
          res = in_GetResolution input;
          mouse = vec2 (v_x mouse div v_x size) (v_y mouse div v_y size);
          mouse = vec2 (v_x mouse) (fl 1 - v_y mouse);
          mouse = vec2 (v_x mouse * v_x res) (v_y mouse * v_y res);
          pos = vec2 (v_x position + v_x layerPos) (v_y position + v_y layerPos);
          x = v_x mouse - v_x pos; y = v_y mouse - v_y pos
      in m_atan2_degrees m y x)"

subsection \<open>\<open>Player\<close>\<close>

text \<open>\<open>pl_light\<close> is the pointer to the light source, and so to the game object, in the stage.\<close>

record 'f Player =
  pl_body :: "nat option"
  pl_move :: "'f MoveComponent"
  pl_light :: nat
  pl_rotation :: 'f

definition player_body :: "'f BodyDef" where
  "player_body =
     \<lparr>bd_type = b2_dynamicBody, bd_fixedRotation = None, bd_allowSleep = Some False, bd_position = None\<rparr>"

definition player_fixture :: "(rat \<Rightarrow> 'f::{times,divide}) \<Rightarrow> 'f FixtureDef" where
  "player_fixture fl =
     \<lparr>fd_shape = Circle (fl (of_int MAP_TILE_SIZE) div B2_PTM fl div fl 2 * fl (8 / 10)),
      fd_categoryBits = PLAYER, fd_maskBits = WALL OR VENTILATION OR PLAYER,
      fd_density = Some (fl (3 / 2)), fd_friction = Some (fl 1)\<rparr>"

definition CreatePhysics ::
    "(rat \<Rightarrow> 'f::{times,divide}) \<Rightarrow> ('b, 'f) Box2D \<Rightarrow> 'b \<Rightarrow> 'f Player \<Rightarrow> 'f Player \<times> 'b" where
  "CreatePhysics fl B w p =
     (let (body, w) = bx_CreateBody B w player_body;
          w = bx_CreateFixture B w body (player_fixture fl)
      in (p\<lparr>pl_body := Some body\<rparr>, w))"

text \<open>The constructor; \<open>rot0\<close> is the rotation of a new game object.\<close>

definition new_Player ::
    "(rat \<Rightarrow> 'f::{plus,times,divide}) \<Rightarrow> 'f Libm \<Rightarrow> 'f Engine \<Rightarrow> ('b, 'f) Box2D \<Rightarrow> 'f \<Rightarrow> ('b, 'f) Game
       \<Rightarrow> ('f Player \<times> ('b, 'f) Game \<times> 'f gl list) res" where
  "new_Player fl m E B rot0 g =
     (let st = gm_stage g; ptr = st_next st;
          go = (en_GameObject E)\<lparr>go_texture := en_LoadTexture E ''res/player.png''\<rparr>;
          go = go\<lparr>go_Scale := vec2 (fl (1 / 4)) (fl (1 / 4))\<rparr>
      in rbind (SetLightProperties fl m (fl 300) (color (fl 1) (fl 1) (fl 1) (fl (1 / 2)))
                  (new_LightSource fl) (st_static st)) (\<lambda>(ls, lt, calls).
         rbind (SetTexture E (en_GetResource E ''res/flashlight.png'') ls lt) (\<lambda>(ls, lt).
           let p = \<lparr>pl_body = None, pl_move = new_MoveComponent fl, pl_light = ptr, pl_rotation = rot0\<rparr>;
               (p, w) = CreatePhysics fl B (GetB2World (gm_map g)) p;
               p = p\<lparr>pl_move := SetBody (pl_body p) (pl_move p)\<rparr>
           in Inr (p, g\<lparr>gm_map := (gm_map g)\<lparr>map_b2World := w\<rparr>,
                      gm_stage := st\<lparr>st_static := lt, st_lights := (st_lights st)(ptr \<mapsto> (ls, go)),
                                     st_next := ptr + 1\<rparr>\<rparr>, calls))))"

definition delete_Player :: "('b, 'f) Box2D \<Rightarrow> 'f Player \<Rightarrow> 'b \<Rightarrow> 'f Player \<times> 'b" where
  "delete_Player B p w =
     (case pl_body p of None \<Rightarrow> (p, w) | Some b \<Rightarrow> (p\<lparr>pl_body := None\<rparr>, bx_DestroyBody B w b))"

text \<open>The position of the player's game object, read and written in the stage.\<close>

definition player_object :: "'f Stage \<Rightarrow> 'f Player \<Rightarrow> 'f GameObject res" where
  "player_object st p = rbind (get_light st (pl_light p)) (\<lambda>(l, go). Inr go)"

definition set_player_position :: "'f Engine \<Rightarrow> 'f Vec2 \<Rightarrow> 'f Player \<Rightarrow> 'f Stage \<Rightarrow> 'f Stage res" where
  "set_player_position E pos p st =
     rbind (get_light st (pl_light p)) (\<lambda>(l, go).
       Inr (st\<lparr>st_lights := (st_lights st)(pl_light p \<mapsto> (l, en_Moved E (go\<lparr>go_Position := pos\<rparr>)))\<rparr>))"

definition MoveToB2Body ::
    "(rat \<Rightarrow> 'f::times) \<Rightarrow> 'f Engine \<Rightarrow> ('b, 'f) Box2D \<Rightarrow> 'f Player \<Rightarrow> 'b \<Rightarrow> 'f Stage \<Rightarrow> 'f Stage res" where
  "MoveToB2Body fl E B p w st =
     (case pl_body p of
        None \<Rightarrow> Inl NullDeref
      | Some b \<Rightarrow> set_player_position E (ToVec2 fl (bx_GetPosition B w b)) p st)"

subsection \<open>The speed\<close>

text \<open>With exact arithmetic and the length of the plane, a direction is of length at most one.\<close>

definition euclid :: "real Vec2 \<Rightarrow> real" where
  "euclid v = sqrt ((v_x v)\<^sup>2 + (v_y v)\<^sup>2)"

lemma euclid_scale: "euclid (vec2 (x * k) (y * k)) = \<bar>k\<bar> * euclid (vec2 x y)"
proof -
  have "(x * k)\<^sup>2 + (y * k)\<^sup>2 = k\<^sup>2 * (x\<^sup>2 + y\<^sup>2)" by (simp add: power2_eq_square algebra_simps)
  then show ?thesis by (simp add: euclid_def real_sqrt_mult)
qed

lemma direction_length:
  assumes "m_Length m = euclid"
  shows "euclid (direction of_rat m input) \<le> 1"
proof -
  define vel where "vel = key_direction (of_rat :: rat \<Rightarrow> real) input"
  show ?thesis
  proof (cases "euclid vel > 1")
    case True
    have "euclid (vec2 (v_x vel * (1 / euclid vel)) (v_y vel * (1 / euclid vel))) = \<bar>1 / euclid vel\<bar> * euclid vel"
      unfolding euclid_scale by (simp add: euclid_def)
    with True show ?thesis by (simp add: direction_def Let_def assms vel_def [symmetric])
  next
    case False
    then show ?thesis by (simp add: direction_def Let_def assms vel_def [symmetric])
  qed
qed

text \<open>Two keys of opposite directions: the one of \<open>d\<close> and \<open>w\<close> counts.\<close>

lemma key_direction_components:
  "v_x (key_direction fl input) =
     (if in_IsKeyDown input (CHR ''d'') then fl 1 else if in_IsKeyDown input (CHR ''a'') then - fl 1 else fl 0)"
  "v_y (key_direction fl input) =
     (if in_IsKeyDown input (CHR ''w'') then fl 1 else if in_IsKeyDown input (CHR ''s'') then - fl 1 else fl 0)"
  by (simp_all add: key_direction_def Let_def)

end
