(* ===== verification/MapParser.thy ===== *)
theory MapParser
  imports GameMap
begin

unbundle bit_operations_syntax

section \<open>The map parser (client/MapParser.h, client/MapParser.cpp)\<close>

text \<open>
  The TMX library reads the file; what the parser asks of it is a record: the tile sets with
  their images, the layers, and the groups of objects. A map that could not be read has the
  text of its error. Every tile set has an image, as the code relies on. Lines and columns of a
  map count from its top left corner, those of the game from the bottom left.
\<close>

record TmxTileset =
  ts_name :: string
  ts_firstGid :: int
  ts_tileWidth :: int
  ts_tileHeight :: int
  ts_imgSource :: string
  ts_imgWidth :: int
  ts_imgHeight :: int

record TmxLayer =
  ly_name :: string
  ly_GetTileGid :: "int \<Rightarrow> int \<Rightarrow> int"
  ly_GetTile :: "int \<Rightarrow> int \<Rightarrow> int \<times> int"   \<comment> \<open>the global number of a tile and the one in its set\<close>

record 'f TmxEllipse =
  el_radiusX :: 'f
  el_radiusY :: 'f
  el_centerX :: 'f
  el_centerY :: int

record 'f TmxObject =
  ob_type :: string
  ob_ellipse :: "'f TmxEllipse option"
  ob_property :: "string \<Rightarrow> 'f option"      \<comment> \<open>\<open>HasProperty\<close> and \<open>GetFloatProperty\<close>\<close>

record 'f TmxGroup =
  gr_name :: string
  gr_objects :: "'f TmxObject list"

record 'f TmxMap =
  tm_error :: "string option"
  tm_width :: int
  tm_height :: int
  tm_tileHeight :: int
  tm_tilesets :: "TmxTileset list"
  tm_layers :: "TmxLayer list"
  tm_groups :: "'f TmxGroup list"

record 'f MapParser =
  mp_tmxMap :: "'f TmxMap"
  mp_mapset :: TmxTileset
  mp_objset :: TmxTileset

definition ID_WALL :: int where "ID_WALL = 5"
definition ID_VENT :: int where "ID_VENT = 6"

subsection \<open>The constructor\<close>

fun find_sets :: "TmxTileset list \<Rightarrow> TmxTileset option \<times> TmxTileset option \<Rightarrow> TmxTileset option \<times> TmxTileset option" where
  "find_sets [] (mapset, objset) = (mapset, objset)"
| "find_sets (t # ts) (mapset, objset) =
     (if ts_name t = ''mapset'' then find_sets ts (Some t, objset)
      else if ts_name t = ''objectset'' then find_sets ts (mapset, Some t)
      else find_sets ts (mapset, objset))"

definition new_MapParser :: "'f TmxMap \<Rightarrow> 'f MapParser res" where
  "new_MapParser tm =
     (case tm_error tm of
        Some err \<Rightarrow> Inl (Thrown (''Failed to parse map: '' @ err))
      | None \<Rightarrow>
          (case find_sets (tm_tilesets tm) (None, None) of
             (Some mapset, Some objset) \<Rightarrow> Inr \<lparr>mp_tmxMap = tm, mp_mapset = mapset, mp_objset = objset\<rparr>
           | _ \<Rightarrow> Inl (Thrown ''Failed to find the required tilesets'')))"

subsection \<open>Coordinates\<close>

definition FlipY :: "'f MapParser \<Rightarrow> int \<Rightarrow> int res" where
  "FlipY mp mapY = rbind (isub (tm_height (mp_tmxMap mp)) mapY) (\<lambda>d. isub d 1)"

definition FlipPixelY :: "'f MapParser \<Rightarrow> int \<Rightarrow> int res" where
  "FlipPixelY mp mapY =
     rbind (imul (tm_height (mp_tmxMap mp)) (tm_tileHeight (mp_tmxMap mp))) (\<lambda>height. isub height mapY)"

definition GetWorldClip ::
    "(rat \<Rightarrow> 'f) \<Rightarrow> 'f MapParser \<Rightarrow> TmxTileset \<Rightarrow> int \<Rightarrow> int \<Rightarrow> 'f Rect res" where
  "GetWorldClip fl mp tset x y =
     rbind (imul x (ts_tileWidth tset)) (\<lambda>xpos.
     rbind (FlipY mp y) (\<lambda>fy.
     rbind (imul fy (ts_tileHeight tset)) (\<lambda>ypos.
       Inr (rect (fl (of_int xpos)) (fl (of_int ypos))
              (fl (of_int (ts_tileWidth tset))) (fl (of_int (ts_tileHeight tset)))))))"

text \<open>The texture clip, in tiles of the image and then in units of the whole image.\<close>

definition texture_tile :: "'f MapParser \<Rightarrow> TmxTileset \<Rightarrow> int \<Rightarrow> (int \<times> int) res" where
  "texture_tile mp tset gid =
     rbind (idiv (ts_imgWidth (mp_mapset mp)) (ts_tileWidth tset)) (\<lambda>xcount.
     rbind (idiv (ts_imgHeight (mp_mapset mp)) (ts_tileHeight tset)) (\<lambda>ycount.
     rbind (isub gid (ts_firstGid tset)) (\<lambda>id.
     rbind (imod id xcount) (\<lambda>tilex.
     rbind (idiv id ycount) (\<lambda>tiley.
     rbind (isub ycount tiley) (\<lambda>tiley.
     rbind (imul tilex (ts_tileWidth tset)) (\<lambda>px.
     rbind (imul tiley (ts_tileHeight tset)) (\<lambda>py.
       Inr (px, py)))))))))"

definition GetTextureClip ::
    "(rat \<Rightarrow> 'f::divide) \<Rightarrow> 'f MapParser \<Rightarrow> TmxTileset \<Rightarrow> int \<Rightarrow> 'f Rect res" where
  "GetTextureClip fl mp tset gid =
     rbind (texture_tile mp tset gid) (\<lambda>(px, py).
       let imgw = fl (of_int (ts_imgWidth (mp_mapset mp)));
           imgh = fl (of_int (ts_imgHeight (mp_mapset mp)))
       in Inr (rect (fl (of_int px) div imgw) (fl (of_int py) div imgh)
                (fl (of_int (ts_tileWidth tset)) div imgw) (fl (of_int (ts_tileHeight tset)) div imgh)))"

subsection \<open>The layers\<close>

text \<open>A drawable layer; the buffer names are those \<open>CreateVBO\<close> gets.\<close>

definition draw_tile ::
    "(rat \<Rightarrow> 'f::{plus,divide}) \<Rightarrow> 'f MapParser \<Rightarrow> TmxLayer \<Rightarrow> int \<Rightarrow> int \<Rightarrow> 'f MapLayer \<Rightarrow> 'f MapLayer res" where
  "draw_tile fl mp layer x y ml =
     (let gid = ly_GetTileGid layer x y
      in if gid = 0 then Inr ml
         else rbind (GetTextureClip fl mp (mp_mapset mp) gid) (\<lambda>texClip.
              rbind (GetWorldClip fl mp (mp_mapset mp) x y) (\<lambda>worldClip.
                AddTile worldClip texClip ml)))"

definition ParseDrawableLayer ::
    "(rat \<Rightarrow> 'f::{plus,divide}) \<Rightarrow> 'f Engine \<Rightarrow> nat \<times> nat \<Rightarrow> 'f MapParser \<Rightarrow> TmxLayer
       \<Rightarrow> ('f MapLayer \<times> 'f gl list) res" where
  "ParseDrawableLayer fl E names mp layer =
     (let imgFile = ''res/'' @ ts_imgSource (mp_mapset mp); tm = mp_tmxMap mp
      in rbind (rfold (\<lambda>x. rfold (\<lambda>y. draw_tile fl mp layer x y) (upto_int (tm_height tm)))
                  (upto_int (tm_width tm)) (new_MapLayer E imgFile)) (\<lambda>mapLayer.
           Inr (CreateVBO (fst names) (snd names) mapLayer)))"

text \<open>The walls: the line of the map is turned over.\<close>

definition wall_tile ::
    "'f MapParser \<Rightarrow> TmxLayer \<Rightarrow> int \<Rightarrow> int \<Rightarrow> TileTemplate \<Rightarrow> TileTemplate res" where
  "wall_tile mp layer x mapy tt =
     (let (gid, id) = ly_GetTile layer x mapy
      in if gid = 0 then Inr tt
         else rbind (FlipY mp mapy) (\<lambda>y.
           if id = ID_WALL then AddFlag x y (TILE_SHADOW OR TILE_WALL) tt
           else if id = ID_VENT then AddFlag x y TILE_VENT tt
           else Inr tt))"

definition ParseWallLayer :: "'f MapParser \<Rightarrow> TmxLayer \<Rightarrow> TileTemplate \<Rightarrow> TileTemplate res" where
  "ParseWallLayer mp layer tt =
     (let tm = mp_tmxMap mp
      in rfold (\<lambda>x. rfold (\<lambda>mapy. wall_tile mp layer x mapy) (upto_int (tm_height tm)))
           (upto_int (tm_width tm)) tt)"

text \<open>The lights: circles only, with a colour if all four parts of it are there.\<close>

definition light_color :: "(rat \<Rightarrow> 'f) \<Rightarrow> 'f TmxObject \<Rightarrow> 'f Color" where
  "light_color fl obj =
     (case (ob_property obj ''r'', ob_property obj ''g'', ob_property obj ''b'', ob_property obj ''a'') of
        (Some r, Some g, Some b, Some a) \<Rightarrow> color r g b a
      | _ \<Rightarrow> color (fl 1) (fl 1) (fl 1) (fl (1 / 2)))"

definition parse_light ::
    "(rat \<Rightarrow> 'f::{plus,minus,times,divide}) \<Rightarrow> 'f Libm \<Rightarrow> 'f Engine \<Rightarrow> ('f \<Rightarrow> string) \<Rightarrow> 'f MapParser
       \<Rightarrow> 'f TmxObject \<Rightarrow> ('b, 'f) Game \<times> 'f gl list \<Rightarrow> (('b, 'f) Game \<times> 'f gl list) res" where
  "parse_light fl m E fmt mp obj gc =
     (case ob_ellipse obj of
        None \<Rightarrow> Inr gc
      | Some ellipse \<Rightarrow>
          let rx = el_radiusX ellipse; ry = el_radiusY ellipse
          in if m_abs_gt m (rx - ry) (1 / 100) then Inr gc
             else rbind (FlipPixelY mp (el_centerY ellipse)) (\<lambda>cy.
               let pos = vec2 (el_centerX ellipse) (fl (of_int cy));
                   props = (default_Properties fl)\<lparr>pr_radius := rx, pr_color := light_color fl obj\<rparr>
               in rbind (AddLight fl m E fmt props pos (ob_type obj) (fst gc)) (\<lambda>(g, calls).
                    Inr (g, snd gc @ calls))))"

definition ParseLightLayer ::
    "(rat \<Rightarrow> 'f::{plus,minus,times,divide}) \<Rightarrow> 'f Libm \<Rightarrow> 'f Engine \<Rightarrow> ('f \<Rightarrow> string) \<Rightarrow> 'f MapParser
       \<Rightarrow> 'f TmxGroup \<Rightarrow> ('b, 'f) Game \<times> 'f gl list \<Rightarrow> (('b, 'f) Game \<times> 'f gl list) res" where
  "ParseLightLayer fl m E fmt mp grp gc = rfold (parse_light fl m E fmt mp) (gr_objects grp) gc"

subsection \<open>\<open>ParseMap\<close>\<close>

text \<open>\<open>vbo i\<close> are the buffer names the layer of index \<open>i\<close> gets.\<close>

definition parse_layer ::
    "(rat \<Rightarrow> 'f::{plus,divide}) \<Rightarrow> 'f Engine \<Rightarrow> (nat \<Rightarrow> nat \<times> nat) \<Rightarrow> 'f MapParser \<Rightarrow> nat \<times> TmxLayer
       \<Rightarrow> TileTemplate \<times> ('b, 'f) Map \<times> 'f gl list \<Rightarrow> (TileTemplate \<times> ('b, 'f) Map \<times> 'f gl list) res" where
  "parse_layer fl E vbo mp il s =
     (let (i, layer) = il; (tt, mp0, calls) = s
      in if ly_name layer = ''background'' then
           rbind (ParseDrawableLayer fl E (vbo i) mp layer) (\<lambda>(ml, cs).
             Inr (tt, SetBackgroundLayer ml mp0, calls @ cs))
         else if ly_name layer = ''foreground'' then
           rbind (ParseDrawableLayer fl E (vbo i) mp layer) (\<lambda>(ml, cs).
             Inr (tt, SetForegroundLayer ml mp0, calls @ cs))
         else if ly_name layer = ''walls'' then
           rbind (ParseWallLayer mp layer tt) (\<lambda>tt. Inr (tt, mp0, calls))
         else Inr (tt, mp0, calls))"

definition parse_group ::
    "(rat \<Rightarrow> 'f::{plus,minus,times,divide}) \<Rightarrow> 'f Libm \<Rightarrow> 'f Engine \<Rightarrow> ('f \<Rightarrow> string) \<Rightarrow> 'f MapParser
       \<Rightarrow> 'f TmxGroup \<Rightarrow> ('b, 'f) Game \<times> 'f gl list \<Rightarrow> (('b, 'f) Game \<times> 'f gl list) res" where
  "parse_group fl m E fmt mp grp gc =
     (if gr_name grp = ''lights'' then ParseLightLayer fl m E fmt mp grp gc else Inr gc)"

definition ParseMap ::
    "(rat \<Rightarrow> 'f::{plus,minus,times,divide}) \<Rightarrow> 'f Libm \<Rightarrow> 'f Engine \<Rightarrow> ('f \<Rightarrow> string) \<Rightarrow> (nat \<Rightarrow> nat \<times> nat)
       \<Rightarrow> 'f MapParser \<Rightarrow> ('b, 'f) Game \<Rightarrow> (bool \<times> ('b, 'f) Game \<times> 'f gl list) res" where
  "ParseMap fl m E fmt vbo mp g =
     (let tm = mp_tmxMap mp
      in rbind (new_TileTemplate (tm_width tm) (tm_height tm)) (\<lambda>tt.
         rbind (rfold (parse_layer fl E vbo mp) (enumerate 0 (tm_layers tm)) (tt, gm_map g, [])) (\<lambda>(tt, mp0, calls).
         rbind (rfold (parse_group fl m E fmt mp) (tm_groups tm) (g\<lparr>gm_map := mp0\<rparr>, calls)) (\<lambda>(g, calls).
           Inr (True, g\<lparr>gm_map := SetTileTemplate tt (gm_map g)\<rparr>, calls)))))"

end
