(* ===== verification/GameLayers.thy ===== *)
theory GameLayers
  imports Players MapParser
begin

section \<open>The game layer (client/GameLayer.h, client/GameLayer.cpp, client/GameScene.cpp)\<close>

text \<open>
  The root of the scene: it builds the map, the shadow layer, the player and the camera in that
  order, and drives them. What the base class \<open>Layer\<close> does is the engine's: the order in which it
  updates the components, and what it draws of the children, are arguments. A fault during the
  construction leaves no layer.
\<close>

subsection \<open>\<open>CameraComponent\<close>\<close>

text \<open>A new camera component has its pointer not yet set.\<close>

datatype camera = CamUnset | CamNone | CamPlayer

definition CameraComponent_SetPlayer :: "bool \<Rightarrow> camera" where
  "CameraComponent_SetPlayer player = (if player then CamPlayer else CamNone)"

text \<open>The new position of the layer, from the resolution and the position of the player.\<close>

definition CameraComponent_Update ::
    "(rat \<Rightarrow> 'f::{minus,divide}) \<Rightarrow> 'f Vec2 \<Rightarrow> 'f Vec2 \<Rightarrow> camera \<Rightarrow> 'f Vec2 \<Rightarrow> 'f Vec2 res" where
  "CameraComponent_Update fl resolution playerPos cam layerPos =
     (case cam of
        CamUnset \<Rightarrow> Inl Indeterminate
      | CamNone \<Rightarrow> Inr layerPos
      | CamPlayer \<Rightarrow>
          let offset = vec2 (v_x resolution div fl 2) (v_y resolution div fl 2)
          in Inr (vec2 (v_x offset - v_x playerPos) (v_y offset - v_y playerPos)))"

subsection \<open>Construction and destruction\<close>

record ('b, 'f) GameLayer =
  gl_game :: "('b, 'f) Game"
  gl_player :: "'f Player"
  gl_camera :: camera
  gl_position :: "'f Vec2"

text \<open>\<open>AddChild\<close> of the game layer, for the object at a pointer.\<close>

definition add_child :: "'f Engine \<Rightarrow> nat \<Rightarrow> 'f Stage \<Rightarrow> 'f Stage" where
  "add_child E p st =
     st\<lparr>st_lights := (st_lights st)(p := map_option (\<lambda>(l, go). (l, en_AddToGameLayer E go)) (st_lights st p))\<rparr>"

text \<open>
  The constructor. \<open>sh\<close> is the render texture of the shadow layer and \<open>c0\<close> a colour made by
  default, \<open>tmx\<close> what the file of the map is read to, \<open>rot0\<close> and \<open>pos0\<close> the rotation and the
  position of a new object, \<open>lt\<close> the static state of the light texture. The pointers of the stage
  start at 1.
\<close>

definition new_GameLayer ::
    "(rat \<Rightarrow> 'f::{plus,minus,times,divide}) \<Rightarrow> 'f Libm \<Rightarrow> 'f Engine \<Rightarrow> ('w, 'f) ShaderLib \<Rightarrow> ('b, 'f) Box2D
       \<Rightarrow> ('f \<Rightarrow> string) \<Rightarrow> (nat \<Rightarrow> nat \<times> nat) \<Rightarrow> 'f TmxMap \<Rightarrow> nat \<Rightarrow> 'f Color \<Rightarrow> 'f \<Rightarrow> 'f Vec2 \<Rightarrow> LightTexture \<Rightarrow> 'w
       \<Rightarrow> (('b, 'f) GameLayer \<times> 'f gl list \<times> 'w) res" where
  "new_GameLayer fl m E G B fmt vbo tmx sh c0 rot0 pos0 lt w =
     rbind (new_ShadowLayer fl G sh c0 w) (\<lambda>(shadowLayer, w).
     let g = \<lparr>gm_map = new_Map B, gm_shadow = shadowLayer,
              gm_stage = \<lparr>st_static = lt, st_lights = (\<lambda>_. None), st_casters = (\<lambda>_. None), st_next = 1\<rparr>\<rparr>
     in rbind (new_MapParser tmx) (\<lambda>parser.
        rbind (ParseMap fl m E fmt vbo parser g) (\<lambda>(ok, g, calls1).
        rbind (LoadMap fl E B g) (\<lambda>g.
        rbind (new_Player fl m E B rot0 g) (\<lambda>(player, g, calls2).
          let g = g\<lparr>gm_shadow := AddLightSource (pl_light player) (gm_shadow g),
                    gm_stage := add_child E (pl_light player) (gm_stage g)\<rparr>
          in Inr (\<lparr>gl_game = g, gl_player = player, gl_camera = CameraComponent_SetPlayer True,
                   gl_position = pos0\<rparr>, calls1 @ calls2, w))))))"

definition delete_GameLayer ::
    "('w, 'f) ShaderLib \<Rightarrow> ('b, 'f) Box2D \<Rightarrow> ('b, 'f) GameLayer \<Rightarrow> 'w \<Rightarrow> 'b \<times> 'w" where
  "delete_GameLayer G B l w =
     (let w = delete_ShadowLayer G (gm_shadow (gl_game l)) w
      in (delete_Map B (gm_map (gl_game l)), w))"

definition GetShadowLayer :: "('b, 'f) GameLayer \<Rightarrow> 'f ShadowLayer" where
  "GetShadowLayer l = gm_shadow (gl_game l)"

subsection \<open>Update\<close>

datatype component = Move | Aim | Camera

definition update_component ::
    "(rat \<Rightarrow> 'f::{plus,minus,uminus,times,divide,ord}) \<Rightarrow> 'f Libm \<Rightarrow> 'f Engine \<Rightarrow> ('b, 'f) Box2D \<Rightarrow> 'f Input \<Rightarrow> 'f
       \<Rightarrow> component \<Rightarrow> ('b, 'f) GameLayer \<Rightarrow> ('b, 'f) GameLayer res" where
  "update_component fl m E B input dt c l =
     (let g = gl_game l; p = gl_player l
      in rbind (player_object (gm_stage g) p) (\<lambda>go.
         case c of
           Move \<Rightarrow>
             rbind (MoveComponent_Update fl m B input dt (pl_move p) (go_Position go, map_b2World (gm_map g)))
               (\<lambda>(pos, w).
                  rbind (case pos of None \<Rightarrow> Inr (gm_stage g) | Some pos \<Rightarrow> set_player_position E pos p (gm_stage g)) (\<lambda>st.
                  Inr (l\<lparr>gl_game := g\<lparr>gm_map := (gm_map g)\<lparr>map_b2World := w\<rparr>, gm_stage := st\<rparr>\<rparr>)))
         | Aim \<Rightarrow>
             Inr (l\<lparr>gl_player := p\<lparr>pl_rotation := AimComponent_Update fl m input (go_Position go) (gl_position l)\<rparr>\<rparr>)
         | Camera \<Rightarrow>
             rbind (CameraComponent_Update fl (in_GetResolution input) (go_Position go) (gl_camera l) (gl_position l))
               (\<lambda>pos. Inr (l\<lparr>gl_position := pos\<rparr>))))"

text \<open>\<open>order\<close>: the components as \<open>Layer::Update\<close> runs through them.\<close>

definition GameLayer_Update ::
    "(rat \<Rightarrow> 'f::{plus,minus,uminus,times,divide,ord}) \<Rightarrow> 'f Libm \<Rightarrow> 'f Engine \<Rightarrow> ('b, 'f) Box2D \<Rightarrow> component list
       \<Rightarrow> 'f Input \<Rightarrow> 'f \<Rightarrow> ('b, 'f) GameLayer \<Rightarrow> ('b, 'f) GameLayer res" where
  "GameLayer_Update fl m E B order input dt l =
     rbind (rfold (update_component fl m E B input dt) order l) (\<lambda>l.
       let g = gl_game l; g = g\<lparr>gm_map := Map_Update fl B (gm_map g)\<rparr>
       in rbind (MoveToB2Body fl E B (gl_player l) (GetB2World (gm_map g)) (gm_stage g)) (\<lambda>st.
            Inr (l\<lparr>gl_game := g\<lparr>gm_stage := st\<rparr>\<rparr>)))"

subsection \<open>Render\<close>

text \<open>\<open>children\<close> is what \<open>Layer::Render\<close> draws, \<open>ui\<close> what the empty user interface layer draws.\<close>

definition GameLayer_Render ::
    "(rat \<Rightarrow> 'f::{plus,minus,uminus,times,divide,ord}) \<Rightarrow> 'f Libm \<Rightarrow> 'f Engine \<Rightarrow> ('b, 'f) Box2D
       \<Rightarrow> 'f gl list \<Rightarrow> 'f gl list \<Rightarrow> ('b, 'f) GameLayer \<Rightarrow> ('f gl list \<times> ('b, 'f) GameLayer) run" where
  "GameLayer_Render fl m E B children ui l =
     (let g = gl_game l; pos = gl_position l
      in run_bind (Some (RenderBackgroundLayer (gm_map g))) (\<lambda>background.
         run_bind (Some (ShadowLayer_Render fl m E pos (gm_shadow g) (gm_stage g))) (\<lambda>(shadow, st).
         run_bind (RenderForegroundLayer fl m B (gm_map g)) (\<lambda>foreground.
           Some (Inr
             ([Mv PushTransform, Mv (ApplyTransform pos)] @ background @ [Mv PopTransform]
              @ children
              @ [Mv PushTransform, Mv (ApplyTransform pos)] @ shadow @ foreground @ ui @ [Mv PopTransform],
              l\<lparr>gl_game := g\<lparr>gm_stage := st\<rparr>\<rparr>))))))"

subsection \<open>\<open>GameScene\<close>\<close>

text \<open>The scene: no layer until \<open>LoadContent\<close>, which makes one and hands it to the base class.\<close>

definition new_GameScene :: "('b, 'f) GameLayer option" where "new_GameScene = None"

definition LoadContent ::
    "(rat \<Rightarrow> 'f::{plus,minus,times,divide}) \<Rightarrow> 'f Libm \<Rightarrow> 'f Engine \<Rightarrow> ('w, 'f) ShaderLib \<Rightarrow> ('b, 'f) Box2D
       \<Rightarrow> ('f \<Rightarrow> string) \<Rightarrow> (nat \<Rightarrow> nat \<times> nat) \<Rightarrow> 'f TmxMap \<Rightarrow> nat \<Rightarrow> 'f Color \<Rightarrow> 'f \<Rightarrow> 'f Vec2 \<Rightarrow> LightTexture \<Rightarrow> 'w
       \<Rightarrow> (('b, 'f) GameLayer option \<times> 'f gl list \<times> 'w) res" where
  "LoadContent fl m E G B fmt vbo tmx sh c0 rot0 pos0 lt w =
     rbind (new_GameLayer fl m E G B fmt vbo tmx sh c0 rot0 pos0 lt w) (\<lambda>(l, calls, w). Inr (Some l, calls, w))"

text \<open>\<open>Update\<close> and \<open>Render\<close> call those of the base class, on the state \<open>'s\<close> of the scene.\<close>

definition GameScene_Update :: "('d \<Rightarrow> 's \<Rightarrow> 's res) \<Rightarrow> 'd \<Rightarrow> 's \<Rightarrow> 's res" where
  "GameScene_Update Scene_Update dt s = Scene_Update dt s"

definition GameScene_Render :: "('s \<Rightarrow> ('f gl list \<times> 's) run) \<Rightarrow> 's \<Rightarrow> ('f gl list \<times> 's) run" where
  "GameScene_Render Scene_Render s = Scene_Render s"

subsection \<open>The main function (client/main.cpp)\<close>

text \<open>
  The engine's application object, on a state of its own: controllers are numbers, the scene is
  what the constructor of \<open>GameScene\<close> made. The loop calls the methods of the scene.
\<close>

record ('e, 's) App =
  ap_Initialize :: "'e \<Rightarrow> string list \<Rightarrow> 'e"
  ap_new_Controller :: "'e \<Rightarrow> nat \<times> 'e"
  ap_SetController :: "'e \<Rightarrow> nat \<Rightarrow> 'e"
  ap_SetScene :: "'e \<Rightarrow> nat \<Rightarrow> 's \<Rightarrow> 'e"
  ap_MainLoop :: "'e \<Rightarrow> (int \<times> 'e) run"

definition client_main ::
    "('e, ('b, 'f) GameLayer option) App \<Rightarrow> string list \<Rightarrow> 'e \<Rightarrow> (int \<times> 'e) run" where
  "client_main A argv app =
     (let app = ap_Initialize A app argv;
          (controller, app) = ap_new_Controller A app;
          app = ap_SetController A app controller;
          scene = new_GameScene;
          app = ap_SetScene A app controller scene
      in ap_MainLoop A app)"

end
