(* ===== verification/LightProps.thy ===== *)
theory LightProps
  imports Lights
begin

section \<open>The life of the shared light texture\<close>

text \<open>
  The light sources of a program as a heap, their operations as steps, and the invariant of the
  reference count: it is the number of the sources that use the shared texture, all of which hold
  the one pointer, and while there is none the texture does not exist. What goes wrong after the
  count has once dropped to zero.
\<close>

record 'f Lights =
  li_static :: LightTexture
  li_sources :: "nat \<Rightarrow> 'f LightSource option"

definition initial_LightTexture :: LightTexture where
  "initial_LightTexture =
     \<lparr>lt_refs = 0, lt_renderTexture = None, lt_live = {}, lt_next = 0, lt_retained = (\<lambda>_. 0)\<rparr>"

definition lights_start :: "'f Lights \<Rightarrow> bool" where
  "lights_start s \<longleftrightarrow> s = \<lparr>li_static = initial_LightTexture, li_sources = (\<lambda>_. None)\<rparr>"

definition put_light :: "nat \<Rightarrow> 'f LightSource option \<Rightarrow> LightTexture \<Rightarrow> 'f Lights \<Rightarrow> 'f Lights" where
  "put_light p l lt s = s\<lparr>li_static := lt, li_sources := (li_sources s)(p := l)\<rparr>"

inductive lights_step ::
    "(rat \<Rightarrow> 'f::{plus,times,divide}) \<Rightarrow> 'f Libm \<Rightarrow> 'f Engine \<Rightarrow> 'f Lights \<Rightarrow> 'f Lights \<Rightarrow> bool"
  for fl m E where
  light_new: "li_sources s p = None \<Longrightarrow>
     lights_step fl m E s (put_light p (Some (new_LightSource fl)) (li_static s) s)"
| light_set: "li_sources s p = Some l \<Longrightarrow>
     SetLightProperties fl m d c l (li_static s) = Inr (l', lt', calls) \<Longrightarrow>
     lights_step fl m E s (put_light p (Some l') lt' s)"
| light_texture: "li_sources s p = Some l \<Longrightarrow> SetTexture E t l (li_static s) = Inr (l', lt') \<Longrightarrow>
     lights_step fl m E s (put_light p (Some l') lt' s)"
| light_delete: "li_sources s p = Some l \<Longrightarrow> delete_LightSource l (li_static s) = Inr lt' \<Longrightarrow>
     lights_step fl m E s (put_light p None lt' s)"

definition users :: "'f Lights \<Rightarrow> nat set" where
  "users s = {p. \<exists>l. li_sources s p = Some l \<and> IsUsingSharedTexture l}"

definition lights_inv :: "'f Lights \<Rightarrow> bool" where
  "lights_inv s \<longleftrightarrow>
     finite (users s) \<and> lt_refs (li_static s) = int (card (users s)) \<and>
     (\<forall>p l t. li_sources s p = Some l \<and> lsrc_shared l = Some t \<longrightarrow>
        lt_renderTexture (li_static s) = Some t) \<and>
     lt_live (li_static s) \<subseteq> set_option (lt_renderTexture (li_static s)) \<and>
     (lt_refs (li_static s) = 0 \<longrightarrow> lt_live (li_static s) = {})"

lemma users_put:
  "users (put_light p l lt s) =
     (case l of None \<Rightarrow> users s - {p}
      | Some l \<Rightarrow> if IsUsingSharedTexture l then insert p (users s) else users s - {p})"
  by (auto simp: users_def put_light_def split: option.splits if_splits)

lemma put_light_simps [simp]:
  "li_static (put_light p l lt s) = lt" "li_sources (put_light p l lt s) = (li_sources s)(p := l)"
  by (simp_all add: put_light_def)

lemma users_iff: "li_sources s p = Some l \<Longrightarrow> p \<in> users s \<longleftrightarrow> IsUsingSharedTexture l"
  by (simp add: users_def)

subsection \<open>What the operations do to the static state\<close>

lemma RetainSharedTexture_step:
  "RetainSharedTexture lt = Inr lt' \<Longrightarrow> lt' = lt\<lparr>lt_refs := lt_refs lt + 1\<rparr>"
  by (auto simp: RetainSharedTexture_def iadd_def)

lemma RetainSharedTexture_in_range:
  "0 \<le> lt_refs lt \<Longrightarrow> lt_refs lt < 2 ^ 31 - 1 \<Longrightarrow>
     RetainSharedTexture lt = Inr (lt\<lparr>lt_refs := lt_refs lt + 1\<rparr>)"
  by (simp add: RetainSharedTexture_def iadd_def chk_in_range)

lemma UseSharedTexture_cases:
  assumes "UseSharedTexture fl m l lt = Inr (l', lt', calls)"
  obtains (shared) "IsUsingSharedTexture l" "l' = l\<lparr>lsrc_texture := None\<rparr>" "lt' = lt"
  | (created) "\<not> IsUsingSharedTexture l" "lt_renderTexture lt = None"
      "l' = l\<lparr>lsrc_texture := None, lsrc_shared := Some (lt_next lt)\<rparr>"
      "lt' = lt\<lparr>lt_renderTexture := Some (lt_next lt), lt_live := insert (lt_next lt) (lt_live lt),
                lt_next := lt_next lt + 1, lt_refs := lt_refs lt + 1\<rparr>"
  | (taken) t where "\<not> IsUsingSharedTexture l" "lt_renderTexture lt = Some t"
      "l' = l\<lparr>lsrc_texture := None, lsrc_shared := Some t\<rparr>" "lt' = lt\<lparr>lt_refs := lt_refs lt + 1\<rparr>"
proof (cases "IsUsingSharedTexture l")
  case True
  with assms show thesis by (intro shared) (auto simp: UseSharedTexture_def IsUsingSharedTexture_def)
next
  case False
  show thesis
  proof (cases "lt_renderTexture lt")
    case None
    with False assms show thesis
      by (intro created) (auto simp: UseSharedTexture_def IsUsingSharedTexture_def GetSharedTexture_def
          CreateSharedTexture_def Let_def dest!: RetainSharedTexture_step)
  next
    case (Some t)
    with False assms show thesis
      by (intro taken) (auto simp: UseSharedTexture_def IsUsingSharedTexture_def GetSharedTexture_def
          dest!: RetainSharedTexture_step)
  qed
qed

lemma ReleaseSharedTexture_cases:
  assumes "ReleaseSharedTexture l lt = Inr (l', lt')"
  obtains (unused) "\<not> IsUsingSharedTexture l" "l' = l" "lt' = lt"
  | (others) "IsUsingSharedTexture l" "l' = l\<lparr>lsrc_shared := None\<rparr>"
      "lt' = lt\<lparr>lt_refs := (if lt_refs lt = 0 then 0 else lt_refs lt - 1)\<rparr>"
      "lt_refs lt' \<noteq> 0 \<or> lt_renderTexture lt = None"
  | (last) t where "IsUsingSharedTexture l" "l' = l\<lparr>lsrc_shared := None\<rparr>"
      "lt_renderTexture lt = Some t" "t \<in> lt_live lt"
      "lt' = lt\<lparr>lt_refs := 0, lt_live := lt_live lt - {t}\<rparr>" "lt_refs lt = 0 \<or> lt_refs lt = 1"
proof (cases "IsUsingSharedTexture l")
  case False
  with assms show thesis by (intro unused) (auto simp: ReleaseSharedTexture_def)
next
  case True
  define refs where "refs = (if lt_refs lt = 0 then 0 else lt_refs lt - 1)"
  have lt0: "(if lt_refs lt \<noteq> 0 then lt\<lparr>lt_refs := lt_refs lt - 1\<rparr> else lt) = lt\<lparr>lt_refs := refs\<rparr>"
    by (simp add: refs_def)
  show thesis
  proof (cases "refs = 0 \<and> lt_renderTexture lt \<noteq> None")
    case False
    with True assms show thesis
      unfolding ReleaseSharedTexture_def Texture_ReleaseShared_def Let_def lt0
      by (intro others) (auto simp: refs_def)
  next
    case last_one: True
    then obtain t where t: "lt_renderTexture lt = Some t" by blast
    with last_one True assms have "t \<in> lt_live lt" "lt' = lt\<lparr>lt_refs := 0, lt_live := lt_live lt - {t}\<rparr>"
      "l' = l\<lparr>lsrc_shared := None\<rparr>"
      unfolding ReleaseSharedTexture_def Texture_ReleaseShared_def Let_def lt0
      by (auto simp: DeleteSharedTexture_def split: if_splits)
    with True t last_one show thesis by (intro last) (auto simp: refs_def split: if_splits)
  qed
qed

subsection \<open>Preservation\<close>

lemma UseSharedTexture_inv:
  assumes use: "UseSharedTexture fl m l0 (li_static s) = Inr (l', lt', calls)"
    and l: "li_sources s p = Some l" "lsrc_shared l0 = lsrc_shared l" and inv: "lights_inv s"
  shows "lights_inv (put_light p (Some l') lt' s)"
proof -
  have using_eq: "IsUsingSharedTexture l0 = IsUsingSharedTexture l"
    using l(2) by (simp add: IsUsingSharedTexture_def)
  from use show ?thesis
  proof (cases rule: UseSharedTexture_cases)
    case shared
    then have "p \<in> users s" using users_iff [OF l(1)] using_eq by simp
    with shared inv l show ?thesis
      by (auto simp: lights_inv_def users_put IsUsingSharedTexture_def insert_absorb)
  next
    case created
    then have "p \<notin> users s" using users_iff [OF l(1)] using_eq by simp
    moreover have "li_sources s q = Some k \<Longrightarrow> lsrc_shared k = None" for q k
      using inv created(2) by (cases "lsrc_shared k") (fastforce simp: lights_inv_def)+
    ultimately show ?thesis using created inv
      by (auto simp: lights_inv_def users_put IsUsingSharedTexture_def)
  next
    case (taken t)
    then have "p \<notin> users s" using users_iff [OF l(1)] using_eq by simp
    with taken inv show ?thesis
      by (auto simp: lights_inv_def users_put IsUsingSharedTexture_def)
  qed
qed

text \<open>\<open>l2\<close> is what becomes of the source: with another texture, or nothing.\<close>

lemma ReleaseSharedTexture_inv:
  assumes rel: "ReleaseSharedTexture l (li_static s) = Inr (l', lt1)"
    and l: "li_sources s p = Some l" and inv: "lights_inv s"
    and l2: "\<And>k. l2 = Some k \<Longrightarrow> lsrc_shared k = lsrc_shared l'"
    and lt': "lt_refs lt' = lt_refs lt1" "lt_renderTexture lt' = lt_renderTexture lt1" "lt_live lt' = lt_live lt1"
  shows "lights_inv (put_light p l2 lt' s)"
proof -
  have not_using: "IsUsingSharedTexture k \<Longrightarrow> l2 = Some k \<Longrightarrow> False" for k
    using rel l2 [of k] by (cases rule: ReleaseSharedTexture_cases) (auto simp: IsUsingSharedTexture_def)
  then have users: "users (put_light p l2 lt' s) = users s - {p}"
    by (auto simp: users_put split: option.split)
  have shared: "lt_renderTexture (li_static s) = Some t"
    if "((li_sources s)(p := l2)) q = Some k" "lsrc_shared k = Some t" for q k t
    using that not_using inv by (auto simp: lights_inv_def IsUsingSharedTexture_def split: if_splits)
  have facts: "finite (users s)" "lt_refs (li_static s) = int (card (users s))"
    "lt_live (li_static s) \<subseteq> set_option (lt_renderTexture (li_static s))"
    "lt_refs (li_static s) = 0 \<longrightarrow> lt_live (li_static s) = {}"
    using inv by (auto simp: lights_inv_def)
  have main: "lights_inv (put_light p l2 lt' s)"
    if "lt_refs lt1 = int (card (users s - {p}))" "lt_renderTexture lt1 = lt_renderTexture (li_static s)"
      "lt_live lt1 \<subseteq> set_option (lt_renderTexture lt1)" "lt_refs lt1 = 0 \<longrightarrow> lt_live lt1 = {}"
    using that facts(1) shared
    by (simp add: lights_inv_def users lt' del: fun_upd_apply) blast
  have card: "p \<in> users s \<Longrightarrow> int (card (users s - {p})) = lt_refs (li_static s) - 1 \<and> lt_refs (li_static s) \<noteq> 0"
    using facts(1,2) card_gt_0_iff [of "users s"] by (auto simp: of_nat_diff)
  from rel show ?thesis
  proof (cases rule: ReleaseSharedTexture_cases)
    case unused
    then have "users s - {p} = users s" using users_iff [OF l] by auto
    with unused facts show ?thesis by (intro main) auto
  next
    case others
    then have "p \<in> users s" using users_iff [OF l] by simp
    from card [OF this] others facts show ?thesis
      by (intro main) (auto simp: IsUsingSharedTexture_def)
  next
    case (last t)
    then have "p \<in> users s" using users_iff [OF l] by simp
    from card [OF this] last facts show ?thesis by (intro main) auto
  qed
qed

lemma lights_step_inv:
  assumes "lights_step fl m E s s'" and inv: "lights_inv s"
  shows "lights_inv s'"
  using assms(1)
proof cases
  case (light_new p)
  then have "p \<notin> users s" by (simp add: users_def)
  with light_new inv show ?thesis
    by (auto simp: lights_inv_def users_put new_LightSource_def IsUsingSharedTexture_def)
next
  case (light_set p l d c l' lt' calls)
  then show ?thesis
    using inv by (auto simp: SetLightProperties_def intro: UseSharedTexture_inv)
next
  case (light_texture p l t l' lt')
  then obtain l1 lt1 u where rel: "ReleaseSharedTexture l (li_static s) = Inr (l1, lt1)"
    and "l' = l1\<lparr>lsrc_texture := Some u, lsrc_properties := (lsrc_properties l1)\<lparr>pr_initialized := False,
            pr_radius := v_x (en_GetDimensions E u)\<rparr>\<rparr>"
    and "lt' = lt1\<lparr>lt_retained := (lt_retained lt1)(u := lt_retained lt1 u + 1)\<rparr>"
    by (auto simp: SetTexture_def split: option.splits)
  then show ?thesis
    unfolding light_texture(1) by (intro ReleaseSharedTexture_inv [OF rel light_texture(2) inv]) auto
next
  case (light_delete p l lt')
  then obtain l1 lt1 where rel: "ReleaseSharedTexture l (li_static s) = Inr (l1, lt1)"
    and "lt_refs lt' = lt_refs lt1 \<and> lt_renderTexture lt' = lt_renderTexture lt1 \<and> lt_live lt' = lt_live lt1"
    by (auto simp: delete_LightSource_def split: option.splits)
  then show ?thesis
    unfolding light_delete(1) by (intro ReleaseSharedTexture_inv [OF rel light_delete(2) inv]) auto
qed

interpretation lights: inductive_invariant lights_start "lights_step fl m E" lights_inv for fl m E
proof unfold_locales
  show "lights_inv s" if "lights_start s" for s :: "'a Lights"
    using that by (auto simp: lights_start_def lights_inv_def users_def initial_LightTexture_def)
qed (rule lights_step_inv)

subsection \<open>After the count has dropped to zero\<close>

lemma last_release:
  assumes "ReleaseSharedTexture l lt = Inr (l', lt')" and "IsUsingSharedTexture l"
    and "lt_refs lt = 1" and "lt_renderTexture lt = Some t" and "lt_live lt \<subseteq> {t}"
  shows "lt_renderTexture lt' = Some t \<and> t \<notin> lt_live lt' \<and> lt_refs lt' = 0"
  using assms(1) by (cases rule: ReleaseSharedTexture_cases) (use assms in auto)

text \<open>A dangling pointer is handed out, drawn from and deleted again.\<close>

lemma dangling_use:
  assumes "lt_renderTexture lt = Some t" and "t \<notin> lt_live lt" and "\<not> IsUsingSharedTexture l"
    and "0 \<le> lt_refs lt" "lt_refs lt < 2 ^ 31 - 1"
  shows "\<exists>l' lt'. SetLightProperties fl m d c l lt = Inr (l', lt', [])
     \<and> lsrc_shared l' = Some t
     \<and> Light_RenderLight fl E wp rot lt' l' = Inl UseAfterFree
     \<and> (lt_refs lt = 0 \<longrightarrow> delete_LightSource l' lt' = Inl DoubleFree)"
  using assms(1-3) RetainSharedTexture_in_range [OF assms(4,5)]
  by (auto simp: SetLightProperties_def UseSharedTexture_def IsUsingSharedTexture_def
      GetSharedTexture_def Light_RenderLight_def delete_LightSource_def
      ReleaseSharedTexture_def Texture_ReleaseShared_def DeleteSharedTexture_def Let_def)

subsection \<open>Drawing a light\<close>

lemma Light_RenderLight_state:
  assumes "Light_RenderLight fl E wp rot lt l = Inr calls"
  shows "g_depth (gl_run calls g) = g_depth g \<and> g_buffer (gl_run calls g) = g_buffer g
     \<and> g_program (gl_run calls g) = g_program g \<and> g_fbo (gl_run calls g) = g_fbo g
     \<and> g_transforms (gl_run calls g) = g_transforms g
     \<and> (calls \<noteq> [] \<longrightarrow> g_caps (gl_run calls g) = g_caps g - {GL_TEXTURE_2D}
          \<and> g_arrays (gl_run calls g) = g_arrays g - {GL_VERTEX_ARRAY, GL_TEXTURE_COORD_ARRAY})"
  using assms
  by (auto simp: Light_RenderLight_def Let_def split: option.splits if_splits)

subsection \<open>Textures of the engine\<close>

text \<open>
  A light that is given a second texture retains it without releasing the first: after the light
  has been deleted the first one is still held once more than before.
\<close>

lemma ReleaseSharedTexture_retained:
  "ReleaseSharedTexture l lt = Inr (l', lt') \<Longrightarrow>
     lt_retained lt' = lt_retained lt \<and> lsrc_texture l' = lsrc_texture l"
  by (auto simp: ReleaseSharedTexture_def Texture_ReleaseShared_def DeleteSharedTexture_def Let_def
      split: if_splits option.splits)

lemma SetTexture_retained:
  "SetTexture E (Some t) l lt = Inr (l', lt') \<Longrightarrow>
     lt_retained lt' = (lt_retained lt)(t := lt_retained lt t + 1) \<and> lsrc_texture l' = Some t"
  by (auto simp: SetTexture_def dest: ReleaseSharedTexture_retained)

lemma delete_LightSource_retained:
  "delete_LightSource l lt = Inr lt' \<Longrightarrow> lsrc_texture l = Some t \<Longrightarrow>
     lt_retained lt' = (lt_retained lt)(t := lt_retained lt t - 1)"
  by (auto simp: delete_LightSource_def split: option.splits dest!: ReleaseSharedTexture_retained)

lemma second_texture_leaks_first:
  assumes "SetTexture E (Some t) l lt = Inr (l1, lt1)" and "SetTexture E (Some u) l1 lt1 = Inr (l2, lt2)"
    and "t \<noteq> u" and "delete_LightSource l2 lt2 = Inr lt3"
  shows "lt_retained lt3 t = lt_retained lt t + 1 \<and> lt_retained lt3 u = lt_retained lt u"
  using SetTexture_retained [OF assms(1)] SetTexture_retained [OF assms(2)]
    delete_LightSource_retained [OF assms(4)] assms(3) by simp

end
