(* ===== verification/MapProps.thy ===== *)
theory MapProps
  imports MapParser
begin

unbundle bit_operations_syntax

section \<open>What the map parser and the map loader establish\<close>

text \<open>
  The template after the walls layer, as a function of the layer; the bodies and shadow casters
  that \<open>LoadMap\<close> makes from a template; the texture and world clips.
\<close>

subsection \<open>Loops over the map\<close>

definition cells :: "int \<Rightarrow> int \<Rightarrow> (int \<times> int) list" where
  "cells w h = List.product (upto_int w) (upto_int h)"

lemma rfold_product:
  "rfold (\<lambda>x. rfold (f x) ys) xs s = rfold (\<lambda>(x, y). f x y) (List.product xs ys) s"
proof -
  have inner: "rfold (\<lambda>(x, y). f x y) (map (Pair x) ys) s = rfold (f x) ys s" for x s
    by (induction ys arbitrary: s) (auto intro!: arg_cong2 [of _ _ _ _ rbind])
  show ?thesis
    by (induction xs arbitrary: s) (simp_all add: rfold_append inner)
qed

lemma set_cells: "set (cells w h) = {0..<w} \<times> {0..<h}"
  by (simp add: cells_def)

lemma distinct_cells: "distinct (cells w h)"
  by (simp add: cells_def distinct_product)

subsection \<open>The walls layer\<close>

definition tmx_ok :: "'f TmxMap \<Rightarrow> bool" where
  "tmx_ok tm \<longleftrightarrow> 0 \<le> tm_width tm \<and> 0 \<le> tm_height tm \<and> tm_height tm < 2 ^ 31 \<and>
     tm_width tm * tm_height tm < 2 ^ 31"

lemma FlipY_in_map:
  assumes "tmx_ok (mp_tmxMap mp)" and "0 \<le> y" "y < tm_height (mp_tmxMap mp)"
  shows "FlipY mp y = Inr (tm_height (mp_tmxMap mp) - 1 - y)"
  using assms by (simp add: FlipY_def isub_def chk_def tmx_ok_def)

text \<open>Turning a line over twice gives it back.\<close>

lemma FlipY_twice:
  assumes "tmx_ok (mp_tmxMap mp)" and "0 \<le> y" "y < tm_height (mp_tmxMap mp)"
  shows "rbind (FlipY mp y) (FlipY mp) = Inr y"
  using assms FlipY_in_map [of mp "tm_height (mp_tmxMap mp) - 1 - y"] by (simp add: FlipY_in_map)

definition tile_flags :: "TmxLayer \<Rightarrow> int \<Rightarrow> int \<Rightarrow> u32" where
  "tile_flags layer x mapy =
     (let (gid, id) = ly_GetTile layer x mapy
      in if gid = 0 then 0 else if id = ID_WALL then TILE_SHADOW OR TILE_WALL
         else if id = ID_VENT then TILE_VENT else 0)"

definition same_size :: "'f MapParser \<Rightarrow> TileTemplate \<Rightarrow> bool" where
  "same_size mp tt \<longleftrightarrow> tt_ok tt \<and> tt_w tt = tm_width (mp_tmxMap mp) \<and> tt_h tt = tm_height (mp_tmxMap mp)"

lemma wall_tile_flags:
  assumes "same_size mp tt" and "tmx_ok (mp_tmxMap mp)" and "in_map tt x mapy"
  shows "\<exists>tt'. wall_tile mp layer x mapy tt = Inr tt' \<and> same_size mp tt' \<and>
     (\<forall>x' y'. in_map tt x' y' \<longrightarrow> flags_at tt' x' y' =
        (if x' = x \<and> y' = tt_h tt - 1 - mapy then flags_at tt x' y' OR tile_flags layer x mapy
         else flags_at tt x' y'))"
proof -
  have m: "in_map tt x (tt_h tt - 1 - mapy)" using assms(3) by (auto simp: in_map_def)
  have f: "FlipY mp mapy = Inr (tt_h tt - 1 - mapy)"
    using assms by (auto simp: same_size_def in_map_def intro: FlipY_in_map)
  obtain gid id where t: "ly_GetTile layer x mapy = (gid, id)" by fastforce
  have ok: "tt_ok tt" using assms(1) by (simp add: same_size_def)
  show ?thesis
  proof (cases "gid \<noteq> 0 \<and> (id = ID_WALL \<or> id = ID_VENT)")
    case True
    then have w: "wall_tile mp layer x mapy tt = AddFlag x (tt_h tt - 1 - mapy) (tile_flags layer x mapy) tt"
      by (auto simp: wall_tile_def tile_flags_def t f ID_WALL_def ID_VENT_def)
    show ?thesis
      using AddFlag_in_map [OF ok m, of "tile_flags layer x mapy"] assms(1)
      unfolding w same_size_def by auto
  next
    case False
    then have "wall_tile mp layer x mapy tt = Inr tt" "tile_flags layer x mapy = 0"
      by (auto simp: wall_tile_def tile_flags_def t f)
    with assms(1) show ?thesis by auto
  qed
qed

lemma wall_tiles_flags:
  assumes "same_size mp tt" and "tmx_ok (mp_tmxMap mp)"
    and "\<And>x y. (x, y) \<in> set ps \<Longrightarrow> in_map tt x y" and "distinct ps"
  shows "\<exists>tt'. rfold (\<lambda>(x, y). wall_tile mp layer x y) ps tt = Inr tt' \<and> same_size mp tt' \<and>
     (\<forall>x y. in_map tt x y \<longrightarrow> flags_at tt' x y = flags_at tt x y OR
        (if (x, tt_h tt - 1 - y) \<in> set ps then tile_flags layer x (tt_h tt - 1 - y) else 0))"
  using assms(1,3,4)
proof (induction ps arbitrary: tt)
  case (Cons p ps)
  obtain x0 y0 where p: "p = (x0, y0)" by fastforce
  have m: "in_map tt x0 y0" using Cons.prems(2) p by simp
  obtain tt1 where s: "wall_tile mp layer x0 y0 tt = Inr tt1" "same_size mp tt1"
    and f1: "\<And>x' y'. in_map tt x' y' \<Longrightarrow> flags_at tt1 x' y' =
        (if x' = x0 \<and> y' = tt_h tt - 1 - y0 then flags_at tt x' y' OR tile_flags layer x0 y0
         else flags_at tt x' y')"
    using wall_tile_flags [OF Cons.prems(1) assms(2) m, of layer] by blast
  have dims: "tt_h tt1 = tt_h tt" "in_map tt1 = in_map tt"
    using s(2) Cons.prems(1) by (auto simp: same_size_def in_map_def fun_eq_iff)
  obtain tt2 where r: "rfold (\<lambda>(x, y). wall_tile mp layer x y) ps tt1 = Inr tt2" "same_size mp tt2"
    and f2: "\<And>x y. in_map tt1 x y \<Longrightarrow> flags_at tt2 x y = flags_at tt1 x y OR
        (if (x, tt_h tt1 - 1 - y) \<in> set ps then tile_flags layer x (tt_h tt1 - 1 - y) else 0)"
    using Cons.IH [OF s(2)] Cons.prems by (auto simp: dims)
  have "flags_at tt2 x y = flags_at tt x y OR
        (if (x, tt_h tt - 1 - y) \<in> set (p # ps) then tile_flags layer x (tt_h tt - 1 - y) else 0)"
    if xy: "in_map tt x y" for x y
  proof (cases "(x, tt_h tt - 1 - y) = p")
    case True
    then have "y = tt_h tt - 1 - y0" "x = x0" using p by auto
    then show ?thesis using f1 [OF xy] f2 [of x y] xy Cons.prems(3) True p by (auto simp: dims)
  next
    case False
    then have "\<not> (x = x0 \<and> y = tt_h tt - 1 - y0)" using p by auto
    then show ?thesis using f1 [OF xy] f2 [of x y] xy False by (auto simp: dims)
  qed
  with s r show ?case by (auto simp: p)
qed simp

text \<open>From an empty template: a tile has the flags of the tile of the layer it comes from.\<close>

lemma ParseWallLayer_flags:
  assumes "tmx_ok (mp_tmxMap mp)"
    and "new_TileTemplate (tm_width (mp_tmxMap mp)) (tm_height (mp_tmxMap mp)) = Inr tt0"
  shows "\<exists>tt. ParseWallLayer mp layer tt0 = Inr tt \<and> same_size mp tt \<and>
     (\<forall>x y. in_map tt x y \<longrightarrow> flags_at tt x y = tile_flags layer x (tm_height (mp_tmxMap mp) - 1 - y))"
proof -
  let ?tm = "mp_tmxMap mp"
  have wh: "0 \<le> tm_width ?tm" "0 \<le> tm_height ?tm" using assms(1) by (auto simp: tmx_ok_def)
  have s: "same_size mp tt0" using new_TileTemplate_ok [OF assms(2) wh] by (simp add: same_size_def)
  have ps: "in_map tt0 x y \<longleftrightarrow> (x, y) \<in> set (cells (tm_width ?tm) (tm_height ?tm))" for x y
    using s by (auto simp: set_cells in_map_def same_size_def)
  obtain tt where tt: "ParseWallLayer mp layer tt0 = Inr tt" "same_size mp tt"
    and f: "\<And>x y. in_map tt0 x y \<Longrightarrow> flags_at tt x y = flags_at tt0 x y OR
        (if in_map tt0 x (tt_h tt0 - 1 - y) then tile_flags layer x (tt_h tt0 - 1 - y) else 0)"
    using wall_tiles_flags [OF s assms(1) _ distinct_cells, of "tm_width ?tm" "tm_height ?tm" layer]
    by (auto simp: ParseWallLayer_def rfold_product cells_def [symmetric] ps)
  have "in_map tt x y \<Longrightarrow> in_map tt0 x y \<and> in_map tt0 x (tt_h tt0 - 1 - y)" for x y
    using s tt(2) by (auto simp: in_map_def same_size_def)
  with f flags_at_new [OF assms(2) wh] tt s show ?thesis by (auto simp: same_size_def)
qed

subsection \<open>Loading\<close>

text \<open>The shadow caster of a tile, and its registration.\<close>

definition tile_object :: "(rat \<Rightarrow> 'f::plus) \<Rightarrow> 'f Engine \<Rightarrow> int \<Rightarrow> int \<Rightarrow> 'f GameObject" where
  "tile_object fl E x y =
     en_AddToShadowLayer E ((en_GameObject E)
       \<lparr>go_Position := vec2 (fl (of_int (x * MAP_TILE_SIZE))) (fl (of_int (y * MAP_TILE_SIZE)))\<rparr>)"

definition tile_caster :: "(rat \<Rightarrow> 'f::plus) \<Rightarrow> 'f Engine \<Rightarrow> int \<times> int \<Rightarrow> 'f ShadowCaster \<times> 'f GameObject" where
  "tile_caster fl E xy =
     (let go = tile_object fl E (fst xy) (snd xy)
      in (SetShadowRectangle go (rect (fl 0) (fl 0) (fl 64) (fl 64)) (new_ShadowCaster fl), go))"

definition add_caster ::
    "'f ShadowCaster \<times> 'f GameObject \<Rightarrow> 'f ShadowLayer \<times> 'f Stage \<Rightarrow> 'f ShadowLayer \<times> 'f Stage" where
  "add_caster c s =
     (AddShadowCaster (st_next (snd s)) (fst s),
      (snd s)\<lparr>st_casters := (st_casters (snd s))(st_next (snd s) \<mapsto> c), st_next := st_next (snd s) + 1\<rparr>)"

lemma add_casters:
  "(let s' = fold (\<lambda>p. add_caster (c p)) ps s; n = st_next (snd s)
    in sl_shadowCasters (fst s') = sl_shadowCasters (fst s) @ [n..<n + length ps] \<and>
       st_next (snd s') = n + length ps \<and>
       (\<forall>i < length ps. st_casters (snd s') (n + i) = Some (c (ps ! i))) \<and>
       (\<forall>k < n. st_casters (snd s') k = st_casters (snd s) k) \<and>
       st_lights (snd s') = st_lights (snd s) \<and> st_static (snd s') = st_static (snd s) \<and>
       sl_lightSources (fst s') = sl_lightSources (fst s))"
proof (induction ps arbitrary: s)
  case (Cons p ps)
  define s1 where "s1 = add_caster (c p) s"
  define s2 where "s2 = fold (\<lambda>p. add_caster (c p)) ps s1"
  let ?n = "st_next (snd s)"
  have s1: "sl_shadowCasters (fst s1) = sl_shadowCasters (fst s) @ [?n]" "st_next (snd s1) = ?n + 1"
    "st_casters (snd s1) = (st_casters (snd s))(?n \<mapsto> c p)" "st_lights (snd s1) = st_lights (snd s)"
    "st_static (snd s1) = st_static (snd s)" "sl_lightSources (fst s1) = sl_lightSources (fst s)"
    by (simp_all add: s1_def add_caster_def AddShadowCaster_def)
  note ih = Cons.IH [of s1, folded s2_def, unfolded Let_def]
  have "st_casters (snd s2) (?n + i) = Some (c ((p # ps) ! i))" if "i < length (p # ps)" for i
  proof (cases i)
    case 0
    then show ?thesis using ih by (simp add: s1)
  next
    case (Suc j)
    with that have "j < length ps" by simp
    with ih Suc show ?thesis by (simp add: s1)
  qed
  moreover have "fold (\<lambda>p. add_caster (c p)) (p # ps) s = s2" by (simp add: s1_def s2_def)
  moreover have "[?n..<?n + length (p # ps)] = ?n # [Suc ?n..<Suc ?n + length ps]" by (simp add: upt_rec)
  ultimately show ?case using ih by (simp add: s1 Let_def)
qed simp

definition has_flag :: "TileTemplate \<Rightarrow> u32 \<Rightarrow> int \<times> int \<Rightarrow> bool" where
  "has_flag tt f xy \<longleftrightarrow> and (flags_at tt (fst xy) (snd xy)) f \<noteq> 0"

lemma load_tile_eq:
  assumes "tt_ok tt" and "in_map tt x y" and "tt_w tt \<le> 2 ^ 24" "tt_h tt \<le> 2 ^ 24"
  shows "\<exists>g'. load_tile fl E B tt x y g = Inr g' \<and>
     gm_map g' = (if has_flag tt TILE_WALL (x, y)
                  then LoadWall fl B x y (has_flag tt TILE_VENT (x, y)) (gm_map g) else gm_map g) \<and>
     (gm_shadow g', gm_stage g') =
       (if has_flag tt TILE_SHADOW (x, y) then add_caster (tile_caster fl E (x, y)) (gm_shadow g, gm_stage g)
        else (gm_shadow g, gm_stage g))"
proof -
  have "0 \<le> x" "x < 2 ^ 24" "0 \<le> y" "y < 2 ^ 24" using assms by (auto simp: in_map_def)
  then have m: "imul x 64 = Inr (x * 64)" "imul y 64 = Inr (y * 64)"
    by (simp_all add: imul_def chk_def)
  show ?thesis
    by (cases "and (flags_at tt x y) TILE_SHADOW = 0"; cases "and (flags_at tt x y) TILE_WALL = 0")
      (simp_all add: load_tile_def GetFlags_in_map [OF assms(1,2)] has_flag_def LoadShadowCaster_def m
        add_caster_def tile_caster_def tile_object_def Let_def MAP_TILE_SIZE_def)
qed

lemma load_tiles_eq:
  assumes "tt_ok tt" and "tt_w tt \<le> 2 ^ 24" "tt_h tt \<le> 2 ^ 24"
    and "\<And>x y. (x, y) \<in> set ps \<Longrightarrow> in_map tt x y"
  shows "\<exists>g'. rfold (\<lambda>(x, y). load_tile fl E B tt x y) ps g = Inr g' \<and>
     gm_map g' = fold (\<lambda>(x, y). LoadWall fl B x y (has_flag tt TILE_VENT (x, y)))
                   (filter (has_flag tt TILE_WALL) ps) (gm_map g) \<and>
     (gm_shadow g', gm_stage g') =
       fold (\<lambda>p. add_caster (tile_caster fl E p)) (filter (has_flag tt TILE_SHADOW) ps) (gm_shadow g, gm_stage g)"
  using assms(4)
proof (induction ps arbitrary: g)
  case (Cons p ps)
  obtain x y where p: "p = (x, y)" by fastforce
  obtain g1 where g1: "load_tile fl E B tt x y g = Inr g1"
     "gm_map g1 = (if has_flag tt TILE_WALL (x, y)
                  then LoadWall fl B x y (has_flag tt TILE_VENT (x, y)) (gm_map g) else gm_map g)"
     "(gm_shadow g1, gm_stage g1) =
       (if has_flag tt TILE_SHADOW (x, y) then add_caster (tile_caster fl E (x, y)) (gm_shadow g, gm_stage g)
        else (gm_shadow g, gm_stage g))"
    using load_tile_eq [OF assms(1) _ assms(2,3)] Cons.prems p by (metis list.set_intros(1))
  have ih: "\<And>x y. (x, y) \<in> set ps \<Longrightarrow> in_map tt x y" using Cons.prems by simp
  obtain g2 where g2: "rfold (\<lambda>(x, y). load_tile fl E B tt x y) ps g1 = Inr g2"
     "gm_map g2 = fold (\<lambda>(x, y). LoadWall fl B x y (has_flag tt TILE_VENT (x, y)))
                   (filter (has_flag tt TILE_WALL) ps) (gm_map g1)"
     "(gm_shadow g2, gm_stage g2) =
       fold (\<lambda>p. add_caster (tile_caster fl E p)) (filter (has_flag tt TILE_SHADOW) ps) (gm_shadow g1, gm_stage g1)"
    using Cons.IH [OF ih, of g1] by blast
  then show ?case
    unfolding g1(3) by (intro exI [of _ g2]) (simp add: p g1(1,2))
qed simp

lemma LoadMap_eq:
  assumes "GetTileTemplate (gm_map g) = tt" and "tt_ok tt" and "tt_w tt \<le> 2 ^ 24" "tt_h tt \<le> 2 ^ 24"
  shows "\<exists>g'. LoadMap fl E B g = Inr g' \<and>
     gm_map g' = fold (\<lambda>(x, y). LoadWall fl B x y (has_flag tt TILE_VENT (x, y)))
                   (filter (has_flag tt TILE_WALL) (cells (tt_w tt) (tt_h tt))) (gm_map g) \<and>
     (gm_shadow g', gm_stage g') =
       fold (\<lambda>p. add_caster (tile_caster fl E p))
         (filter (has_flag tt TILE_SHADOW) (cells (tt_w tt) (tt_h tt))) (gm_shadow g, gm_stage g)"
proof -
  have ps: "(x, y) \<in> set (cells (tt_w tt) (tt_h tt)) \<Longrightarrow> in_map tt x y" for x y
    by (auto simp: set_cells in_map_def)
  show ?thesis
    using load_tiles_eq [OF assms(2-4), where ps = "cells (tt_w tt) (tt_h tt)"
        and fl = fl and E = E and B = B and g = g] ps
    by (simp add: LoadMap_def assms(1) rfold_product cells_def GetWidth_def GetHeight_def)
qed

text \<open>The flags a walls layer can give: a shadow exactly at a wall, and never a wall with a vent.\<close>

lemma tile_flags_bits:
  "and (tile_flags layer x y) TILE_SHADOW \<noteq> 0 \<longleftrightarrow> and (tile_flags layer x y) TILE_WALL \<noteq> 0"
  "and (tile_flags layer x y) TILE_WALL \<noteq> 0 \<Longrightarrow> and (tile_flags layer x y) TILE_VENT = 0"
  "and (tile_flags layer x y) TILE_WALL \<noteq> 0 \<longleftrightarrow>
     fst (ly_GetTile layer x y) \<noteq> 0 \<and> snd (ly_GetTile layer x y) = ID_WALL"
  by (auto simp: tile_flags_def TILE_SHADOW_def TILE_WALL_def TILE_VENT_def ID_WALL_def ID_VENT_def
      split: prod.splits if_splits)

lemma LoadWall_bodies: "length (map_globalBodies (LoadWall fl B x y v m)) = Suc (length (map_globalBodies m))"
  by (simp add: LoadWall_def AddGlobalBody_def split: prod.splits)

lemma LoadWalls_bodies:
  "length (map_globalBodies (fold (\<lambda>(x, y). LoadWall fl B x y (v x y)) ps m))
     = length (map_globalBodies m) + length ps"
  by (induction ps arbitrary: m) (auto simp: LoadWall_bodies split: prod.splits)

subsection \<open>Texture clips\<close>

lemma div_below:
  assumes "0 < k" and "n < m * k"
  shows "n div k < (m :: int)"
proof (rule ccontr)
  assume "\<not> n div k < m"
  then have "m * k \<le> n div k * k" using assms(1) by (intro mult_right_mono) auto
  also have "\<dots> \<le> n" using assms(1) div_mult_mod_eq [of n k] pos_mod_sign [of k n] by linarith
  finally show False using assms(2) by simp
qed

text \<open>
  The tile of the image at column \<open>c\<close> and line \<open>r\<close>, both from the top left, in an image of
  \<open>xc\<close> by \<open>yc\<close> tiles: the column is right, the line is that of the number over the number of
  lines, and it is one tile too high.
\<close>

lemma texture_tile_eq:
  assumes "ts_tileWidth t = tw" "ts_tileHeight t = th" "mp_mapset mp = t"
    and "ts_imgWidth t = xc * tw" "ts_imgHeight t = yc * th"
    and "0 < tw" "0 < th" "0 < xc" "0 < yc" and "xc * tw < 2 ^ 31" "yc * th < 2 ^ 31"
    and "0 \<le> n" "n < xc * yc" "n < 2 ^ 31" "ts_firstGid t + n < 2 ^ 31" "0 \<le> ts_firstGid t"
    and "- (2 ^ 31) \<le> (yc - n div yc) * th"
  shows "texture_tile mp t (ts_firstGid t + n) = Inr ((n mod xc) * tw, (yc - n div yc) * th)"
proof -
  have pos: "xc \<le> xc * tw" "yc \<le> yc * th" using assms by simp_all
  have small: "xc < 2 ^ 31" "yc < 2 ^ 31" using pos assms(10,11) by linarith+
  have d: "0 \<le> n div yc" "n div yc \<le> n" "0 \<le> n mod xc" "n mod xc < xc" "n mod xc \<le> n"
    using assms(8,9,12) by (auto simp: pos_imp_zdiv_nonneg_iff zmod_le_nonneg_dividend zdiv_mono2 [of n 1, simplified])
  have "(n mod xc) * tw \<le> xc * tw" using d(4) assms(6) by (intro mult_right_mono) linarith+
  then have x: "(n mod xc) * tw < 2 ^ 31" "- (2 ^ 31) \<le> (n mod xc) * tw"
    using assms(6,10) d(3) mult_nonneg_nonneg [of "n mod xc" tw] by linarith+
  have "(yc - n div yc) * th \<le> yc * th" using d(1) assms(7) by (intro mult_right_mono) linarith+
  then have y: "(yc - n div yc) * th < 2 ^ 31" using assms(11) by linarith
  have q: "- (2 ^ 31) \<le> yc - n div yc" "yc - n div yc < 2 ^ 31" using d(1,2) small(2) assms(9,14) by linarith+
  have e: "chk ((n mod xc) * tw) = Inr ((n mod xc) * tw)" "chk ((yc - n div yc) * th) = Inr ((yc - n div yc) * th)"
    "chk (yc - n div yc) = Inr (yc - n div yc)" "chk (n mod xc) = Inr (n mod xc)" "chk (n div yc) = Inr (n div yc)"
    using x y q d small assms(12,14,17) by (intro chk_in_range; linarith)+
  have c: "idiv (ts_imgWidth t) tw = Inr xc" "idiv (ts_imgHeight t) th = Inr yc"
    "isub (ts_firstGid t + n) (ts_firstGid t) = Inr n"
    using assms small by (simp_all add: idiv_def isub_def sdiv_nonneg chk_def)
  have c': "imod n xc = Inr (n mod xc)" "idiv n yc = Inr (n div yc)" "isub yc (n div yc) = Inr (yc - n div yc)"
    "imul (n mod xc) tw = Inr ((n mod xc) * tw)" "imul (yc - n div yc) th = Inr ((yc - n div yc) * th)"
    using assms(8,9,12) by (simp_all add: imod_def idiv_def isub_def imul_def sdiv_nonneg smod_nonneg e)
  show ?thesis by (simp add: texture_tile_def assms(1-3) c c')
qed

end
