(* ===== verification/ClientInv.thy ===== *)
theory ClientInv
  imports GameLayers LightProps MapProps
begin

section \<open>The invariant of the running client\<close>

text \<open>
  What holds of the stage and of the game layer from the end of the constructor on: the shadow
  layer points to lights and casters that exist, a light that uses the shared texture uses one
  that is alive, the casters have a shape, and the player and the camera are set up. The
  constructor establishes it, and updates and frames keep it, without a fault.
\<close>

subsection \<open>The stage\<close>

text \<open>Where the shared texture is in use, it is alive and counted.\<close>

definition uses_ok :: "LightTexture \<Rightarrow> 'f LightSource \<Rightarrow> bool" where
  "uses_ok lt l \<longleftrightarrow>
     (\<forall>t. lsrc_shared l = Some t \<longrightarrow> lt_renderTexture lt = Some t \<and> t \<in> lt_live lt \<and> 0 < lt_refs lt)"

text \<open>The texture stays what it is as long as it is in use.\<close>

definition keeps :: "LightTexture \<Rightarrow> LightTexture \<Rightarrow> bool" where
  "keeps lt lt' \<longleftrightarrow>
     (\<forall>t. lt_renderTexture lt = Some t \<and> t \<in> lt_live lt \<and> 0 < lt_refs lt \<longrightarrow>
        lt_renderTexture lt' = Some t \<and> t \<in> lt_live lt' \<and> 0 < lt_refs lt')"

lemma uses_ok_keeps: "uses_ok lt l \<Longrightarrow> keeps lt lt' \<Longrightarrow> uses_ok lt' l"
  by (auto simp: uses_ok_def keeps_def)

definition stage_ok :: "'f Stage \<Rightarrow> bool" where
  "stage_ok st \<longleftrightarrow>
     0 \<le> lt_refs (st_static st) \<and>
     (\<forall>p x. st_lights st p = Some x \<longrightarrow> uses_ok (st_static st) (fst x)) \<and>
     (\<forall>p x. st_casters st p = Some x \<longrightarrow> cast_local (fst x) \<noteq> [])"

definition texture_ready :: "LightTexture \<Rightarrow> bool" where
  "texture_ready lt \<longleftrightarrow> 0 \<le> lt_refs lt \<and> (\<forall>t. lt_renderTexture lt = Some t \<longrightarrow> t \<in> lt_live lt)"

definition pointers_ok :: "'f ShadowLayer \<Rightarrow> 'f Stage \<Rightarrow> bool" where
  "pointers_ok s st \<longleftrightarrow>
     set (sl_lightSources s) \<subseteq> dom (st_lights st) \<and> set (sl_shadowCasters s) \<subseteq> dom (st_casters st)"

definition game_ok :: "('b, 'f) Game \<Rightarrow> bool" where
  "game_ok g \<longleftrightarrow> stage_ok (gm_stage g) \<and> pointers_ok (gm_shadow g) (gm_stage g)"

lemma stage_ok_lightI:
  fixes st :: "'f Stage"
  assumes "stage_ok st" and "uses_ok lt l" and "0 \<le> lt_refs lt"
    and "keeps (st_static st) lt"
  shows "stage_ok (st\<lparr>st_static := lt, st_lights := (st_lights st)(p \<mapsto> (l, go)), st_next := n\<rparr>)"
    (is "stage_ok ?st")
proof -
  have "uses_ok lt (fst x)" if "((st_lights st)(p \<mapsto> (l, go))) q = Some x" for q x
  proof (cases "q = p")
    case True
    with that assms(2) show ?thesis by auto
  next
    case False
    with that have "st_lights st q = Some x" by simp
    with assms(1) have "uses_ok (st_static st) (fst x)" unfolding stage_ok_def by blast
    then show ?thesis using assms(4) by (rule uses_ok_keeps)
  qed
  with assms(1,3) show ?thesis unfolding stage_ok_def by simp
qed

lemma stage_ok_casterI:
  assumes "stage_ok st" and "cast_local c \<noteq> []"
  shows "stage_ok (st\<lparr>st_casters := (st_casters st)(p \<mapsto> (c, go))\<rparr>)"
    "stage_ok (st\<lparr>st_casters := (st_casters st)(p \<mapsto> (c, go)), st_next := n\<rparr>)"
  using assms by (auto simp: stage_ok_def)

lemma stage_ok_caster: "stage_ok st \<Longrightarrow> st_casters st p = Some (c, go) \<Longrightarrow> cast_local c \<noteq> []"
  by (fastforce simp: stage_ok_def)

lemma stage_ok_light: "stage_ok st \<Longrightarrow> st_lights st p = Some (l, go) \<Longrightarrow> uses_ok (st_static st) l"
  by (fastforce simp: stage_ok_def)

text \<open>A new light source that is given properties uses the shared texture.\<close>

lemma SetLightProperties_new:
  fixes l :: "'f::{plus,times,divide} LightSource"
  assumes "SetLightProperties fl m d c (new_LightSource fl) lt = Inr (l, lt', calls)" and "texture_ready lt"
  shows "uses_ok lt' l \<and> texture_ready lt' \<and> lt_refs lt' = lt_refs lt + 1 \<and> keeps lt lt'"
proof -
  let ?l0 = "(new_LightSource fl)\<lparr>lsrc_properties := new_Properties d c\<rparr>"
  have not_using: "\<not> IsUsingSharedTexture ?l0"
    by (simp add: IsUsingSharedTexture_def new_LightSource_def)
  from assms(1) have "UseSharedTexture fl m ?l0 lt = Inr (l, lt', calls)"
    by (simp add: SetLightProperties_def)
  then show ?thesis
  proof (cases rule: UseSharedTexture_cases)
    case shared
    with not_using show ?thesis by simp
  next
    case created
    with assms(2) show ?thesis by (auto simp: texture_ready_def uses_ok_def keeps_def)
  next
    case (taken t)
    with assms(2) show ?thesis by (auto simp: texture_ready_def uses_ok_def keeps_def)
  qed
qed

lemma SetLightProperties_total:
  assumes "texture_ready lt" and "lt_refs lt < 2 ^ 31 - 1"
  shows "\<exists>l lt' calls. SetLightProperties fl m d c (new_LightSource fl) lt = Inr (l, lt', calls)"
  using assms
  by (cases "lt_renderTexture lt")
    (auto simp: SetLightProperties_def UseSharedTexture_def IsUsingSharedTexture_def new_LightSource_def
      GetSharedTexture_def CreateSharedTexture_def RetainSharedTexture_in_range texture_ready_def Let_def)

text \<open>Giving it another texture takes the use back; the texture is deleted if it was the last one.\<close>

lemma SetTexture_last:
  assumes "SetTexture E t l lt = Inr (l', lt')" and "uses_ok lt l" and "0 \<le> lt_refs lt"
  shows "lsrc_shared l' = None \<and> 0 \<le> lt_refs lt' \<and>
     (IsUsingSharedTexture l \<longrightarrow> lt_refs lt' = lt_refs lt - 1 \<and>
        (lt_refs lt > 1 \<longrightarrow> lt_live lt' = lt_live lt \<and> lt_renderTexture lt' = lt_renderTexture lt) \<and>
        (lt_refs lt = 1 \<longrightarrow> lt_renderTexture lt' = lt_renderTexture lt \<and> lt_live lt' = lt_live lt - set_option (lsrc_shared l)))"
proof -
  from assms(1) obtain l1 lt1 u where rel: "ReleaseSharedTexture l lt = Inr (l1, lt1)"
    and l': "lsrc_shared l' = lsrc_shared l1" "lt_refs lt' = lt_refs lt1" "lt_live lt' = lt_live lt1"
      "lt_renderTexture lt' = lt_renderTexture lt1"
    by (auto simp: SetTexture_def split: option.splits)
  from rel show ?thesis
  proof (cases rule: ReleaseSharedTexture_cases)
    case unused
    with assms(3) l' show ?thesis by (simp add: IsUsingSharedTexture_def)
  next
    case others
    with assms(2,3) l' show ?thesis by (auto simp: IsUsingSharedTexture_def uses_ok_def)
  next
    case (last t)
    with assms(2,3) l' show ?thesis by (auto simp: IsUsingSharedTexture_def uses_ok_def)
  qed
qed

subsection \<open>The constructor\<close>

definition ready :: "('b, 'f) Game \<Rightarrow> bool" where
  "ready g \<longleftrightarrow> game_ok g \<and> texture_ready (st_static (gm_stage g))"

lemma AddLight_ready:
  assumes "AddLight fl m E fmt props pos type g = Inr (g', calls)" and "ready g"
  shows "ready g'"
proof -
  let ?st = "gm_stage g"
  from assms(1) obtain l lt go where
    s: "SetLightProperties fl m (pr_radius props) (pr_color props) (new_LightSource fl) (st_static ?st) = Inr (l, lt, calls)"
    and g': "g' = g\<lparr>gm_shadow := AddLightSource (st_next ?st) (gm_shadow g),
       gm_stage := ?st\<lparr>st_static := lt, st_lights := (st_lights ?st)(st_next ?st \<mapsto> (l, go)), st_next := st_next ?st + 1\<rparr>\<rparr>"
    by (auto simp: AddLight_def Let_def split: if_splits)
  have n: "uses_ok lt l" "texture_ready lt" "keeps (st_static ?st) lt"
    using SetLightProperties_new [OF s] assms(2) by (auto simp: ready_def)
  have "stage_ok (gm_stage g')"
    using assms(2) n by (auto simp: g' ready_def game_ok_def texture_ready_def intro!: stage_ok_lightI)
  moreover have "pointers_ok (gm_shadow g') (gm_stage g')"
    using assms(2) by (auto simp: g' ready_def game_ok_def pointers_ok_def AddLightSource_def)
  ultimately show ?thesis using n(2) by (simp add: g' ready_def game_ok_def)
qed

lemma parse_light_ready:
  assumes "parse_light fl m E fmt mp obj gc = Inr gc'" and "ready (fst gc)"
  shows "ready (fst gc')"
  using assms by (auto simp: parse_light_def Let_def split: option.splits if_splits dest: AddLight_ready)

lemma ParseMap_ready:
  assumes "ParseMap fl m E fmt vbo mp g = Inr (ok, g', calls)" and "ready g"
  shows "ready g'"
proof -
  from assms(1) obtain mp0 cs g1 cs1 tt where
    r: "rfold (parse_group fl m E fmt mp) (tm_groups (mp_tmxMap mp)) (g\<lparr>gm_map := mp0\<rparr>, cs) = Inr (g1, cs1)"
    and g': "g' = g1\<lparr>gm_map := SetTileTemplate tt (gm_map g1)\<rparr>"
    by (auto simp: ParseMap_def Let_def)
  have "ready (fst (g1, cs1))"
  proof (rule rfold_invariant [OF r, where P = "\<lambda>gc. ready (fst gc)"])
    show "ready (fst (g\<lparr>gm_map := mp0\<rparr>, cs))" using assms(2) by (simp add: ready_def game_ok_def)
  next
    fix grp gc gc'
    assume "ready (fst gc)" and "parse_group fl m E fmt mp grp gc = Inr gc'"
    then show "ready (fst gc')"
      by (auto simp: parse_group_def ParseLightLayer_def split: if_splits
          elim!: rfold_invariant [where P = "\<lambda>gc. ready (fst gc)"] dest: parse_light_ready)
  qed
  then show ?thesis by (simp add: g' ready_def game_ok_def)
qed

lemma load_tile_ready:
  assumes "load_tile fl E B tt x y g = Inr g'" and "ready g"
  shows "ready g'"
proof -
  have "ready g1" if "LoadShadowCaster fl E x y g = Inr g1" for g1
  proof -
    define mk where "mk go = SetShadowRectangle go (rect (fl 0) (fl 0) (fl (of_int MAP_TILE_SIZE)) (fl (of_int MAP_TILE_SIZE)))
      (new_ShadowCaster fl)" for go
    have mk: "cast_local (mk go) \<noteq> []" for go
      by (simp add: mk_def SetShadowRectangle_def CalculateGlobalVertices_def corners_def)
    from that obtain go where g1: "g1 = g\<lparr>gm_shadow := AddShadowCaster (st_next (gm_stage g)) (gm_shadow g),
        gm_stage := (gm_stage g)\<lparr>st_casters := (st_casters (gm_stage g))(st_next (gm_stage g) \<mapsto> (mk go, go)),
                                st_next := st_next (gm_stage g) + 1\<rparr>\<rparr>"
      by (auto simp: LoadShadowCaster_def Let_def mk_def [symmetric])
    with assms(2) show ?thesis
      by (auto simp: ready_def game_ok_def pointers_ok_def AddShadowCaster_def mk intro!: stage_ok_casterI)
  qed
  moreover have "ready (g1\<lparr>gm_map := mm\<rparr>) = ready g1" for g1 :: "('a, 'b) Game" and mm
    by (simp add: ready_def game_ok_def)
  ultimately show ?thesis
    using assms by (auto simp: load_tile_def Let_def split: if_splits)
qed

lemma LoadMap_ready:
  assumes "LoadMap fl E B g = Inr g'" and "ready g"
  shows "ready g'"
  using assms unfolding LoadMap_def Let_def rfold_product
  by (elim rfold_invariant) (auto dest: load_tile_ready)

definition client_ok :: "('b, 'f) GameLayer \<Rightarrow> bool" where
  "client_ok l \<longleftrightarrow>
     game_ok (gl_game l) \<and> pl_light (gl_player l) \<in> dom (st_lights (gm_stage (gl_game l))) \<and>
     (\<exists>b. pl_body (gl_player l) = Some b \<and> mc_body (pl_move (gl_player l)) = Body b) \<and>
     gl_camera l = CamPlayer"

lemma new_Player_ok:
  assumes "new_Player fl m E B rot0 g = Inr (p, g', calls)" and "ready g"
  shows "game_ok g' \<and> pl_light p \<in> dom (st_lights (gm_stage g')) \<and>
     (\<exists>b. pl_body p = Some b \<and> mc_body (pl_move p) = Body b)"
proof -
  let ?st = "gm_stage g"
  from assms(1) obtain l1 lt1 cs l2 lt2 go where
    s: "SetLightProperties fl m (fl 300) (color (fl 1) (fl 1) (fl 1) (fl (1 / 2))) (new_LightSource fl) (st_static ?st) = Inr (l1, lt1, cs)"
    and t: "SetTexture E (en_GetResource E ''res/flashlight.png'') l1 lt1 = Inr (l2, lt2)"
    and g': "gm_shadow g' = gm_shadow g" "gm_stage g' = ?st\<lparr>st_static := lt2,
        st_lights := (st_lights ?st)(st_next ?st \<mapsto> (l2, go)), st_next := st_next ?st + 1\<rparr>"
    and p: "pl_light p = st_next ?st" "\<exists>b. pl_body p = Some b \<and> mc_body (pl_move p) = Body b"
    by (auto simp: new_Player_def CreatePhysics_def SetBody_def Let_def split: prod.splits)
  have ok: "texture_ready (st_static ?st)" "game_ok g" using assms(2) by (auto simp: ready_def)
  note n = SetLightProperties_new [OF s ok(1)]
  have refs: "0 \<le> lt_refs lt1" "lt_refs lt1 = lt_refs (st_static ?st) + 1" "0 \<le> lt_refs (st_static ?st)"
    using n ok(1) by (auto simp: texture_ready_def)
  have u: "IsUsingSharedTexture l1"
    using s by (auto simp: SetLightProperties_def IsUsingSharedTexture_def elim!: UseSharedTexture_cases)
  note x = SetTexture_last [OF t, rule_format, OF conjunct1 [OF n] refs(1)]
  have "keeps (st_static ?st) lt2"
    unfolding keeps_def
  proof (intro allI impI)
    fix q
    assume q: "lt_renderTexture (st_static ?st) = Some q \<and> q \<in> lt_live (st_static ?st) \<and> 0 < lt_refs (st_static ?st)"
    then have "lt_refs lt1 > 1" using refs by simp
    with x u have "lt_live lt2 = lt_live lt1" "lt_renderTexture lt2 = lt_renderTexture lt1" "lt_refs lt2 = lt_refs lt1 - 1"
      by auto
    moreover have "lt_renderTexture lt1 = Some q" "q \<in> lt_live lt1"
      using n q by (auto simp: keeps_def)
    ultimately show "lt_renderTexture lt2 = Some q \<and> q \<in> lt_live lt2 \<and> 0 < lt_refs lt2"
      using \<open>lt_refs lt1 > 1\<close> by simp
  qed
  moreover have "uses_ok lt2 l2" "0 \<le> lt_refs lt2" using x by (auto simp: uses_ok_def)
  ultimately show ?thesis using ok(2) p
    by (auto simp: game_ok_def pointers_ok_def g' intro!: stage_ok_lightI)
qed

lemma dom_add_child [simp]: "dom (st_lights (add_child E p st)) = dom (st_lights st)"
  by (auto simp: add_child_def)

lemma add_child_casters [simp]: "st_casters (add_child E p st) = st_casters st" "st_static (add_child E p st) = st_static st"
  by (simp_all add: add_child_def)

lemma add_child_ok:
  assumes "stage_ok st"
  shows "stage_ok (add_child E p st)"
proof (cases "st_lights st p")
  case None
  then have "st_lights (add_child E p st) = st_lights st" by (simp add: add_child_def fun_upd_idem)
  with assms show ?thesis by (simp add: stage_ok_def)
next
  case (Some x)
  obtain l go where x: "x = (l, go)" by fastforce
  from assms Some x have "uses_ok (st_static st) l" by (simp add: stage_ok_light)
  with assms have "stage_ok (st\<lparr>st_static := st_static st, st_lights := (st_lights st)(p \<mapsto> (l, en_AddToGameLayer E go)),
      st_next := st_next st\<rparr>)"
    by (intro stage_ok_lightI) (auto simp: keeps_def stage_ok_def)
  then show ?thesis by (simp add: add_child_def Some x stage_ok_def)
qed

lemma new_GameLayer_ok:
  assumes "new_GameLayer fl m E G B fmt vbo tmx sh c0 rot0 pos0 lt w = Inr (l, calls, w')"
    and "texture_ready lt"
  shows "client_ok l"
proof -
  from assms(1) obtain sl w1 parser ok g1 cs1 g2 p g3 cs2 where
    sl: "new_ShadowLayer fl G sh c0 w = Inr (sl, w1)"
    and pm: "ParseMap fl m E fmt vbo parser \<lparr>gm_map = new_Map B, gm_shadow = sl,
              gm_stage = \<lparr>st_static = lt, st_lights = (\<lambda>_. None), st_casters = (\<lambda>_. None), st_next = 1\<rparr>\<rparr>
            = Inr (ok, g1, cs1)"
    and lm: "LoadMap fl E B g1 = Inr g2" and np: "new_Player fl m E B rot0 g2 = Inr (p, g3, cs2)"
    and l: "l = \<lparr>gl_game = g3\<lparr>gm_shadow := AddLightSource (pl_light p) (gm_shadow g3),
         gm_stage := add_child E (pl_light p) (gm_stage g3)\<rparr>, gl_player = p,
       gl_camera = CameraComponent_SetPlayer True, gl_position = pos0\<rparr>"
    by (auto simp: new_GameLayer_def Let_def)
  have empty: "sl_lightSources sl = []" "sl_shadowCasters sl = []"
    using sl by (auto simp: new_ShadowLayer_def SetShadowColor_def Let_def split: prod.splits option.splits)
  have "ready \<lparr>gm_map = new_Map B, gm_shadow = sl,
              gm_stage = \<lparr>st_static = lt, st_lights = (\<lambda>_. None), st_casters = (\<lambda>_. None), st_next = 1\<rparr>\<rparr>"
    using assms(2) by (simp add: ready_def game_ok_def stage_ok_def pointers_ok_def empty texture_ready_def)
  note p_ok = new_Player_ok [OF np LoadMap_ready [OF lm ParseMap_ready [OF pm this]]]
  then have "stage_ok (add_child E (pl_light p) (gm_stage g3))" by (auto simp: game_ok_def intro: add_child_ok)
  with p_ok show ?thesis
    by (auto simp: l client_ok_def game_ok_def pointers_ok_def AddLightSource_def CameraComponent_SetPlayer_def
        dom_add_child add_child_casters)
qed

text \<open>The player's light cannot fail, given the image of the torch.\<close>

lemma SetTexture_total:
  assumes "uses_ok lt l"
  shows "\<exists>l' lt'. SetTexture E (Some t) l lt = Inr (l', lt')"
  using assms
  by (auto simp: SetTexture_def ReleaseSharedTexture_def Texture_ReleaseShared_def DeleteSharedTexture_def
      IsUsingSharedTexture_def uses_ok_def Let_def)

lemma new_Player_total:
  assumes "texture_ready (st_static (gm_stage g))" and "lt_refs (st_static (gm_stage g)) < 2 ^ 31 - 1"
    and "en_GetResource E ''res/flashlight.png'' = Some t"
  shows "\<exists>p g' calls. new_Player fl m E B rot0 g = Inr (p, g', calls)"
proof -
  obtain l lt cs where s: "SetLightProperties fl m (fl 300) (color (fl 1) (fl 1) (fl 1) (fl (1 / 2)))
      (new_LightSource fl) (st_static (gm_stage g)) = Inr (l, lt, cs)"
    using SetLightProperties_total [OF assms(1,2)] by blast
  obtain l' lt' where "SetTexture E (Some t) l lt = Inr (l', lt')"
    using SetTexture_total [OF conjunct1 [OF SetLightProperties_new [OF s assms(1)]]] by blast
  with s show ?thesis
    by (simp add: new_Player_def Let_def assms(3) split: prod.split)
qed

text \<open>
  What is left of the static state when no map light was there before the player: the pointer to a
  texture that is deleted.
\<close>

lemma new_Player_dangles:
  assumes "new_Player fl m E B rot0 g = Inr (p, g', calls)"
    and "texture_ready (st_static (gm_stage g))" and "lt_refs (st_static (gm_stage g)) = 0"
  shows "\<exists>t. lt_renderTexture (st_static (gm_stage g')) = Some t \<and> t \<notin> lt_live (st_static (gm_stage g')) \<and>
     lt_refs (st_static (gm_stage g')) = 0"
proof -
  let ?st = "gm_stage g"
  from assms(1) obtain l1 lt1 cs l2 lt2 where
    s: "SetLightProperties fl m (fl 300) (color (fl 1) (fl 1) (fl 1) (fl (1 / 2))) (new_LightSource fl) (st_static ?st) = Inr (l1, lt1, cs)"
    and t: "SetTexture E (en_GetResource E ''res/flashlight.png'') l1 lt1 = Inr (l2, lt2)"
    and g': "st_static (gm_stage g') = lt2"
    by (auto simp: new_Player_def CreatePhysics_def SetBody_def Let_def split: prod.splits)
  note n = SetLightProperties_new [OF s assms(2)]
  have u: "IsUsingSharedTexture l1"
    using s by (auto simp: SetLightProperties_def IsUsingSharedTexture_def elim!: UseSharedTexture_cases)
  then obtain q where q: "lsrc_shared l1 = Some q" by (auto simp: IsUsingSharedTexture_def)
  have "lt_renderTexture lt1 = Some q" "lt_refs lt1 = 1"
    using n q assms(3) by (auto simp: uses_ok_def)
  with SetTexture_last [OF t] n u q show ?thesis
    by (auto simp: g')
qed

lemma ParseMap_no_lights:
  assumes "ParseMap fl m E fmt vbo mp g = Inr (ok, g', calls)"
    and "\<forall>grp \<in> set (tm_groups (mp_tmxMap mp)). gr_name grp \<noteq> ''lights''"
  shows "gm_stage g' = gm_stage g"
proof -
  from assms(1) obtain mp0 cs g1 cs1 tt where
    r: "rfold (parse_group fl m E fmt mp) (tm_groups (mp_tmxMap mp)) (g\<lparr>gm_map := mp0\<rparr>, cs) = Inr (g1, cs1)"
    and g': "g' = g1\<lparr>gm_map := SetTileTemplate tt (gm_map g1)\<rparr>"
    by (auto simp: ParseMap_def Let_def)
  have "gm_stage (fst (g1, cs1)) = gm_stage g"
    by (rule rfold_invariant [OF r, where P = "\<lambda>gc. gm_stage (fst gc) = gm_stage g"])
      (use assms(2) in \<open>auto simp: parse_group_def\<close>)
  then show ?thesis by (simp add: g')
qed

lemma LoadMap_static:
  assumes "LoadMap fl E B g = Inr g'"
  shows "st_static (gm_stage g') = st_static (gm_stage g)"
  using assms unfolding LoadMap_def Let_def rfold_product
  by (rule rfold_invariant [where P = "\<lambda>h. st_static (gm_stage h) = st_static (gm_stage g)"])
    (auto simp: load_tile_def LoadShadowCaster_def Let_def split: if_splits)

lemma new_GameLayer_dangles:
  assumes "new_GameLayer fl m E G B fmt vbo tmx sh c0 rot0 pos0 lt w = Inr (l, calls, w')"
    and "texture_ready lt" and "lt_refs lt = 0"
    and "\<forall>grp \<in> set (tm_groups tmx). gr_name grp \<noteq> ''lights''"
  shows "\<exists>t. lt_renderTexture (st_static (gm_stage (gl_game l))) = Some t \<and>
     t \<notin> lt_live (st_static (gm_stage (gl_game l))) \<and> lt_refs (st_static (gm_stage (gl_game l))) = 0"
proof -
  from assms(1) obtain sl w1 parser ok g1 cs1 g2 p g3 cs2 where
    mp: "new_MapParser tmx = Inr parser"
    and pm: "ParseMap fl m E fmt vbo parser \<lparr>gm_map = new_Map B, gm_shadow = sl,
              gm_stage = \<lparr>st_static = lt, st_lights = (\<lambda>_. None), st_casters = (\<lambda>_. None), st_next = 1\<rparr>\<rparr>
            = Inr (ok, g1, cs1)"
    and lm: "LoadMap fl E B g1 = Inr g2" and np: "new_Player fl m E B rot0 g2 = Inr (p, g3, cs2)"
    and l: "st_static (gm_stage (gl_game l)) = st_static (gm_stage g3)"
    by (auto simp: new_GameLayer_def Let_def)
  have "mp_tmxMap parser = tmx"
    using mp by (auto simp: new_MapParser_def split: option.splits prod.splits)
  then have "st_static (gm_stage g2) = lt"
    using ParseMap_no_lights [OF pm] assms(4) LoadMap_static [OF lm] by simp
  with new_Player_dangles [OF np] assms(2,3) show ?thesis by (simp add: l)
qed

end
