(* ===== verification/ShadowProps.thy ===== *)
theory ShadowProps
  imports Shadows
begin

section \<open>Lemmas on shadow casters and the shadow layer\<close>

text \<open>
  The removal loops, the bounding box of a caster, the shadow volumes, the culling tests and the
  state of OpenGL after a frame. Geometry is stated in exact arithmetic: an ordered field with
  \<open>of_rat\<close> as the conversion of literals.
\<close>

subsection \<open>Removal\<close>

lemma drop_decomp: "i < length xs \<Longrightarrow> drop i xs = xs ! i # drop (Suc i) xs"
  by (simp add: Cons_nth_drop_Suc)

lemma remove_caster_loop_filter:
  "remove_caster_loop obj i casters = take i casters @ filter (\<lambda>c. c \<noteq> obj) (drop i casters)"
proof (induction obj i casters rule: remove_caster_loop.induct)
  case (1 obj i casters)
  show ?case
  proof (cases "i < length casters")
    case True
    have d: "drop i casters = casters ! i # drop (Suc i) casters" using True by (rule drop_decomp)
    show ?thesis
    proof (cases "casters ! i = obj")
      case eq: True
      have "take i (take i casters @ drop (Suc i) casters) = take i casters"
        "drop i (take i casters @ drop (Suc i) casters) = drop (Suc i) casters"
        using True by simp_all
      with "1.IH"(1) [OF True eq] True eq d show ?thesis by (subst remove_caster_loop.simps) simp
    next
      case False
      have "take (i + 1) casters = take i casters @ [casters ! i]"
        using True by (simp add: take_Suc_conv_app_nth)
      with "1.IH"(2) [OF True False] True False d show ?thesis by (subst remove_caster_loop.simps) simp
    qed
  next
    case False
    then show ?thesis by (subst remove_caster_loop.simps) simp
  qed
qed

text \<open>
  What the loop over the light sources does: it looks at the lights until it has passed as many
  others as there are shadow casters, and runs out of the vector when there are fewer.
\<close>

fun drop_before :: "nat \<Rightarrow> nat \<Rightarrow> nat list \<Rightarrow> nat list res" where
  "drop_before obj 0 lights = Inr lights"
| "drop_before obj (Suc n) [] = Inl OutOfBounds"
| "drop_before obj (Suc n) (l # lights) =
     (if l = obj then drop_before obj (Suc n) lights
      else rbind (drop_before obj n lights) (\<lambda>ls. Inr (l # ls)))"

lemma remove_light_loop_drop:
  "remove_light_loop obj n i lights =
     (if i \<le> length lights then rbind (drop_before obj (n - i) (drop i lights)) (\<lambda>ls. Inr (take i lights @ ls))
      else if i < n then Inl OutOfBounds else Inr lights)"
proof (induction obj n i lights rule: remove_light_loop.induct)
  case (1 obj n i lights)
  show ?case
  proof (cases "i < n \<and> i < length lights")
    case True
    then have d: "drop i lights = lights ! i # drop (Suc i) lights" by (simp add: drop_decomp)
    from True obtain k where k: "n - i = Suc k" by (cases "n - i") auto
    show ?thesis
    proof (cases "lights ! i = obj")
      case eq: True
      with "1.IH"(1) True k d show ?thesis by (subst remove_light_loop.simps) simp
    next
      case False
      have t: "take (i + 1) lights = take i lights @ [lights ! i]"
        using True by (simp add: take_Suc_conv_app_nth)
      have "n - (i + 1) = k" using k by simp
      with "1.IH"(2) False True k d t show ?thesis
        by (subst remove_light_loop.simps) (cases "drop_before obj k (drop (Suc i) lights)"; simp)
    qed
  next
    case False
    show ?thesis
    proof (cases "i < n")
      case True
      with False obtain k where "n - i = Suc k" by (cases "n - i") auto
      then have "i = length lights \<Longrightarrow> n - length lights = Suc k" by simp
      with False True show ?thesis by (subst remove_light_loop.simps) auto
    next
      case False
      then show ?thesis by (subst remove_light_loop.simps) simp
    qed
  qed
qed

lemma drop_before_few:
  "length (filter (\<lambda>l. l \<noteq> obj) lights) < n \<Longrightarrow> drop_before obj n lights = Inl OutOfBounds"
  by (induction obj n lights rule: drop_before.induct) (auto split: if_splits)

lemma drop_before_others:
  assumes "length (filter (\<lambda>l. l \<noteq> obj) pre) = n" and "pre = [] \<or> last pre \<noteq> obj"
  shows "drop_before obj n (pre @ rest) = Inr (filter (\<lambda>l. l \<noteq> obj) pre @ rest)"
  using assms
proof (induction pre arbitrary: n)
  case (Cons p pre)
  show ?case
  proof (cases "p = obj")
    case True
    with Cons.prems have "pre \<noteq> []" "last pre \<noteq> obj" by (auto split: if_splits)
    then have "filter (\<lambda>l. l \<noteq> obj) pre \<noteq> []" using last_in_set [of pre] by (auto simp: filter_empty_conv)
    with True Cons obtain k where "n = Suc k" by (cases n) auto
    with True Cons \<open>pre \<noteq> []\<close> \<open>last pre \<noteq> obj\<close> show ?thesis by simp
  next
    case False
    then obtain k where k: "n = Suc k" "length (filter (\<lambda>l. l \<noteq> obj) pre) = k"
      using Cons.prems(1) by auto
    have "pre = [] \<or> last pre \<noteq> obj" using Cons.prems(2) by auto
    with Cons.IH [OF k(2)] k False show ?thesis by simp
  qed
qed simp

subsection \<open>The bounding box\<close>

lemma lowest_props:
  fixes r :: "'f::linorder Rect"
  shows "r_x (lowest vs r) \<le> r_x r \<and> r_y (lowest vs r) \<le> r_y r
     \<and> (\<forall>v \<in> set vs. r_x (lowest vs r) \<le> v_x v \<and> r_y (lowest vs r) \<le> v_y v)
     \<and> r_x (lowest vs r) \<in> insert (r_x r) (v_x ` set vs)
     \<and> r_y (lowest vs r) \<in> insert (r_y r) (v_y ` set vs)
     \<and> r_w (lowest vs r) = r_w r \<and> r_h (lowest vs r) = r_h r"
proof (induction vs arbitrary: r)
  case (Cons u vs)
  define q where "q = (let r = (if v_x u < r_x r then r\<lparr>r_x := v_x u\<rparr> else r)
      in if v_y u < r_y r then r\<lparr>r_y := v_y u\<rparr> else r)"
  have r: "lowest (u # vs) r = lowest vs q" by (simp add: Let_def q_def)
  have xy: "r_x q = min (v_x u) (r_x r)" "r_y q = min (v_y u) (r_y r)" "r_w q = r_w r" "r_h q = r_h r"
    by (auto simp: Let_def q_def)
  show ?case unfolding r using Cons.IH [of q] unfolding xy
    by (auto simp: min_def split: if_splits)
qed simp

lemma extent_props:
  fixes r :: "'f::linordered_idom Rect"
  shows "r_x (extent vs r) = r_x r \<and> r_y (extent vs r) = r_y r
     \<and> r_w r \<le> r_w (extent vs r) \<and> r_h r \<le> r_h (extent vs r)
     \<and> (\<forall>v \<in> set vs. v_x v \<le> r_x r + r_w (extent vs r) \<and> v_y v \<le> r_y r + r_h (extent vs r))
     \<and> r_x r + r_w (extent vs r) \<in> insert (r_x r + r_w r) (v_x ` set vs)
     \<and> r_y r + r_h (extent vs r) \<in> insert (r_y r + r_h r) (v_y ` set vs)"
proof (induction vs arbitrary: r)
  case (Cons u vs)
  define q where "q = (let r = (if v_x u > r_x r + r_w r then r\<lparr>r_w := v_x u - r_x r\<rparr> else r)
      in if v_y u > r_y r + r_h r then r\<lparr>r_h := v_y u - r_y r\<rparr> else r)"
  have r: "extent (u # vs) r = extent vs q" by (simp add: Let_def q_def)
  have xy: "r_x q = r_x r" "r_y q = r_y r"
    and w: "r_w q = (if v_x u > r_x r + r_w r then v_x u - r_x r else r_w r)"
    and h: "r_h q = (if v_y u > r_y r + r_h r then v_y u - r_y r else r_h r)"
    by (auto simp: Let_def q_def)
  show ?case unfolding r using Cons.IH [of q] unfolding xy w h
    by (auto simp: algebra_simps split: if_splits)
qed simp

text \<open>The box contains every vertex of the caster and touches one of them on each side.\<close>

definition encloses :: "'f::{plus,ord} Rect \<Rightarrow> 'f Vec2 set \<Rightarrow> bool" where
  "encloses r vs \<longleftrightarrow>
     (\<forall>v \<in> vs. r_x r \<le> v_x v \<and> v_x v \<le> r_x r + r_w r \<and> r_y r \<le> v_y v \<and> v_y v \<le> r_y r + r_h r) \<and>
     r_x r \<in> v_x ` vs \<and> r_x r + r_w r \<in> v_x ` vs \<and> r_y r \<in> v_y ` vs \<and> r_y r + r_h r \<in> v_y ` vs"

lemma encloses_translate:
  fixes r :: "'f::linordered_idom Rect"
  assumes "encloses r vs"
  shows "encloses (r\<lparr>r_x := r_x r + v_x p, r_y := r_y r + v_y p\<rparr>) (translate p ` vs)"
proof -
  have "a + v_x p \<in> v_x ` translate p ` vs" if "a \<in> v_x ` vs" for a
    using that by (auto simp: translate_def image_image)
  moreover have "a + v_y p \<in> v_y ` translate p ` vs" if "a \<in> v_y ` vs" for a
    using that by (auto simp: translate_def image_image)
  ultimately have mem: "r_x r + v_x p \<in> v_x ` translate p ` vs" "(r_x r + r_w r) + v_x p \<in> v_x ` translate p ` vs"
    "r_y r + v_y p \<in> v_y ` translate p ` vs" "(r_y r + r_h r) + v_y p \<in> v_y ` translate p ` vs"
    using assms by (auto simp: encloses_def)
  have bounds: "r_x r + v_x p \<le> v_x (translate p v) \<and> v_x (translate p v) \<le> r_x r + v_x p + r_w r
      \<and> r_y r + v_y p \<le> v_y (translate p v) \<and> v_y (translate p v) \<le> r_y r + v_y p + r_h r"
    if "v \<in> vs" for v
  proof -
    from that assms have "r_x r \<le> v_x v" "v_x v \<le> r_x r + r_w r" "r_y r \<le> v_y v" "v_y v \<le> r_y r + r_h r"
      by (auto simp: encloses_def)
    then show ?thesis by (simp add: translate_def)
  qed
  show ?thesis
    unfolding encloses_def using mem bounds by (simp add: ac_simps)
qed

lemma Caster_GetAABB_encloses:
  fixes go :: "'f::linordered_field GameObject"
  assumes "cast_local c \<noteq> []"
  shows "\<exists>r. Caster_GetAABB of_rat go c = Inr r \<and>
     encloses r (translate (go_WorldPosition go) ` set (cast_local c))"
proof -
  obtain v vs where c: "cast_local c = v # vs" using assms by (cases "cast_local c") auto
  let ?r0 = "rect (v_x v) (v_y v) 0 0"
  define r1 where "r1 = lowest vs ?r0"
  define r where "r = extent (v # vs) r1"
  note lo = lowest_props [of vs ?r0, folded r1_def] and ex = extent_props [of "v # vs" r1, folded r_def]
  have "encloses r (set (v # vs))"
  proof -
    have rx: "r_x r = r_x r1" "r_y r = r_y r1" "r_w r1 = 0" "r_h r1 = 0"
      using lo ex by auto
    have x: "r_x r \<in> v_x ` set (v # vs)" and y: "r_y r \<in> v_y ` set (v # vs)"
      using lo rx by auto
    have "r_x r + r_w r \<in> insert (r_x r) (v_x ` set (v # vs))"
      "r_y r + r_h r \<in> insert (r_y r) (v_y ` set (v # vs))"
      using ex unfolding rx add_0_right by blast+
    note wh = this
    have w: "r_x r + r_w r \<in> v_x ` set (v # vs)" using wh(1) unfolding insert_absorb [OF x] .
    have h: "r_y r + r_h r \<in> v_y ` set (v # vs)" using wh(2) unfolding insert_absorb [OF y] .
    have "r_x r \<le> v_x u \<and> v_x u \<le> r_x r + r_w r \<and> r_y r \<le> v_y u \<and> v_y u \<le> r_y r + r_h r"
      if "u \<in> set (v # vs)" for u
    proof -
      have "r_x r1 \<le> v_x u" "r_y r1 \<le> v_y u"
        using that lo by auto
      moreover have "v_x u \<le> r_x r1 + r_w r" "v_y u \<le> r_y r1 + r_h r"
        using ex that by blast+
      ultimately show ?thesis unfolding rx by blast
    qed
    with x y w h show ?thesis unfolding encloses_def by blast
  qed
  from encloses_translate [OF this, of "go_WorldPosition go"] show ?thesis
    by (simp add: Caster_GetAABB_def c Let_def r_def r1_def del: extent.simps)
qed

subsection \<open>Shapes\<close>

text \<open>A caster whose rectangle is given casts the corners at the position of its object.\<close>

lemma SetShadowRectangle_shape:
  assumes "\<not> IsPositionDirty fl m go (SetShadowRectangle go r c)"
  shows "GetShadowShape fl m go (SetShadowRectangle go r c)
    = Inr (map (translate (go_WorldPosition go)) (corners r), SetShadowRectangle go r c)"
  using assms
  by (simp add: GetShadowShape_def SetShadowRectangle_def CalculateGlobalVertices_def corners_def Let_def)

text \<open>
  A caster whose rectangle is taken from its texture: the rectangle is in world coordinates
  already, and the position is added once more.
\<close>

lemma texture_shape:
  assumes "cast_local c = []" and "cast_global c = []" and "go_texture go = Some d"
  shows "\<exists>c'. GetShadowShape fl m go c = Inr (map (translate (go_WorldPosition go)) (corners
     (rect (v_x (go_WorldPosition go) - v_x (go_Pivot go) * (v_x d * v_x (go_Scale go)))
           (v_y (go_WorldPosition go) - v_y (go_Pivot go) * (v_y d * v_y (go_Scale go)))
           (v_x d * v_x (go_Scale go)) (v_y d * v_y (go_Scale go)))), c')"
  using assms
  by (simp add: GetShadowShape_def CreateShadowVertices_def GetShadowRect_def CalculateGlobalVertices_def
      Let_def)

subsection \<open>Shadow volumes\<close>

lemma length_shadow_quads:
  "length (concat (map (shadow_quad fl E p shape) js)) = 4 * length js"
  by (induction js) (simp_all add: shadow_quad_def Let_def)

lemma GetShadowVertices_quads:
  "shadow_vertices_loop fl m E source go cps st = Inr (verts, st') \<Longrightarrow> 4 dvd length verts"
proof (induction fl m E source go cps st arbitrary: verts st' rule: shadow_vertices_loop.induct)
  case (2 fl m E source go cp cps st)
  from "2.prems" obtain caster cgo hit where g: "get_caster st cp = Inr (caster, cgo)"
    and h: "WillLightHitCaster fl E source go caster cgo = Inr hit" by auto
  show ?case
  proof (cases hit)
    case False
    with "2.prems" g h "2.IH"(1) [OF g refl h] show ?thesis by simp
  next
    case True
    with "2.prems" g h obtain shape caster' rest where
      sh: "GetShadowShape fl m cgo caster = Inr (shape, caster')"
      and r: "shadow_vertices_loop fl m E source go cps
        (st\<lparr>st_casters := (st_casters st)(cp \<mapsto> (caster', cgo))\<rparr>) = Inr (rest, st')"
      and v: "verts = concat (map (shadow_quad fl E (go_WorldPosition go) shape) [0..<length shape]) @ rest"
      by (auto simp: Let_def)
    have "4 dvd length rest"
      by (rule "2.IH"(2) [OF g refl h _ sh refl refl refl refl r]) (use True in simp)
    then show ?thesis unfolding v length_append length_shadow_quads by simp
  qed
qed simp

text \<open>
  The far corner of a shadow, in exact arithmetic: the shadow of a corner \<open>v\<close> falls away from the
  light at \<open>p\<close> when the point pushed lies on the ray from \<open>p\<close> through \<open>v\<close>. The point pushed is
  the scaled difference itself, without the position of the light.
\<close>

definition cross :: "'f::{minus,times} Vec2 \<Rightarrow> 'f Vec2 \<Rightarrow> 'f" where
  "cross a b = v_x a * v_y b - v_y a * v_x b"

definition minus_vec :: "'f::minus Vec2 \<Rightarrow> 'f Vec2 \<Rightarrow> 'f Vec2" where
  "minus_vec a b = vec2 (v_x a - v_x b) (v_y a - v_y b)"

lemma far_point_cross:
  fixes p v :: "'f::linordered_field Vec2"
  assumes "en_Vec2 E = vec2 0 0"
  shows "cross (minus_vec v p) (minus_vec (far_point of_rat E p v) p) = cross p (minus_vec v p)"
  using assms by (simp add: cross_def minus_vec_def far_point_def Let_def algebra_simps)

subsection \<open>Culling\<close>

text \<open>
  The points of a rectangle, with and without its border, and what a test for an overlap of
  rectangles tells whichever way it decides at the borders: rectangles one of which has an inner
  point in the other overlap, and rectangles that overlap have a point in common.
\<close>

definition in_rect :: "'f::{plus,ord} Vec2 \<Rightarrow> 'f Rect \<Rightarrow> bool" where
  "in_rect p a \<longleftrightarrow> r_x a \<le> v_x p \<and> v_x p \<le> r_x a + r_w a \<and> r_y a \<le> v_y p \<and> v_y p \<le> r_y a + r_h a"

definition interior_of :: "'f::{plus,ord} Vec2 \<Rightarrow> 'f Rect \<Rightarrow> bool" where
  "interior_of p a \<longleftrightarrow> r_x a < v_x p \<and> v_x p < r_x a + r_w a \<and> r_y a < v_y p \<and> v_y p < r_y a + r_h a"

definition overlap_test :: "('f::linordered_field Rect \<Rightarrow> 'f Rect \<Rightarrow> bool) \<Rightarrow> bool" where
  "overlap_test ov \<longleftrightarrow>
     (\<forall>a b p. interior_of p a \<and> in_rect p b \<longrightarrow> ov a b) \<and>
     (\<forall>a b. ov a b \<and> 0 \<le> r_w a \<and> 0 \<le> r_h a \<and> 0 \<le> r_w b \<and> 0 \<le> r_h b \<longrightarrow> (\<exists>p. in_rect p a \<and> in_rect p b))"

text \<open>The test that leaves out common borders, and the one that counts them.\<close>

definition overlap :: "'f::{plus,ord} Rect \<Rightarrow> 'f Rect \<Rightarrow> bool" where
  "overlap a b \<longleftrightarrow>
     r_x a < r_x b + r_w b \<and> r_x b < r_x a + r_w a \<and> r_y a < r_y b + r_h b \<and> r_y b < r_y a + r_h a"

definition touch :: "'f::{plus,ord} Rect \<Rightarrow> 'f Rect \<Rightarrow> bool" where
  "touch a b \<longleftrightarrow>
     r_x a \<le> r_x b + r_w b \<and> r_x b \<le> r_x a + r_w a \<and> r_y a \<le> r_y b + r_h b \<and> r_y b \<le> r_y a + r_h a"

lemma common_point:
  fixes a b :: "'f::linordered_field Rect"
  assumes "touch a b" and "0 \<le> r_w a" "0 \<le> r_h a" "0 \<le> r_w b" "0 \<le> r_h b"
  shows "in_rect (vec2 (max (r_x a) (r_x b)) (max (r_y a) (r_y b))) a \<and>
     in_rect (vec2 (max (r_x a) (r_x b)) (max (r_y a) (r_y b))) b"
  using assms by (simp add: touch_def in_rect_def)

lemma overlap_tests:
  "overlap_test (overlap :: 'f::linordered_field Rect \<Rightarrow> 'f Rect \<Rightarrow> bool)"
  "overlap_test (touch :: 'f::linordered_field Rect \<Rightarrow> 'f Rect \<Rightarrow> bool)"
proof -
  have "touch a b" if "overlap a b" for a b :: "'f Rect"
    using that by (simp add: touch_def overlap_def)
  moreover have "overlap a b" if "interior_of p a" "in_rect p b" for p and a b :: "'f Rect"
    using that by (simp add: overlap_def interior_of_def in_rect_def)
  ultimately show "overlap_test (overlap :: 'f Rect \<Rightarrow> 'f Rect \<Rightarrow> bool)"
    "overlap_test (touch :: 'f Rect \<Rightarrow> 'f Rect \<Rightarrow> bool)"
    unfolding overlap_test_def using common_point by blast+
qed

lemma overlap_testD:
  assumes "overlap_test ov"
  shows "interior_of p a \<Longrightarrow> in_rect p b \<Longrightarrow> ov a b"
    and "ov a b \<Longrightarrow> 0 \<le> r_w a \<Longrightarrow> 0 \<le> r_h a \<Longrightarrow> 0 \<le> r_w b \<Longrightarrow> 0 \<le> r_h b \<Longrightarrow> \<exists>p. in_rect p a \<and> in_rect p b"
  using assms unfolding overlap_test_def by blast+

text \<open>The test for a caster is made with the light's box, the one for the screen with a quarter of it.\<close>

lemma WillLightHitCaster_boxes:
  fixes go :: "'f::linordered_field GameObject"
  assumes "Caster_GetAABB of_rat cgo c = Inr r"
  shows "WillLightHitCaster of_rat E l go c cgo
    = Inr (en_Overlaps E (Light_GetAABB of_rat (go_Position go) l) r)"
  using assms by (simp add: WillLightHitCaster_def Light_GetAABB_def Let_def)

lemma light_box_interior:
  fixes p v :: "'f::linordered_field Vec2"
  shows "interior_of v (Light_GetAABB of_rat p l) \<longleftrightarrow>
    \<bar>v_x v - v_x p\<bar> < GetLightRadius l \<and> \<bar>v_y v - v_y p\<bar> < GetLightRadius l"
  by (auto simp: interior_of_def Light_GetAABB_def Let_def abs_less_iff algebra_simps)

lemma encloses_in_rect: "encloses r vs \<Longrightarrow> v \<in> vs \<Longrightarrow> in_rect v r"
  by (auto simp: encloses_def in_rect_def)

lemma encloses_size:
  fixes r :: "'f::linordered_field Rect"
  assumes "encloses r vs" and "v \<in> vs"
  shows "0 \<le> r_w r" "0 \<le> r_h r"
proof -
  have "r_x r \<le> v_x v" "v_x v \<le> r_x r + r_w r" "r_y r \<le> v_y v" "v_y v \<le> r_y r + r_h r"
    using assms by (auto simp: encloses_def)
  then show "0 \<le> r_w r" "0 \<le> r_h r" by linarith+
qed

text \<open>An inner point of an interval that lies in another one as well.\<close>

lemma point_between:
  fixes a b c d :: "'f::linordered_field"
  assumes "a < b" "c < d" "a < d" "c < b"
  shows "\<exists>p. a < p \<and> p < b \<and> c \<le> p \<and> p \<le> d"
proof -
  have "Max {a, c} < Min {b, d}" using assms by auto
  then obtain p where "Max {a, c} < p" "p < Min {b, d}" using dense by blast
  then show ?thesis using assms by (intro exI [of _ p]) auto
qed

text \<open>
  The test for the screen against the disc's box: a light whose box reaches into the screen from
  above or the right is kept, and one whose centre is left of or below the screen never is.
\<close>

lemma ShouldDrawLight_keeps:
  fixes go :: "'f::linordered_field GameObject"
  assumes ov: "overlap_test (en_Overlaps E)"
    and q: "interior_of q (Light_GetAABB of_rat (go_Position go) l)" "in_rect q (rect (- v_x lp) (- v_y lp) 1280 720)"
    and c: "- v_x lp < v_x (go_Position go)" "- v_y lp < v_y (go_Position go)"
  shows "ShouldDrawLight of_rat E lp l go"
proof -
  let ?R = "GetLightRadius l" and ?x = "v_x (go_Position go)" and ?y = "v_y (go_Position go)"
  have R: "0 < ?R" and near: "?x - ?R < v_x q" "?y - ?R < v_y q"
    using q(1) by (auto simp: light_box_interior abs_less_iff algebra_simps)
  have scr: "v_x q \<le> - v_x lp + 1280" "v_y q \<le> - v_y lp + 720"
    using q(2) by (simp_all add: in_rect_def)
  obtain px where px: "?x - ?R < px" "px < ?x" "- v_x lp \<le> px" "px \<le> - v_x lp + 1280"
    using point_between [of "?x - ?R" ?x "- v_x lp" "- v_x lp + 1280"] R near scr c by auto
  obtain py where py: "?y - ?R < py" "py < ?y" "- v_y lp \<le> py" "py \<le> - v_y lp + 720"
    using point_between [of "?y - ?R" ?y "- v_y lp" "- v_y lp + 720"] R near scr c by auto
  have "en_Overlaps E (rect (?x - ?R) (?y - ?R) ?R ?R) (rect (- v_x lp) (- v_y lp) 1280 720)"
    by (rule overlap_testD(1) [OF ov, of "vec2 px py"]) (use px py in \<open>simp_all add: interior_of_def in_rect_def\<close>)
  then show ?thesis by (simp add: ShouldDrawLight_def Let_def)
qed

lemma ShouldDrawLight_needs:
  fixes go :: "'f::linordered_field GameObject"
  assumes ov: "overlap_test (en_Overlaps E)" and R: "0 \<le> GetLightRadius l"
    and drawn: "ShouldDrawLight of_rat E lp l go"
  shows "- v_x lp \<le> v_x (go_Position go)" "- v_y lp \<le> v_y (go_Position go)"
    "\<exists>q. in_rect q (Light_GetAABB of_rat (go_Position go) l) \<and> in_rect q (rect (- v_x lp) (- v_y lp) 1280 720)"
proof -
  let ?R = "GetLightRadius l" and ?x = "v_x (go_Position go)" and ?y = "v_y (go_Position go)"
  have "en_Overlaps E (rect (?x - ?R) (?y - ?R) ?R ?R) (rect (- v_x lp) (- v_y lp) 1280 720)"
    using drawn by (simp add: ShouldDrawLight_def Let_def)
  from overlap_testD(2) [OF ov this] R obtain q where
    q: "in_rect q (rect (?x - ?R) (?y - ?R) ?R ?R)" "in_rect q (rect (- v_x lp) (- v_y lp) 1280 720)"
    by auto
  from q show "- v_x lp \<le> ?x" "- v_y lp \<le> ?y" by (simp_all add: in_rect_def)
  from q(1) R have "in_rect q (Light_GetAABB of_rat (go_Position go) l)"
    by (simp add: in_rect_def Light_GetAABB_def Let_def)
  with q(2) show "\<exists>q. in_rect q (Light_GetAABB of_rat (go_Position go) l) \<and>
      in_rect q (rect (- v_x lp) (- v_y lp) 1280 720)" by blast
qed

subsection \<open>The state of OpenGL after the layer has been rendered\<close>

text \<open>A list of calls that leaves everything balanced but the capability and arrays it names.\<close>

definition kept :: "gl_state \<Rightarrow> gl_state \<Rightarrow> bool" where
  "kept g h \<longleftrightarrow> g_depth h = g_depth g \<and> g_transforms h = g_transforms g \<and> g_buffer h = g_buffer g \<and>
     g_program h = g_program g \<and> g_fbo h = g_fbo g \<and>
     (g_caps h = g_caps g \<or> g_caps h = g_caps g - {GL_TEXTURE_2D}) \<and> g_arrays h \<subseteq> g_arrays g"

definition neutral :: "'f gl list \<Rightarrow> bool" where
  "neutral calls \<longleftrightarrow> (\<forall>g. kept g (gl_run calls g))"

lemma kept_trans: "kept g h \<Longrightarrow> kept h k \<Longrightarrow> kept g k"
  unfolding kept_def by (elim conjE disjE) simp_all

lemma neutral_Nil: "neutral []"
  by (simp add: neutral_def kept_def)

lemma neutral_append: "neutral xs \<Longrightarrow> neutral ys \<Longrightarrow> neutral (xs @ ys)"
  by (auto simp: neutral_def intro: kept_trans)

lemma neutral_RenderShadows:
  "RenderShadows fl m E source go s st = Inr (calls, st') \<Longrightarrow> neutral calls"
  by (auto simp: RenderShadows_def neutral_def kept_def split: if_splits)

lemma neutral_Light: "Light_RenderLight fl E wp rot lt l = Inr calls \<Longrightarrow> neutral calls"
  by (auto simp: Light_RenderLight_def neutral_def kept_def Let_def split: option.splits if_splits)

lemma neutral_Layer_RenderLight: "Layer_RenderLight fl E source go st = Inr calls \<Longrightarrow> neutral calls"
proof -
  assume "Layer_RenderLight fl E source go st = Inr calls"
  then obtain l where "calls = [Sw (StencilFunc GL_NOTEQUAL 1 1), Sw (StencilOp GL_KEEP GL_KEEP GL_KEEP)] @ l"
    and "neutral l" by (auto simp: Layer_RenderLight_def dest: neutral_Light)
  moreover have "neutral [Sw (StencilFunc GL_NOTEQUAL 1 1), Sw (StencilOp GL_KEEP GL_KEEP GL_KEEP)]"
    by (simp add: neutral_def kept_def)
  ultimately show ?thesis by (auto intro: neutral_append [of "[_, _]", simplified])
qed

lemma neutral_render_lights:
  "render_lights fl m E layerPos s lps st = Inr (calls, st') \<Longrightarrow> neutral calls"
proof (induction fl m E layerPos s lps st arbitrary: calls st' rule: render_lights.induct)
  case (1 fl m E layerPos s st)
  then show ?case by (simp add: neutral_Nil)
next
  case (2 fl m E layerPos s lp lps st)
  from "2.prems" obtain source go where g: "get_light st lp = Inr (source, go)" by auto
  show ?case
  proof (cases "ShouldDrawLight fl E layerPos source go")
    case False
    with "2.prems" g "2.IH"(2) [OF g refl] show ?thesis by simp
  next
    case True
    with "2.prems" g obtain sh st1 li rest where a: "RenderShadows fl m E source go s st = Inr (sh, st1)"
      and b: "Layer_RenderLight fl E source go st1 = Inr li"
      and c: "render_lights fl m E layerPos s lps st1 = Inr (rest, st')"
      and calls: "calls = sh @ li @ rest" by auto
    have "neutral rest" by (rule "2.IH"(1) [OF g refl True a refl b c])
    then show ?thesis unfolding calls
      by (rule neutral_append [OF neutral_RenderShadows [OF a]
            neutral_append [OF neutral_Layer_RenderLight [OF b]]])
  qed
qed

lemma gl_run_fill:
  "gl_run (DrawFillShadow fl E s) g = g\<lparr>g_arrays := g_arrays g - {GL_VERTEX_ARRAY}\<rparr>"
  by (cases g) (auto simp: DrawFillShadow_def Let_def)

lemma gl_run_texture:
  "gl_run (DrawRenderTexture fl E s) g =
     g\<lparr>g_caps := insert GL_TEXTURE_2D (g_caps g), g_program := 0,
       g_arrays := g_arrays g - {GL_VERTEX_ARRAY, GL_TEXTURE_COORD_ARRAY}\<rparr>"
  by (cases g) (auto simp: DrawRenderTexture_def Let_def)

lemma ShadowLayer_Render_state:
  assumes "ShadowLayer_Render fl m E layerPos s st = Inr (calls, st')"
  shows "g_depth (gl_run calls g) = g_depth g \<and> g_transforms (gl_run calls g) = g_transforms g
     \<and> g_fbo (gl_run calls g) = None \<and> g_program (gl_run calls g) = 0 \<and> g_buffer (gl_run calls g) = g_buffer g
     \<and> GL_STENCIL_TEST \<notin> g_caps (gl_run calls g) \<and> GL_TEXTURE_2D \<in> g_caps (gl_run calls g)
     \<and> g_arrays (gl_run calls g) \<subseteq> g_arrays g - {GL_VERTEX_ARRAY, GL_TEXTURE_COORD_ARRAY}"
proof -
  from assms obtain lights where l: "render_lights fl m E layerPos s (sl_lightSources s) st = Inr (lights, st')"
    and calls: "calls = [Sw (BindFBO (sl_renderTexture s)), Sw (Enable GL_STENCIL_TEST),
             Dr (ClearColor (fl 0) (fl 0) (fl 0) (fl 0)),
             Dr (Clear [GL_COLOR_BUFFER_BIT, GL_STENCIL_BUFFER_BIT]),
             Mv PushTransform, Mv (ApplyTransform layerPos)]
            @ lights
            @ [Sw (Disable GL_STENCIL_TEST), Mv PopTransform]
            @ DrawFillShadow fl E s
            @ [Sw (UnbindFBO (sl_renderTexture s)), Mv PushMatrix, Mv LoadIdentity]
            @ DrawRenderTexture fl E s
            @ [Mv PopMatrix]"
    by (auto simp: ShadowLayer_Render_def)
  have n: "g_depth (gl_run lights h) = g_depth h" "g_transforms (gl_run lights h) = g_transforms h"
    "g_buffer (gl_run lights h) = g_buffer h" "g_arrays (gl_run lights h) \<subseteq> g_arrays h" for h
    using neutral_render_lights [OF l] by (simp_all add: neutral_def kept_def)
  let ?h = "g\<lparr>g_fbo := Some (sl_renderTexture s), g_caps := insert GL_STENCIL_TEST (g_caps g),
               g_transforms := g_transforms g + 1\<rparr>"
  have eq: "gl_run calls g = (let k = gl_run lights ?h in
      gl_run ([Sw (Disable GL_STENCIL_TEST), Mv PopTransform] @ DrawFillShadow fl E s
            @ [Sw (UnbindFBO (sl_renderTexture s)), Mv PushMatrix, Mv LoadIdentity]
            @ DrawRenderTexture fl E s @ [Mv PopMatrix]) k)"
    unfolding calls by (simp add: Let_def)
  define k where "k = gl_run lights ?h"
  have k: "g_depth k = g_depth g" "g_transforms k = g_transforms g + 1" "g_buffer k = g_buffer g"
    "g_arrays k \<subseteq> g_arrays g"
    using n [of ?h] by (simp_all add: k_def)
  show ?thesis
    unfolding eq Let_def k_def [symmetric] using k
    by (auto simp: gl_run_fill gl_run_texture)
qed

end
