(* ===== verification/ClientRun.thy ===== *)
theory ClientRun
  imports ClientInv ShadowProps
begin

section \<open>Updates and frames of the running client\<close>

text \<open>
  The client from the end of its constructor on, as a state machine: a step is an update, with
  any input, elapsed time and order of the components, or a frame that is rendered. The states
  satisfy \<open>client_ok\<close>. In such a state an update cannot fault, and a frame only at a layer of the map
  without a texture or at a light that is drawn and reaches no shadow caster.
\<close>

subsection \<open>Updates\<close>

lemma set_player_position_ok:
  assumes "stage_ok st" and "pl_light p \<in> dom (st_lights st)"
  shows "\<exists>st'. set_player_position E pos p st = Inr st' \<and> stage_ok st' \<and>
     dom (st_lights st') = dom (st_lights st) \<and> st_casters st' = st_casters st \<and>
     st_static st' = st_static st"
proof -
  obtain l go where l: "st_lights st (pl_light p) = Some (l, go)" using assms(2) by auto
  let ?st = "st\<lparr>st_lights := (st_lights st)(pl_light p \<mapsto> (l, en_Moved E (go\<lparr>go_Position := pos\<rparr>)))\<rparr>"
  have "stage_ok (st\<lparr>st_static := st_static st,
      st_lights := (st_lights st)(pl_light p \<mapsto> (l, en_Moved E (go\<lparr>go_Position := pos\<rparr>))), st_next := st_next st\<rparr>)"
    using assms(1) stage_ok_light [OF assms(1) l]
    by (intro stage_ok_lightI) (auto simp: keeps_def stage_ok_def)
  then have "stage_ok ?st" by (simp add: stage_ok_def)
  moreover have "set_player_position E pos p st = Inr ?st"
    by (simp add: set_player_position_def get_light_def l)
  ultimately show ?thesis by (auto simp: l)
qed

lemma update_component_ok:
  assumes "client_ok l"
  shows "\<exists>l'. update_component fl m E B input dt c l = Inr l' \<and> client_ok l' \<and>
     pl_light (gl_player l') = pl_light (gl_player l)"
proof -
  let ?g = "gl_game l" and ?p = "gl_player l"
  obtain ls go where ls: "st_lights (gm_stage ?g) (pl_light ?p) = Some (ls, go)"
    using assms by (auto simp: client_ok_def)
  have po: "player_object (gm_stage ?g) ?p = Inr go" by (simp add: player_object_def get_light_def ls)
  obtain b where b: "pl_body ?p = Some b" "mc_body (pl_move ?p) = Body b"
    using assms by (auto simp: client_ok_def)
  show ?thesis
  proof (cases c)
    case Move
    define w where "w = bx_SetLinearVelocity B (map_b2World (gm_map ?g)) b
      (b2vec (v_x (direction fl m input) * (mc_speed (pl_move ?p) * dt))
             (v_y (direction fl m input) * (mc_speed (pl_move ?p) * dt)))"
    have mv: "MoveComponent_Update fl m B input dt (pl_move ?p) (go_Position go, map_b2World (gm_map ?g))
        = Inr (None, w)"
      by (simp add: MoveComponent_Update_def b Let_def w_def)
    have "update_component fl m E B input dt c l
        = Inr (l\<lparr>gl_game := ?g\<lparr>gm_map := (gm_map ?g)\<lparr>map_b2World := w\<rparr>, gm_stage := gm_stage ?g\<rparr>\<rparr>)"
      by (simp add: update_component_def Let_def po mv Move)
    with assms show ?thesis by (simp add: client_ok_def game_ok_def pointers_ok_def)
  next
    case Aim
    with assms show ?thesis by (simp add: update_component_def Let_def po client_ok_def)
  next
    case Camera
    with assms show ?thesis
      by (simp add: update_component_def Let_def po CameraComponent_Update_def client_ok_def)
  qed
qed

lemma update_components_ok:
  assumes "client_ok l"
  shows "\<exists>l'. rfold (update_component fl m E B input dt) order l = Inr l' \<and> client_ok l'"
  using assms
proof (induction order arbitrary: l)
  case (Cons c cs)
  obtain l1 where "update_component fl m E B input dt c l = Inr l1" "client_ok l1"
    using update_component_ok [OF Cons.prems] by blast
  with Cons.IH show ?case by simp
qed simp

lemma GameLayer_Update_ok:
  assumes "client_ok l"
  shows "\<exists>l'. GameLayer_Update fl m E B order input dt l = Inr l' \<and> client_ok l'"
proof -
  obtain l1 where l1: "rfold (update_component fl m E B input dt) order l = Inr l1" "client_ok l1"
    using update_components_ok [OF assms] by blast
  let ?g = "(gl_game l1)\<lparr>gm_map := Map_Update fl B (gm_map (gl_game l1))\<rparr>"
  obtain b where b: "pl_body (gl_player l1) = Some b" using l1(2) by (auto simp: client_ok_def)
  obtain st where st: "MoveToB2Body fl E B (gl_player l1) (GetB2World (gm_map ?g)) (gm_stage ?g) = Inr st" "stage_ok st"
    "dom (st_lights st) = dom (st_lights (gm_stage ?g))" "st_casters st = st_casters (gm_stage ?g)"
    using set_player_position_ok [of "gm_stage ?g" "gl_player l1" E "ToVec2 fl (bx_GetPosition B (GetB2World (gm_map ?g)) b)"]
      l1(2)
    by (auto simp: client_ok_def game_ok_def MoveToB2Body_def b)
  have "GameLayer_Update fl m E B order input dt l = Inr (l1\<lparr>gl_game := ?g\<lparr>gm_stage := st\<rparr>\<rparr>)"
    using st(1) by (simp add: GameLayer_Update_def l1(1) Let_def)
  with l1(2) st(2-4) show ?thesis by (simp add: client_ok_def game_ok_def pointers_ok_def)
qed

subsection \<open>Frames\<close>

text \<open>What a frame does not change of a caster: its local shape and its game object.\<close>

definition shape_of :: "'f Stage \<Rightarrow> nat \<Rightarrow> ('f Vec2 list \<times> 'f GameObject) option" where
  "shape_of st cp = map_option (\<lambda>(c, go). (cast_local c, go)) (st_casters st cp)"

lemma dom_shape_of: "dom (st_casters st) = dom (shape_of st)"
  by (auto simp: shape_of_def)

text \<open>The light reaches a caster of the layer, so that there are shadow vertices.\<close>

definition light_reaches ::
    "(rat \<Rightarrow> 'f::{plus,minus,times,ord}) \<Rightarrow> 'f Engine \<Rightarrow> nat list \<Rightarrow> (nat \<Rightarrow> ('f Vec2 list \<times> 'f GameObject) option)
       \<Rightarrow> 'f LightSource \<Rightarrow> 'f GameObject \<Rightarrow> bool" where
  "light_reaches fl E cps shp source go \<longleftrightarrow>
     (\<exists>cp \<in> set cps. \<exists>vs cgo. shp cp = Some (vs, cgo) \<and>
        WillLightHitCaster fl E source go ((new_ShadowCaster fl)\<lparr>cast_local := vs\<rparr>) cgo = Inr True)"

lemma WillLightHitCaster_local:
  "WillLightHitCaster fl E source go c cgo
     = WillLightHitCaster fl E source go ((new_ShadowCaster fl)\<lparr>cast_local := cast_local c\<rparr>) cgo"
  by (simp add: WillLightHitCaster_def Caster_GetAABB_def)

lemma GetShadowShape_ok:
  assumes "cast_local c \<noteq> []"
  shows "\<exists>shape c'. GetShadowShape fl m go c = Inr (shape, c') \<and> cast_local c' = cast_local c \<and> shape \<noteq> []"
  using assms by (auto simp: GetShadowShape_def CalculateGlobalVertices_def Let_def)

lemma shadow_vertices_ok:
  assumes "stage_ok st" and "set cps \<subseteq> dom (st_casters st)"
  shows "\<exists>verts st'. shadow_vertices_loop fl m E source go cps st = Inr (verts, st') \<and> stage_ok st' \<and>
     shape_of st' = shape_of st \<and> st_lights st' = st_lights st \<and> st_static st' = st_static st \<and>
     (verts \<noteq> [] \<longleftrightarrow> light_reaches fl E cps (shape_of st) source go)"
  using assms
proof (induction cps arbitrary: st)
  case (Cons cp cps)
  obtain caster cgo where c: "st_casters st cp = Some (caster, cgo)" using Cons.prems(2) by auto
  have ne: "cast_local caster \<noteq> []" using stage_ok_caster [OF Cons.prems(1) c] .
  obtain hit where h: "WillLightHitCaster fl E source go caster cgo = Inr hit"
    using ne by (cases "cast_local caster") (auto simp: WillLightHitCaster_def Caster_GetAABB_def Let_def)
  have gc: "get_caster st cp = Inr (caster, cgo)" by (simp add: get_caster_def c)
  show ?case
  proof (cases hit)
    case False
    have "light_reaches fl E (cp # cps) (shape_of st) source go = light_reaches fl E cps (shape_of st) source go"
      using h False WillLightHitCaster_local [of fl E source go caster cgo]
      by (simp add: light_reaches_def shape_of_def c)
    with Cons.IH [of st] Cons.prems gc h False show ?thesis by simp
  next
    case True
    obtain shape caster' where sh: "GetShadowShape fl m cgo caster = Inr (shape, caster')"
      "cast_local caster' = cast_local caster" "shape \<noteq> []"
      using GetShadowShape_ok [OF ne] by blast
    define st1 where "st1 = st\<lparr>st_casters := (st_casters st)(cp \<mapsto> (caster', cgo))\<rparr>"
    have "stage_ok st1" unfolding st1_def using Cons.prems(1) ne sh(2) by (intro stage_ok_casterI) simp_all
    moreover have st1: "shape_of st1 = shape_of st" "st_lights st1 = st_lights st" "st_static st1 = st_static st"
      using c sh(2) by (auto simp: st1_def shape_of_def fun_eq_iff)
    ultimately obtain rest st' where r: "shadow_vertices_loop fl m E source go cps st1 = Inr (rest, st')"
      "stage_ok st'" "shape_of st' = shape_of st" "st_lights st' = st_lights st" "st_static st' = st_static st"
      using Cons.IH [of st1] Cons.prems(2) by (auto simp: dom_shape_of)
    define quads where "quads = concat (map (shadow_quad fl E (go_WorldPosition go) shape) [0..<length shape])"
    have "length quads \<noteq> 0" unfolding quads_def length_shadow_quads using sh(3) by simp
    then have "quads @ rest \<noteq> []" by auto
    moreover have "shadow_vertices_loop fl m E source go (cp # cps) st = Inr (quads @ rest, st')"
      by (simp add: gc h True sh(1) Let_def st1_def [symmetric] r(1) quads_def)
    moreover have "light_reaches fl E (cp # cps) (shape_of st) source go"
      using h True WillLightHitCaster_local [of fl E source go caster cgo]
      by (simp add: light_reaches_def shape_of_def c)
    ultimately show ?thesis using r(2-5) by blast
  qed
qed (simp add: light_reaches_def)

lemma Light_RenderLight_ok:
  "uses_ok lt l \<Longrightarrow> \<exists>calls. Light_RenderLight fl E wp rot lt l = Inr calls"
  by (auto simp: Light_RenderLight_def uses_ok_def Let_def split: option.splits)

text \<open>Every light that is drawn reaches a caster.\<close>

definition lights_reach ::
    "(rat \<Rightarrow> 'f::{plus,minus,uminus,times,ord}) \<Rightarrow> 'f Engine \<Rightarrow> 'f Vec2 \<Rightarrow> nat list \<Rightarrow> 'f Stage \<Rightarrow> nat list \<Rightarrow> bool" where
  "lights_reach fl E layerPos cps st lps \<longleftrightarrow>
     (\<forall>lp \<in> set lps. \<forall>source go. st_lights st lp = Some (source, go) \<longrightarrow>
        ShouldDrawLight fl E layerPos source go \<longrightarrow> light_reaches fl E cps (shape_of st) source go)"

text \<open>The frame returns, or ends at a light whose shadow has no vertices.\<close>

lemma render_lights_ok:
  assumes "stage_ok st" and "set (sl_shadowCasters s) \<subseteq> dom (st_casters st)" and "set lps \<subseteq> dom (st_lights st)"
  shows "(\<exists>calls st'. render_lights fl m E layerPos s lps st = Inr (calls, st') \<and> stage_ok st' \<and>
      dom (st_casters st') = dom (st_casters st) \<and> st_lights st' = st_lights st \<and>
      lights_reach fl E layerPos (sl_shadowCasters s) st lps) \<or>
     render_lights fl m E layerPos s lps st = Inl OutOfBounds \<and>
       \<not> lights_reach fl E layerPos (sl_shadowCasters s) st lps"
  using assms
proof (induction lps arbitrary: st)
  case (Cons lp lps)
  obtain source go where l: "st_lights st lp = Some (source, go)" using Cons.prems(3) by auto
  have gl: "get_light st lp = Inr (source, go)" by (simp add: get_light_def l)
  show ?case
  proof (cases "ShouldDrawLight fl E layerPos source go")
    case False
    have "lights_reach fl E layerPos (sl_shadowCasters s) st (lp # lps)
        \<longleftrightarrow> lights_reach fl E layerPos (sl_shadowCasters s) st lps"
      using l False by (auto simp: lights_reach_def)
    with Cons.IH [of st] Cons.prems gl False show ?thesis by simp
  next
    case True
    obtain verts st1 where v: "GetShadowVertices fl m E source go s st = Inr (verts, st1)" "stage_ok st1"
      "shape_of st1 = shape_of st" "st_lights st1 = st_lights st" "st_static st1 = st_static st"
      "verts \<noteq> [] \<longleftrightarrow> light_reaches fl E (sl_shadowCasters s) (shape_of st) source go"
      using shadow_vertices_ok [OF Cons.prems(1,2), of fl m E source go]
      by (auto simp: GetShadowVertices_def)
    show ?thesis
    proof (cases "verts = []")
      case empty: True
      with v have "\<not> light_reaches fl E (sl_shadowCasters s) (shape_of st) source go" by blast
      then have "\<not> lights_reach fl E layerPos (sl_shadowCasters s) st (lp # lps)"
        using l True by (auto simp: lights_reach_def)
      moreover have "render_lights fl m E layerPos s (lp # lps) st = Inl OutOfBounds"
        by (simp add: gl True RenderShadows_def v(1) empty)
      ultimately show ?thesis by blast
    next
      case False
      then obtain sh where s1: "RenderShadows fl m E source go s st = Inr (sh, st1)"
        by (simp add: RenderShadows_def v(1))
      obtain li where li: "Layer_RenderLight fl E source go st1 = Inr li"
        using Light_RenderLight_ok [OF stage_ok_light [OF Cons.prems(1) l], of fl E "go_WorldPosition go" "go_WorldRotation go"]
        by (auto simp: Layer_RenderLight_def v(5))
      have reach: "lights_reach fl E layerPos (sl_shadowCasters s) st (lp # lps)
          \<longleftrightarrow> lights_reach fl E layerPos (sl_shadowCasters s) st1 lps"
        using False l by (auto simp: lights_reach_def v(3,4) v(6))
      have "render_lights fl m E layerPos s (lp # lps) st
          = rbind (render_lights fl m E layerPos s lps st1) (\<lambda>(rest, st). Inr (sh @ li @ rest, st))"
        by (simp add: gl True s1 li)
      moreover have "set (sl_shadowCasters s) \<subseteq> dom (st_casters st1)" "set lps \<subseteq> dom (st_lights st1)"
        using Cons.prems v(3,4) by (auto simp: dom_shape_of)
      note Cons.IH [OF v(2) this]
      moreover have "dom (st_casters st1) = dom (st_casters st)" by (simp add: dom_shape_of v(3))
      ultimately show ?thesis unfolding reach using v(4) by auto
    qed
  qed
qed (simp add: lights_reach_def)

text \<open>The circles of the debug drawer: at least one point, if the loop ends at all.\<close>

lemma circle_loop_grows:
  assumes "circle_loop fl m radius r pts = Some qs"
  shows "length pts \<le> length qs \<and> (r < m_pi2 m \<longrightarrow> length pts < length qs)"
proof (rule circle_loop.raw_induct [where P = "\<lambda>fl m radius r pts qs. length pts \<le> length qs \<and>
    (r < m_pi2 m \<longrightarrow> length pts < length qs)", OF _ assms])
  fix loop :: "(rat \<Rightarrow> 'a) \<Rightarrow> 'a Libm \<Rightarrow> 'a \<Rightarrow> 'a \<Rightarrow> 'a b2Vec2 list \<Rightarrow> 'a b2Vec2 list option"
    and fl m radius r pts qs
  assume ih: "\<And>fl m radius r pts qs. loop fl m radius r pts = Some qs \<Longrightarrow>
      length pts \<le> length qs \<and> (r < m_pi2 m \<longrightarrow> length pts < length qs)"
    and eq: "(if r < m_pi2 m then loop fl m radius (r + m_pi2 m div fl (of_int tris)) (pts @ [circle_point m radius r])
       else Some pts) = Some qs"
  show "length pts \<le> length qs \<and> (r < m_pi2 m \<longrightarrow> length pts < length qs)"
  proof (cases "r < m_pi2 m")
    case True
    with eq ih [of fl m radius _ "pts @ [circle_point m radius r]" qs] show ?thesis by fastforce
  next
    case False
    with eq show ?thesis by simp
  qed
qed

lemma DrawCircle_mode_ok:
  assumes "fl 0 < m_pi2 m"
  shows "DrawCircle_mode fl m center radius c mode \<noteq> Some (Inl e)"
  using assms circle_loop_grows [of fl m radius "fl 0" "[b2vec (fl 0) (fl 0)]"] circle_loop_grows [of fl m radius "fl 0" "[]"]
  by (fastforce simp: DrawCircle_mode_def Let_def split: option.splits if_splits)

lemma debug_draws_ok:
  assumes "fl 0 < m_pi2 m"
  shows "debug_draws fl m cs \<noteq> Some (Inl e)"
proof (induction cs arbitrary: e)
  case (Cons c cs)
  have "debug_draw fl m c \<noteq> Some (Inl e)" for e
    using DrawCircle_mode_ok [where fl = fl and m = m, OF assms]
    by (cases c) (simp_all add: DrawCircle_def DrawSolidCircle_def)
  then consider "debug_draw fl m c = None" | calls where "debug_draw fl m c = Some (Inr calls)"
    by (metis option.exhaust sum.exhaust)
  then show ?case
  proof cases
    case 2
    show ?thesis
    proof (cases "debug_draws fl m cs")
      case (Some r)
      with 2 Cons.IH show ?thesis by (cases r) auto
    qed (simp add: 2)
  qed simp
qed simp

definition frame_reaches :: "(rat \<Rightarrow> 'f::{plus,minus,uminus,times,ord}) \<Rightarrow> 'f Engine \<Rightarrow> ('b, 'f) GameLayer \<Rightarrow> bool" where
  "frame_reaches fl E l \<longleftrightarrow>
     lights_reach fl E (gl_position l) (sl_shadowCasters (gm_shadow (gl_game l))) (gm_stage (gl_game l))
       (sl_lightSources (gm_shadow (gl_game l)))"

text \<open>The fault of a frame, if it has one: the layers of the map are drawn before and after the lights.\<close>

definition frame_fault ::
    "(rat \<Rightarrow> 'f::{plus,minus,uminus,times,ord}) \<Rightarrow> 'f Engine \<Rightarrow> ('b, 'f) GameLayer \<Rightarrow> cxx_error option" where
  "frame_fault fl E l =
     (let map = gm_map (gl_game l)
      in if \<not> pred_option layer_drawable (map_bgLayer map) then Some NullDeref
         else if \<not> frame_reaches fl E l then Some OutOfBounds
         else if \<not> pred_option layer_drawable (map_fgLayer map) then Some NullDeref
         else None)"

lemma render_layer_cases:
  obtains calls where "render_layer layer = Inr calls" "pred_option layer_drawable layer"
  | "render_layer layer = Inl NullDeref" "\<not> pred_option layer_drawable layer"
  using MapLayer_Render_fault MapLayer_Render_returns
  by (cases layer; cases "pred_option layer_drawable layer") (fastforce simp: render_layer_def)+

lemma GameLayer_Render_ok:
  assumes "client_ok l" and "fl 0 < m_pi2 m"
  shows "(GameLayer_Render fl m E B children ui l = Some (Inl e) \<longleftrightarrow> frame_fault fl E l = Some e) \<and>
     (GameLayer_Render fl m E B children ui l = Some (Inr (calls, l')) \<longrightarrow> client_ok l')"
proof -
  let ?g = "gl_game l"
  let ?frame = "render_lights fl m E (gl_position l) (gm_shadow ?g) (sl_lightSources (gm_shadow ?g)) (gm_stage ?g)"
  note render = GameLayer_Render_def Let_def RenderBackgroundLayer_def RenderForegroundLayer_def frame_fault_def
  consider (returns) cs st where "?frame = Inr (cs, st)" "stage_ok st"
      "dom (st_casters st) = dom (st_casters (gm_stage ?g))" "st_lights st = st_lights (gm_stage ?g)" "frame_reaches fl E l"
    | (no_vertices) "?frame = Inl OutOfBounds" "\<not> frame_reaches fl E l"
    using render_lights_ok [of "gm_stage ?g" "gm_shadow ?g" "sl_lightSources (gm_shadow ?g)" fl m E "gl_position l"]
      assms(1)
    by (auto simp: client_ok_def game_ok_def pointers_ok_def frame_reaches_def)
  note lights = this
  show ?thesis
  proof (cases rule: render_layer_cases [of "map_bgLayer (gm_map ?g)"])
    case 2
    then show ?thesis by (auto simp: render)
  next
    case (1 bg)
    from lights show ?thesis
    proof cases
      case no_vertices
      with 1 show ?thesis by (auto simp: render ShadowLayer_Render_def)
    next
      case (returns cs st)
      have ok: "client_ok (l\<lparr>gl_game := ?g\<lparr>gm_stage := st\<rparr>\<rparr>)"
        using assms(1) returns(2-4) by (simp add: client_ok_def game_ok_def pointers_ok_def)
      obtain shadow where s: "ShadowLayer_Render fl m E (gl_position l) (gm_shadow ?g) (gm_stage ?g) = Inr (shadow, st)"
        by (simp add: ShadowLayer_Render_def returns(1))
      show ?thesis
      proof (cases rule: render_layer_cases [of "map_fgLayer (gm_map ?g)"])
        case 2
        with 1 returns(5) s show ?thesis by (auto simp: render)
      next
        case fg: (1 fg)
        show ?thesis
        proof (cases "debug_draws fl m (bx_DrawDebugData B (map_b2World (gm_map ?g)))")
          case None
          with 1 fg returns(5) s show ?thesis by (simp add: render)
        next
          case (Some x)
          with debug_draws_ok [where fl = fl and m = m, OF assms(2)] obtain dd
            where "debug_draws fl m (bx_DrawDebugData B (map_b2World (gm_map ?g))) = Some (Inr dd)"
            by (cases x) auto
          with 1 fg ok returns(5) s show ?thesis by (auto simp: render)
        qed
      qed
    qed
  qed
qed

subsection \<open>The state machine\<close>

inductive client_step ::
    "(rat \<Rightarrow> 'f::{plus,minus,uminus,times,divide,ord}) \<Rightarrow> 'f Libm \<Rightarrow> 'f Engine \<Rightarrow> ('b, 'f) Box2D
       \<Rightarrow> ('b, 'f) GameLayer \<Rightarrow> ('b, 'f) GameLayer \<Rightarrow> bool"
  for fl m E B where
  client_update: "GameLayer_Update fl m E B order input dt l = Inr l' \<Longrightarrow> client_step fl m E B l l'"
| client_frame: "GameLayer_Render fl m E B children ui l = Some (Inr (calls, l')) \<Longrightarrow> client_step fl m E B l l'"

text \<open>A client that has been started with the static state of the light texture in order.\<close>

definition client_start ::
    "(rat \<Rightarrow> 'f::{plus,minus,times,divide}) \<Rightarrow> 'f Libm \<Rightarrow> 'f Engine \<Rightarrow> ('w, 'f) ShaderLib \<Rightarrow> ('b, 'f) Box2D
       \<Rightarrow> ('f \<Rightarrow> string) \<Rightarrow> ('b, 'f) GameLayer \<Rightarrow> bool" where
  "client_start fl m E G B fmt l \<longleftrightarrow>
     (\<exists>vbo tmx sh c0 rot0 pos0 lt w calls w'. texture_ready lt \<and>
        new_GameLayer fl m E G B fmt vbo tmx sh c0 rot0 pos0 lt w = Inr (l, calls, w'))"

lemma client_step_ok:
  assumes "client_ok l" and "client_step fl m E B l l'" and "fl 0 < m_pi2 m"
  shows "client_ok l'"
  using assms(2)
proof cases
  case (client_update order input dt)
  then show ?thesis
    using GameLayer_Update_ok [OF assms(1), where fl = fl and m = m and E = E and B = B and order = order
        and input = input and dt = dt] by auto
next
  case client_frame
  then show ?thesis using GameLayer_Render_ok [where fl = fl and m = m, OF assms(1,3)] by blast
qed

text \<open>The restriction to a positive angle \<open>2\<pi>\<close> is a guard of the steps.\<close>

interpretation client: inductive_invariant "client_start fl m E G B fmt"
  "\<lambda>l l'. fl 0 < m_pi2 m \<and> client_step fl m E B l l'" client_ok for fl m E G B fmt
  by unfold_locales (auto simp: client_start_def intro: new_GameLayer_ok client_step_ok)

end
