(* ===== verification/LayerTextures.thy ===== *)
theory LayerTextures
  imports ClientRun
begin

section \<open>The textures of the map's layers\<close>

text \<open>
  The texture of a layer is what \<open>LoadTexture\<close> made of an image file when the map was parsed, and
  nothing replaces the layers or their textures afterwards. With all images there, every layer can
  be drawn.
\<close>

definition from_file :: "'f Engine \<Rightarrow> 'f MapLayer \<Rightarrow> bool" where
  "from_file E ml \<longleftrightarrow> (\<exists>f. ml_texture ml = map_option (\<lambda>_. f) (en_LoadTexture E f))"

definition layers_from_files :: "'f Engine \<Rightarrow> ('b, 'f) Map \<Rightarrow> bool" where
  "layers_from_files E m \<longleftrightarrow> pred_option (from_file E) (map_bgLayer m) \<and> pred_option (from_file E) (map_fgLayer m)"

lemma layers_from_files_simps [simp]:
  "layers_from_files E (new_Map B)" "layers_from_files E (m\<lparr>map_b2World := w\<rparr>) = layers_from_files E m"
  "layers_from_files E (SetTileTemplate tt m) = layers_from_files E m"
  "layers_from_files E (Map_Update fl B m) = layers_from_files E m"
  "layers_from_files E (LoadWall fl B x y vent m) = layers_from_files E m"
  by (simp_all add: layers_from_files_def new_Map_def SetTileTemplate_def Map_Update_def LoadWall_def AddGlobalBody_def
      split: prod.split)

lemma draw_tile_texture: "draw_tile fl mp layer x y ml = Inr ml' \<Longrightarrow> ml_texture ml' = ml_texture ml"
  by (auto simp: draw_tile_def AddTile_def Let_def split: if_splits)

lemma CreateVBO_texture: "ml_texture (fst (CreateVBO v t ml)) = ml_texture ml"
  by (simp add: CreateVBO_def CreateBuffers_def DestroyBuffers_def Let_def split: prod.split)

lemma ParseDrawableLayer_from_file:
  assumes "ParseDrawableLayer fl E names mp layer = Inr (ml, calls)"
  shows "from_file E ml"
proof -
  let ?f = "''res/'' @ ts_imgSource (mp_mapset mp)"
  from assms obtain ml0 where r: "rfold (\<lambda>x. rfold (\<lambda>y. draw_tile fl mp layer x y) (upto_int (tm_height (mp_tmxMap mp))))
      (upto_int (tm_width (mp_tmxMap mp))) (new_MapLayer E ?f) = Inr ml0"
    and ml: "CreateVBO (fst names) (snd names) ml0 = (ml, calls)"
    by (auto simp: ParseDrawableLayer_def Let_def)
  have "ml_texture ml0 = map_option (\<lambda>_. ?f) (en_LoadTexture E ?f)"
    by (rule rfold_invariant [OF r [unfolded rfold_product]]) (auto simp: new_MapLayer_def dest: draw_tile_texture)
  with CreateVBO_texture [of "fst names" "snd names" ml0] show ?thesis
    by (auto simp: from_file_def ml)
qed

lemma parse_layer_from_files:
  assumes "parse_layer fl E vbo mp il (tt, m, calls) = Inr (tt', m', calls')" and "layers_from_files E m"
  shows "layers_from_files E m'"
  using assms
  by (auto simp: parse_layer_def layers_from_files_def SetBackgroundLayer_def SetForegroundLayer_def Let_def
      split: prod.splits if_splits dest: ParseDrawableLayer_from_file)

lemma parse_light_map: "parse_light fl m E fmt mp obj gc = Inr gc' \<Longrightarrow> gm_map (fst gc') = gm_map (fst gc)"
  by (auto simp: parse_light_def AddLight_def Let_def split: option.splits if_splits)

lemma ParseMap_from_files:
  assumes "ParseMap fl m E fmt vbo mp g = Inr (ok, g', calls)" and "layers_from_files E (gm_map g)"
  shows "layers_from_files E (gm_map g')"
proof -
  from assms(1) obtain tt0 tt m0 cs g1 cs1 where
    l: "rfold (parse_layer fl E vbo mp) (enumerate 0 (tm_layers (mp_tmxMap mp))) (tt0, gm_map g, []) = Inr (tt, m0, cs)"
    and r: "rfold (parse_group fl m E fmt mp) (tm_groups (mp_tmxMap mp)) (g\<lparr>gm_map := m0\<rparr>, cs) = Inr (g1, cs1)"
    and g': "g' = g1\<lparr>gm_map := SetTileTemplate tt (gm_map g1)\<rparr>"
    by (auto simp: ParseMap_def Let_def)
  have "layers_from_files E (fst (snd (tt, m0, cs)))"
    by (rule rfold_invariant [OF l]) (use assms(2) in \<open>auto dest: parse_layer_from_files\<close>)
  moreover have "gm_map (fst (g1, cs1)) = m0"
  proof (rule rfold_invariant [OF r, where P = "\<lambda>gc. gm_map (fst gc) = m0"])
    fix grp gc gc'
    assume m: "gm_map (fst gc) = m0" and grp: "parse_group fl m E fmt mp grp gc = Inr gc'"
    show "gm_map (fst gc') = m0"
    proof (cases "gr_name grp = ''lights''")
      case True
      with grp have "rfold (parse_light fl m E fmt mp) (gr_objects grp) gc = Inr gc'"
        by (simp add: parse_group_def ParseLightLayer_def)
      then show ?thesis
        by (rule rfold_invariant [where P = "\<lambda>gc. gm_map (fst gc) = m0"]) (use m in \<open>auto dest: parse_light_map\<close>)
    next
      case False
      with grp m show ?thesis by (simp add: parse_group_def)
    qed
  qed simp
  ultimately show ?thesis by (simp add: g')
qed

lemma LoadMap_from_files:
  assumes "LoadMap fl E B g = Inr g'" and "layers_from_files F (gm_map g)"
  shows "layers_from_files F (gm_map g')"
  using assms unfolding LoadMap_def Let_def rfold_product
  by (elim rfold_invariant) (auto simp: load_tile_def LoadShadowCaster_def Let_def split: if_splits)

lemma new_GameLayer_from_files:
  assumes "new_GameLayer fl m E G B fmt vbo tmx sh c0 rot0 pos0 lt w = Inr (l, calls, w')"
  shows "layers_from_files E (gm_map (gl_game l))"
proof -
  from assms obtain sl parser ok g1 cs1 g2 p g3 cs2 where
    pm: "ParseMap fl m E fmt vbo parser \<lparr>gm_map = new_Map B, gm_shadow = sl,
              gm_stage = \<lparr>st_static = lt, st_lights = (\<lambda>_. None), st_casters = (\<lambda>_. None), st_next = 1\<rparr>\<rparr>
            = Inr (ok, g1, cs1)"
    and lm: "LoadMap fl E B g1 = Inr g2" and np: "new_Player fl m E B rot0 g2 = Inr (p, g3, cs2)"
    and l: "gm_map (gl_game l) = gm_map g3"
    by (auto simp: new_GameLayer_def Let_def)
  have "layers_from_files E (gm_map g2)"
    by (rule LoadMap_from_files [OF lm ParseMap_from_files [OF pm]]) simp
  with np show ?thesis
    by (auto simp: l new_Player_def Let_def split: prod.splits)
qed

lemma client_step_from_files:
  assumes "client_step fl m E B l l'" and "layers_from_files F (gm_map (gl_game l))"
  shows "layers_from_files F (gm_map (gl_game l'))"
  using assms(1)
proof cases
  case (client_update order input dt)
  then obtain l1 where r: "rfold (update_component fl m E B input dt) order l = Inr l1"
    and l': "gm_map (gl_game l') = Map_Update fl B (gm_map (gl_game l1))"
    by (auto simp: GameLayer_Update_def Let_def)
  have "layers_from_files F (gm_map (gl_game l1))"
    by (rule rfold_invariant [OF r, where P = "\<lambda>l. layers_from_files F (gm_map (gl_game l))"])
      (use assms(2) in \<open>auto simp: update_component_def Let_def split: component.splits\<close>)
  then show ?thesis by (simp add: l')
next
  case client_frame
  with assms(2) show ?thesis by (auto simp: GameLayer_Render_def Let_def)
qed

interpretation textures: inductive_invariant "client_start fl m E G B fmt"
  "\<lambda>l l'. fl 0 < m_pi2 m \<and> client_step fl m E B l l'" "\<lambda>l. layers_from_files E (gm_map (gl_game l))" for fl m E G B fmt
  by unfold_locales (auto simp: client_start_def intro: new_GameLayer_from_files client_step_from_files)

lemma layers_drawable:
  assumes "layers_from_files E m" and "\<And>f. en_LoadTexture E f \<noteq> None"
  shows "pred_option layer_drawable (map_bgLayer m)" "pred_option layer_drawable (map_fgLayer m)"
  using assms by (auto simp: layers_from_files_def from_file_def layer_drawable_def pred_option_def)

end
