(* ===== verification/TileGrid.thy ===== *)
theory TileGrid
  imports TileMap
begin

unbundle bit_operations_syntax

section \<open>The tile template as a grid\<close>

text \<open>
  The abstract view of a tile template: a map from the coordinates of the map to flags, without
  an index. The interface of such a grid, with what a client gets from it, and the template's
  vector as an implementation.
\<close>

locale flag_grid =
  fixes inv :: "'t \<Rightarrow> bool"
    and grid :: "'t \<Rightarrow> int \<times> int \<Rightarrow> u32 option"
    and add :: "int \<Rightarrow> int \<Rightarrow> u32 \<Rightarrow> 't \<Rightarrow> 't res"
    and get :: "'t \<Rightarrow> int \<Rightarrow> int \<Rightarrow> u32 res"
  assumes get_grid: "inv t \<Longrightarrow> grid t (x, y) = Some f \<Longrightarrow> get t x y = Inr f"
    and add_grid: "inv t \<Longrightarrow> grid t (x, y) = Some f \<Longrightarrow>
      \<exists>t'. add x y g t = Inr t' \<and> inv t' \<and> grid t' = (grid t)((x, y) \<mapsto> f OR g)"
begin

text \<open>A sequence of additions: each sets bits of the cell it names.\<close>

lemma adds_grid:
  assumes "inv t" and "\<forall>p \<in> set ops. (fst p, fst (snd p)) \<in> dom (grid t)"
  shows "\<exists>t'. rfold (\<lambda>(x, y, g). add x y g) ops t = Inr t' \<and> inv t' \<and>
     grid t' = fold (\<lambda>(x, y, g) m. m((x, y) \<mapsto> the (m (x, y)) OR g)) ops (grid t)"
  using assms
proof (induction ops arbitrary: t)
  case (Cons p ops)
  obtain x y g where p: "p = (x, y, g)" using prod_cases3 by blast
  obtain f where f: "grid t (x, y) = Some f" using Cons.prems(2) p by fastforce
  obtain t1 where t1: "add x y g t = Inr t1" "inv t1" "grid t1 = (grid t)((x, y) \<mapsto> the (grid t (x, y)) OR g)"
    using add_grid [OF Cons.prems(1) f, of g] f by auto
  have "\<forall>p \<in> set ops. (fst p, fst (snd p)) \<in> dom (grid t1)"
    using Cons.prems(2) by (auto simp: t1(3))
  from Cons.IH [OF t1(2) this] obtain t2 where "rfold (\<lambda>(x, y, g). add x y g) ops t1 = Inr t2" "inv t2"
    "grid t2 = fold (\<lambda>(x, y, g) m. m((x, y) \<mapsto> the (m (x, y)) OR g)) ops (grid t1)" by blast
  with t1(1) show ?case by (simp add: p t1(3) del: fun_upd_apply)
qed simp

text \<open>A cell in the end: what it was, and all the bits that were added to it.\<close>

lemma adds_cell:
  assumes "inv t" and "\<forall>p \<in> set ops. (fst p, fst (snd p)) \<in> dom (grid t)"
    and "grid t (a, b) = Some f" and "rfold (\<lambda>(x, y, g). add x y g) ops t = Inr t'"
  shows "get t' a b = Inr (fold (\<lambda>(x, y, g) v. if x = a \<and> y = b then v OR g else v) ops f)"
  using assms
proof (induction ops arbitrary: t f)
  case Nil
  then show ?case by (simp add: get_grid)
next
  case (Cons p ops)
  obtain x y g where p: "p = (x, y, g)" using prod_cases3 by blast
  obtain f0 where f0: "grid t (x, y) = Some f0" using Cons.prems(2) p by fastforce
  obtain t1 where t1: "add x y g t = Inr t1" "inv t1" "grid t1 = (grid t)((x, y) \<mapsto> f0 OR g)"
    using add_grid [OF Cons.prems(1) f0] by blast
  have d: "\<forall>p \<in> set ops. (fst p, fst (snd p)) \<in> dom (grid t1)"
    using Cons.prems(2) by (auto simp: t1(3))
  have c: "grid t1 (a, b) = Some (if x = a \<and> y = b then f OR g else f)"
    using Cons.prems(3) f0 by (auto simp: t1(3))
  have "rfold (\<lambda>(x, y, g). add x y g) ops t1 = Inr t'" using Cons.prems(4) t1(1) by (simp add: p)
  from Cons.IH [OF t1(2) d c this] show ?case by (simp add: p)
qed

end

definition grid_of :: "TileTemplate \<Rightarrow> int \<times> int \<Rightarrow> u32 option" where
  "grid_of tt xy = (if in_map tt (fst xy) (snd xy) then Some (flags_at tt (fst xy) (snd xy)) else None)"

lemma grid_of_Some: "grid_of tt (x, y) = Some f \<longleftrightarrow> in_map tt x y \<and> f = flags_at tt x y"
  by (auto simp: grid_of_def)

lemma dom_grid_of: "dom (grid_of tt) = {0..<tt_w tt} \<times> {0..<tt_h tt}"
  by (auto simp: grid_of_def in_map_def split: if_splits)

lemma grid_of_new:
  assumes "new_TileTemplate w h = Inr tt" and "0 \<le> w" "0 \<le> h"
  shows "grid_of tt = (\<lambda>xy. if xy \<in> {0..<w} \<times> {0..<h} then Some 0 else None)"
  using new_TileTemplate_ok [OF assms] flags_at_new [OF assms]
  by (auto simp: grid_of_def in_map_def fun_eq_iff)

interpretation tiles: flag_grid tt_ok grid_of AddFlag GetFlags
proof unfold_locales
  fix tt x y f
  assume "tt_ok tt" and g: "grid_of tt (x, y) = Some f"
  then show "GetFlags tt x y = Inr f" by (simp add: grid_of_Some GetFlags_in_map)
next
  fix tt x y f g
  assume ok: "tt_ok tt" and gr: "grid_of tt (x, y) = Some f"
  then have m: "in_map tt x y" "f = flags_at tt x y" by (simp_all add: grid_of_Some)
  obtain tt' where t: "AddFlag x y g tt = Inr tt'" "tt_ok tt'" "tt_w tt' = tt_w tt" "tt_h tt' = tt_h tt"
    and fl: "\<And>x' y'. in_map tt x' y' \<Longrightarrow>
      flags_at tt' x' y' = (if x' = x \<and> y' = y then flags_at tt x y OR g else flags_at tt x' y')"
    using AddFlag_in_map [OF ok m(1), of g] by blast
  have "in_map tt' = in_map tt" using t by (auto simp: in_map_def fun_eq_iff)
  with fl m have "grid_of tt' = (grid_of tt)((x, y) \<mapsto> f OR g)"
    by (auto simp: grid_of_def fun_eq_iff)
  with t show "\<exists>tt'. AddFlag x y g tt = Inr tt' \<and> tt_ok tt' \<and> grid_of tt' = (grid_of tt)((x, y) \<mapsto> f OR g)"
    by blast
qed

end
