(* ===== verification/ClientDemo.thy ===== *)
theory ClientDemo
  imports LayerTextures TileGrid
begin

section \<open>A small concrete client\<close>

text \<open>
  Concrete libraries to run the definitions of the client on: numbers are rationals, the physics
  world only counts its bodies, the shader functions succeed, and a map of two tiles by one, with
  a wall on the left and one light.
\<close>

definition demo_libm :: "rat Libm" where
  "demo_libm = \<lparr>m_pi2 = 6, m_cos = (\<lambda>x. 1 - x), m_sin = (\<lambda>x. x), m_fabs = abs,
     m_atan2_degrees = (\<lambda>y x. y - x), m_Length = (\<lambda>v. max (abs (v_x v)) (abs (v_y v))),
     m_abs_gt = (\<lambda>x d. abs x > d)\<rparr>"

definition demo_object :: "rat GameObject" where
  "demo_object = \<lparr>go_Position = vec2 0 0, go_WorldPosition = vec2 0 0, go_WorldRotation = 0,
     go_Scale = vec2 1 1, go_Pivot = vec2 0 0, go_texture = None\<rparr>"

definition demo_engine :: "rat Engine" where
  "demo_engine = \<lparr>en_GetDimensions = (\<lambda>_. vec2 64 64), en_GetTextureID = id, en_GetTex = id,
     en_Overlaps = overlap, en_GetResolution = (\<lambda>_. vec2 1280 720), en_Vec2 = vec2 0 0,
     en_GameObject = demo_object,
     en_AddToShadowLayer = (\<lambda>g. g\<lparr>go_WorldPosition := go_Position g\<rparr>),
     en_AddToGameLayer = (\<lambda>g. g\<lparr>go_WorldPosition := go_Position g\<rparr>),
     en_Moved = (\<lambda>g. g\<lparr>go_WorldPosition := go_Position g\<rparr>),
     en_LoadTexture = (\<lambda>_. Some (vec2 64 64)), en_GetResource = (\<lambda>_. Some 7)\<rparr>"

definition demo_shader :: "(nat, rat) ShaderLib" where
  "demo_shader = \<lparr>gs_open = (\<lambda>w f. Some []), gs_CreateShader = (\<lambda>w k. (w + 1, w + 1)),
     gs_ShaderSource = (\<lambda>w s t. w), gs_CompileShader = (\<lambda>w s. w), gs_CompileStatus = (\<lambda>w s. True),
     gs_DeleteShader = (\<lambda>w s. w), gs_CreateProgram = (\<lambda>w. (w + 1, w + 1)),
     gs_AttachShader = (\<lambda>w p s. w), gs_LinkProgram = (\<lambda>w p. w), gs_LinkStatus = (\<lambda>w p. True),
     gs_DeleteProgram = (\<lambda>w p. w), gs_UseProgram = (\<lambda>w p. w),
     gs_GetUniformLocation = (\<lambda>w p n. (int (length n), w)), gs_Uniformi = (\<lambda>w l v. w),
     gs_Uniformf = (\<lambda>w l v. w)\<rparr>"

definition demo_box :: "(nat, rat) Box2D" where
  "demo_box = \<lparr>bx_new_world = 0, bx_delete_world = (\<lambda>w. 0), bx_CreateBody = (\<lambda>w d. (w, w + 1)),
     bx_CreateFixture = (\<lambda>w b f. w), bx_DestroyBody = (\<lambda>w b. w - 1), bx_Step = (\<lambda>w t i j. w),
     bx_GetPosition = (\<lambda>w b. b2vec 1 1), bx_SetLinearVelocity = (\<lambda>w b v. w),
     bx_DrawDebugData = (\<lambda>w. [CallSegment (b2vec 0 0) (b2vec 1 1) (color 1 1 1 1)])\<rparr>"

definition demo_mapset :: TmxTileset where
  "demo_mapset = \<lparr>ts_name = ''mapset'', ts_firstGid = 1, ts_tileWidth = 64, ts_tileHeight = 64,
     ts_imgSource = ''tileset.png'', ts_imgWidth = 256, ts_imgHeight = 256\<rparr>"

definition demo_walls :: TmxLayer where
  "demo_walls = \<lparr>ly_name = ''walls'', ly_GetTileGid = (\<lambda>x y. if x = 0 then 22 else 0),
     ly_GetTile = (\<lambda>x y. if x = 0 then (22, 5) else (0, 0))\<rparr>"

definition demo_tmx :: "rat TmxMap" where
  "demo_tmx = \<lparr>tm_error = None, tm_width = 2, tm_height = 1, tm_tileHeight = 64,
     tm_tilesets = [demo_mapset, demo_mapset\<lparr>ts_name := ''objectset'', ts_firstGid := 17\<rparr>],
     tm_layers = [demo_walls], tm_groups = []\<rparr>"

definition demo_parser :: "rat MapParser" where
  "demo_parser = \<lparr>mp_tmxMap = demo_tmx, mp_mapset = demo_mapset,
     mp_objset = demo_mapset\<lparr>ts_name := ''objectset'', ts_firstGid := 17\<rparr>\<rparr>"

definition demo_input :: "rat Input" where
  "demo_input = \<lparr>in_IsKeyDown = (\<lambda>c. c = CHR ''d''), in_GetMousePosition = vec2 0 0,
     in_GetWindowSize = vec2 1280 720, in_GetResolution = vec2 1280 720\<rparr>"

lemma demo_parser: "new_MapParser demo_tmx = Inr demo_parser"
  by (simp add: new_MapParser_def demo_tmx_def demo_mapset_def demo_parser_def)

definition demo_template :: TileTemplate where
  "demo_template = \<lparr>tt_w = 2, tt_h = 1, tt_tiles = [5, 0]\<rparr>"

lemma demo_new_template: "new_TileTemplate 2 1 = Inr \<lparr>tt_w = 2, tt_h = 1, tt_tiles = [0, 0]\<rparr>"
  by (simp add: new_TileTemplate_def imul_def chk_def numeral_2_eq_2)

lemma demo_walls_parsed:
  "ParseWallLayer demo_parser demo_walls \<lparr>tt_w = 2, tt_h = 1, tt_tiles = [0, 0]\<rparr> = Inr demo_template"
  by (simp add: ParseWallLayer_def demo_parser_def demo_tmx_def upto_int_def wall_tile_def demo_walls_def
      FlipY_def isub_def iadd_def imul_def chk_def ID_WALL_def AddFlag_def tile_index_def TILE_SHADOW_def TILE_WALL_def
      demo_template_def numeral_2_eq_2 Let_def)

lemma demo_map_parsed:
  assumes "gm_map g = new_Map demo_box"
  shows "ParseMap id demo_libm demo_engine fmt vbo demo_parser g
     = Inr (True, g\<lparr>gm_map := SetTileTemplate demo_template (new_Map demo_box)\<rparr>, [])"
proof -
  have "rfold (parse_layer id demo_engine vbo demo_parser) (enumerate 0 [demo_walls])
      (\<lparr>tt_w = 2, tt_h = 1, tt_tiles = [0, 0]\<rparr>, gm_map g, []) = Inr (demo_template, gm_map g, [])"
    by (simp add: parse_layer_def demo_walls_parsed) (simp add: demo_walls_def)
  moreover have "tm_layers demo_tmx = [demo_walls]" "tm_groups demo_tmx = []" "tm_width demo_tmx = 2"
    "tm_height demo_tmx = 1" "mp_tmxMap demo_parser = demo_tmx"
    by (simp_all add: demo_tmx_def demo_parser_def)
  ultimately show ?thesis
    by (simp add: ParseMap_def Let_def demo_new_template assms)
qed

lemma demo_shadow_layer: "\<exists>sl w. new_ShadowLayer id demo_shader 1 (color 0 0 0 0) 0 = Inr (sl, w)"
  by (simp add: new_ShadowLayer_def new_Shader_def LoadShader_def CompileShader_def LinkProgram_def
      demo_shader_def GetShaderSource_def blank_Shader_def Let_def split: prod.split)

lemma demo_client:
  "\<exists>l calls w. new_GameLayer id demo_libm demo_engine demo_shader demo_box (\<lambda>_. []) (\<lambda>_. (1, 2)) demo_tmx
     1 (color 0 0 0 0) 0 (vec2 0 0) initial_LightTexture 0 = Inr (l, calls, w)"
proof -
  obtain sl w where sl: "new_ShadowLayer id demo_shader 1 (color 0 0 0 0) 0 = Inr (sl, w)"
    using demo_shadow_layer by blast
  define g where "g = \<lparr>gm_map = SetTileTemplate demo_template (new_Map demo_box), gm_shadow = sl,
     gm_stage = \<lparr>st_static = initial_LightTexture, st_lights = (\<lambda>_. None), st_casters = (\<lambda>_. None), st_next = 1\<rparr>\<rparr>"
  have tt: "GetTileTemplate (gm_map g) = demo_template"
    by (simp add: g_def GetTileTemplate_def SetTileTemplate_def)
  have "tt_ok demo_template" "tt_w demo_template \<le> 2 ^ 24" "tt_h demo_template \<le> 2 ^ 24"
    by (simp_all add: demo_template_def tt_ok_def)
  then obtain g2 where g2: "LoadMap id demo_engine demo_box g = Inr g2"
    using LoadMap_eq [OF tt, of id demo_engine demo_box] by blast
  have "texture_ready (st_static (gm_stage g2))" "lt_refs (st_static (gm_stage g2)) < 2 ^ 31 - 1"
    using LoadMap_static [OF g2] by (simp_all add: g_def texture_ready_def initial_LightTexture_def)
  moreover have "en_GetResource demo_engine ''res/flashlight.png'' = Some 7" by (simp add: demo_engine_def)
  ultimately obtain p g3 calls where "new_Player id demo_libm demo_engine demo_box 0 g2 = Inr (p, g3, calls)"
    using new_Player_total by blast
  with sl g2 show ?thesis
    by (simp add: new_GameLayer_def Let_def demo_parser demo_map_parsed g_def)
qed

end
