(* ===== verification/GameTheorems.thy ===== *)
theory GameTheorems
  imports ClientDemo
begin

unbundle bit_operations_syntax

section \<open>Theorems on the game client\<close>

text \<open>
  The properties of the client's map, lights, shadows and player, and of the client as a whole.
  Each is followed by an instance on concrete values.
\<close>

subsection \<open>The client as a whole\<close>

text \<open>
  C24. The constructor of the game layer, where it returns, leaves a client whose parts fit: every
  light and caster the shadow layer points to exists, a light on the shared texture holds one that
  is alive, every caster has a shape, and the player, its body and the camera are set. It asks of
  the static state only that the texture, if there is one, is alive.
\<close>

theorem constructor_establishes_client:
  assumes "new_GameLayer fl m E G B fmt vbo tmx sh c0 rot0 pos0 lt w = Inr (l, calls, w')"
    and "texture_ready lt"
  shows "client_ok l"
  using assms by (rule new_GameLayer_ok)

theorem constructor_establishes_client_witness:
  "\<exists>l calls w. new_GameLayer id demo_libm demo_engine demo_shader demo_box (\<lambda>_. []) (\<lambda>_. (1, 2)) demo_tmx
     1 (color 0 0 0 0) 0 (vec2 0 0) initial_LightTexture 0 = Inr (l, calls, w) \<and> client_ok l"
  using demo_client constructor_establishes_client [of id demo_libm demo_engine demo_shader demo_box
      "\<lambda>_. []" "\<lambda>_. (1, 2)" demo_tmx 1 "color 0 0 0 0" 0 "vec2 0 0" initial_LightTexture 0]
  by (fastforce simp: texture_ready_def initial_LightTexture_def)



text \<open>
  C14. A client whose map has no lights leaves the static state dangling: the player's light is the
  only one to have used the shared texture, it takes its own, and the count drops to zero. From
  then on any new light source is handed the deleted texture, and drawing it is a use after free.
\<close>

theorem lightless_map_dangles:
  assumes "new_GameLayer fl m E G B fmt vbo tmx sh c0 rot0 pos0 lt w = Inr (l, calls, w')"
    and "texture_ready lt" and "lt_refs lt = 0"
    and "\<forall>grp \<in> set (tm_groups tmx). gr_name grp \<noteq> ''lights''"
  shows "\<exists>light lt'. SetLightProperties fl m d c (new_LightSource fl) (st_static (gm_stage (gl_game l)))
        = Inr (light, lt', []) \<and>
     Light_RenderLight fl E wp rot lt' light = Inl UseAfterFree"
proof -
  have "\<not> IsUsingSharedTexture (new_LightSource fl)"
    by (simp add: IsUsingSharedTexture_def new_LightSource_def)
  moreover obtain t where "lt_renderTexture (st_static (gm_stage (gl_game l))) = Some t"
    "t \<notin> lt_live (st_static (gm_stage (gl_game l)))" "lt_refs (st_static (gm_stage (gl_game l))) = 0"
    using new_GameLayer_dangles [OF assms] by blast
  ultimately show ?thesis
    using dangling_use [of "st_static (gm_stage (gl_game l))" t "new_LightSource fl" fl m d c E wp rot] by auto
qed

theorem lightless_map_dangles_witness:
  "\<exists>l calls w. new_GameLayer id demo_libm demo_engine demo_shader demo_box (\<lambda>_. []) (\<lambda>_. (1, 2)) demo_tmx
     1 (color 0 0 0 0) 0 (vec2 0 0) initial_LightTexture 0 = Inr (l, calls, w) \<and>
   (\<exists>light lt'. SetLightProperties id demo_libm 100 (color 1 1 1 1) (new_LightSource id)
        (st_static (gm_stage (gl_game l))) = Inr (light, lt', []) \<and>
     Light_RenderLight id demo_engine (vec2 0 0) 0 lt' light = Inl UseAfterFree)"
proof -
  have lt: "texture_ready initial_LightTexture" "lt_refs initial_LightTexture = 0"
    "\<forall>grp \<in> set (tm_groups demo_tmx). gr_name grp \<noteq> ''lights''"
    by (simp_all add: texture_ready_def initial_LightTexture_def demo_tmx_def)
  obtain l calls w where l: "new_GameLayer id demo_libm demo_engine demo_shader demo_box (\<lambda>_. []) (\<lambda>_. (1, 2)) demo_tmx
     1 (color 0 0 0 0) 0 (vec2 0 0) initial_LightTexture 0 = Inr (l, calls, w)"
    using demo_client by blast
  from lightless_map_dangles [OF l lt] l show ?thesis by blast
qed

subsection \<open>The map\<close>

text \<open>
  C12. The walls layer, parsed into a fresh template, never fails, and the flags of a tile are those
  of the tile of the layer it comes from, with the lines of the map turned over: a shadow and a wall
  for a wall, a vent for a vent, nothing for any other tile.
\<close>

theorem walls_layer_parsed:
  assumes "tmx_ok (mp_tmxMap mp)"
    and "new_TileTemplate (tm_width (mp_tmxMap mp)) (tm_height (mp_tmxMap mp)) = Inr tt0"
  shows "\<exists>tt. ParseWallLayer mp layer tt0 = Inr tt \<and> tt_w tt = tm_width (mp_tmxMap mp) \<and>
     tt_h tt = tm_height (mp_tmxMap mp) \<and>
     (\<forall>x y. in_map tt x y \<longrightarrow> GetFlags tt x y = Inr
        (let (gid, id) = ly_GetTile layer x (tm_height (mp_tmxMap mp) - 1 - y)
         in if gid = 0 then 0 else if id = ID_WALL then TILE_SHADOW OR TILE_WALL
            else if id = ID_VENT then TILE_VENT else 0))"
  using ParseWallLayer_flags [OF assms, of layer]
  by (auto simp: same_size_def GetFlags_in_map tile_flags_def)

lemma demo_tmx_ok: "tmx_ok (mp_tmxMap demo_parser)"
  by (simp add: tmx_ok_def demo_parser_def demo_tmx_def)

lemma demo_tmx_new:
  "new_TileTemplate (tm_width (mp_tmxMap demo_parser)) (tm_height (mp_tmxMap demo_parser))
     = Inr \<lparr>tt_w = 2, tt_h = 1, tt_tiles = [0, 0]\<rparr>"
  by (simp add: demo_parser_def demo_tmx_def demo_new_template)

theorem walls_layer_parsed_witness:
  "\<exists>tt. ParseWallLayer demo_parser demo_walls \<lparr>tt_w = 2, tt_h = 1, tt_tiles = [0, 0]\<rparr> = Inr tt \<and>
     GetFlags tt 0 0 = Inr (TILE_SHADOW OR TILE_WALL) \<and> GetFlags tt 1 0 = Inr 0"
proof -
  from walls_layer_parsed [OF demo_tmx_ok demo_tmx_new, of demo_walls] obtain tt where
    "ParseWallLayer demo_parser demo_walls \<lparr>tt_w = 2, tt_h = 1, tt_tiles = [0, 0]\<rparr> = Inr tt"
    "tt_w tt = 2" "tt_h tt = 1"
    and f: "\<And>x y. in_map tt x y \<Longrightarrow> GetFlags tt x y = Inr
        (let (gid, id) = ly_GetTile demo_walls x (1 - 1 - y)
         in if gid = 0 then 0 else if id = ID_WALL then TILE_SHADOW OR TILE_WALL
            else if id = ID_VENT then TILE_VENT else 0)"
    by (auto simp: demo_parser_def demo_tmx_def)
  moreover from this have "in_map tt 0 0" "in_map tt 1 0" by (simp_all add: in_map_def)
  ultimately show ?thesis using f [of 0 0] f [of 1 0] by (simp add: demo_walls_def ID_WALL_def)
qed

text \<open>
  C11. From the walls layer to the physics: for a map with a walls layer \<open>LoadMap\<close> makes, column by
  column, one static body for each wall tile and registers it, and one shadow caster of the size of
  a tile for the same tiles; a vent gets neither. Every body has the collision category of the
  ventilation.
\<close>

theorem walls_loaded:
  assumes "tmx_ok (mp_tmxMap mp)" and "tm_width (mp_tmxMap mp) \<le> 2 ^ 24" "tm_height (mp_tmxMap mp) \<le> 2 ^ 24"
    and "new_TileTemplate (tm_width (mp_tmxMap mp)) (tm_height (mp_tmxMap mp)) = Inr tt0"
    and "ParseWallLayer mp layer tt0 = Inr tt"
    and "ws = filter (\<lambda>(x, y). let t = ly_GetTile layer x (tm_height (mp_tmxMap mp) - 1 - y)
                in fst t \<noteq> 0 \<and> snd t = ID_WALL) (cells (tm_width (mp_tmxMap mp)) (tm_height (mp_tmxMap mp)))"
  shows "\<exists>g'. LoadMap fl E B (g\<lparr>gm_map := SetTileTemplate tt (gm_map g)\<rparr>) = Inr g' \<and>
     gm_map g' = fold (\<lambda>(x, y). LoadWall fl B x y False) ws (SetTileTemplate tt (gm_map g)) \<and>
     length (map_globalBodies (gm_map g')) = length (map_globalBodies (gm_map g)) + length ws \<and>
     sl_shadowCasters (gm_shadow g') =
       sl_shadowCasters (gm_shadow g) @ [st_next (gm_stage g)..<st_next (gm_stage g) + length ws] \<and>
     (\<forall>i < length ws. st_casters (gm_stage g') (st_next (gm_stage g) + i) = Some (tile_caster fl E (ws ! i))) \<and>
     fd_categoryBits (wall_fixture fl False) = VENTILATION"
proof -
  let ?h = "tm_height (mp_tmxMap mp)" and ?cs = "cells (tm_width (mp_tmxMap mp)) (tm_height (mp_tmxMap mp))"
  have tt: "same_size mp tt" and f: "\<And>x y. in_map tt x y \<Longrightarrow> flags_at tt x y = tile_flags layer x (?h - 1 - y)"
    using ParseWallLayer_flags [OF assms(1,4), of layer] assms(5) by auto
  then have ok: "tt_ok tt" "tt_w tt = tm_width (mp_tmxMap mp)" "tt_h tt = ?h" by (auto simp: same_size_def)
  have inm: "in_map tt x y" if "(x, y) \<in> set ?cs" for x y
    using that ok by (auto simp: in_map_def set_cells)
  have walls: "filter (has_flag tt TILE_WALL) ?cs = ws" and shadows: "filter (has_flag tt TILE_SHADOW) ?cs = ws"
    unfolding assms(6)
    by (intro filter_cong refl; use inm in \<open>fastforce simp: has_flag_def f tile_flags_bits(1,3) Let_def\<close>)+
  have vents: "\<not> has_flag tt TILE_VENT xy" if "xy \<in> set ws" for xy
  proof -
    obtain x y where xy: "xy = (x, y)" by fastforce
    with that have "(x, y) \<in> set ?cs" "and (tile_flags layer x (?h - 1 - y)) TILE_WALL \<noteq> 0"
      unfolding assms(6) tile_flags_bits(3) by (auto simp: Let_def)
    with tile_flags_bits(2) show ?thesis by (simp add: xy has_flag_def f inm)
  qed
  let ?g = "g\<lparr>gm_map := SetTileTemplate tt (gm_map g)\<rparr>"
  have "GetTileTemplate (gm_map ?g) = tt" by (simp add: GetTileTemplate_def SetTileTemplate_def)
  from LoadMap_eq [OF this ok(1), of fl E B] assms(2,3) obtain g' where g': "LoadMap fl E B ?g = Inr g'"
    and m: "gm_map g' = fold (\<lambda>(x, y). LoadWall fl B x y (has_flag tt TILE_VENT (x, y))) ws (gm_map ?g)"
    and s: "(gm_shadow g', gm_stage g') = fold (\<lambda>p. add_caster (tile_caster fl E p)) ws (gm_shadow ?g, gm_stage ?g)"
    by (auto simp: ok(2,3) walls shadows)
  have m': "gm_map g' = fold (\<lambda>(x, y). LoadWall fl B x y False) ws (gm_map ?g)"
    unfolding m using vents by (intro fold_cong) auto
  have c: "sl_shadowCasters (gm_shadow g') = sl_shadowCasters (gm_shadow g) @ [st_next (gm_stage g)..<st_next (gm_stage g) + length ws]"
    "\<forall>i < length ws. st_casters (gm_stage g') (st_next (gm_stage g) + i) = Some (tile_caster fl E (ws ! i))"
    using add_casters [of "tile_caster fl E" ws "(gm_shadow ?g, gm_stage ?g)"] s [symmetric] by (simp_all add: Let_def)
  show ?thesis
    using g' m' c LoadWalls_bodies [of fl B "\<lambda>_ _. False" ws "gm_map ?g"]
    by (simp add: SetTileTemplate_def wall_fixture_def Let_def)
qed

theorem walls_loaded_witness:
  "\<forall>g :: (nat, rat) Game. \<exists>g'. LoadMap id demo_engine demo_box (g\<lparr>gm_map := SetTileTemplate demo_template (gm_map g)\<rparr>) = Inr g' \<and>
     length (map_globalBodies (gm_map g')) = length (map_globalBodies (gm_map g)) + 1 \<and>
     sl_shadowCasters (gm_shadow g') = sl_shadowCasters (gm_shadow g) @ [st_next (gm_stage g)] \<and>
     st_casters (gm_stage g') (st_next (gm_stage g)) = Some (tile_caster id demo_engine (0, 0))"
proof
  fix g :: "(nat, rat) Game"
  have ws: "[(0, 0)] = filter (\<lambda>(x, y). let t = ly_GetTile demo_walls x (tm_height (mp_tmxMap demo_parser) - 1 - y)
      in fst t \<noteq> 0 \<and> snd t = ID_WALL) (cells (tm_width (mp_tmxMap demo_parser)) (tm_height (mp_tmxMap demo_parser)))"
    by (simp add: demo_parser_def demo_tmx_def demo_walls_def ID_WALL_def cells_def upto_int_def numeral_2_eq_2)
  have small: "tm_width (mp_tmxMap demo_parser) \<le> 2 ^ 24" "tm_height (mp_tmxMap demo_parser) \<le> 2 ^ 24"
    by (simp_all add: demo_parser_def demo_tmx_def)
  from walls_loaded [OF demo_tmx_ok small demo_tmx_new demo_walls_parsed ws, of id demo_engine demo_box g]
  show "\<exists>g'. LoadMap id demo_engine demo_box (g\<lparr>gm_map := SetTileTemplate demo_template (gm_map g)\<rparr>) = Inr g' \<and>
     length (map_globalBodies (gm_map g')) = length (map_globalBodies (gm_map g)) + 1 \<and>
     sl_shadowCasters (gm_shadow g') = sl_shadowCasters (gm_shadow g) @ [st_next (gm_stage g)] \<and>
     st_casters (gm_stage g') (st_next (gm_stage g)) = Some (tile_caster id demo_engine (0, 0))"
    by auto
qed

text \<open>
  C25. The tile template is a faithful grid: after any sequence of \<open>AddFlag\<close> on tiles of a new
  \<open>w\<close> by \<open>h\<close> template, none of which fails, \<open>GetFlags\<close> of a tile of the map yields exactly the
  bits that were added to that tile.
\<close>

theorem template_refines_grid:
  assumes "new_TileTemplate w h = Inr tt" and "0 \<le> w" "0 \<le> h"
    and "\<forall>p \<in> set ops. 0 \<le> fst p \<and> fst p < w \<and> 0 \<le> fst (snd p) \<and> fst (snd p) < h"
    and "0 \<le> a" "a < w" "0 \<le> b" "b < h"
  shows "\<exists>tt'. rfold (\<lambda>(x, y, g). AddFlag x y g) ops tt = Inr tt' \<and>
     grid_of tt' = fold (\<lambda>(x, y, g) m. m((x, y) \<mapsto> the (m (x, y)) OR g)) ops
        (\<lambda>xy. if xy \<in> {0..<w} \<times> {0..<h} then Some 0 else None) \<and>
     GetFlags tt' a b = Inr (fold (\<lambda>(x, y, g) v. if x = a \<and> y = b then v OR g else v) ops 0)"
proof -
  have ok: "tt_ok tt" using new_TileTemplate_ok [OF assms(1-3)] by simp
  note g = grid_of_new [OF assms(1-3)]
  have dom: "\<forall>p \<in> set ops. (fst p, fst (snd p)) \<in> dom (grid_of tt)"
    using assms(4) by (auto simp: g split: if_splits)
  have ab: "grid_of tt (a, b) = Some 0" using assms(5-8) by (simp add: g)
  from tiles.adds_grid [OF ok dom] obtain tt' where
    t: "rfold (\<lambda>(x, y, g). AddFlag x y g) ops tt = Inr tt'"
      "grid_of tt' = fold (\<lambda>(x, y, g) m. m((x, y) \<mapsto> the (m (x, y)) OR g)) ops (grid_of tt)" by blast
  with tiles.adds_cell [OF ok dom ab t(1)] show ?thesis by (simp add: g)
qed

theorem template_refines_grid_witness:
  "\<exists>tt'. rfold (\<lambda>(x, y, g). AddFlag x y g) [(0, 0, TILE_WALL), (1, 0, TILE_VENT), (0, 0, TILE_SHADOW)]
       \<lparr>tt_w = 2, tt_h = 1, tt_tiles = [0, 0]\<rparr> = Inr tt' \<and> GetFlags tt' 0 0 = Inr (TILE_WALL OR TILE_SHADOW)"
  using template_refines_grid [OF demo_new_template, of "[(0, 0, TILE_WALL), (1, 0, TILE_VENT), (0, 0, TILE_SHADOW)]" 0 0]
  by auto

end
