(* ===== verification/RenderTheorems.thy ===== *)
theory RenderTheorems
  imports ClientDemo
begin

section \<open>Theorems on lights, shadows, drawing and the player\<close>

text \<open>
  The properties of the shared light texture, of the lists of the shadow layer, of the calls to
  OpenGL, of the texture coordinates and of the player's speed. Each is followed by an instance on
  concrete values.
\<close>

subsection \<open>Lights\<close>

text \<open>
  C13. The count of the shared light texture. Whatever sequence of light sources is made, given
  properties or textures, and deleted, as long as no operation faults: the count is the number of
  the sources that use the shared texture, they all hold the one pointer, and once there is no
  user no texture is left alive.
\<close>

theorem light_texture_count:
  assumes "reach lights_start (lights_step fl m E) s"
  shows "lt_refs (li_static s) = int (card (users s)) \<and>
     (\<forall>p l t. li_sources s p = Some l \<and> lsrc_shared l = Some t \<longrightarrow> lt_renderTexture (li_static s) = Some t) \<and>
     (users s = {} \<longrightarrow> lt_live (li_static s) = {})"
  using lights.inv_reach [OF assms] unfolding lights_inv_def by (intro conjI) auto

theorem light_texture_count_witness:
  "\<exists>s. reach lights_start (lights_step id demo_libm demo_engine) s \<and> li_sources s 3 \<noteq> None \<and>
     lt_refs (li_static s) = int (card (users s))"
proof -
  let ?s0 = "\<lparr>li_static = initial_LightTexture, li_sources = (\<lambda>_. None)\<rparr> :: rat Lights"
  let ?s1 = "put_light 3 (Some (new_LightSource id)) (li_static ?s0) ?s0"
  have "lights_step id demo_libm demo_engine ?s0 ?s1" by (rule light_new) simp
  moreover have "reach lights_start (lights_step id demo_libm demo_engine) ?s0"
    by (rule reach_init) (simp add: lights_start_def)
  ultimately have "reach lights_start (lights_step id demo_libm demo_engine) ?s1"
    by (rule reach_step [rotated])
  with light_texture_count [OF this] show ?thesis by (intro exI [of _ ?s1]) simp
qed

subsection \<open>The lists of the shadow layer\<close>

text \<open>
  C26. \<open>RemoveShadowCaster\<close> is the filter of the list: every occurrence of the pointer goes, also
  adjacent ones, the rest keeps its order, and nothing else of the layer changes.
\<close>

theorem RemoveShadowCaster_filter:
  "RemoveShadowCaster obj s = s\<lparr>sl_shadowCasters := filter (\<lambda>c. c \<noteq> obj) (sl_shadowCasters s)\<rparr>"
  by (simp add: RemoveShadowCaster_def remove_caster_loop_filter)

text \<open>
  C27. \<open>RemoveLightSource\<close> runs over the light sources up to the number of shadow casters. With more
  casters than other lights it reads past the end of the vector; with \<open>n\<close> casters and at least
  \<open>n\<close> other lights in front, it removes the light from those and keeps every later occurrence.
\<close>

theorem RemoveLightSource_bound:
  "(length (filter (\<lambda>l. l \<noteq> obj) (sl_lightSources s)) < length (sl_shadowCasters s)
     \<longrightarrow> RemoveLightSource obj s = Inl OutOfBounds) \<and>
   (\<forall>pre rest. sl_lightSources s = pre @ rest \<and> (pre = [] \<or> last pre \<noteq> obj) \<and>
     length (filter (\<lambda>l. l \<noteq> obj) pre) = length (sl_shadowCasters s)
     \<longrightarrow> RemoveLightSource obj s = Inr (s\<lparr>sl_lightSources := filter (\<lambda>l. l \<noteq> obj) pre @ rest\<rparr>))"
  by (auto simp: RemoveLightSource_def remove_light_loop_drop drop_before_few drop_before_others)

definition demo_layer :: "nat list \<Rightarrow> nat list \<Rightarrow> rat ShadowLayer" where
  "demo_layer ls cs = \<lparr>sl_lightSources = ls, sl_shadowCasters = cs, sl_shadowColor = color 0 0 0 1,
     sl_renderTexture = 1, sl_shader = blank_Shader\<rparr>"

theorem RemoveLightSource_bound_witness:
  "RemoveLightSource 7 (demo_layer [7, 8] [1, 2]) = Inl OutOfBounds \<and>
   RemoveLightSource 7 (demo_layer [8, 7] [1]) = Inr (demo_layer [8, 7] [1])"
  using RemoveLightSource_bound [of 7 "demo_layer [7, 8] [1, 2]"]
    RemoveLightSource_bound [of 7 "demo_layer [8, 7] [1]", THEN conjunct2, rule_format, of "[8]" "[7]"]
  by (simp add: demo_layer_def)

subsection \<open>Calls to OpenGL\<close>

text \<open>
  C28. A frame of the shadow layer leaves the matrix and transform stacks as deep as it found them,
  the frame buffer and the program unbound, the stencil test off and the two vertex arrays off. It
  leaves the texture capability on, whatever it was before.
\<close>

theorem shadow_frame_state:
  assumes "ShadowLayer_Render fl m E layerPos s st = Inr (calls, st')"
  shows "g_depth (gl_run calls g) = g_depth g \<and> g_transforms (gl_run calls g) = g_transforms g \<and>
     g_fbo (gl_run calls g) = None \<and> g_program (gl_run calls g) = 0 \<and> g_buffer (gl_run calls g) = g_buffer g \<and>
     GL_STENCIL_TEST \<notin> g_caps (gl_run calls g) \<and> GL_TEXTURE_2D \<in> g_caps (gl_run calls g) \<and>
     g_arrays (gl_run calls g) \<subseteq> g_arrays g - {GL_VERTEX_ARRAY, GL_TEXTURE_COORD_ARRAY}"
  using assms by (rule ShadowLayer_Render_state)

text \<open>A light at (100, 100) of radius 100, and the caster of the tile at the origin.\<close>

definition demo_light :: "rat LightSource" where
  "demo_light = (new_LightSource id)\<lparr>lsrc_properties := new_Properties 100 (color 1 1 1 1)\<rparr>"

definition demo_stage :: "rat Stage" where
  "demo_stage = \<lparr>st_static = initial_LightTexture,
     st_lights = [8 \<mapsto> (demo_light, demo_object\<lparr>go_Position := vec2 100 100\<rparr>)],
     st_casters = [1 \<mapsto> tile_caster id demo_engine (0, 0)], st_next = 9\<rparr>"

lemma demo_stage_frame:
  "\<exists>calls st'. ShadowLayer_Render id demo_libm demo_engine (vec2 0 0) (demo_layer [8] [1]) demo_stage = Inr (calls, st')"
proof -
  obtain c where tc: "tile_caster id demo_engine (0, 0) = (c, demo_object)" "cast_local c = corners (rect 0 0 64 64)"
    by (simp add: tile_caster_def SetShadowRectangle_def CalculateGlobalVertices_def Let_def tile_object_def
        demo_engine_def demo_object_def)
  have "stage_ok demo_stage"
    by (auto simp: demo_stage_def stage_ok_def initial_LightTexture_def uses_ok_def new_LightSource_def
        demo_light_def tc corners_def split: if_splits)
  moreover have "set (sl_shadowCasters (demo_layer [8] [1])) \<subseteq> dom (st_casters demo_stage)"
    "set [8] \<subseteq> dom (st_lights demo_stage)" "sl_lightSources (demo_layer [8] [1]) = [8]"
    by (simp_all add: demo_layer_def demo_stage_def)
  moreover have "lights_reach id demo_engine (vec2 0 0) (sl_shadowCasters (demo_layer [8] [1])) demo_stage [8]"
  proof -
    have "shape_of demo_stage 1 = Some (corners (rect 0 0 64 64), demo_object)"
      by (simp add: shape_of_def demo_stage_def tc)
    moreover have "WillLightHitCaster id demo_engine demo_light (demo_object\<lparr>go_Position := vec2 100 100\<rparr>)
        ((new_ShadowCaster id)\<lparr>cast_local := corners (rect 0 0 64 64)\<rparr>) demo_object = Inr True"
      by (simp add: WillLightHitCaster_def Caster_GetAABB_def corners_def demo_light_def GetLightRadius_def
          new_Properties_def demo_object_def demo_engine_def overlap_def Let_def)
    ultimately show ?thesis
      by (auto simp: lights_reach_def light_reaches_def demo_layer_def demo_stage_def)
  qed
  ultimately obtain cs st where "render_lights id demo_libm demo_engine (vec2 0 0) (demo_layer [8] [1]) [8] demo_stage = Inr (cs, st)"
    using render_lights_ok [of demo_stage "demo_layer [8] [1]" "[8]" id demo_libm demo_engine "vec2 0 0"] by blast
  then show ?thesis
    by (simp add: ShadowLayer_Render_def demo_layer_def)
qed

theorem shadow_frame_state_witness:
  "\<exists>calls st'. ShadowLayer_Render id demo_libm demo_engine (vec2 0 0) (demo_layer [8] [1]) demo_stage = Inr (calls, st') \<and>
     GL_TEXTURE_2D \<in> g_caps (gl_run calls
       \<lparr>g_depth = 0, g_transforms = 0, g_caps = {}, g_arrays = {}, g_buffer = 0, g_program = 0, g_fbo = None\<rparr>)"
proof -
  obtain calls st where r: "ShadowLayer_Render id demo_libm demo_engine (vec2 0 0) (demo_layer [8] [1]) demo_stage = Inr (calls, st)"
    using demo_stage_frame by blast
  from shadow_frame_state [OF r] r show ?thesis by blast
qed




subsection \<open>Texture coordinates\<close>

text \<open>The part of an image of \<open>kx\<close> by \<open>ky\<close> tiles with the tile at column \<open>c\<close> and line \<open>r\<close> from the top, from the bottom up.\<close>

definition tile_clip :: "int \<Rightarrow> int \<Rightarrow> int \<Rightarrow> int \<Rightarrow> 'f::field_char_0 Rect" where
  "tile_clip kx ky c r =
     rect (of_int c / of_int kx) (of_int (ky - 1 - r) / of_int ky) (1 / of_int kx) (1 / of_int ky)"

text \<open>
  C38. The texture clip of a tile of a tile set whose image is \<open>kx\<close> tiles wide and \<open>ky\<close> tiles
  high, in exact arithmetic: the tile at column \<open>c\<close> and line \<open>r\<close> from the top has the number
  \<open>n = r * kx + c\<close> in its set, and its clip is the one of the tile in the same column and in line
  \<open>n div ky - 1\<close>, with the number of lines instead of columns as divisor and one line too high. It is
  the right clip exactly if \<open>n div ky = r + 1\<close>; in a set at least as high as wide no tile gets the
  right clip, and in a square one every tile gets the one of the line above it, those of the first
  line a clip outside of the image. In the set of the maps of the program, two tiles in one line,
  only the second one gets the right clip.
\<close>

theorem texture_clip:
  assumes "mp_mapset mp = t" and "ts_tileWidth t = tw" "ts_tileHeight t = th"
    and "ts_imgWidth t = kx * tw" "ts_imgHeight t = ky * th" and "0 < tw" "0 < th" "0 < kx" "0 < ky"
    and "kx * tw < 2 ^ 31" "ky * th < 2 ^ 31" "kx * th < 2 ^ 31"
    and "0 \<le> c" "c < kx" "0 \<le> r" "r < ky" and "0 \<le> ts_firstGid t" "ts_firstGid t + kx * ky < 2 ^ 31"
  shows "\<exists>clip. GetTextureClip of_rat mp t (ts_firstGid t + (r * kx + c)) = Inr clip \<and>
     clip = (tile_clip kx ky c ((r * kx + c) div ky - 1) :: 'f::field_char_0 Rect) \<and>
     (clip = tile_clip kx ky c r \<longleftrightarrow> (r * kx + c) div ky = r + 1) \<and>
     (kx \<le> ky \<longrightarrow> clip \<noteq> tile_clip kx ky c r) \<and>
     (kx = ky \<longrightarrow> clip = tile_clip kx ky c (r - 1))"
proof -
  let ?n = "r * kx + c"
  have n: "0 \<le> ?n" using assms by simp
  have "(r + 1) * kx \<le> ky * kx" using assms by (intro mult_right_mono) auto
  then have lt: "?n < kx * ky" using assms(14) by (simp add: algebra_simps)
  have md: "?n mod kx = c" using assms by simp
  have q: "0 \<le> ?n div ky" using n assms(9) by (simp add: pos_imp_zdiv_nonneg_iff)
  have "?n div ky < kx"
    using div_below [OF assms(9) lt] .
  then have "- kx \<le> ky - ?n div ky" using assms(9) by linarith
  then have "- kx * th \<le> (ky - ?n div ky) * th" using assms(7) by (intro mult_right_mono) auto
  then have low: "- (2 ^ 31) \<le> (ky - ?n div ky) * th" using assms(12) by linarith
  have small: "?n < 2 ^ 31" "ts_firstGid t + ?n < 2 ^ 31" using lt assms(17,18) by linarith+
  have "texture_tile mp t (ts_firstGid t + ?n) = Inr (c * tw, (ky - ?n div ky) * th)"
    using texture_tile_eq [OF assms(2,3,1,4,5,6,7,8,9,10,11) n lt small assms(17) low] by (simp only: md)
  then have clip: "GetTextureClip of_rat mp t (ts_firstGid t + ?n) =
      Inr (tile_clip kx ky c (?n div ky - 1) :: 'f Rect)"
    using assms by (simp add: GetTextureClip_def Let_def of_rat_mult of_rat_diff tile_clip_def)
  have same: "tile_clip kx ky c s = (tile_clip kx ky c r :: 'f Rect) \<longleftrightarrow> s = r" for s
    using assms(9) by (auto simp: tile_clip_def dest: arg_cong [of _ _ r_y])
  have "?n < (r + 1) * kx" using assms(14) by (simp add: algebra_simps)
  also have "\<dots> \<le> (r + 1) * ky" if "kx \<le> ky" using that assms(15) by (intro mult_left_mono) auto
  finally have up: "kx \<le> ky \<Longrightarrow> ?n div ky < r + 1" using div_below [OF assms(9)] by blast
  have eq: "kx = ky \<Longrightarrow> ?n div ky = r" using assms(14,13) by auto
  show ?thesis
    using clip same [of "?n div ky - 1"] up eq by auto
qed
text \<open>The tile set of the maps of the program: two tiles in a line, of which only the second gets its own clip.\<close>

definition two_tiles :: TmxTileset where
  "two_tiles = demo_mapset\<lparr>ts_imgWidth := 128, ts_imgHeight := 64\<rparr>"

theorem texture_clip_witness:
  "GetTextureClip of_rat (demo_parser\<lparr>mp_mapset := two_tiles\<rparr>) two_tiles 1 = Inr (tile_clip 2 1 0 (- 1) :: rat Rect) \<and>
   GetTextureClip of_rat (demo_parser\<lparr>mp_mapset := two_tiles\<rparr>) two_tiles 2 = Inr (tile_clip 2 1 1 0 :: rat Rect) \<and>
   GetTextureClip of_rat demo_parser demo_mapset 7 = Inr (tile_clip 4 4 2 0 :: rat Rect) \<and>
   tile_clip 2 1 0 (- 1) \<noteq> (tile_clip 2 1 0 0 :: rat Rect)"
proof -
  have mapset: "mp_mapset (demo_parser\<lparr>mp_mapset := two_tiles\<rparr>) = two_tiles" by simp
  note two = texture_clip [OF mapset, of 64 64 2 1]
  show ?thesis
    using two [of 0 0] two [of 1 0] texture_clip [of demo_parser demo_mapset 64 64 4 4 2 1]
    by (simp add: two_tiles_def demo_mapset_def demo_parser_def tile_clip_def)
qed
subsection \<open>Culling\<close>

text \<open>
  C29. The culling of lights and casters, in exact arithmetic, for any test for overlaps, however it
  decides at the borders. Both tests take the light's own position, which is relative to its parent,
  while the light and its shadows are drawn at its world position. A caster with a shape is tested by
  the smallest box around its corners in world coordinates. If the two positions of the light are
  the same, it is kept whenever one of its corners is inside of the box of the light that is drawn;
  in general when the distance of the corner and the displacement together are less than the radius.
  A caster that is kept has a point of its box in the box around the light's own position. A light is
  drawn if its box has an inner point on the screen and its centre is right of the left edge of the
  screen and above the bottom one; a light whose centre is left of or below the screen is never
  drawn, although its disc may reach in.
\<close>

theorem culling_tests:
  fixes go :: "'f::linordered_field GameObject"
  assumes ov: "overlap_test (en_Overlaps E)" and R: "0 \<le> GetLightRadius l" and shape: "cast_local c \<noteq> []"
  shows "(\<exists>r hit. Caster_GetAABB of_rat cgo c = Inr r \<and>
        encloses r (translate (go_WorldPosition cgo) ` set (cast_local c)) \<and>
        WillLightHitCaster of_rat E l go c cgo = Inr hit \<and>
        (\<forall>v \<in> translate (go_WorldPosition cgo) ` set (cast_local c).
           \<bar>v_x v - v_x (go_WorldPosition go)\<bar> + \<bar>v_x (go_WorldPosition go) - v_x (go_Position go)\<bar> < GetLightRadius l \<longrightarrow>
           \<bar>v_y v - v_y (go_WorldPosition go)\<bar> + \<bar>v_y (go_WorldPosition go) - v_y (go_Position go)\<bar> < GetLightRadius l \<longrightarrow>
           hit) \<and>
        (hit \<longrightarrow> (\<exists>q. in_rect q (Light_GetAABB of_rat (go_Position go) l) \<and> in_rect q r))) \<and>
     ((\<exists>q. interior_of q (Light_GetAABB of_rat (go_Position go) l) \<and> in_rect q (rect (- v_x lp) (- v_y lp) 1280 720)) \<longrightarrow>
        - v_x lp < v_x (go_Position go) \<longrightarrow> - v_y lp < v_y (go_Position go) \<longrightarrow> ShouldDrawLight of_rat E lp l go) \<and>
     (ShouldDrawLight of_rat E lp l go \<longrightarrow>
        - v_x lp \<le> v_x (go_Position go) \<and> - v_y lp \<le> v_y (go_Position go) \<and>
        (\<exists>q. in_rect q (Light_GetAABB of_rat (go_Position go) l) \<and> in_rect q (rect (- v_x lp) (- v_y lp) 1280 720)))"
proof -
  let ?vs = "translate (go_WorldPosition cgo) ` set (cast_local c)" and ?box = "Light_GetAABB of_rat (go_Position go) l"
  obtain r where r: "Caster_GetAABB of_rat cgo c = Inr r" "encloses r ?vs"
    using Caster_GetAABB_encloses [OF shape] by blast
  have kept: "en_Overlaps E ?box r" if "v \<in> ?vs"
    "\<bar>v_x v - v_x (go_WorldPosition go)\<bar> + \<bar>v_x (go_WorldPosition go) - v_x (go_Position go)\<bar> < GetLightRadius l"
    "\<bar>v_y v - v_y (go_WorldPosition go)\<bar> + \<bar>v_y (go_WorldPosition go) - v_y (go_Position go)\<bar> < GetLightRadius l" for v
    using overlap_testD(1) [OF ov _ encloses_in_rect [OF r(2) that(1)], of ?box] that(2,3)
    by (simp add: light_box_interior abs_less_iff abs_if split: if_splits)
  have size: "0 \<le> r_w ?box" "0 \<le> r_h ?box" using R by (simp_all add: Light_GetAABB_def Let_def)
  obtain v where "v \<in> ?vs" using shape by fastforce
  note common = overlap_testD(2) [OF ov _ size encloses_size [OF r(2) this]]
  show ?thesis
    using r WillLightHitCaster_boxes [OF r(1), of E l go] kept common
      ShouldDrawLight_keeps [OF ov, of _ go l lp] ShouldDrawLight_needs [OF ov R, of lp go]
    by blast
qed

text \<open>A light left of the screen that reaches in, and one whose own position is not where it is drawn.\<close>

theorem culling_tests_witness:
  "let go = demo_object\<lparr>go_Position := vec2 (- 10) 360, go_WorldPosition := vec2 (- 10) 360\<rparr>;
       c = (new_ShadowCaster of_rat)\<lparr>cast_local := corners (rect 0 300 64 64)\<rparr>
   in overlap_test (en_Overlaps demo_engine) \<and>
      interior_of (vec2 10 360) (Light_GetAABB of_rat (go_Position go) demo_light) \<and>
      \<not> ShouldDrawLight of_rat demo_engine (vec2 0 0) demo_light go \<and>
      WillLightHitCaster of_rat demo_engine demo_light go c demo_object = Inr True \<and>
      WillLightHitCaster of_rat demo_engine demo_light (go\<lparr>go_Position := vec2 600 360\<rparr>) c demo_object = Inr False"
proof -
  let ?go = "demo_object\<lparr>go_Position := vec2 (- 10) 360, go_WorldPosition := vec2 (- 10) 360\<rparr>"
  let ?away = "?go\<lparr>go_Position := vec2 600 360\<rparr>"
  let ?c = "(new_ShadowCaster of_rat)\<lparr>cast_local := corners (rect 0 300 64 64)\<rparr> :: rat ShadowCaster"
  have l: "GetLightRadius demo_light = 100"
    by (simp add: demo_light_def GetLightRadius_def new_Properties_def)
  have e: "overlap_test (en_Overlaps demo_engine)" by (simp add: demo_engine_def overlap_tests)
  have R: "0 \<le> GetLightRadius demo_light" and s: "cast_local ?c \<noteq> []" by (simp_all add: l corners_def)
  note t = culling_tests [OF e R s, of demo_object _ "vec2 0 0"]
  have vs: "vec2 0 300 \<in> translate (go_WorldPosition demo_object) ` set (cast_local ?c)"
    by (simp add: corners_def demo_object_def translate_def)
  have hit: "WillLightHitCaster of_rat demo_engine demo_light ?go ?c demo_object = Inr True"
  proof -
    obtain hit where "WillLightHitCaster of_rat demo_engine demo_light ?go ?c demo_object = Inr hit"
      and near: "\<forall>v \<in> translate (go_WorldPosition demo_object) ` set (cast_local ?c).
        \<bar>v_x v - v_x (go_WorldPosition ?go)\<bar> + \<bar>v_x (go_WorldPosition ?go) - v_x (go_Position ?go)\<bar> < GetLightRadius demo_light \<longrightarrow>
        \<bar>v_y v - v_y (go_WorldPosition ?go)\<bar> + \<bar>v_y (go_WorldPosition ?go) - v_y (go_Position ?go)\<bar> < GetLightRadius demo_light \<longrightarrow>
        hit"
      using t [of ?go] by blast
    moreover from bspec [OF near vs] have hit by (simp add: l)
    ultimately show ?thesis by simp
  qed
  have miss: "WillLightHitCaster of_rat demo_engine demo_light ?away ?c demo_object = Inr False"
  proof -
    obtain r hit where r: "encloses r (translate (go_WorldPosition demo_object) ` set (cast_local ?c))"
      "WillLightHitCaster of_rat demo_engine demo_light ?away ?c demo_object = Inr hit"
      "hit \<longrightarrow> (\<exists>q. in_rect q (Light_GetAABB of_rat (go_Position ?away) demo_light) \<and> in_rect q r)"
      using t [of ?away] by blast
    have "r_x r + r_w r \<le> 64"
      using r(1) by (auto simp: encloses_def corners_def demo_object_def translate_def)
    then have "\<not> hit" using r(3) by (auto simp: in_rect_def Light_GetAABB_def Let_def l)
    with r(2) show ?thesis by simp
  qed
  have "\<not> ShouldDrawLight of_rat demo_engine (vec2 0 0) demo_light ?go"
    using t [of ?go] by simp
  moreover have "interior_of (vec2 10 360) (Light_GetAABB of_rat (go_Position ?go) demo_light)"
    unfolding light_box_interior by (simp add: l)
  ultimately show ?thesis using hit miss e unfolding Let_def by blast
qed

subsection \<open>The player\<close>

text \<open>
  C39. The speed of the player, in exact arithmetic and with the length of the plane: once it has
  its body, an update gives the body a velocity no longer than 400 times the elapsed time, whatever
  the keys, and leaves the position to the physics.
\<close>

theorem player_speed:
  assumes "m_Length m = euclid" and "0 \<le> dt"
  shows "\<exists>v. MoveComponent_Update of_rat m B input dt (SetBody (Some b) (new_MoveComponent of_rat)) (pos, w)
        = Inr (None, bx_SetLinearVelocity B w b v) \<and>
     sqrt ((b2_x v)\<^sup>2 + (b2_y v)\<^sup>2) \<le> 400 * dt"
proof -
  let ?d = "direction of_rat m input"
  let ?v = "b2vec (v_x ?d * (400 * dt)) (v_y ?d * (400 * dt))"
  have "sqrt ((b2_x ?v)\<^sup>2 + (b2_y ?v)\<^sup>2) = \<bar>400 * dt\<bar> * euclid ?d"
    using euclid_scale [of "v_x ?d" "400 * dt" "v_y ?d"] by (simp add: euclid_def)
  also have "\<dots> \<le> 400 * dt"
    using mult_left_mono [OF direction_length [OF assms(1)], of "400 * dt" input] assms(2) by simp
  finally show ?thesis
    by (intro exI [of _ ?v])
      (simp add: MoveComponent_Update_def SetBody_def new_MoveComponent_def PLAYER_DEFAULT_SPEED_def Let_def)
qed

definition real_libm :: "real Libm" where
  "real_libm = \<lparr>m_pi2 = 2 * pi, m_cos = cos, m_sin = sin, m_fabs = abs, m_atan2_degrees = (\<lambda>y x. 0),
     m_Length = euclid, m_abs_gt = (\<lambda>x d. abs x > of_rat d)\<rparr>"

theorem player_speed_witness:
  "\<forall>(B :: (nat, real) Box2D) input. \<exists>v.
     MoveComponent_Update of_rat real_libm B input (1 / 60) (SetBody (Some 0) (new_MoveComponent of_rat)) (vec2 0 0, 0)
        = Inr (None, bx_SetLinearVelocity B 0 0 v) \<and> sqrt ((b2_x v)\<^sup>2 + (b2_y v)\<^sup>2) \<le> 400 * (1 / 60)"
  by (intro allI player_speed) (simp_all add: real_libm_def)

subsection \<open>The debug drawer\<close>

text \<open>
  The circles of the debug drawer, in exact arithmetic: the loop over the angle ends after 20
  points. The outline is drawn as a filled fan of 22 vertices, centre and closing point included,
  and the solid circle as a closed line of 20 vertices; both leave the matrix stack as it was.
\<close>

theorem debug_circles:
  assumes "m_pi2 m > (0 :: 'f::linordered_field)"
  shows "\<exists>fan line. DrawCircle of_rat m center radius c = Some (Inr fan) \<and>
     DrawSolidCircle of_rat m center radius axis c = Some (Inr line) \<and>
     Dr (DrawArrays GL_TRIANGLE_FAN 0 22) \<in> set fan \<and> Dr (DrawArrays GL_LINE_LOOP 0 20) \<in> set line \<and>
     g_depth (gl_run fan g) = g_depth g \<and> g_depth (gl_run line g) = g_depth g"
  using circle_loop_exact [OF assms, of radius "[]"] circle_loop_exact [OF assms, of radius "[b2vec 0 0]"]
  by (simp add: DrawCircle_def DrawSolidCircle_def DrawCircle_mode_def Let_def CommonPreRender_def CommonPostRender_def)

theorem debug_circles_witness:
  "\<exists>fan. DrawCircle of_rat demo_libm (b2vec 0 0) 1 (color 1 1 1 1) = Some (Inr fan) \<and>
     Dr (DrawArrays GL_TRIANGLE_FAN 0 22) \<in> set fan"
  using debug_circles [of demo_libm "b2vec 0 0" 1 "color 1 1 1 1"] by (auto simp: demo_libm_def)

end
